(* ===== verification/Prelude.thy ===== *)
theory Prelude
  imports Main "HOL-Library.State_Monad"
begin

text \<open>
  Shared foundations of the development: Go strings and integers, and the calculus used to
  reason about operations that talk to the outside world.

  Every operation of the operator that leaves the process (an API server request, a clock
  reading, an audit emission, a call through the agent interface) appends one event to a
  history. An operation is a value of the state monad over that history; its environment is a
  record of functions of the history so far, so that an arbitrary, stateful, concurrently
  modified API server is covered without fixing its behaviour. The predicate \<open>wp\<close> says that
  every event an operation appends satisfies an event predicate, and that its result satisfies a
  postcondition; one introduction rule per monad construct makes such proofs syntax-directed.
\<close>

named_theorems wp \<open>introduction rules for the event calculus\<close>
named_theorems emit \<open>introduction rules for the kinds of events an operation may append\<close>
named_theorems go_consts \<open>unfolding of the named string constants of the source\<close>

section \<open>Operations over an event history\<close>

definition perform :: "('e list \<Rightarrow> 'a) \<Rightarrow> ('a \<Rightarrow> 'e) \<Rightarrow> ('e list, 'a) state" where
  "perform f ev = State (\<lambda>h. (f h, h @ [ev (f h)]))"

lemma run_state_perform [simp]: "run_state (perform f ev) h = (f h, h @ [ev (f h)])"
  by (simp add: perform_def)

text \<open>Events appended one after the other, each judged together with the history before it.\<close>

primrec good :: "('e list \<Rightarrow> 'e \<Rightarrow> bool) \<Rightarrow> 'e list \<Rightarrow> 'e list \<Rightarrow> bool" where
  "good P h [] \<longleftrightarrow> True"
| "good P h (e # es) \<longleftrightarrow> P h e \<and> good P (h @ [e]) es"

lemma good_append: "good P h (xs @ ys) \<longleftrightarrow> good P h xs \<and> good P (h @ xs) ys"
  by (induction xs arbitrary: h) auto

lemma good_nth: "good P h es \<Longrightarrow> i < length es \<Longrightarrow> P (h @ take i es) (es ! i)"
proof (induction es arbitrary: h i)
  case Nil
  then show ?case by simp
next
  case (Cons e es)
  then show ?case
    by (cases i) (auto dest: Cons.IH [of "h @ [e]"])
qed

lemma good_mem: "good (\<lambda>_. P) h es \<Longrightarrow> e \<in> set es \<Longrightarrow> P e"
  by (induction es arbitrary: h) auto

lemma good_mono: "good P h es \<Longrightarrow> (\<And>h e. P h e \<Longrightarrow> R h e) \<Longrightarrow> good R h es"
  by (induction es arbitrary: h) auto

lemma good_conj: "good (\<lambda>h e. P h e \<and> R h e) h es \<longleftrightarrow> good P h es \<and> good R h es"
  by (induction es arbitrary: h) auto

definition wp :: "('e list \<Rightarrow> 'e \<Rightarrow> bool) \<Rightarrow> ('e list, 'a) state \<Rightarrow>
    ('a \<Rightarrow> 'e list \<Rightarrow> bool) \<Rightarrow> 'e list \<Rightarrow> bool" where
  "wp P m Q h \<longleftrightarrow>
     (\<exists>es. snd (run_state m h) = h @ es \<and> good P h es) \<and>
     Q (fst (run_state m h)) (snd (run_state m h))"

lemma wp_returnI [wp]: "Q x h \<Longrightarrow> wp P (State_Monad.return x) Q h"
  by (simp add: wp_def)

lemma wp_bindI [wp]: "wp P m (\<lambda>x h'. wp P (f x) Q h') h \<Longrightarrow> wp P (m \<bind> f) Q h"
  by (auto simp: wp_def good_append split: prod.splits)

lemma wp_performI:
  "P h (ev (f h)) \<Longrightarrow> Q (f h) (h @ [ev (f h)]) \<Longrightarrow> wp P (perform f ev) Q h"
  by (simp add: wp_def)

lemma wp_ifI [wp]:
  "(b \<Longrightarrow> wp P m Q h) \<Longrightarrow> (\<not> b \<Longrightarrow> wp P n Q h) \<Longrightarrow> wp P (if b then m else n) Q h"
  by simp

lemma wp_letI [wp]: "(\<And>x. x = v \<Longrightarrow> wp P (f x) Q h) \<Longrightarrow> wp P (let x = v in f x) Q h"
  by simp

lemma wp_case_option [wp]:
  "(x = None \<Longrightarrow> wp P m Q h) \<Longrightarrow> (\<And>y. x = Some y \<Longrightarrow> wp P (f y) Q h) \<Longrightarrow>
   wp P (case x of None \<Rightarrow> m | Some y \<Rightarrow> f y) Q h"
  by (cases x) simp_all

lemma wp_case_sum [wp]:
  "(\<And>e. x = Inl e \<Longrightarrow> wp P (f e) Q h) \<Longrightarrow> (\<And>y. x = Inr y \<Longrightarrow> wp P (g y) Q h) \<Longrightarrow>
   wp P (case x of Inl e \<Rightarrow> f e | Inr y \<Rightarrow> g y) Q h"
  by (cases x) simp_all

lemma wp_case_prod [wp]:
  "(\<And>a b. x = (a, b) \<Longrightarrow> wp P (f a b) Q h) \<Longrightarrow> wp P (case x of (a, b) \<Rightarrow> f a b) Q h"
  by (cases x) simp_all

lemma wp_case_list [wp]:
  "(x = [] \<Longrightarrow> wp P m Q h) \<Longrightarrow> (\<And>y ys. x = y # ys \<Longrightarrow> wp P (f y ys) Q h) \<Longrightarrow>
   wp P (case x of [] \<Rightarrow> m | y # ys \<Rightarrow> f y ys) Q h"
  by (cases x) simp_all

lemma wp_mono:
  "wp P m R h \<Longrightarrow> (\<And>x es. R x (h @ es) \<Longrightarrow> Q x (h @ es)) \<Longrightarrow> wp P m Q h"
  by (auto simp: wp_def)

lemma wp_mono_event:
  "wp P m Q h \<Longrightarrow> (\<And>h e. P h e \<Longrightarrow> R h e) \<Longrightarrow> wp R m Q h"
  by (auto simp: wp_def intro: good_mono)

text \<open>The events of an operation are judged against histories that extend the one it started from.\<close>

lemma good_later:
  "good (\<lambda>h' e. (\<exists>fs. h' = h @ fs) \<longrightarrow> P h' e) h1 es \<Longrightarrow> (\<exists>fs. h1 = h @ fs) \<Longrightarrow> good P h1 es"
proof (induction es arbitrary: h1)
  case (Cons e es)
  then have "\<exists>fs. h1 @ [e] = h @ fs" by auto
  with Cons show ?case by simp
qed simp

lemma wp_later: "wp (\<lambda>h' e. (\<exists>es. h' = h @ es) \<longrightarrow> P h' e) m Q h \<Longrightarrow> wp P m Q h"
  using good_later [of h P h] by (auto simp: wp_def)

lemma wp_events:
  "wp P m Q h \<Longrightarrow> \<exists>es. snd (run_state m h) = h @ es \<and> good P h es"
  by (simp add: wp_def)

lemma wp_result: "wp P m Q h \<Longrightarrow> Q (fst (run_state m h)) (snd (run_state m h))"
  by (simp add: wp_def)

text \<open>The events an operation adds to a history.\<close>

definition new_events :: "('e list, 'a) state \<Rightarrow> 'e list \<Rightarrow> 'e list" where
  "new_events m h = drop (length h) (snd (run_state m h))"

definition returned :: "('e list, 'a) state \<Rightarrow> 'e list \<Rightarrow> 'a" where
  "returned m h = fst (run_state m h)"

lemma wp_new_events: "wp P m Q h \<Longrightarrow> good P h (new_events m h)"
  by (auto simp: wp_def new_events_def)

lemma wp_new_events_mem: "wp (\<lambda>_. P) m Q h \<Longrightarrow> e \<in> set (new_events m h) \<Longrightarrow> P e"
  by (auto dest: wp_new_events good_mem)

lemma wp_history: "wp P m Q h \<Longrightarrow> snd (run_state m h) = h @ new_events m h"
  by (auto simp: wp_def new_events_def)

lemma new_events_perform:
  "wp P (k (f h)) Q (h @ [ev (f h)]) \<Longrightarrow> new_events (perform f ev \<bind> k) h = ev (f h) # new_events (k (f h)) (h @ [ev (f h)])"
  "returned (perform f ev \<bind> k) h = returned (k (f h)) (h @ [ev (f h)])"
  by (auto simp: new_events_def returned_def wp_def)

lemma wp_returned: "wp P m Q h \<Longrightarrow> wp P m (\<lambda>x h'. x = returned m h \<and> Q x h') h"
  by (simp add: wp_def returned_def)

lemma returned_wp: "wp P m Q h \<Longrightarrow> \<exists>h'. Q (returned m h) h'"
  by (auto simp: wp_def returned_def)

text \<open>Operations that only ever append events of a given kind, whatever they return.\<close>

definition emits :: "('e \<Rightarrow> bool) \<Rightarrow> ('e list, 'a) state \<Rightarrow> bool" where
  "emits P m \<longleftrightarrow> (\<forall>h. wp (\<lambda>_. P) m (\<lambda>_ _. True) h)"

lemma emitsI: "(\<And>h. wp (\<lambda>_. P) m (\<lambda>_ _. True) h) \<Longrightarrow> emits P m"
  by (simp add: emits_def)

lemma emits_wp: "emits P m \<Longrightarrow> (\<And>h e. P e \<Longrightarrow> R h e) \<Longrightarrow> (\<And>x es. Q x (h @ es)) \<Longrightarrow> wp R m Q h"
  by (rule wp_mono_event [where P = "\<lambda>_. P"])
    (auto simp: emits_def intro: wp_mono [where R = "\<lambda>_ _. True"])

lemma emits_iff: "emits P m \<longleftrightarrow> (\<forall>h. \<exists>es. snd (run_state m h) = h @ es \<and> list_all P es)"
proof -
  have "good (\<lambda>_. P) h es \<longleftrightarrow> list_all P es" for h es
    by (induction es arbitrary: h) auto
  then show ?thesis by (simp add: emits_def wp_def)
qed

lemma emits_return [emit]: "emits P (State_Monad.return x)"
  by (simp add: emits_iff)

lemma emits_bind [emit]:
  assumes "emits P m" and "\<And>x. emits P (f x)"
  shows "emits P (m \<bind> f)"
  unfolding emits_iff
proof
  fix h
  obtain es where m: "snd (run_state m h) = h @ es" "list_all P es"
    using assms(1) by (auto simp: emits_iff)
  obtain fs where "snd (run_state (f (fst (run_state m h))) (h @ es)) = (h @ es) @ fs" "list_all P fs"
    using assms(2) unfolding emits_iff by blast
  with m show "\<exists>es. snd (run_state (m \<bind> f) h) = h @ es \<and> list_all P es"
    by (intro exI [of _ "es @ fs"]) (simp add: case_prod_beta)
qed

lemma emits_perform: "(\<And>r. P (ev r)) \<Longrightarrow> emits P (perform f ev)"
  by (simp add: emits_iff)

lemma emits_if [emit]: "(b \<Longrightarrow> emits P m) \<Longrightarrow> (\<not> b \<Longrightarrow> emits P n) \<Longrightarrow> emits P (if b then m else n)"
  by simp

lemma emits_let [emit]: "(\<And>x. x = v \<Longrightarrow> emits P (f x)) \<Longrightarrow> emits P (let x = v in f x)"
  by simp

lemma emits_case_option [emit]:
  "(x = None \<Longrightarrow> emits P m) \<Longrightarrow> (\<And>y. x = Some y \<Longrightarrow> emits P (f y)) \<Longrightarrow>
   emits P (case x of None \<Rightarrow> m | Some y \<Rightarrow> f y)"
  by (cases x) simp_all

lemma emits_case_sum [emit]:
  "(\<And>e. x = Inl e \<Longrightarrow> emits P (f e)) \<Longrightarrow> (\<And>y. x = Inr y \<Longrightarrow> emits P (g y)) \<Longrightarrow>
   emits P (case x of Inl e \<Rightarrow> f e | Inr y \<Rightarrow> g y)"
  by (cases x) simp_all

lemma emits_case_prod [emit]:
  "(\<And>a b. x = (a, b) \<Longrightarrow> emits P (f a b)) \<Longrightarrow> emits P (case x of (a, b) \<Rightarrow> f a b)"
  by (cases x) simp_all

lemma emits_case_list [emit]:
  "(x = [] \<Longrightarrow> emits P m) \<Longrightarrow> (\<And>y ys. x = y # ys \<Longrightarrow> emits P (f y ys)) \<Longrightarrow>
   emits P (case x of [] \<Rightarrow> m | y # ys \<Rightarrow> f y ys)"
  by (cases x) simp_all

lemma emits_mono: "emits P m \<Longrightarrow> (\<And>e. P e \<Longrightarrow> R e) \<Longrightarrow> emits R m"
  by (auto simp: emits_iff list_all_iff) blast

lemma emits_new_events: "emits P m \<Longrightarrow> e \<in> set (new_events m h) \<Longrightarrow> P e"
  using wp_new_events_mem [of P m "\<lambda>_ _. True" h e] by (simp add: emits_def)

lemma wp_perform_any: "(\<And>r. P h (ev r) \<and> Q r (h @ [ev r])) \<Longrightarrow> wp P (perform f ev) Q h"
  by (simp add: wp_performI)

lemma wp_conj: "wp P m Q h \<Longrightarrow> wp R m S h \<Longrightarrow> wp (\<lambda>h e. P h e \<and> R h e) m (\<lambda>x h'. Q x h' \<and> S x h') h"
  by (auto simp: wp_def good_conj)

lemma emits_wp_suffix: "emits P m \<Longrightarrow> wp (\<lambda>_. P) m (\<lambda>_ h'. list_all P (drop (length h) h')) h"
proof -
  assume "emits P m"
  then obtain es where "snd (run_state m h) = h @ es" "list_all P es" "wp (\<lambda>_. P) m (\<lambda>_ _. True) h"
    by (metis emits_def emits_iff)
  then show ?thesis by (simp add: wp_def)
qed

section \<open>Lists\<close>

lemma list_all_update: "list_all P xs \<Longrightarrow> (P (xs ! i) \<Longrightarrow> P y) \<Longrightarrow> list_all P (xs[i := y])"
  by (cases "i < length xs") (auto simp: list_all_length nth_list_update)

lemma fold_invariant: "P p \<Longrightarrow> (\<And>x q. x \<in> set xs \<Longrightarrow> P q \<Longrightarrow> P (f x q)) \<Longrightarrow> P (fold f xs p)"
  by (induction xs arbitrary: p) auto

section \<open>Go strings and integers\<close>

text \<open>
  A Go string is a sequence of bytes, a HOL \<open>string\<close> a list of 8-bit characters; \<open>len\<close> is
  \<open>length\<close>. \<open>fmt.Sprintf("%d", n)\<close> of a non-negative integer is \<open>decimal n\<close>.
\<close>

fun decimal :: "nat \<Rightarrow> string" where
  "decimal n = (if n < 10 then [char_of (48 + n)] else decimal (n div 10) @ [char_of (48 + n mod 10)])"

declare decimal.simps [simp del]

definition digit :: "nat \<Rightarrow> char" where
  "digit d = char_of (48 + d)"

lemma digit_inject: "a < 10 \<Longrightarrow> b < 10 \<Longrightarrow> digit a = digit b \<Longrightarrow> a = b"
  by (auto simp: digit_def dest: arg_cong [where f = "of_char :: char \<Rightarrow> nat"])

lemma decimal_small: "n < 10 \<Longrightarrow> decimal n = [digit n]"
  by (subst decimal.simps) (simp add: digit_def)

lemma decimal_large: "\<not> n < 10 \<Longrightarrow> decimal n = decimal (n div 10) @ [digit (n mod 10)]"
  by (subst decimal.simps) (simp add: digit_def)

lemma decimal_nonempty [simp]: "decimal n \<noteq> []" "[] \<noteq> decimal n"
  by (subst decimal.simps, simp)+

lemma decimal_inject: "decimal m = decimal n \<Longrightarrow> m = n"
proof (induction m arbitrary: n rule: less_induct)
  case (less m)
  show ?case
  proof (cases "m < 10")
    case True
    then show ?thesis
      using less.prems by (cases "n < 10") (auto simp: decimal_small decimal_large dest: digit_inject)
  next
    case m: False
    show ?thesis
    proof (cases "n < 10")
      case True
      then show ?thesis using m less.prems by (auto simp: decimal_small decimal_large)
    next
      case False
      with m less.prems have "decimal (m div 10) = decimal (n div 10)"
        and "digit (m mod 10) = digit (n mod 10)"
        by (auto simp: decimal_large)
      then have "m div 10 = n div 10" "m mod 10 = n mod 10"
        using less.IH [of "m div 10" "n div 10"] m by (auto dest: digit_inject [rotated 2])
      then show ?thesis by (metis div_mult_mod_eq)
    qed
  qed
qed

text \<open>The two's complement value of an integer cut to 64 bits, as Go's \<open>int64\<close> arithmetic gives it.\<close>

definition int64 :: "int \<Rightarrow> int" where
  "int64 x = (x + 2 ^ 63) mod 2 ^ 64 - 2 ^ 63"

lemma int64_id: "- (2 ^ 63) \<le> x \<Longrightarrow> x < 2 ^ 63 \<Longrightarrow> int64 x = x"
  by (simp add: int64_def)

lemma int64_range: "- (2 ^ 63) \<le> int64 x \<and> int64 x < 2 ^ 63"
  unfolding int64_def using pos_mod_bound [of "2 ^ 64" "x + 2 ^ 63"] pos_mod_sign [of "2 ^ 64" "x + 2 ^ 63"]
  by simp

text \<open>\<open>strings.TrimRight(s, cutset)\<close>, and the ASCII case folding of \<open>strings.EqualFold\<close>.\<close>

definition trim_right :: "(char \<Rightarrow> bool) \<Rightarrow> string \<Rightarrow> string" where
  "trim_right p s = rev (dropWhile p (rev s))"

lemma length_trim_right: "length (trim_right p s) \<le> length s"
  using length_dropWhile_le [of p "rev s"] by (simp add: trim_right_def)

definition to_lower :: "char \<Rightarrow> char" where
  "to_lower c = (if 65 \<le> (of_char c :: nat) \<and> (of_char c :: nat) \<le> 90 then char_of (of_char c + 32 :: nat) else c)"

definition equal_fold :: "string \<Rightarrow> string \<Rightarrow> bool" where
  "equal_fold s t \<longleftrightarrow> map to_lower s = map to_lower t"

text \<open>\<open>strings.Split(s, ",")\<close> and \<open>strings.Join(parts, ",")\<close>.\<close>

fun split_comma :: "string \<Rightarrow> string list" where
  "split_comma [] = [[]]"
| "split_comma (c # s) =
     (if c = CHR '','' then [] # split_comma s
      else (case split_comma s of [] \<Rightarrow> [[c]] | w # ws \<Rightarrow> (c # w) # ws))"

fun join_comma :: "string list \<Rightarrow> string" where
  "join_comma [] = []"
| "join_comma [w] = w"
| "join_comma (w # ws) = w @ '','' @ join_comma ws"

lemma split_comma_word: "CHR '','' \<notin> set w \<Longrightarrow> split_comma w = [w]"
  by (induction w) auto

lemma split_comma_append:
  "CHR '','' \<notin> set w \<Longrightarrow> split_comma (w @ CHR '','' # s) = w # split_comma s"
  by (induction w) auto

lemma split_join_comma:
  "ws \<noteq> [] \<Longrightarrow> \<forall>w \<in> set ws. CHR '','' \<notin> set w \<Longrightarrow> split_comma (join_comma ws) = ws"
  by (induction ws rule: join_comma.induct) (auto simp: split_comma_word split_comma_append)

text \<open>
  \<open>strings.TrimSpace\<close>: the white space of Unicode, by the UTF-8 encodings of its characters, is cut
  from both ends.
\<close>

definition bytes :: "nat list \<Rightarrow> string" where
  "bytes ns = map char_of ns"

definition space_encodings :: "string list" where
  "space_encodings =
     map bytes ([[9], [10], [11], [12], [13], [32], [194, 133], [194, 160], [225, 154, 128]] @
       map (\<lambda>n. [226, 128, n]) [128, 129, 130, 131, 132, 133, 134, 135, 136, 137, 138, 168, 169, 175] @
       [[226, 129, 159], [227, 128, 128]])"

function strip_left :: "string list \<Rightarrow> string \<Rightarrow> string" where
  "strip_left ps s =
     (case find (\<lambda>p. p \<noteq> [] \<and> take (length p) s = p) ps of
        None \<Rightarrow> s
      | Some p \<Rightarrow> strip_left ps (drop (length p) s))"
  by pat_completeness auto
termination
proof (relation "measure (\<lambda>(ps, s). length s)")
  fix ps s p
  assume "find (\<lambda>p. p \<noteq> [] \<and> take (length p) s = p) ps = Some p"
  then have "p \<noteq> []" and "take (length p) s = p"
    by (auto simp: find_Some_iff)
  then have "s \<noteq> []" and "0 < length p" by auto
  then show "((ps, drop (length p) s), ps, s) \<in> measure (\<lambda>(ps, s). length s)"
    by simp
qed simp

declare strip_left.simps [simp del]

lemma length_strip_left: "length (strip_left ps s) \<le> length s"
proof (induction ps s rule: strip_left.induct)
  case (1 ps s)
  show ?case
    by (subst strip_left.simps) (auto split: option.split dest!: "1.IH")
qed

definition trim_space :: "string \<Rightarrow> string" where
  "trim_space s = rev (strip_left (map rev space_encodings) (rev (strip_left space_encodings s)))"

text \<open>Evaluation need not look at the encodings for the empty string.\<close>

lemma strip_left_Nil: "strip_left ps [] = []"
proof -
  have "find (\<lambda>p. p \<noteq> [] \<and> take (length p) [] = p) ps = None"
    by (auto simp: find_None_iff)
  then show ?thesis by (subst strip_left.simps) simp
qed

lemma trim_space_code [code]:
  "trim_space s = (if s = [] then [] else rev (strip_left (map rev space_encodings) (rev (strip_left space_encodings s))))"
  by (simp add: trim_space_def strip_left_Nil)

lemma length_trim_space: "length (trim_space s) \<le> length s"
proof -
  have "length (trim_space s) \<le> length (strip_left space_encodings s)"
    using length_strip_left [of "map rev space_encodings" "rev (strip_left space_encodings s)"]
    by (simp add: trim_space_def)
  then show ?thesis
    using length_strip_left [of space_encodings s] by simp
qed

text \<open>\<open>strconv.Atoi\<close>: an optional sign and decimal digits within the range of a 64-bit integer.\<close>

definition is_digit :: "char \<Rightarrow> bool" where
  "is_digit c \<longleftrightarrow> 48 \<le> (of_char c :: nat) \<and> (of_char c :: nat) \<le> 57"

definition digits_value :: "string \<Rightarrow> int" where
  "digits_value s = foldl (\<lambda>n c. 10 * n + (of_char c - 48)) 0 s"

definition atoi :: "string \<Rightarrow> int option" where
  "atoi s =
    (let (neg, ds) = (case s of
         [] \<Rightarrow> (False, [])
       | c # cs \<Rightarrow> if c = CHR ''-'' then (True, cs) else if c = CHR ''+'' then (False, cs) else (False, s));
       v = (if neg then - digits_value ds else digits_value ds)
     in if ds \<noteq> [] \<and> list_all is_digit ds \<and> - (2 ^ 63) \<le> v \<and> v < 2 ^ 63 then Some v else None)"

text \<open>\<open>utf8.ValidString\<close>.\<close>

definition cont_byte :: "nat \<Rightarrow> bool" where
  "cont_byte b \<longleftrightarrow> 128 \<le> b \<and> b \<le> 191"

fun valid_bytes :: "nat list \<Rightarrow> bool" where
  "valid_bytes [] = True"
| "valid_bytes (a # s) =
    (if a < 128 then valid_bytes s
     else (case s of
       [] \<Rightarrow> False
     | b # s1 \<Rightarrow>
       if 194 \<le> a \<and> a \<le> 223 then cont_byte b \<and> valid_bytes s1
       else (case s1 of
         [] \<Rightarrow> False
       | c # s2 \<Rightarrow>
         if 224 \<le> a \<and> a \<le> 239
         then cont_byte b \<and> (a = 224 \<longrightarrow> 160 \<le> b) \<and> (a = 237 \<longrightarrow> b \<le> 159) \<and> cont_byte c \<and> valid_bytes s2
         else (case s2 of
           [] \<Rightarrow> False
         | d # s3 \<Rightarrow>
           240 \<le> a \<and> a \<le> 244 \<and> cont_byte b \<and> (a = 240 \<longrightarrow> 144 \<le> b) \<and> (a = 244 \<longrightarrow> b \<le> 143) \<and>
           cont_byte c \<and> cont_byte d \<and> valid_bytes s3))))"

definition valid_string :: "string \<Rightarrow> bool" where
  "valid_string s = valid_bytes (map of_char s)"

end
