(* ===== verification/ApiTypes.thy ===== *)
theory ApiTypes
  imports Prelude
begin

text \<open>
  The data of the operator: the custom resources of \<^verbatim>\<open>api/v1alpha1\<close> as records and datatypes.

  String-typed enumerations become datatypes; where the source uses the zero value of such an
  enumeration (an omitted approval decision, an unset action-required marker) the datatype has a
  constructor for it. Labels and annotations are maps, so that a nil Go map and an empty one are the
  same value (every write in the source allocates the map first). Field names carry the initial of
  their struct. A time is an integer number of nanoseconds after Go's zero time, so that
  \<open>IsZero\<close> is equality with 0.
\<close>

type_synonym UID = string
type_synonym Time = int
type_synonym Duration = int

abbreviation IsZero :: "Time \<Rightarrow> bool" where
  "IsZero t \<equiv> t = 0"

definition Second :: Duration where
  "Second = 1000000000"

definition Minute :: Duration where
  "Minute = 60 * Second"

section \<open>Object metadata and conditions\<close>

datatype ConditionStatus = ConditionTrue | ConditionFalse | ConditionUnknown

record Condition =
  cType :: string
  cStatus :: ConditionStatus
  cReason :: string
  cMessage :: string
  cObservedGeneration :: int
  cLastTransitionTime :: Time

record OwnerReference =
  oAPIVersion :: string
  oKind :: string
  oName :: string
  oUID :: UID
  oController :: bool
  oBlockOwnerDeletion :: bool

record ObjectMeta =
  mName :: string
  mNamespace :: string
  mUID :: UID
  mResourceVersion :: nat
  mGeneration :: int
  mCreationTimestamp :: Time
  mDeletionTimestamp :: Time
  mLabels :: "string \<rightharpoonup> string"
  mAnnotations :: "string \<rightharpoonup> string"
  mFinalizers :: "string list"
  mOwnerReferences :: "OwnerReference list"

text \<open>Indexing a Go map of strings: a missing key reads as the empty string.\<close>

definition lookup :: "(string \<rightharpoonup> string) \<Rightarrow> string \<Rightarrow> string" where
  "lookup m k = (case m k of None \<Rightarrow> '''' | Some v \<Rightarrow> v)"

record ObjectKey =
  kName :: string
  kNamespace :: string

section \<open>AgenticRun status\<close>

datatype ActionOutcome = ActionOutcomeSucceeded | ActionOutcomeFailed

definition ActionOutcomeFromBool :: "bool \<Rightarrow> ActionOutcome" where
  "ActionOutcomeFromBool success = (if success then ActionOutcomeSucceeded else ActionOutcomeFailed)"

datatype CheckResult = CheckResultPassed | CheckResultFailed

record ExecutionAction =
  eaType :: string
  eaDescription :: string
  eaOutcome :: ActionOutcome
  eaOutput :: string
  eaError :: string

record VerifyCheck =
  vcName :: string
  vcSource :: string
  vcValue :: string
  vcResult :: CheckResult

record SandboxInfo =
  sClaimName :: string
  sNamespace :: string

definition no_sandbox :: SandboxInfo where
  "no_sandbox = \<lparr>sClaimName = '''', sNamespace = ''''\<rparr>"

record StepResultRef =
  rrName :: string
  rrOutcome :: ActionOutcome

text \<open>The four step status structs of the source have the same fields.\<close>

record AnalysisStepStatus =
  ssConditions :: "Condition list"
  ssSandbox :: SandboxInfo
  ssResults :: "StepResultRef list"

type_synonym ExecutionStepStatus = AnalysisStepStatus
type_synonym VerificationStepStatus = AnalysisStepStatus
type_synonym EscalationStepStatus = AnalysisStepStatus

record StepsStatus =
  stAnalysis :: AnalysisStepStatus
  stExecution :: ExecutionStepStatus
  stVerification :: VerificationStepStatus
  stEscalation :: EscalationStepStatus

text \<open>Pointers to 64-bit token counters: \<open>None\<close> is nil.\<close>

record TokenUsage =
  tuInputTokens :: "int option"
  tuOutputTokens :: "int option"

definition TokenUsage_IsZero :: "TokenUsage \<Rightarrow> bool" where
  "TokenUsage_IsZero t \<longleftrightarrow> tuInputTokens t = None \<and> tuOutputTokens t = None"

section \<open>Tools and analysis output\<close>

record SkillsSource =
  skImage :: string
  skPaths :: "string list"

datatype MCPHeaderSourceType = MCPHeaderSourceTypeSecret | MCPHeaderSourceTypeServiceAccountToken

record MCPHeaderValueSource =
  hvType :: MCPHeaderSourceType
  hvSecret :: string

record MCPHeader =
  mhName :: string
  mhValueFrom :: MCPHeaderValueSource

record MCPServerConfig =
  msName :: string
  msURL :: string
  msTimeoutSeconds :: int
  msHeaders :: "MCPHeader list"

datatype SecretMountType = SecretMountEnvVar | SecretMountFilePath

record SecretMountSpec =
  smType :: SecretMountType
  smEnvVar :: string
  smFilePath :: string

record SecretRequirement =
  srName :: string
  srDescription :: string
  srMountAs :: SecretMountSpec

record ToolsSpec =
  toSkills :: "SkillsSource list"
  toMCPServers :: "MCPServerConfig list"
  toRequiredSecrets :: "SecretRequirement list"

datatype ConfidenceLevel = ConfidenceLevelLow | ConfidenceLevelMedium | ConfidenceLevelHigh
datatype RiskLevel = RiskLevelLow | RiskLevelMedium | RiskLevelHigh | RiskLevelCritical
datatype Reversibility = ReversibilityReversible | ReversibilityIrreversible | ReversibilityPartial

text \<open>An omitted \<open>diagnosis\<close> is the zero struct: its confidence is then \<open>None\<close>.\<close>

record DiagnosisResult =
  dSummary :: string
  dConfidence :: "ConfidenceLevel option"
  dRootCause :: string

record ProposedAction =
  paCommand :: string
  paType :: string
  paDescription :: string

record RollbackPlan =
  rpDescription :: string
  rpCommand :: string

record RemediationPlan =
  plDescription :: string
  plActions :: "ProposedAction list"
  plRisk :: "RiskLevel option"
  plReversible :: "Reversibility option"
  plRollbackPlan :: RollbackPlan

record VerificationStep =
  vsName :: string
  vsCommand :: string
  vsExpected :: string
  vsType :: string

record VerificationPlan =
  vpDescription :: string
  vpSteps :: "VerificationStep list"

record RBACRule =
  rbNamespace :: string
  rbAPIGroups :: "string list"
  rbResources :: "string list"
  rbResourceNames :: "string list"
  rbVerbs :: "string list"
  rbJustification :: string

record RBACResult =
  rbNamespaceScoped :: "RBACRule list"
  rbClusterScoped :: "RBACRule list"

text \<open>The free-form \<open>components\<close> document of an option is kept as its serialised text.\<close>

record RemediationOption =
  opTitle :: string
  opSummary :: string
  opDiagnosis :: DiagnosisResult
  opRemediationPlan :: RemediationPlan
  opVerification :: VerificationPlan
  opRBAC :: RBACResult
  opComponents :: "string option"

datatype AnalysisOutputMode = AnalysisOutputModeUnset | AnalysisOutputModeDefault | AnalysisOutputModeMinimal

record AnalysisOutputSpec =
  aoMode :: AnalysisOutputMode
  aoSchema :: "string option"

definition AnalysisOutput_IsZero :: "AnalysisOutputSpec \<Rightarrow> bool" where
  "AnalysisOutput_IsZero a \<longleftrightarrow> aoMode a = AnalysisOutputModeUnset \<and> aoSchema a = None"

definition ToolsSpec_IsZero :: "ToolsSpec \<Rightarrow> bool" where
  "ToolsSpec_IsZero t \<longleftrightarrow>
     length (toSkills t) = 0 \<and> length (toMCPServers t) = 0 \<and> length (toRequiredSecrets t) = 0"

section \<open>AgenticRun\<close>

record AgenticRunStep =
  arAgent :: string

definition AgenticRunStep_IsZero :: "AgenticRunStep \<Rightarrow> bool" where
  "AgenticRunStep_IsZero s \<longleftrightarrow> arAgent s = ''''"

record AgenticRunSpec =
  spRequest :: string
  spTargetCluster :: string
  spAnalysisOutput :: AnalysisOutputSpec
  spTools :: ToolsSpec
  spAnalysis :: AgenticRunStep
  spExecution :: AgenticRunStep
  spVerification :: AgenticRunStep
  spRevisionFeedback :: string
  spTerminalTTL :: "int option"

record AgenticRunStatus =
  suConditions :: "Condition list"
  suSteps :: StepsStatus
  suTokenUsage :: TokenUsage
  suTerminalTime :: "Time option"
  suDeleteAfter :: "Time option"

record AgenticRun =
  rMeta :: ObjectMeta
  rSpec :: AgenticRunSpec
  rStatus :: AgenticRunStatus

abbreviation run_key :: "AgenticRun \<Rightarrow> ObjectKey" where
  "run_key run \<equiv> \<lparr>kName = mName (rMeta run), kNamespace = mNamespace (rMeta run)\<rparr>"

abbreviation run_uid :: "AgenticRun \<Rightarrow> UID" where
  "run_uid run \<equiv> mUID (rMeta run)"

abbreviation conditions :: "AgenticRun \<Rightarrow> Condition list" where
  "conditions run \<equiv> suConditions (rStatus run)"

abbreviation steps :: "AgenticRun \<Rightarrow> StepsStatus" where
  "steps run \<equiv> suSteps (rStatus run)"

abbreviation set_conditions :: "AgenticRun \<Rightarrow> Condition list \<Rightarrow> AgenticRun" where
  "set_conditions run cs \<equiv> run\<lparr>rStatus := (rStatus run)\<lparr>suConditions := cs\<rparr>\<rparr>"

abbreviation set_steps :: "AgenticRun \<Rightarrow> StepsStatus \<Rightarrow> AgenticRun" where
  "set_steps run st \<equiv> run\<lparr>rStatus := (rStatus run)\<lparr>suSteps := st\<rparr>\<rparr>"

abbreviation set_annotations :: "AgenticRun \<Rightarrow> (string \<rightharpoonup> string) \<Rightarrow> AgenticRun" where
  "set_annotations run m \<equiv> run\<lparr>rMeta := (rMeta run)\<lparr>mAnnotations := m\<rparr>\<rparr>"

abbreviation set_labels :: "AgenticRun \<Rightarrow> (string \<rightharpoonup> string) \<Rightarrow> AgenticRun" where
  "set_labels run m \<equiv> run\<lparr>rMeta := (rMeta run)\<lparr>mLabels := m\<rparr>\<rparr>"

abbreviation set_finalizers :: "AgenticRun \<Rightarrow> string list \<Rightarrow> AgenticRun" where
  "set_finalizers run fs \<equiv> run\<lparr>rMeta := (rMeta run)\<lparr>mFinalizers := fs\<rparr>\<rparr>"

datatype SandboxStep =
    SandboxStepAnalysis | SandboxStepExecution | SandboxStepVerification | SandboxStepEscalation

section \<open>Condition types and reasons\<close>

definition AgenticRunConditionAnalyzed :: string where
  [go_consts]: "AgenticRunConditionAnalyzed = ''Analyzed''"
definition AgenticRunConditionExecuted :: string where
  [go_consts]: "AgenticRunConditionExecuted = ''Executed''"
definition AgenticRunConditionVerified :: string where
  [go_consts]: "AgenticRunConditionVerified = ''Verified''"
definition AgenticRunConditionDenied :: string where
  [go_consts]: "AgenticRunConditionDenied = ''Denied''"
definition AgenticRunConditionEscalated :: string where
  [go_consts]: "AgenticRunConditionEscalated = ''Escalated''"
definition AgenticRunConditionEmergencyStopped :: string where
  [go_consts]: "AgenticRunConditionEmergencyStopped = ''EmergencyStopped''"
definition AgenticRunConditionStopping :: string where
  [go_consts]: "AgenticRunConditionStopping = ''Stopping''"

definition run_condition_types :: "string list" where
  "run_condition_types =
     [AgenticRunConditionAnalyzed, AgenticRunConditionExecuted, AgenticRunConditionVerified,
      AgenticRunConditionDenied, AgenticRunConditionEscalated, AgenticRunConditionEmergencyStopped,
      AgenticRunConditionStopping]"

lemma distinct_run_condition_types:
  "distinct run_condition_types" "distinct (rev run_condition_types)"
  by (simp_all add: run_condition_types_def go_consts)

lemmas run_condition_types_unfold =
  run_condition_types_def rev.simps append.simps distinct.simps list.set insert_iff empty_iff

lemmas condition_type_distinct =
  distinct_run_condition_types [unfolded run_condition_types_unfold, simplified]

declare condition_type_distinct [simp]

definition ReasonNoActionRequired :: string where
  [go_consts]: "ReasonNoActionRequired = ''NoActionRequired''"
definition ReasonVerificationFailed :: string where
  [go_consts]: "ReasonVerificationFailed = ''VerificationFailed''"

section \<open>Phases\<close>

datatype AgenticRunPhase =
    AgenticRunPhasePending | AgenticRunPhaseAnalyzing | AgenticRunPhaseProposed
  | AgenticRunPhaseExecuting | AgenticRunPhaseVerifying | AgenticRunPhaseCompleted
  | AgenticRunPhaseFailed | AgenticRunPhaseDenied | AgenticRunPhaseEscalating
  | AgenticRunPhaseEscalated | AgenticRunPhaseEmergencyStopped

text \<open>The closure \<open>get\<close> of \<open>DerivePhase\<close>: the first condition of a type.\<close>

fun get_condition :: "Condition list \<Rightarrow> string \<Rightarrow> Condition option" where
  "get_condition [] condType = None"
| "get_condition (c # cs) condType = (if cType c = condType then Some c else get_condition cs condType)"

definition DerivePhase :: "Condition list \<Rightarrow> AgenticRunPhase" where
  "DerivePhase cs =
    (let get = get_condition cs; escalated = get AgenticRunConditionEscalated in
     if (case get AgenticRunConditionEmergencyStopped of Some c \<Rightarrow> cStatus c = ConditionTrue | None \<Rightarrow> False)
     then AgenticRunPhaseEmergencyStopped
     else if (case escalated of Some c \<Rightarrow> cStatus c = ConditionTrue | None \<Rightarrow> False)
     then AgenticRunPhaseEscalated
     else if (case get AgenticRunConditionDenied of Some c \<Rightarrow> cStatus c = ConditionTrue | None \<Rightarrow> False)
     then AgenticRunPhaseDenied
     else (case escalated of
       Some c \<Rightarrow> (case cStatus c of ConditionUnknown \<Rightarrow> AgenticRunPhaseEscalating | _ \<Rightarrow> AgenticRunPhaseFailed)
     | None \<Rightarrow> (case get AgenticRunConditionVerified of
         Some c \<Rightarrow> (case cStatus c of
             ConditionTrue \<Rightarrow> AgenticRunPhaseCompleted
           | ConditionUnknown \<Rightarrow> AgenticRunPhaseVerifying
           | _ \<Rightarrow> AgenticRunPhaseFailed)
       | None \<Rightarrow> (case get AgenticRunConditionExecuted of
           Some c \<Rightarrow> (case cStatus c of
               ConditionTrue \<Rightarrow> AgenticRunPhaseVerifying
             | ConditionUnknown \<Rightarrow> AgenticRunPhaseExecuting
             | _ \<Rightarrow> AgenticRunPhaseFailed)
         | None \<Rightarrow> (case get AgenticRunConditionAnalyzed of
             Some c \<Rightarrow> (case cStatus c of
                 ConditionTrue \<Rightarrow>
                   (if cReason c = ReasonNoActionRequired then AgenticRunPhaseCompleted
                    else AgenticRunPhaseProposed)
               | ConditionUnknown \<Rightarrow> AgenticRunPhaseAnalyzing
               | _ \<Rightarrow> AgenticRunPhaseFailed)
           | None \<Rightarrow> AgenticRunPhasePending)))))"

section \<open>Approval resources\<close>

record ApproverInfo =
  aiUID :: string
  aiUsername :: string
  aiApprovedAt :: string

datatype ApprovalMode = ApprovalModeAutomatic | ApprovalModeManual

datatype ApprovalDecision = ApprovalDecisionUnset | ApprovalDecisionApproved | ApprovalDecisionDenied

datatype ApprovalStageType =
    ApprovalStageAnalysis | ApprovalStageExecution | ApprovalStageVerification | ApprovalStageEscalation

record AnalysisApproval =
  apAgent :: string

record ExecutionApproval =
  exAgent :: string
  exOption :: "int option"

type_synonym VerificationApproval = AnalysisApproval
type_synonym EscalationApproval = AnalysisApproval

record ApprovalStage =
  gType :: ApprovalStageType
  gDecision :: ApprovalDecision
  gAnalysis :: "AnalysisApproval option"
  gExecution :: "ExecutionApproval option"
  gVerification :: "VerificationApproval option"
  gEscalation :: "EscalationApproval option"

record AgenticRunApproval =
  vMeta :: ObjectMeta
  vApprover :: ApproverInfo
  vStages :: "ApprovalStage list"

record ApprovalPolicyStage =
  psName :: SandboxStep
  psApproval :: ApprovalMode

record ApprovalPolicy =
  ppStages :: "ApprovalPolicyStage list"
  ppMaxConcurrentRuns :: int

definition DefaultMaxConcurrentRuns :: int where
  "DefaultMaxConcurrentRuns = 5"

text \<open>
  \<open>NewApprovalStage\<close>: the discriminant arm is always present. The panic of the source's default
  branch is unreachable here, since the stage type is one of the four constructors.
\<close>

definition NewApprovalStage ::
    "ApprovalStageType \<Rightarrow> ApprovalDecision \<Rightarrow> string \<Rightarrow> int option \<Rightarrow> ApprovalStage" where
  "NewApprovalStage typ decision agent opt =
    (let stage = \<lparr>gType = typ, gDecision = decision, gAnalysis = None, gExecution = None,
                  gVerification = None, gEscalation = None\<rparr> in
     case typ of
       ApprovalStageAnalysis \<Rightarrow> stage\<lparr>gAnalysis := Some \<lparr>apAgent = agent\<rparr>\<rparr>
     | ApprovalStageExecution \<Rightarrow> stage\<lparr>gExecution := Some \<lparr>exAgent = agent, exOption = opt\<rparr>\<rparr>
     | ApprovalStageVerification \<Rightarrow> stage\<lparr>gVerification := Some \<lparr>apAgent = agent\<rparr>\<rparr>
     | ApprovalStageEscalation \<Rightarrow> stage\<lparr>gEscalation := Some \<lparr>apAgent = agent\<rparr>\<rparr>)"

text \<open>The CRD's admission rules for a stage: exactly the arm named by the type is present.\<close>

definition valid_stage :: "ApprovalStage \<Rightarrow> bool" where
  "valid_stage s \<longleftrightarrow>
     (gType s = ApprovalStageAnalysis) = (gAnalysis s \<noteq> None) \<and>
     (gType s = ApprovalStageExecution) = (gExecution s \<noteq> None) \<and>
     (gType s = ApprovalStageVerification) = (gVerification s \<noteq> None) \<and>
     (gType s = ApprovalStageEscalation) = (gEscalation s \<noteq> None)"

section \<open>Agents, providers and system configuration\<close>

record AgentTimeouts =
  tAnalysisSeconds :: int
  tExecutionSeconds :: int
  tVerificationSeconds :: int
  tEscalationSeconds :: int

record StepInstructions =
  siSystemPrompt :: string
  siUserPrompt :: string

record AgentInstructions =
  inAnalysis :: "StepInstructions option"
  inExecution :: "StepInstructions option"
  inVerification :: "StepInstructions option"
  inEscalation :: "StepInstructions option"

text \<open>The provider-specific reasoning parameters are kept as a list of keys and JSON texts.\<close>

record Agent =
  agName :: string
  agLLMProvider :: string
  agModel :: string
  agTimeouts :: AgentTimeouts
  agMaxTurns :: int
  agInstructions :: "AgentInstructions option"
  agReasoningConfig :: "(string \<times> string) list"

datatype LLMProviderType =
    LLMProviderAnthropic | LLMProviderGoogleCloudVertex | LLMProviderOpenAI
  | LLMProviderAzureOpenAI | LLMProviderAWSBedrock

record AnthropicConfig =
  anCredentialsSecret :: string
  anURL :: string

datatype GoogleCloudVertexModelProvider =
    GoogleCloudVertexModelProviderUnset | GoogleCloudVertexModelProviderAnthropic
  | GoogleCloudVertexModelProviderGoogle

record GoogleCloudVertexConfig =
  gvCredentialsSecret :: string
  gvProjectID :: string
  gvRegion :: string
  gvModelProvider :: GoogleCloudVertexModelProvider
  gvURL :: string

type_synonym OpenAIConfig = AnthropicConfig

record AzureOpenAIConfig =
  azCredentialsSecret :: string
  azEndpoint :: string
  azAPIVersion :: string
  azURL :: string

record AWSBedrockConfig =
  awCredentialsSecret :: string
  awRegion :: string
  awURL :: string

record LLMProvider =
  llName :: string
  llType :: LLMProviderType
  llAnthropic :: AnthropicConfig
  llGoogleCloudVertex :: GoogleCloudVertexConfig
  llOpenAI :: OpenAIConfig
  llAzureOpenAI :: AzureOpenAIConfig
  llAWSBedrock :: AWSBedrockConfig

record AgenticOLSConfig =
  olMeta :: ObjectMeta
  olSuspended :: bool
  olConditions :: "Condition list"

definition AgenticOLSConfigConditionSuspended :: string where
  [go_consts]: "AgenticOLSConfigConditionSuspended = ''Suspended''"

definition AgenticOLSConfigConditionSafeToResume :: string where
  [go_consts]: "AgenticOLSConfigConditionSafeToResume = ''SafeToResume''"

section \<open>Result resources\<close>

definition ResultConditionStarted :: string where
  [go_consts]: "ResultConditionStarted = ''Started''"
definition ResultConditionCompleted :: string where
  [go_consts]: "ResultConditionCompleted = ''Completed''"
definition ResultReasonStepStarted :: string where
  [go_consts]: "ResultReasonStepStarted = ''StepStarted''"
definition ResultReasonSucceeded :: string where
  [go_consts]: "ResultReasonSucceeded = ''Succeeded''"
definition ResultReasonFailed :: string where
  [go_consts]: "ResultReasonFailed = ''Failed''"
definition ResultReasonAgentTimeout :: string where
  [go_consts]: "ResultReasonAgentTimeout = ''AgentTimeout''"

datatype ActionRequiredValue = ActionRequiredUnset | ActionRequiredTrue | ActionRequiredFalse

definition ActionRequiredFromBool :: "bool \<Rightarrow> ActionRequiredValue" where
  "ActionRequiredFromBool b = (if b then ActionRequiredTrue else ActionRequiredFalse)"

record AnalysisResult =
  anMeta :: ObjectMeta
  anAgenticRunName :: string
  anConditions :: "Condition list"
  anActionRequired :: ActionRequiredValue
  anDiagnosis :: DiagnosisResult
  anOptions :: "RemediationOption list"
  anSandbox :: SandboxInfo
  anTokenUsage :: TokenUsage
  anFailureReason :: string

record ExecutionResult =
  xrMeta :: ObjectMeta
  xrAgenticRunName :: string
  xrConditions :: "Condition list"
  xrActionsTaken :: "ExecutionAction list"
  xrSandbox :: SandboxInfo
  xrTokenUsage :: TokenUsage
  xrFailureReason :: string

record VerificationResult =
  vrMeta :: ObjectMeta
  vrAgenticRunName :: string
  vrConditions :: "Condition list"
  vrChecks :: "VerifyCheck list"
  vrSummary :: string
  vrSandbox :: SandboxInfo
  vrTokenUsage :: TokenUsage
  vrFailureReason :: string

record EscalationResult =
  erMeta :: ObjectMeta
  erAgenticRunName :: string
  erConditions :: "Condition list"
  erSummary :: string
  erContent :: string
  erSandbox :: SandboxInfo
  erTokenUsage :: TokenUsage
  erFailureReason :: string

text \<open>\<open>client.Object\<close> values that are result resources: the type switches of the source.\<close>

datatype ResultObject =
    AnalysisResultObject AnalysisResult
  | ExecutionResultObject ExecutionResult
  | VerificationResultObject VerificationResult
  | EscalationResultObject EscalationResult

fun result_meta :: "ResultObject \<Rightarrow> ObjectMeta" where
  "result_meta (AnalysisResultObject r) = anMeta r"
| "result_meta (ExecutionResultObject r) = xrMeta r"
| "result_meta (VerificationResultObject r) = vrMeta r"
| "result_meta (EscalationResultObject r) = erMeta r"

definition no_tokens :: TokenUsage where
  "no_tokens = \<lparr>tuInputTokens = None, tuOutputTokens = None\<rparr>"

definition no_diagnosis :: DiagnosisResult where
  "no_diagnosis = \<lparr>dSummary = '''', dConfidence = None, dRootCause = ''''\<rparr>"

abbreviation meta_key :: "ObjectMeta \<Rightarrow> ObjectKey" where
  "meta_key m \<equiv> \<lparr>kName = mName m, kNamespace = mNamespace m\<rparr>"

end
