(* ===== verification/KubeApi.thy ===== *)
theory KubeApi
  imports ApiTypes
begin

text \<open>
  The boundary between the operator and everything it does not contain: the API server behind
  controller-runtime's client, the condition helpers of \<^verbatim>\<open>k8s.io/apimachinery/pkg/api/meta\<close>, the
  clock, the audit log store and the sandbox lifecycle. None of that code is part of the
  repository, so it is a parameter: a record \<open>kube\<close> of functions. A request function sees the whole
  history of earlier requests and answers, and so may behave as any server does, including one
  that other clients write to between two requests.

  The locale \<open>status_conditions\<close> states what the operator relies on from the condition helpers. The
  reference helpers at the end satisfy it; they serve for evaluating examples.
\<close>

section \<open>Errors\<close>

datatype StatusReason =
    NotFound | AlreadyExists | Conflict | ServerTimeout | RequestTimeout | TooManyRequests
  | ServiceUnavailable | InternalError | Forbidden | OtherReason

text \<open>
  Go errors: an API status error, a network error, the sentinels \<open>errStopAccepted\<close> and
  \<open>ErrSuspensionSuperseded\<close>, a context error, a plain error, errors wrapped with \<open>%w\<close> or joined, and a run-time panic, which
  leaves every function it passes through.
\<close>

datatype error =
    StatusError StatusReason string
  | NetError string
  | StopAccepted
  | SuspensionSuperseded
  | ContextError string
  | NewError string
  | WrapError string error
  | JoinErrors "error list"
  | Panic string

fun err_reason :: "error \<Rightarrow> StatusReason option" where
  "err_reason (StatusError r _) = Some r"
| "err_reason (WrapError _ e) = err_reason e"
| "err_reason (JoinErrors es) = (case filter (\<lambda>r. r \<noteq> None) (map err_reason es) of [] \<Rightarrow> None | r # _ \<Rightarrow> r)"
| "err_reason _ = None"

text \<open>\<open>errors.As(err, &netErr)\<close> and \<open>errors.Is(err, errStopAccepted)\<close>.\<close>

fun as_net_error :: "error \<Rightarrow> bool" where
  "as_net_error (NetError _) = True"
| "as_net_error (WrapError _ e) = as_net_error e"
| "as_net_error (JoinErrors es) = list_ex as_net_error es"
| "as_net_error _ = False"

fun is_stop_accepted :: "error \<Rightarrow> bool" where
  "is_stop_accepted StopAccepted = True"
| "is_stop_accepted (WrapError _ e) = is_stop_accepted e"
| "is_stop_accepted (JoinErrors es) = list_ex is_stop_accepted es"
| "is_stop_accepted _ = False"

fun is_superseded :: "error \<Rightarrow> bool" where
  "is_superseded SuspensionSuperseded = True"
| "is_superseded (WrapError _ e) = is_superseded e"
| "is_superseded (JoinErrors es) = list_ex is_superseded es"
| "is_superseded _ = False"

fun is_context_error :: "error \<Rightarrow> bool" where
  "is_context_error (ContextError _) = True"
| "is_context_error (WrapError _ e) = is_context_error e"
| "is_context_error (JoinErrors es) = list_ex is_context_error es"
| "is_context_error _ = False"

definition ErrStopAccepted :: string where
  [go_consts]: "ErrStopAccepted = ''run stop accepted''"

fun join_lines :: "string list \<Rightarrow> string" where
  "join_lines [] = []"
| "join_lines [w] = w"
| "join_lines (w # ws) = w @ [char_of (10 :: nat)] @ join_lines ws"

fun err_text :: "error \<Rightarrow> string" where
  "err_text (StatusError _ s) = s"
| "err_text (NetError s) = s"
| "err_text StopAccepted = ErrStopAccepted"
| "err_text SuspensionSuperseded = ''suspension activation superseded''"
| "err_text (ContextError s) = s"
| "err_text (NewError s) = s"
| "err_text (WrapError s e) = s @ '': '' @ err_text e"
| "err_text (JoinErrors es) = join_lines (map err_text es)"
| "err_text (Panic s) = s"

abbreviation IsNotFound :: "error \<Rightarrow> bool" where
  "IsNotFound e \<equiv> err_reason e = Some NotFound"

abbreviation IsAlreadyExists :: "error \<Rightarrow> bool" where
  "IsAlreadyExists e \<equiv> err_reason e = Some AlreadyExists"

abbreviation IsConflict :: "error \<Rightarrow> bool" where
  "IsConflict e \<equiv> err_reason e = Some Conflict"

text \<open>\<open>client.IgnoreNotFound(err)\<close> as an error result.\<close>

definition IgnoreNotFound :: "error \<Rightarrow> error option" where
  "IgnoreNotFound e = (if IsNotFound e then None else Some e)"

text \<open>\<open>%q\<close> of a name without characters to escape.\<close>

definition quote_name :: "string \<Rightarrow> string" where
  "quote_name s = [char_of (34 :: nat)] @ s @ [char_of (34 :: nat)]"

section \<open>Values passed over the boundary\<close>

text \<open>\<open>resolvedStep\<close>, \<open>ExecutionOutput\<close> and the calls of the \<open>AgentCaller\<close> interface.\<close>

record resolvedStep =
  sAgent :: Agent
  sLLM :: LLMProvider
  sTools :: ToolsSpec

record ExecutionOutput =
  eoSuccess :: bool
  eoSummary :: string
  eoActionsTaken :: "ExecutionAction list"

record agentPreviousAttempt =
  paAttempt :: int
  paFailureReason :: string

record agentExecutionResult =
  aeSuccess :: bool
  aeActionsTaken :: "ExecutionAction list"

record agentContext =
  acPreviousAttempts :: "agentPreviousAttempt list"
  acApprovedOption :: "RemediationOption option"
  acExecutionResult :: "agentExecutionResult option"

datatype AgentCall =
    CallAnalyze AgenticRun resolvedStep
  | CallExecute AgenticRun resolvedStep "RemediationOption option"
  | CallVerify AgenticRun resolvedStep "RemediationOption option" "ExecutionOutput option"
  | CallEscalate AgenticRun resolvedStep
  | CallReleaseSandboxes AgenticRun bool
  | CallReleaseSandbox AgenticRun string

fun launches_agent :: "AgentCall \<Rightarrow> bool" where
  "launches_agent (CallReleaseSandboxes _ _) = False"
| "launches_agent (CallReleaseSandbox _ _) = False"
| "launches_agent _ = True"

text \<open>The methods of \<open>AuditLogger\<close> the controller calls.\<close>

datatype AuditCall =
    EmitApprovalSpan UID "AgenticRunApproval option" string
  | EmitTerminalSpan UID AgenticRunPhase string
  | CompleteStep UID string "ResultObject option"
  | CleanupAudit UID
  | CleanupDeleted ObjectKey

text \<open>Objects the controller deletes by kind and key, on the hub or on a spoke cluster.\<close>

datatype Cluster = Hub | Spoke string

text \<open>The parts of \<open>rest.Config\<close> and of a raw kubeconfig that the operator inspects.\<close>

record RestConfig =
  rcHost :: string
  rcInsecure :: bool
  rcExecProvider :: bool
  rcAuthProvider :: bool
  rcBearerTokenFile :: string
  rcCAFile :: string
  rcCertFile :: string
  rcKeyFile :: string
  rcTimeout :: Duration
  rcCAData :: string
  rcServerName :: string

record RawKubeconfig =
  kcCurrentContext :: string
  kcContexts :: "string \<rightharpoonup> string"
  kcClusterProxyURL :: "string \<rightharpoonup> string"

datatype Kind = ServiceAccountK | RoleK | RoleBindingK | ClusterRoleK | ClusterRoleBindingK

text \<open>The RBAC objects the operator creates (\<^verbatim>\<open>k8s.io/api/rbac/v1\<close>).\<close>

record PolicyRule =
  prAPIGroups :: "string list"
  prResources :: "string list"
  prResourceNames :: "string list"
  prVerbs :: "string list"

record Subject =
  sjKind :: string
  sjName :: string
  sjNamespace :: string

record RoleRef =
  rfAPIGroup :: string
  rfKind :: string
  rfName :: string

record RbacObject =
  roKind :: Kind
  roKey :: ObjectKey
  roLabels :: "string \<rightharpoonup> string"
  roRules :: "PolicyRule list"
  roRoleRef :: "RoleRef option"
  roSubjects :: "Subject list"

text \<open>Pods (\<^verbatim>\<open>k8s.io/api/core/v1\<close>), as far as the operator reads them.\<close>

datatype PodPhase = PodPhaseUnset | PodPending | PodRunning | PodSucceeded | PodFailed | PodUnknown

record ContainerStatus =
  csName :: string
  csRunningStartedAt :: "Time option"
  csTerminated :: "(string \<times> int) option"

record Pod =
  pMeta :: ObjectMeta
  pPhase :: PodPhase
  pContainerStatuses :: "ContainerStatus list"

datatype PodSelector = RunAndStepLabels | SandboxNameHash

text \<open>The unstructured kinds of the sandbox API; only their metadata is read.\<close>

datatype SandboxKind = SandboxKind | SandboxClaimKind

text \<open>\<open>SuspensionCleanup\<close>: the report of one suspension cleanup pass.\<close>

record SuspensionCleanup =
  scPending :: "string list"
  scFailures :: "string list"
  scUnverified :: "string list"

definition Confirmed :: "SuspensionCleanup \<Rightarrow> bool" where
  "Confirmed c \<longleftrightarrow> length (scPending c) = 0 \<and> length (scFailures c) = 0 \<and> length (scUnverified c) = 0"

datatype event =
    EvNow Time
  | EvGetRun ObjectKey "error + AgenticRun"
  | EvListRuns "(string \<times> string) option" "error + AgenticRun list"
  | EvGetConfig "error + AgenticOLSConfig"
  | EvGetPolicy "error + ApprovalPolicy"
  | EvGetApproval ObjectKey "error + AgenticRunApproval"
  | EvCreateApproval AgenticRunApproval "error + AgenticRunApproval"
  | EvGetAgent string "error + Agent"
  | EvGetLLM string "error + LLMProvider"
  | EvGetSecret ObjectKey "error + (string \<rightharpoonup> string)"
  | EvStatusPatch AgenticRun AgenticRun "error + AgenticRun"
  | EvMetaPatch bool AgenticRun AgenticRun "error + AgenticRun"
  | EvDeleteRun ObjectKey "error option"
  | EvGetResult ObjectKey "error + ResultObject"
  | EvCreateResult ResultObject "error + ResultObject"
  | EvPatchResult ResultObject ResultObject "error option"
  | EvDelete Cluster Kind ObjectKey "error option"
  | EvListBindings Cluster UID string "error + string list"
  | EvNewClient RestConfig "error option"
  | EvAgent AgentCall
  | EvAudit AuditCall
  | EvCleanupSuspension UID Duration SuspensionCleanup "error option"
  | EvSandboxCreate AgenticRun string resolvedStep Duration agentContext "error + string"
  | EvSandboxRelease AgenticRun string bool bool "error option"
  | EvCreateRbac Cluster RbacObject "error option"
  | EvListPods PodSelector "error + Pod list"
  | EvGetSandboxObject SandboxKind ObjectKey "error + ObjectMeta"
  | EvListClaims "error + ObjectMeta list"
  | EvDeleteLogs UID "error option"
  | EvContextDone bool

type_synonym history = "event list"
type_synonym 'a op = "(history, 'a) state"

record workload_api =
  on_create_rbac :: "history \<Rightarrow> Cluster \<Rightarrow> RbacObject \<Rightarrow> error option"
  on_list_pods :: "history \<Rightarrow> PodSelector \<Rightarrow> error + Pod list"
  on_get_sandbox_object :: "history \<Rightarrow> SandboxKind \<Rightarrow> ObjectKey \<Rightarrow> error + ObjectMeta"
  on_list_claims :: "history \<Rightarrow> error + ObjectMeta list"

record kube =
  FindStatusCondition :: "Condition list \<Rightarrow> string \<Rightarrow> Condition option"
  SetStatusCondition :: "Time \<Rightarrow> Condition list \<Rightarrow> Condition \<Rightarrow> Condition list"
  RemoveStatusCondition :: "Condition list \<Rightarrow> string \<Rightarrow> Condition list"
  on_now :: "history \<Rightarrow> Time"
  on_get_run :: "history \<Rightarrow> ObjectKey \<Rightarrow> error + AgenticRun"
  on_list_runs :: "history \<Rightarrow> (string \<times> string) option \<Rightarrow> error + AgenticRun list"
  on_get_config :: "history \<Rightarrow> error + AgenticOLSConfig"
  on_get_policy :: "history \<Rightarrow> error + ApprovalPolicy"
  on_get_approval :: "history \<Rightarrow> ObjectKey \<Rightarrow> error + AgenticRunApproval"
  on_create_approval :: "history \<Rightarrow> AgenticRunApproval \<Rightarrow> error + AgenticRunApproval"
  on_get_agent :: "history \<Rightarrow> string \<Rightarrow> error + Agent"
  on_get_llm :: "history \<Rightarrow> string \<Rightarrow> error + LLMProvider"
  on_get_secret :: "history \<Rightarrow> ObjectKey \<Rightarrow> error + (string \<rightharpoonup> string)"
  on_status_patch :: "history \<Rightarrow> AgenticRun \<Rightarrow> AgenticRun \<Rightarrow> error + AgenticRun"
  on_meta_patch :: "history \<Rightarrow> bool \<Rightarrow> AgenticRun \<Rightarrow> AgenticRun \<Rightarrow> error + AgenticRun"
  on_delete_run :: "history \<Rightarrow> ObjectKey \<Rightarrow> error option"
  on_get_analysis :: "history \<Rightarrow> ObjectKey \<Rightarrow> error + AnalysisResult"
  on_get_execution :: "history \<Rightarrow> ObjectKey \<Rightarrow> error + ExecutionResult"
  on_get_verification :: "history \<Rightarrow> ObjectKey \<Rightarrow> error + VerificationResult"
  on_get_escalation :: "history \<Rightarrow> ObjectKey \<Rightarrow> error + EscalationResult"
  on_create_result :: "history \<Rightarrow> ResultObject \<Rightarrow> error + ResultObject"
  on_patch_result :: "history \<Rightarrow> ResultObject \<Rightarrow> ResultObject \<Rightarrow> error option"
  on_delete :: "history \<Rightarrow> Cluster \<Rightarrow> Kind \<Rightarrow> ObjectKey \<Rightarrow> error option"
  on_list_bindings :: "history \<Rightarrow> Cluster \<Rightarrow> UID \<Rightarrow> string \<Rightarrow> error + string list"
  on_new_client :: "history \<Rightarrow> RestConfig \<Rightarrow> error option"
  RESTConfigFromKubeConfig :: "string \<Rightarrow> error + RestConfig"
  IsConfigTransportTLS :: "RestConfig \<Rightarrow> bool"
  LoadKubeconfig :: "string \<Rightarrow> error + RawKubeconfig"
  on_delete_logs :: "history \<Rightarrow> UID \<Rightarrow> error option"
  on_context_done :: "history \<Rightarrow> bool"
  workloads :: workload_api

section \<open>The requests\<close>

definition now :: "kube \<Rightarrow> Time op" where
  "now K = perform (on_now K) EvNow"

definition getRun :: "kube \<Rightarrow> ObjectKey \<Rightarrow> (error + AgenticRun) op" where
  "getRun K key = perform (\<lambda>h. on_get_run K h key) (EvGetRun key)"

text \<open>\<open>List\<close> of the runs, with an optional label selector.\<close>

definition listRuns :: "kube \<Rightarrow> (string \<times> string) option \<Rightarrow> (error + AgenticRun list) op" where
  "listRuns K sel = perform (\<lambda>h. on_list_runs K h sel) (EvListRuns sel)"

definition getConfig :: "kube \<Rightarrow> (error + AgenticOLSConfig) op" where
  "getConfig K = perform (on_get_config K) EvGetConfig"

definition getPolicy :: "kube \<Rightarrow> (error + ApprovalPolicy) op" where
  "getPolicy K = perform (on_get_policy K) EvGetPolicy"

definition getApproval :: "kube \<Rightarrow> ObjectKey \<Rightarrow> (error + AgenticRunApproval) op" where
  "getApproval K key = perform (\<lambda>h. on_get_approval K h key) (EvGetApproval key)"

definition createApproval :: "kube \<Rightarrow> AgenticRunApproval \<Rightarrow> (error + AgenticRunApproval) op" where
  "createApproval K a = perform (\<lambda>h. on_create_approval K h a) (EvCreateApproval a)"

definition getAgent :: "kube \<Rightarrow> string \<Rightarrow> (error + Agent) op" where
  "getAgent K n = perform (\<lambda>h. on_get_agent K h n) (EvGetAgent n)"

definition getLLM :: "kube \<Rightarrow> string \<Rightarrow> (error + LLMProvider) op" where
  "getLLM K n = perform (\<lambda>h. on_get_llm K h n) (EvGetLLM n)"

definition getSecret :: "kube \<Rightarrow> ObjectKey \<Rightarrow> (error + (string \<rightharpoonup> string)) op" where
  "getSecret K key = perform (\<lambda>h. on_get_secret K h key) (EvGetSecret key)"

text \<open>
  \<open>r.Status().Patch\<close> with \<open>MergeFromWithOptimisticLock\<close>: the base the change was computed from and
  the changed object. On success the client's object becomes the server's answer.
\<close>

definition patchStatus :: "kube \<Rightarrow> AgenticRun \<Rightarrow> AgenticRun \<Rightarrow> (error + AgenticRun) op" where
  "patchStatus K base run = perform (\<lambda>h. on_status_patch K h base run) (EvStatusPatch base run)"

text \<open>\<open>r.Patch\<close> of the main resource; the flag says whether the optimistic lock is requested.\<close>

definition patchMeta :: "kube \<Rightarrow> bool \<Rightarrow> AgenticRun \<Rightarrow> AgenticRun \<Rightarrow> (error + AgenticRun) op" where
  "patchMeta K lock base run = perform (\<lambda>h. on_meta_patch K h lock base run) (EvMetaPatch lock base run)"

definition deleteRun :: "kube \<Rightarrow> ObjectKey \<Rightarrow> error option op" where
  "deleteRun K key = perform (\<lambda>h. on_delete_run K h key) (EvDeleteRun key)"

definition getAnalysisResult :: "kube \<Rightarrow> ObjectKey \<Rightarrow> (error + AnalysisResult) op" where
  "getAnalysisResult K key =
     perform (\<lambda>h. on_get_analysis K h key) (\<lambda>r. EvGetResult key (map_sum id AnalysisResultObject r))"

definition getExecutionResult :: "kube \<Rightarrow> ObjectKey \<Rightarrow> (error + ExecutionResult) op" where
  "getExecutionResult K key =
     perform (\<lambda>h. on_get_execution K h key) (\<lambda>r. EvGetResult key (map_sum id ExecutionResultObject r))"

definition getVerificationResult :: "kube \<Rightarrow> ObjectKey \<Rightarrow> (error + VerificationResult) op" where
  "getVerificationResult K key =
     perform (\<lambda>h. on_get_verification K h key) (\<lambda>r. EvGetResult key (map_sum id VerificationResultObject r))"

definition getEscalationResult :: "kube \<Rightarrow> ObjectKey \<Rightarrow> (error + EscalationResult) op" where
  "getEscalationResult K key =
     perform (\<lambda>h. on_get_escalation K h key) (\<lambda>r. EvGetResult key (map_sum id EscalationResultObject r))"

text \<open>\<open>Create\<close> of a result resource: on success, what the client object holds afterwards.\<close>

definition createResult :: "kube \<Rightarrow> ResultObject \<Rightarrow> (error + ResultObject) op" where
  "createResult K obj = perform (\<lambda>h. on_create_result K h obj) (EvCreateResult obj)"

definition patchResult :: "kube \<Rightarrow> ResultObject \<Rightarrow> ResultObject \<Rightarrow> error option op" where
  "patchResult K base obj = perform (\<lambda>h. on_patch_result K h base obj) (EvPatchResult base obj)"

definition deleteObject :: "kube \<Rightarrow> Cluster \<Rightarrow> Kind \<Rightarrow> ObjectKey \<Rightarrow> error option op" where
  "deleteObject K c k key = perform (\<lambda>h. on_delete K h c k key) (EvDelete c k key)"

definition listBindings :: "kube \<Rightarrow> Cluster \<Rightarrow> UID \<Rightarrow> string \<Rightarrow> (error + string list) op" where
  "listBindings K c uid step = perform (\<lambda>h. on_list_bindings K h c uid step) (EvListBindings c uid step)"

definition newClient :: "kube \<Rightarrow> RestConfig \<Rightarrow> error option op" where
  "newClient K cfg = perform (\<lambda>h. on_new_client K h cfg) (EvNewClient cfg)"

definition deleteLogs :: "kube \<Rightarrow> UID \<Rightarrow> error option op" where
  "deleteLogs K uid = perform (\<lambda>h. on_delete_logs K h uid) (EvDeleteLogs uid)"

definition contextDone :: "kube \<Rightarrow> bool op" where
  "contextDone K = perform (on_context_done K) EvContextDone"

definition createRbac :: "kube \<Rightarrow> Cluster \<Rightarrow> RbacObject \<Rightarrow> error option op" where
  "createRbac K c obj = perform (\<lambda>h. on_create_rbac (workloads K) h c obj) (EvCreateRbac c obj)"

definition listPods :: "kube \<Rightarrow> PodSelector \<Rightarrow> (error + Pod list) op" where
  "listPods K sel = perform (\<lambda>h. on_list_pods (workloads K) h sel) (EvListPods sel)"

definition getSandboxObject :: "kube \<Rightarrow> SandboxKind \<Rightarrow> ObjectKey \<Rightarrow> (error + ObjectMeta) op" where
  "getSandboxObject K kind key =
     perform (\<lambda>h. on_get_sandbox_object (workloads K) h kind key) (EvGetSandboxObject kind key)"

definition listClaims :: "kube \<Rightarrow> (error + ObjectMeta list) op" where
  "listClaims K = perform (on_list_claims (workloads K)) EvListClaims"

definition audit :: "bool \<Rightarrow> AuditCall \<Rightarrow> unit op" where
  "audit present call =
     (if present then perform (\<lambda>_. ()) (\<lambda>_. EvAudit call) else State_Monad.return ())"

lemmas request_defs =
  now_def getRun_def listRuns_def getConfig_def getPolicy_def getApproval_def createApproval_def
  getAgent_def getLLM_def getSecret_def patchStatus_def patchMeta_def deleteRun_def
  getAnalysisResult_def getExecutionResult_def getVerificationResult_def getEscalationResult_def
  createResult_def patchResult_def deleteObject_def listBindings_def newClient_def deleteLogs_def
  contextDone_def createRbac_def listPods_def getSandboxObject_def listClaims_def

text \<open>Each request has the obvious rule: its event must be allowed, and any answer may come back.\<close>

lemma wp_requests [wp]:
  "(\<And>t. P h (EvNow t) \<and> Q1 t (h @ [EvNow t])) \<Longrightarrow> wp P (now K) Q1 h"
  "(\<And>r. on_get_run K h key = r \<Longrightarrow> P h (EvGetRun key r) \<and> Q2 r (h @ [EvGetRun key r])) \<Longrightarrow> wp P (getRun K key) Q2 h"
  "(\<And>r. P h (EvListRuns s r) \<and> Q3 r (h @ [EvListRuns s r])) \<Longrightarrow> wp P (listRuns K s) Q3 h"
  "(\<And>r. P h (EvGetConfig r) \<and> Q4 r (h @ [EvGetConfig r])) \<Longrightarrow> wp P (getConfig K) Q4 h"
  "(\<And>r. P h (EvGetPolicy r) \<and> Q5 r (h @ [EvGetPolicy r])) \<Longrightarrow> wp P (getPolicy K) Q5 h"
  "(\<And>r. P h (EvGetApproval key r) \<and> Q6 r (h @ [EvGetApproval key r])) \<Longrightarrow> wp P (getApproval K key) Q6 h"
  "(\<And>r. P h (EvCreateApproval a r) \<and> Q7 r (h @ [EvCreateApproval a r])) \<Longrightarrow> wp P (createApproval K a) Q7 h"
  "(\<And>r. P h (EvGetAgent n r) \<and> Q8 r (h @ [EvGetAgent n r])) \<Longrightarrow> wp P (getAgent K n) Q8 h"
  "(\<And>r. P h (EvGetLLM n r) \<and> Q9 r (h @ [EvGetLLM n r])) \<Longrightarrow> wp P (getLLM K n) Q9 h"
  "(\<And>r. P h (EvGetSecret key r) \<and> Q11 r (h @ [EvGetSecret key r])) \<Longrightarrow> wp P (getSecret K key) Q11 h"
  "(\<And>r. on_status_patch K h b n1 = r \<Longrightarrow> P h (EvStatusPatch b n1 r) \<and> Q2 r (h @ [EvStatusPatch b n1 r])) \<Longrightarrow>
     wp P (patchStatus K b n1) Q2 h"
  "(\<And>r. on_meta_patch K h l b n1 = r \<Longrightarrow> P h (EvMetaPatch l b n1 r) \<and> Q2 r (h @ [EvMetaPatch l b n1 r])) \<Longrightarrow>
     wp P (patchMeta K l b n1) Q2 h"
  "(\<And>r. P h (EvDeleteRun key r) \<and> Q10 r (h @ [EvDeleteRun key r])) \<Longrightarrow> wp P (deleteRun K key) Q10 h"
  by (auto intro: wp_performI simp: request_defs)

lemma wp_requests2 [wp]:
  "(\<And>r. P h (EvGetResult key (map_sum id AnalysisResultObject r)) \<and>
        Q1 r (h @ [EvGetResult key (map_sum id AnalysisResultObject r)])) \<Longrightarrow> wp P (getAnalysisResult K key) Q1 h"
  "(\<And>r. P h (EvGetResult key (map_sum id ExecutionResultObject r)) \<and>
        Q2 r (h @ [EvGetResult key (map_sum id ExecutionResultObject r)])) \<Longrightarrow> wp P (getExecutionResult K key) Q2 h"
  "(\<And>r. P h (EvGetResult key (map_sum id VerificationResultObject r)) \<and>
        Q3 r (h @ [EvGetResult key (map_sum id VerificationResultObject r)])) \<Longrightarrow> wp P (getVerificationResult K key) Q3 h"
  "(\<And>r. P h (EvGetResult key (map_sum id EscalationResultObject r)) \<and>
        Q4 r (h @ [EvGetResult key (map_sum id EscalationResultObject r)])) \<Longrightarrow> wp P (getEscalationResult K key) Q4 h"
  "(\<And>r. P h (EvCreateResult obj r) \<and> Q5 r (h @ [EvCreateResult obj r])) \<Longrightarrow> wp P (createResult K obj) Q5 h"
  "(\<And>r. P h (EvPatchResult b obj r) \<and> Q6 r (h @ [EvPatchResult b obj r])) \<Longrightarrow> wp P (patchResult K b obj) Q6 h"
  "(\<And>r. P h (EvDelete c k key r) \<and> Q6 r (h @ [EvDelete c k key r])) \<Longrightarrow> wp P (deleteObject K c k key) Q6 h"
  "(\<And>r. P h (EvListBindings c u s r) \<and> Q7 r (h @ [EvListBindings c u s r])) \<Longrightarrow> wp P (listBindings K c u s) Q7 h"
  "(\<And>r. P h (EvNewClient rc r) \<and> Q6 r (h @ [EvNewClient rc r])) \<Longrightarrow> wp P (newClient K rc) Q6 h"
  "(\<And>r. P h (EvDeleteLogs u r) \<and> Q6 r (h @ [EvDeleteLogs u r])) \<Longrightarrow> wp P (deleteLogs K u) Q6 h"
  "(\<And>r. P h (EvContextDone r) \<and> Q9 r (h @ [EvContextDone r])) \<Longrightarrow> wp P (contextDone K) Q9 h"
  "(\<And>r. P h (EvCreateRbac c o1 r) \<and> Q6 r (h @ [EvCreateRbac c o1 r])) \<Longrightarrow> wp P (createRbac K c o1) Q6 h"
  "(\<And>r. P h (EvListPods ps r) \<and> Q10 r (h @ [EvListPods ps r])) \<Longrightarrow> wp P (listPods K ps) Q10 h"
  "(\<And>r. P h (EvGetSandboxObject sk key r) \<and> Q11 r (h @ [EvGetSandboxObject sk key r])) \<Longrightarrow>
     wp P (getSandboxObject K sk key) Q11 h"
  "(\<And>r. P h (EvListClaims r) \<and> Q12 r (h @ [EvListClaims r])) \<Longrightarrow> wp P (listClaims K) Q12 h"
  by (auto intro: wp_performI simp: request_defs)

lemma emits_requests [emit]:
  "(\<And>t. P (EvNow t)) \<Longrightarrow> emits P (now K)"
  "(\<And>r. P (EvGetRun key r)) \<Longrightarrow> emits P (getRun K key)"
  "(\<And>r. P (EvListRuns s r)) \<Longrightarrow> emits P (listRuns K s)"
  "(\<And>r. P (EvGetConfig r)) \<Longrightarrow> emits P (getConfig K)"
  "(\<And>r. P (EvGetPolicy r)) \<Longrightarrow> emits P (getPolicy K)"
  "(\<And>r. P (EvGetApproval key r)) \<Longrightarrow> emits P (getApproval K key)"
  "(\<And>r. P (EvCreateApproval a r)) \<Longrightarrow> emits P (createApproval K a)"
  "(\<And>r. P (EvGetAgent n r)) \<Longrightarrow> emits P (getAgent K n)"
  "(\<And>r. P (EvGetLLM n r)) \<Longrightarrow> emits P (getLLM K n)"
  "(\<And>r. P (EvGetSecret key r)) \<Longrightarrow> emits P (getSecret K key)"
  "(\<And>r. P (EvStatusPatch b n1 r)) \<Longrightarrow> emits P (patchStatus K b n1)"
  "(\<And>r. P (EvMetaPatch l b n1 r)) \<Longrightarrow> emits P (patchMeta K l b n1)"
  "(\<And>r. P (EvDeleteRun key r)) \<Longrightarrow> emits P (deleteRun K key)"
  "(\<And>r. P (EvGetResult key r)) \<Longrightarrow> emits P (getAnalysisResult K key)"
  "(\<And>r. P (EvGetResult key r)) \<Longrightarrow> emits P (getExecutionResult K key)"
  "(\<And>r. P (EvGetResult key r)) \<Longrightarrow> emits P (getVerificationResult K key)"
  "(\<And>r. P (EvGetResult key r)) \<Longrightarrow> emits P (getEscalationResult K key)"
  "(\<And>r. P (EvCreateResult obj r)) \<Longrightarrow> emits P (createResult K obj)"
  "(\<And>r. P (EvPatchResult b1 obj r)) \<Longrightarrow> emits P (patchResult K b1 obj)"
  "(\<And>r. P (EvDelete c k key r)) \<Longrightarrow> emits P (deleteObject K c k key)"
  "(\<And>r. P (EvListBindings c u st r)) \<Longrightarrow> emits P (listBindings K c u st)"
  "(\<And>r. P (EvNewClient rc r)) \<Longrightarrow> emits P (newClient K rc)"
  "(\<And>r. P (EvDeleteLogs u r)) \<Longrightarrow> emits P (deleteLogs K u)"
  "(\<And>r. P (EvContextDone r)) \<Longrightarrow> emits P (contextDone K)"
  "(\<And>r. P (EvCreateRbac c o1 r)) \<Longrightarrow> emits P (createRbac K c o1)"
  "(\<And>r. P (EvListPods ps r)) \<Longrightarrow> emits P (listPods K ps)"
  "(\<And>r. P (EvGetSandboxObject sk key r)) \<Longrightarrow> emits P (getSandboxObject K sk key)"
  "(\<And>r. P (EvListClaims r)) \<Longrightarrow> emits P (listClaims K)"
  by (simp_all add: request_defs emits_perform)

lemma emits_audit [emit]: "(present \<Longrightarrow> P (EvAudit call)) \<Longrightarrow> emits P (audit present call)"
  by (auto simp: audit_def intro!: emits_perform emits_return)

lemma wp_audit [wp]:
  assumes "b \<Longrightarrow> P h (EvAudit call)" and "\<And>es. Q () (h @ es)"
  shows "wp P (audit b call) Q h"
  using assms(1) assms(2) [of "[]"] assms(2) [of "[EvAudit call]"]
  by (cases b) (auto simp: audit_def wp_def)

section \<open>Condition helpers\<close>

text \<open>
  What the operator relies on from \<^verbatim>\<open>meta.FindStatusCondition\<close>, \<^verbatim>\<open>SetStatusCondition\<close> and
  \<^verbatim>\<open>RemoveStatusCondition\<close>: lookup by type, update or append of one type leaving the others alone, a
  transition time that moves only with the status, and removal of one type.
\<close>

locale status_conditions =
  fixes K :: kube
  assumes find_cond: "FindStatusCondition K cs t = get_condition cs t"
    and set_cond_same: "get_condition (SetStatusCondition K tm cs c) (cType c) =
       Some (c\<lparr>cLastTransitionTime :=
         (case get_condition cs (cType c) of
            Some old \<Rightarrow> if cStatus old = cStatus c then cLastTransitionTime old
                        else if IsZero (cLastTransitionTime c) then tm else cLastTransitionTime c
          | None \<Rightarrow> if IsZero (cLastTransitionTime c) then tm else cLastTransitionTime c)\<rparr>)"
    and set_cond_other: "t \<noteq> cType c \<Longrightarrow>
       get_condition (SetStatusCondition K tm cs c) t = get_condition cs t"
    and set_cond_members: "d \<in> set (SetStatusCondition K tm cs c) \<Longrightarrow>
       d \<in> set cs \<or> (cType d = cType c \<and> cStatus d = cStatus c \<and> cReason d = cReason c)"
    and set_cond_keeps: "d \<in> set cs \<Longrightarrow> cType d \<noteq> cType c \<Longrightarrow>
       d \<in> set (SetStatusCondition K tm cs c)"
    and set_cond_distinct: "distinct (map cType cs) \<Longrightarrow>
       distinct (map cType (SetStatusCondition K tm cs c))"
    and remove_cond: "get_condition (RemoveStatusCondition K cs t) u =
       (if u = t then None else get_condition cs u)"
    and remove_cond_members: "set (RemoveStatusCondition K cs t) = {d \<in> set cs. cType d \<noteq> t}"
    and remove_cond_distinct: "distinct (map cType cs) \<Longrightarrow>
       distinct (map cType (RemoveStatusCondition K cs t))"
begin

lemma set_cond_status:
  "\<exists>d. get_condition (SetStatusCondition K tm cs c) (cType c) = Some d \<and>
       cStatus d = cStatus c \<and> cReason d = cReason c \<and> cMessage d = cMessage c \<and>
       cObservedGeneration d = cObservedGeneration c"
  by (simp add: set_cond_same)

end

lemma get_condition_member: "get_condition cs t = Some c \<Longrightarrow> c \<in> set cs \<and> cType c = t"
  by (induction cs) (auto split: if_splits)

lemma get_condition_None: "get_condition cs t = None \<longleftrightarrow> (\<forall>c \<in> set cs. cType c \<noteq> t)"
  by (induction cs) auto

lemma get_condition_distinct:
  "distinct (map cType cs) \<Longrightarrow> c \<in> set cs \<Longrightarrow> get_condition cs (cType c) = Some c"
  by (induction cs) (auto simp: rev_image_eqI)

text \<open>Reference helpers, for evaluation: update in place or append, and filter.\<close>

definition ref_stamp :: "Time \<Rightarrow> Condition \<Rightarrow> Condition" where
  "ref_stamp t c = (if IsZero (cLastTransitionTime c) then c\<lparr>cLastTransitionTime := t\<rparr> else c)"

fun ref_set_condition :: "Time \<Rightarrow> Condition list \<Rightarrow> Condition \<Rightarrow> Condition list" where
  "ref_set_condition t [] c = [ref_stamp t c]"
| "ref_set_condition t (d # ds) c =
     (if cType d = cType c
      then (if cStatus d = cStatus c then c\<lparr>cLastTransitionTime := cLastTransitionTime d\<rparr> else ref_stamp t c) # ds
      else d # ref_set_condition t ds c)"

definition ref_remove_condition :: "Condition list \<Rightarrow> string \<Rightarrow> Condition list" where
  "ref_remove_condition cs t = filter (\<lambda>c. cType c \<noteq> t) cs"

definition ref_conditions :: "kube \<Rightarrow> kube" where
  "ref_conditions K = K\<lparr>FindStatusCondition := get_condition,
     SetStatusCondition := ref_set_condition, RemoveStatusCondition := ref_remove_condition\<rparr>"

lemma ref_conditions_simps [simp]:
  "FindStatusCondition (ref_conditions K) = get_condition"
  "SetStatusCondition (ref_conditions K) = ref_set_condition"
  "RemoveStatusCondition (ref_conditions K) = ref_remove_condition"
  by (simp_all add: ref_conditions_def)

lemma ref_set_members:
  "d \<in> set (ref_set_condition t cs c) \<Longrightarrow>
     d \<in> set cs \<or> (cType d = cType c \<and> cStatus d = cStatus c \<and> cReason d = cReason c)"
  by (induction cs) (auto simp: ref_stamp_def split: if_splits)

lemma ref_set_types: "set (map cType (ref_set_condition t cs c)) = insert (cType c) (set (map cType cs))"
  by (induction cs) (auto simp: ref_stamp_def)

interpretation ref_conds: status_conditions "ref_conditions K" for K
proof unfold_locales
  fix cs t tm c u d
  show "FindStatusCondition (ref_conditions K) cs t = get_condition cs t" by simp
  show "get_condition (SetStatusCondition (ref_conditions K) tm cs c) (cType c) =
       Some (c\<lparr>cLastTransitionTime :=
         (case get_condition cs (cType c) of
            Some old \<Rightarrow> if cStatus old = cStatus c then cLastTransitionTime old
                        else if IsZero (cLastTransitionTime c) then tm else cLastTransitionTime c
          | None \<Rightarrow> if IsZero (cLastTransitionTime c) then tm else cLastTransitionTime c)\<rparr>)"
    by (induction cs) (auto simp: ref_stamp_def)
  show "t \<noteq> cType c \<Longrightarrow>
       get_condition (SetStatusCondition (ref_conditions K) tm cs c) t = get_condition cs t"
    by (induction cs) (auto simp: ref_stamp_def)
  show "d \<in> set (SetStatusCondition (ref_conditions K) tm cs c) \<Longrightarrow>
       d \<in> set cs \<or> (cType d = cType c \<and> cStatus d = cStatus c \<and> cReason d = cReason c)"
    by (simp add: ref_set_members)
  show "d \<in> set cs \<Longrightarrow> cType d \<noteq> cType c \<Longrightarrow> d \<in> set (SetStatusCondition (ref_conditions K) tm cs c)"
    by (induction cs) auto
  show "distinct (map cType cs) \<Longrightarrow> distinct (map cType (SetStatusCondition (ref_conditions K) tm cs c))"
    using ref_set_types [of tm _ c] by (induction cs) (auto simp: ref_stamp_def)
  show "get_condition (RemoveStatusCondition (ref_conditions K) cs t) u = (if u = t then None else get_condition cs u)"
    by (induction cs) (auto simp: ref_remove_condition_def)
  show "set (RemoveStatusCondition (ref_conditions K) cs t) = {d \<in> set cs. cType d \<noteq> t}"
    by (auto simp: ref_remove_condition_def)
  show "distinct (map cType cs) \<Longrightarrow> distinct (map cType (RemoveStatusCondition (ref_conditions K) cs t))"
    by (simp add: ref_remove_condition_def distinct_map_filter)
qed

end
