(* ===== verification/RunState.thy ===== *)
theory RunState
  imports KubeApi
begin

text \<open>
  The state predicates of an AgenticRun and the guarded reads: \<^verbatim>\<open>controller/agenticrun/helpers.go\<close>
  and the pure parts of \<^verbatim>\<open>handlers.go\<close>, \<^verbatim>\<open>pod_handler.go\<close>, \<^verbatim>\<open>limits.go\<close> and \<^verbatim>\<open>sandbox_agent.go\<close>.

  The central facts are about stop acceptance. A run whose stop was accepted must receive no further
  workflow work: \<open>readRunnableRun\<close> is the guard in front of every such write, and the lemmas below
  say what it guarantees and which condition updates leave an accepted stop in place.
\<close>

section \<open>Constants\<close>

definition preserveSandboxAnnotation :: string where
  [go_consts]: "preserveSandboxAnnotation = ''agentic.openshift.io/preserve-sandbox''"
definition rbacNamespacesAnnotation :: string where
  [go_consts]: "rbacNamespacesAnnotation = ''agentic.openshift.io/rbac-namespaces''"
definition terminalTTLLabel :: string where
  [go_consts]: "terminalTTLLabel = ''agentic.openshift.io/ttl-managed''"
definition rbacCleanupFinalizer :: string where
  [go_consts]: "rbacCleanupFinalizer = ''agentic.openshift.io/execution-rbac-cleanup''"
definition templogCleanupFinalizer :: string where
  [go_consts]: "templogCleanupFinalizer = ''agentic.openshift.io/templog-cleanup''"
definition templogCleanupAttemptsAnnotation :: string where
  [go_consts]: "templogCleanupAttemptsAnnotation = ''agentic.openshift.io/templog-cleanup-attempts''"

definition reasonInProgress :: string where
  [go_consts]: "reasonInProgress = ''InProgress''"
definition reasonFailed :: string where
  [go_consts]: "reasonFailed = ''Failed''"
definition reasonSkipped :: string where
  [go_consts]: "reasonSkipped = ''Skipped''"
definition reasonWorkflowFailed :: string where
  [go_consts]: "reasonWorkflowFailed = ''WorkflowResolutionFailed''"
definition reasonUserDenied :: string where
  [go_consts]: "reasonUserDenied = ''UserDenied''"
definition reasonRevising :: string where
  [go_consts]: "reasonRevising = ''Revising''"
definition reasonSystemSuspended :: string where
  [go_consts]: "reasonSystemSuspended = ''SystemSuspended''"
definition reasonTeardownComplete :: string where
  [go_consts]: "reasonTeardownComplete = ''TeardownComplete''"
definition reasonTeardownFailed :: string where
  [go_consts]: "reasonTeardownFailed = ''TeardownFailed''"
definition reasonEmergencyStopFailed :: string where
  [go_consts]: "reasonEmergencyStopFailed = ''EmergencyStopFailed''"
definition reasonNoActionRequired :: string where
  [go_consts]: "reasonNoActionRequired = ReasonNoActionRequired"

definition ReasonWaitingForSandbox :: string where
  [go_consts]: "ReasonWaitingForSandbox = ''WaitingForSandbox''"
definition ReasonRunning :: string where
  [go_consts]: "ReasonRunning = ''Running''"
definition ReasonSucceeded :: string where
  [go_consts]: "ReasonSucceeded = ''Succeeded''"
definition ReasonSandboxTimeout :: string where
  [go_consts]: "ReasonSandboxTimeout = ''SandboxTimeout''"
definition ReasonSandboxStartupTimeout :: string where
  [go_consts]: "ReasonSandboxStartupTimeout = ''SandboxStartupTimeout''"
definition ReasonSandboxFailed :: string where
  [go_consts]: "ReasonSandboxFailed = ''SandboxFailed''"
definition ReasonAgentTimeout :: string where
  [go_consts]: "ReasonAgentTimeout = ''AgentTimeout''"
definition ReasonToolResultSafetyInspectionFailed :: string where
  [go_consts]: "ReasonToolResultSafetyInspectionFailed = ''ToolResultSafetyInspectionFailed''"

definition templogMaxCleanupAttempts :: int where
  "templogMaxCleanupAttempts = 3"
definition templogCleanupRequeueAfter :: Duration where
  "templogCleanupRequeueAfter = 5 * Second"
definition suspensionRequeueAfter :: Duration where
  "suspensionRequeueAfter = 5 * Second"
definition SuspensionStopWindow :: Duration where
  "SuspensionStopWindow = 10 * Second"
definition cleanupTimeout :: Duration where
  "cleanupTimeout = 30 * Second"
definition maxCreateRetries :: nat where
  "maxCreateRetries = 3"
definition retryBaseDelay :: Duration where
  "retryBaseDelay = 5 * Second"

lemma stop_reasons_distinct [simp]:
  "reasonTeardownComplete \<noteq> reasonEmergencyStopFailed" "reasonTeardownFailed \<noteq> reasonEmergencyStopFailed"
  "reasonInProgress \<noteq> reasonEmergencyStopFailed" "reasonFailed \<noteq> reasonEmergencyStopFailed"
  "reasonSystemSuspended \<noteq> reasonEmergencyStopFailed" "reasonTeardownComplete \<noteq> reasonTeardownFailed"
  by (simp_all add: go_consts)

section \<open>Conditions of a run\<close>

text \<open>
  One \<open>meta.SetStatusCondition\<close> of a run at a given time: the observed generation is the run's own
  in every call of the source.
\<close>

definition with_condition ::
    "kube \<Rightarrow> Time \<Rightarrow> AgenticRun \<Rightarrow> string \<Rightarrow> ConditionStatus \<Rightarrow> string \<Rightarrow> string \<Rightarrow> AgenticRun" where
  "with_condition K t run typ st reason msg =
     set_conditions run (SetStatusCondition K t (conditions run)
       \<lparr>cType = typ, cStatus = st, cReason = reason, cMessage = msg,
        cObservedGeneration = mGeneration (rMeta run), cLastTransitionTime = 0\<rparr>)"

definition setCondition ::
    "kube \<Rightarrow> AgenticRun \<Rightarrow> string \<Rightarrow> ConditionStatus \<Rightarrow> string \<Rightarrow> string \<Rightarrow> AgenticRun op" where
  "setCondition K run typ st reason msg =
     do { t \<leftarrow> now K; State_Monad.return (with_condition K t run typ st reason msg) }"

definition without_condition :: "kube \<Rightarrow> AgenticRun \<Rightarrow> string \<Rightarrow> AgenticRun" where
  "without_condition K run typ = set_conditions run (RemoveStatusCondition K (conditions run) typ)"

lemma wp_setCondition [wp]:
  "(\<And>t. P h (EvNow t) \<and> Q (with_condition K t run typ st rs msg) (h @ [EvNow t])) \<Longrightarrow>
   wp P (setCondition K run typ st rs msg) Q h"
  unfolding setCondition_def by (auto intro!: wp)

lemma with_condition_frame [simp]:
  "rMeta (with_condition K t run typ st rs msg) = rMeta run"
  "rSpec (with_condition K t run typ st rs msg) = rSpec run"
  "steps (with_condition K t run typ st rs msg) = steps run"
  "suTerminalTime (rStatus (with_condition K t run typ st rs msg)) = suTerminalTime (rStatus run)"
  "suDeleteAfter (rStatus (with_condition K t run typ st rs msg)) = suDeleteAfter (rStatus run)"
  "suTokenUsage (rStatus (with_condition K t run typ st rs msg)) = suTokenUsage (rStatus run)"
  by (simp_all add: with_condition_def)

lemma without_condition_frame [simp]:
  "rMeta (without_condition K run typ) = rMeta run"
  "rSpec (without_condition K run typ) = rSpec run"
  "steps (without_condition K run typ) = steps run"
  by (simp_all add: without_condition_def)

definition preserveFailedSandbox :: "AgenticRun \<Rightarrow> bool" where
  "preserveFailedSandbox run \<longleftrightarrow>
     equal_fold (trim_space (lookup (mAnnotations (rMeta run)) preserveSandboxAnnotation)) ''true''"

definition HasFinalStopOutcome :: "kube \<Rightarrow> AgenticRun \<Rightarrow> bool" where
  "HasFinalStopOutcome K run \<longleftrightarrow>
     (case FindStatusCondition K (conditions run) AgenticRunConditionStopping of
        Some c \<Rightarrow> cStatus c = ConditionFalse \<and>
                  (cReason c = reasonTeardownComplete \<or> cReason c = reasonTeardownFailed)
      | None \<Rightarrow> False) \<or>
     (case FindStatusCondition K (conditions run) AgenticRunConditionEmergencyStopped of
        Some c \<Rightarrow> cStatus c = ConditionTrue | None \<Rightarrow> False) \<or>
     list_ex (\<lambda>c. cStatus c = ConditionFalse \<and> cReason c = reasonEmergencyStopFailed) (conditions run)"

definition HasAcceptedStop :: "kube \<Rightarrow> AgenticRun \<Rightarrow> bool" where
  "HasAcceptedStop K run \<longleftrightarrow>
     (case FindStatusCondition K (conditions run) AgenticRunConditionStopping of
        Some c \<Rightarrow> cStatus c = ConditionTrue \<and> cReason c = reasonSystemSuspended | None \<Rightarrow> False) \<or>
     HasFinalStopOutcome K run"

definition isTerminal :: "AgenticRunPhase \<Rightarrow> bool" where
  "isTerminal phase = (case phase of
      AgenticRunPhaseCompleted \<Rightarrow> True | AgenticRunPhaseFailed \<Rightarrow> True | AgenticRunPhaseDenied \<Rightarrow> True
    | AgenticRunPhaseEscalated \<Rightarrow> True | AgenticRunPhaseEmergencyStopped \<Rightarrow> True | _ \<Rightarrow> False)"

definition isNoActionRequired :: "kube \<Rightarrow> AgenticRun \<Rightarrow> bool" where
  "isNoActionRequired K run =
     (case FindStatusCondition K (conditions run) AgenticRunConditionAnalyzed of
        Some c \<Rightarrow> cStatus c = ConditionTrue \<and> cReason c = reasonNoActionRequired | None \<Rightarrow> False)"

definition needsRevision :: "kube \<Rightarrow> AgenticRun \<Rightarrow> bool" where
  "needsRevision K run =
     (if spRevisionFeedback (rSpec run) = '''' then False
      else case FindStatusCondition K (conditions run) AgenticRunConditionAnalyzed of
             None \<Rightarrow> False
           | Some analyzed \<Rightarrow> mGeneration (rMeta run) > cObservedGeneration analyzed)"

definition hasSandboxClaims :: "AgenticRun \<Rightarrow> bool" where
  "hasSandboxClaims run \<longleftrightarrow>
     sClaimName (ssSandbox (stAnalysis (steps run))) \<noteq> '''' \<or>
     sClaimName (ssSandbox (stExecution (steps run))) \<noteq> '''' \<or>
     sClaimName (ssSandbox (stVerification (steps run))) \<noteq> '''' \<or>
     sClaimName (ssSandbox (stEscalation (steps run))) \<noteq> ''''"

fun terminal_reason_of :: "Condition list \<Rightarrow> string" where
  "terminal_reason_of [] = ''''"
| "terminal_reason_of (c # cs) =
     (if cStatus c = ConditionFalse \<and> cReason c = reasonFailed then cMessage c
      else if cStatus c = ConditionTrue \<and>
              (cReason c = reasonUserDenied \<or> cReason c = reasonSystemSuspended \<or> cReason c = reasonNoActionRequired)
      then cMessage c
      else terminal_reason_of cs)"

definition terminalReason :: "AgenticRun \<Rightarrow> string" where
  "terminalReason run = terminal_reason_of (conditions run)"

definition setVerificationSkipped :: "kube \<Rightarrow> AgenticRun \<Rightarrow> AgenticRun op" where
  "setVerificationSkipped K run =
     setCondition K run AgenticRunConditionVerified ConditionTrue reasonSkipped
       ''Verification step not configured in workflow''"

definition resetExecutionAndVerification :: "StepsStatus \<Rightarrow> StepsStatus" where
  "resetExecutionAndVerification st =
     st\<lparr>stExecution := (stExecution st)\<lparr>ssSandbox := no_sandbox\<rparr>,
        stVerification := (stVerification st)\<lparr>ssSandbox := no_sandbox\<rparr>\<rparr>"

definition conditionTime :: "kube \<Rightarrow> Condition list \<Rightarrow> string \<Rightarrow> Time option" where
  "conditionTime K cs condType = map_option cLastTransitionTime (FindStatusCondition K cs condType)"

definition clearRunSandboxInfo :: "AgenticRunStatus \<Rightarrow> AgenticRunStatus" where
  "clearRunSandboxInfo status =
     status\<lparr>suSteps :=
       (suSteps status)\<lparr>stAnalysis := (stAnalysis (suSteps status))\<lparr>ssSandbox := no_sandbox\<rparr>,
          stExecution := (stExecution (suSteps status))\<lparr>ssSandbox := no_sandbox\<rparr>,
          stVerification := (stVerification (suSteps status))\<lparr>ssSandbox := no_sandbox\<rparr>,
          stEscalation := (stEscalation (suSteps status))\<lparr>ssSandbox := no_sandbox\<rparr>\<rparr>\<rparr>"

definition has_info :: "SandboxInfo \<Rightarrow> bool" where
  "has_info i \<longleftrightarrow> sClaimName i \<noteq> '''' \<or> sNamespace i \<noteq> ''''"

definition hasRunSandboxInfo :: "AgenticRun \<Rightarrow> bool" where
  "hasRunSandboxInfo run \<longleftrightarrow>
     has_info (ssSandbox (stAnalysis (steps run))) \<or> has_info (ssSandbox (stExecution (steps run))) \<or>
     has_info (ssSandbox (stVerification (steps run))) \<or> has_info (ssSandbox (stEscalation (steps run)))"

definition sandbox_evidence :: "string \<Rightarrow> SandboxInfo \<Rightarrow> string list" where
  "sandbox_evidence name info =
     (if sClaimName info \<noteq> '''' then [name @ '' sandbox '' @ sNamespace info @ ''/'' @ sClaimName info] else [])"

fun active_evidence :: "Condition list \<Rightarrow> string list" where
  "active_evidence [] = []"
| "active_evidence (c # cs) =
     (if cStatus c = ConditionUnknown \<and> cType c \<noteq> AgenticRunConditionStopping
      then [''active workflow condition '' @ cType c] else active_evidence cs)"

definition RemoteExecutionEvidence :: "AgenticRun \<Rightarrow> string list" where
  "RemoteExecutionEvidence run =
     (if spTargetCluster (rSpec run) = '''' then []
      else sandbox_evidence ''analysis'' (ssSandbox (stAnalysis (steps run))) @
           sandbox_evidence ''execution'' (ssSandbox (stExecution (steps run))) @
           sandbox_evidence ''verification'' (ssSandbox (stVerification (steps run))) @
           sandbox_evidence ''escalation'' (ssSandbox (stEscalation (steps run))) @
           (if lookup (mAnnotations (rMeta run)) rbacNamespacesAnnotation \<noteq> ''''
            then [''remote execution RBAC annotation''] else []) @
           active_evidence (conditions run))"

definition suspensionFailureCondition :: "AgenticRunPhase \<Rightarrow> string" where
  "suspensionFailureCondition phase = (case phase of
      AgenticRunPhasePending \<Rightarrow> AgenticRunConditionAnalyzed
    | AgenticRunPhaseAnalyzing \<Rightarrow> AgenticRunConditionAnalyzed
    | AgenticRunPhaseProposed \<Rightarrow> AgenticRunConditionExecuted
    | AgenticRunPhaseExecuting \<Rightarrow> AgenticRunConditionExecuted
    | AgenticRunPhaseVerifying \<Rightarrow> AgenticRunConditionVerified
    | AgenticRunPhaseEscalating \<Rightarrow> AgenticRunConditionEscalated
    | _ \<Rightarrow> '''')"

section \<open>Step names\<close>

definition stepConditionType :: "string \<Rightarrow> string" where
  "stepConditionType step =
     (if step = ''analysis'' then AgenticRunConditionAnalyzed
      else if step = ''execution'' then AgenticRunConditionExecuted
      else if step = ''verification'' then AgenticRunConditionVerified
      else if step = ''escalation'' then AgenticRunConditionEscalated
      else '''')"

definition isStepInProgress :: "kube \<Rightarrow> AgenticRun \<Rightarrow> string \<Rightarrow> bool" where
  "isStepInProgress K run condType =
     (case FindStatusCondition K (conditions run) condType of
        Some c \<Rightarrow> cStatus c = ConditionUnknown | None \<Rightarrow> False)"

definition sandboxClaimName :: "AgenticRun \<Rightarrow> string \<Rightarrow> string" where
  "sandboxClaimName run step =
     (if step = ''analysis'' then sClaimName (ssSandbox (stAnalysis (steps run)))
      else if step = ''execution'' then sClaimName (ssSandbox (stExecution (steps run)))
      else if step = ''verification'' then sClaimName (ssSandbox (stVerification (steps run)))
      else if step = ''escalation'' then sClaimName (ssSandbox (stEscalation (steps run)))
      else '''')"

definition stepString :: "SandboxStep \<Rightarrow> string" where
  "stepString step = (case step of
      SandboxStepAnalysis \<Rightarrow> ''analysis'' | SandboxStepExecution \<Rightarrow> ''execution''
    | SandboxStepVerification \<Rightarrow> ''verification'' | SandboxStepEscalation \<Rightarrow> ''escalation'')"

section \<open>Guarded reads and retries\<close>

definition readRunnableRun :: "kube \<Rightarrow> bool \<Rightarrow> ObjectKey \<Rightarrow> UID \<Rightarrow> (error + AgenticRun) op" where
  "readRunnableRun K reader key uid =
    (if \<not> reader then State_Monad.return (Inl (NewError ''uncached API reader is required before run workflow work''))
     else do {
       r \<leftarrow> getRun K key;
       case r of
         Inl e \<Rightarrow> State_Monad.return (Inl e)
       | Inr current \<Rightarrow>
           if mUID (rMeta current) \<noteq> uid \<or> HasAcceptedStop K current
           then State_Monad.return (Inl StopAccepted)
           else do {
             c \<leftarrow> getConfig K;
             case c of
               Inl e \<Rightarrow> if \<not> IsNotFound e then State_Monad.return (Inl e) else State_Monad.return (Inr current)
             | Inr config \<Rightarrow>
                 if olSuspended config then State_Monad.return (Inl StopAccepted)
                 else State_Monad.return (Inr current)
           }
     })"

definition isTransient :: "error \<Rightarrow> bool" where
  "isTransient e \<longleftrightarrow>
     err_reason e \<in> Some ` {ServerTimeout, RequestTimeout, TooManyRequests, ServiceUnavailable, InternalError, Conflict}
     \<or> as_net_error e"

definition retryBackoff :: "nat \<Rightarrow> Duration" where
  "retryBackoff attempt = retryBaseDelay * 2 ^ (attempt - 1)"

text \<open>The loop of \<open>retryOnTransient\<close>: the first argument counts the attempts that are left.\<close>

fun retry_attempts :: "kube \<Rightarrow> nat \<Rightarrow> (error + 'a) op \<Rightarrow> (error + 'a) op" where
  "retry_attempts K 0 fn = State_Monad.return (Inl (NewError ''''))"
| "retry_attempts K (Suc n) fn = do {
     r \<leftarrow> fn;
     case r of
       Inr x \<Rightarrow> State_Monad.return (Inr x)
     | Inl e \<Rightarrow>
         if \<not> isTransient e then State_Monad.return (Inl e)
         else if n = 0 then State_Monad.return (Inl e)
         else do {
           cancelled \<leftarrow> contextDone K;
           if cancelled then State_Monad.return (Inl (ContextError ''context canceled''))
           else retry_attempts K n fn
         }
   }"

definition retryOnTransient :: "kube \<Rightarrow> (error + 'a) op \<Rightarrow> (error + 'a) op" where
  "retryOnTransient K fn = retry_attempts K maxCreateRetries fn"

section \<open>The guard\<close>

text \<open>
  A successful guarded read: the run was read from the server at this key, has the expected UID and
  no accepted stop, and the system was not suspended when the configuration was read after it.
\<close>

definition runnable_at :: "kube \<Rightarrow> history \<Rightarrow> ObjectKey \<Rightarrow> UID \<Rightarrow> AgenticRun \<Rightarrow> history \<Rightarrow> bool" where
  "runnable_at K h key uid current h' \<longleftrightarrow>
     (\<exists>c. h' = h @ [EvGetRun key (Inr current), EvGetConfig c] \<and>
          on_get_run K h key = Inr current \<and> mUID (rMeta current) = uid \<and> \<not> HasAcceptedStop K current \<and>
          (case c of Inl e \<Rightarrow> IsNotFound e | Inr config \<Rightarrow> \<not> olSuspended config))"

lemma readRunnableRun_wp [wp]:
  assumes read: "\<And>r. P h (EvGetRun key r)" "\<And>r c. P (h @ [EvGetRun key r]) (EvGetConfig c)"
    and err: "\<And>e es. Q (Inl e) (h @ es)"
    and ok: "\<And>current h'. runnable_at K h key uid current h' \<Longrightarrow> Q (Inr current) h'"
  shows "wp P (readRunnableRun K reader key uid) Q h"
proof -
  have "\<And>e. Q (Inl e) h"
    using err [of _ "[]"] by simp
  then show ?thesis
    unfolding readRunnableRun_def
    by (cases "on_get_run K h key"; intro wp conjI; (rule read)?)
      (auto simp: runnable_at_def intro!: read err ok)
qed

section \<open>Accepted stops and phases\<close>

text \<open>A write to a workflow condition, as every guarded writer makes it.\<close>

definition workflow_write :: "string \<Rightarrow> ConditionStatus \<Rightarrow> string \<Rightarrow> bool" where
  "workflow_write typ st reason \<longleftrightarrow>
     typ \<noteq> AgenticRunConditionStopping \<and> typ \<noteq> AgenticRunConditionEmergencyStopped \<and>
     (st = ConditionFalse \<longrightarrow> reason \<noteq> reasonEmergencyStopFailed)"

text \<open>The two overriding conditions of \<open>DerivePhase\<close> only count when they are true.\<close>

definition is_true :: "Condition list \<Rightarrow> string \<Rightarrow> bool" where
  "is_true cs t \<longleftrightarrow> (case get_condition cs t of Some c \<Rightarrow> cStatus c = ConditionTrue | None \<Rightarrow> False)"

definition workflow_phase :: "Condition option \<Rightarrow> Condition option \<Rightarrow> Condition option \<Rightarrow> Condition option \<Rightarrow> AgenticRunPhase" where
  "workflow_phase escalated verified executed analyzed =
     (case escalated of
       Some c \<Rightarrow> (case cStatus c of ConditionUnknown \<Rightarrow> AgenticRunPhaseEscalating | _ \<Rightarrow> AgenticRunPhaseFailed)
     | None \<Rightarrow> (case verified of
         Some c \<Rightarrow> (case cStatus c of
             ConditionTrue \<Rightarrow> AgenticRunPhaseCompleted
           | ConditionUnknown \<Rightarrow> AgenticRunPhaseVerifying
           | _ \<Rightarrow> AgenticRunPhaseFailed)
       | None \<Rightarrow> (case executed of
           Some c \<Rightarrow> (case cStatus c of
               ConditionTrue \<Rightarrow> AgenticRunPhaseVerifying
             | ConditionUnknown \<Rightarrow> AgenticRunPhaseExecuting
             | _ \<Rightarrow> AgenticRunPhaseFailed)
         | None \<Rightarrow> (case analyzed of
             Some c \<Rightarrow> (case cStatus c of
                 ConditionTrue \<Rightarrow>
                   (if cReason c = ReasonNoActionRequired then AgenticRunPhaseCompleted
                    else AgenticRunPhaseProposed)
               | ConditionUnknown \<Rightarrow> AgenticRunPhaseAnalyzing
               | _ \<Rightarrow> AgenticRunPhaseFailed)
           | None \<Rightarrow> AgenticRunPhasePending))))"

lemma DerivePhase_alt:
  "DerivePhase cs =
     (if is_true cs AgenticRunConditionEmergencyStopped then AgenticRunPhaseEmergencyStopped
      else if is_true cs AgenticRunConditionEscalated then AgenticRunPhaseEscalated
      else if is_true cs AgenticRunConditionDenied then AgenticRunPhaseDenied
      else workflow_phase (get_condition cs AgenticRunConditionEscalated) (get_condition cs AgenticRunConditionVerified)
        (get_condition cs AgenticRunConditionExecuted) (get_condition cs AgenticRunConditionAnalyzed))"
  unfolding DerivePhase_def Let_def is_true_def workflow_phase_def by (rule refl)

lemma DerivePhase_cong:
  assumes "\<And>t. t \<in> set run_condition_types \<Longrightarrow> t \<noteq> AgenticRunConditionStopping \<Longrightarrow>
    get_condition cs t = get_condition ds t"
  shows "DerivePhase cs = DerivePhase ds"
  unfolding DerivePhase_alt is_true_def by (simp add: assms run_condition_types_def)

context status_conditions
begin

lemma with_condition_get:
  "get_condition (conditions (with_condition K t run typ st rs msg)) u =
     (if u = typ
      then Some \<lparr>cType = typ, cStatus = st, cReason = rs, cMessage = msg,
             cObservedGeneration = mGeneration (rMeta run),
             cLastTransitionTime = (case get_condition (conditions run) typ of
                Some old \<Rightarrow> if cStatus old = st then cLastTransitionTime old else t | None \<Rightarrow> t)\<rparr>
      else get_condition (conditions run) u)"
  using set_cond_same [of t "conditions run" "\<lparr>cType = typ, cStatus = st, cReason = rs, cMessage = msg,
        cObservedGeneration = mGeneration (rMeta run), cLastTransitionTime = 0\<rparr>"]
    set_cond_other [of u "\<lparr>cType = typ, cStatus = st, cReason = rs, cMessage = msg,
        cObservedGeneration = mGeneration (rMeta run), cLastTransitionTime = 0\<rparr>" t "conditions run"]
  by (auto simp: with_condition_def split: option.splits)

lemma without_condition_get:
  "get_condition (conditions (without_condition K run typ)) u =
     (if u = typ then None else get_condition (conditions run) u)"
  by (simp add: without_condition_def remove_cond)

lemma with_condition_members:
  "d \<in> set (conditions (with_condition K t run typ st rs msg)) \<Longrightarrow>
     d \<in> set (conditions run) \<or> (cType d = typ \<and> cStatus d = st \<and> cReason d = rs)"
  using set_cond_members by (fastforce simp: with_condition_def)

lemma workflow_write_no_stop:
  assumes "workflow_write typ st rs" and "\<not> HasAcceptedStop K run"
  shows "\<not> HasAcceptedStop K (with_condition K t run typ st rs msg)"
  using assms with_condition_members [of _ t run "typ" st rs msg]
  by (fastforce simp: HasAcceptedStop_def HasFinalStopOutcome_def find_cond with_condition_get
      workflow_write_def list_ex_iff split: option.splits)

lemma without_condition_no_stop:
  assumes "typ \<noteq> AgenticRunConditionStopping" "typ \<noteq> AgenticRunConditionEmergencyStopped"
    and "\<not> HasAcceptedStop K run"
  shows "\<not> HasAcceptedStop K (without_condition K run typ)"
  using assms
  by (auto simp: HasAcceptedStop_def HasFinalStopOutcome_def find_cond remove_cond
      without_condition_def list_ex_iff remove_cond_members split: option.splits)

lemma stopping_survives:
  assumes "typ \<noteq> AgenticRunConditionStopping"
    and "get_condition (conditions run) AgenticRunConditionStopping = Some c"
    and "cStatus c = ConditionTrue \<and> cReason c = reasonSystemSuspended \<or>
         cStatus c = ConditionFalse \<and> (cReason c = reasonTeardownComplete \<or> cReason c = reasonTeardownFailed)"
  shows "HasAcceptedStop K (with_condition K t run typ st rs msg)"
    and "HasAcceptedStop K (without_condition K run typ)"
  using assms
  by (auto simp: HasAcceptedStop_def HasFinalStopOutcome_def find_cond with_condition_get without_condition_get)

lemma stopping_keeps_phase:
  "DerivePhase (conditions (with_condition K t run AgenticRunConditionStopping st rs msg)) =
   DerivePhase (conditions run)"
  by (rule DerivePhase_cong) (simp add: with_condition_get)

lemma with_condition_is_true:
  "is_true (conditions (with_condition K t run typ st rs msg)) u =
     (if u = typ then st = ConditionTrue else is_true (conditions run) u)"
  by (simp add: is_true_def with_condition_get)

lemma teardown_failure_phase:
  assumes "\<not> isTerminal (DerivePhase (conditions run))"
  shows "DerivePhase (conditions (with_condition K t run
           (suspensionFailureCondition (DerivePhase (conditions run))) ConditionFalse rs msg)) = AgenticRunPhaseFailed"
proof -
  have "\<not> is_true (conditions run) AgenticRunConditionEmergencyStopped"
    "\<not> is_true (conditions run) AgenticRunConditionEscalated"
    "\<not> is_true (conditions run) AgenticRunConditionDenied"
    using assms by (auto simp: DerivePhase_alt isTerminal_def split: if_splits)
  with assms show ?thesis
    unfolding DerivePhase_alt
    by (auto simp: isTerminal_def with_condition_is_true with_condition_get workflow_phase_def suspensionFailureCondition_def
        split: option.splits ConditionStatus.splits if_splits)
qed

end

lemma isTerminal_iff:
  "isTerminal phase \<longleftrightarrow> phase \<in> {AgenticRunPhaseCompleted, AgenticRunPhaseFailed, AgenticRunPhaseDenied,
     AgenticRunPhaseEscalated, AgenticRunPhaseEmergencyStopped}"
  by (cases phase) (simp_all add: isTerminal_def)

lemma suspensionFailureCondition_workflow:
  "suspensionFailureCondition p \<noteq> AgenticRunConditionStopping"
  "suspensionFailureCondition p \<noteq> AgenticRunConditionEmergencyStopped"
  by (cases p; simp add: suspensionFailureCondition_def go_consts)+

lemma suspensionFailureCondition_nonterminal:
  "\<not> isTerminal p \<Longrightarrow> suspensionFailureCondition p \<noteq> ''''"
  by (cases p) (simp_all add: isTerminal_def suspensionFailureCondition_def go_consts)

text \<open>\<open>clearRunSandboxInfo\<close> empties exactly what \<open>hasRunSandboxInfo\<close> looks for.\<close>

lemma clearRunSandboxInfo_frame [simp]:
  "suConditions (clearRunSandboxInfo st) = suConditions st"
  "suTokenUsage (clearRunSandboxInfo st) = suTokenUsage st"
  "suTerminalTime (clearRunSandboxInfo st) = suTerminalTime st"
  "suDeleteAfter (clearRunSandboxInfo st) = suDeleteAfter st"
  by (simp_all add: clearRunSandboxInfo_def)

lemma cleared_no_info: "\<not> hasRunSandboxInfo (run\<lparr>rStatus := clearRunSandboxInfo (rStatus run)\<rparr>)"
  by (simp add: hasRunSandboxInfo_def clearRunSandboxInfo_def has_info_def no_sandbox_def)

end
