(* ===== verification/Server.thy ===== *)
theory Server
  imports RunState
begin

text \<open>
  What the operator relies on from the API server for AgenticRuns, and a reference server.

  The locale \<open>run_server\<close> states the server's contract for reads that bypass the cache and for status
  patches that carry the optimistic lock: a read returns the stored object, a locked patch succeeds
  only when the stored resource version is the one of its base, and a resource version identifies
  the contents of an object. From it follows the fact every guarded writer of the operator rests on:
  a successful patch replaces exactly the object its base was read from.

  The reference server keeps a world of objects and replays the history on it. It satisfies the
  contract for every initial world, and it is the server the worked examples run against.
\<close>

section \<open>Guarded writes\<close>

definition fresh_base :: "kube \<Rightarrow> history \<Rightarrow> AgenticRun \<Rightarrow> bool" where
  "fresh_base K h base \<longleftrightarrow> (\<exists>h1 h2 key. h = h1 @ h2 \<and> on_get_run K h1 key = Inr base)"

lemma fresh_baseI: "on_get_run K h key = Inr base \<Longrightarrow> fresh_base K (h @ es) base"
  by (auto simp: fresh_base_def)

lemma fresh_base_append [simp]: "fresh_base K h base \<Longrightarrow> fresh_base K (h @ es) base"
  by (force simp: fresh_base_def)

lemma runnable_fresh: "runnable_at K h key uid current h' \<Longrightarrow> fresh_base K h' current \<and> \<not> HasAcceptedStop K current"
  by (auto simp: runnable_at_def intro!: fresh_baseI)

text \<open>
  The discipline of the workflow writers: every status patch starts from a run that was read from
  the server during the operation and had no accepted stop then.
\<close>

definition guarded_write :: "kube \<Rightarrow> history \<Rightarrow> event \<Rightarrow> bool" where
  "guarded_write K h e \<longleftrightarrow>
     (case e of EvStatusPatch base new r \<Rightarrow> fresh_base K h base \<and> \<not> HasAcceptedStop K base | _ \<Rightarrow> True)"

lemma guarded_write_simps [simp]:
  "guarded_write K h (EvStatusPatch base new r) \<longleftrightarrow> fresh_base K h base \<and> \<not> HasAcceptedStop K base"
  "\<not> (\<exists>b n r. e = EvStatusPatch b n r) \<Longrightarrow> guarded_write K h e"
  by (auto simp: guarded_write_def split: event.splits)

locale run_server =
  fixes K :: kube and store :: "history \<Rightarrow> ObjectKey \<Rightarrow> AgenticRun option"
  assumes get_store: "on_get_run K h key = Inr r \<Longrightarrow> store h key = Some r"
    and store_key: "store h key = Some r \<Longrightarrow> run_key r = key"
    and patch_lock: "on_status_patch K h base new = Inr r \<Longrightarrow>
       \<exists>cur. store h (run_key base) = Some cur \<and> mResourceVersion (rMeta cur) = mResourceVersion (rMeta base)"
    and patch_store: "on_status_patch K h base new = Inr r \<Longrightarrow>
       store (h @ [EvStatusPatch base new (Inr r)]) (run_key base) = Some r \<and> rStatus r = rStatus new"
    and version_identity: "store h key = Some a \<Longrightarrow> store (h @ es) key = Some b \<Longrightarrow>
       mResourceVersion (rMeta a) = mResourceVersion (rMeta b) \<Longrightarrow> a = b"
begin

lemma patch_replaces_base:
  assumes "fresh_base K h base" and "on_status_patch K h base new = Inr r"
  shows "store h (run_key base) = Some base"
proof -
  obtain h1 h2 key where h: "h = h1 @ h2" and "on_get_run K h1 key = Inr base"
    using assms(1) by (auto simp: fresh_base_def)
  then have read: "store h1 key = Some base" and key: "run_key base = key"
    using get_store [of h1 key base] store_key [of h1 key base] by auto
  obtain cur where cur: "store h (run_key base) = Some cur"
    and "mResourceVersion (rMeta cur) = mResourceVersion (rMeta base)"
    using patch_lock [OF assms(2)] by auto
  then have "base = cur"
    using version_identity [OF read, of h2 cur] by (simp add: h key)
  with cur show ?thesis by simp
qed

text \<open>Along an operation whose writes are guarded, no successful patch replaces a stopped run.\<close>

lemma guarded_never_overwrites:
  assumes "good (guarded_write K) h (new_events m h)"
    and "i < length (new_events m h)"
    and "new_events m h ! i = EvStatusPatch base new (Inr r)"
    and "on_status_patch K (h @ take i (new_events m h)) base new = Inr r"
  shows "\<exists>cur. store (h @ take i (new_events m h)) (run_key base) = Some cur \<and> \<not> HasAcceptedStop K cur"
  using good_nth [OF assms(1,2)] assms(3) patch_replaces_base [OF _ assms(4)] by auto

end

section \<open>The reference server\<close>

record world =
  wNow :: Time
  wRuns :: "AgenticRun list"
  wConfig :: "AgenticOLSConfig option"
  wPolicy :: "ApprovalPolicy option"
  wApprovals :: "AgenticRunApproval list"
  wAgents :: "Agent list"
  wLLMs :: "LLMProvider list"
  wSecrets :: "(ObjectKey \<times> (string \<rightharpoonup> string)) list"
  wResults :: "ResultObject list"
  wPods :: "Pod list"
  wClaims :: "ObjectMeta list"

text \<open>A run that is being deleted is gone once its last finalizer is removed.\<close>

definition live :: "AgenticRun \<Rightarrow> bool" where
  "live r \<longleftrightarrow> IsZero (mDeletionTimestamp (rMeta r)) \<or> mFinalizers (rMeta r) \<noteq> []"

definition if_live :: "AgenticRun option \<Rightarrow> AgenticRun option" where
  "if_live x = (case x of Some r \<Rightarrow> if live r then Some r else None | None \<Rightarrow> None)"

definition find_run :: "world \<Rightarrow> ObjectKey \<Rightarrow> AgenticRun option" where
  "find_run W key = if_live (find (\<lambda>r. run_key r = key) (wRuns W))"

definition bump :: "AgenticRun \<Rightarrow> AgenticRun" where
  "bump r = r\<lparr>rMeta := (rMeta r)\<lparr>mResourceVersion := Suc (mResourceVersion (rMeta r))\<rparr>\<rparr>"

definition ref_status_patch :: "AgenticRun \<Rightarrow> AgenticRun \<Rightarrow> AgenticRun \<Rightarrow> AgenticRun" where
  "ref_status_patch base new r =
     (if live r \<and> run_key r = run_key base \<and> mResourceVersion (rMeta r) = mResourceVersion (rMeta base)
      then bump (r\<lparr>rStatus := rStatus new\<rparr>) else r)"

definition ref_meta_patch :: "bool \<Rightarrow> AgenticRun \<Rightarrow> AgenticRun \<Rightarrow> AgenticRun \<Rightarrow> AgenticRun" where
  "ref_meta_patch lock base new r =
     (if live r \<and> run_key r = run_key base \<and> (lock \<longrightarrow> mResourceVersion (rMeta r) = mResourceVersion (rMeta base))
      then bump (r\<lparr>rMeta := (rMeta r)\<lparr>mLabels := mLabels (rMeta new), mAnnotations := mAnnotations (rMeta new),
               mFinalizers := mFinalizers (rMeta new)\<rparr>\<rparr>)
      else r)"

definition ref_delete :: "ObjectKey \<Rightarrow> Time \<Rightarrow> AgenticRun \<Rightarrow> AgenticRun" where
  "ref_delete key t r =
     (if live r \<and> run_key r = key then bump (r\<lparr>rMeta := (rMeta r)\<lparr>mDeletionTimestamp := t\<rparr>\<rparr>) else r)"

fun result_kind :: "ResultObject \<Rightarrow> SandboxStep" where
  "result_kind (AnalysisResultObject r) = SandboxStepAnalysis"
| "result_kind (ExecutionResultObject r) = SandboxStepExecution"
| "result_kind (VerificationResultObject r) = SandboxStepVerification"
| "result_kind (EscalationResultObject r) = SandboxStepEscalation"

text \<open>\<open>Create\<close> ignores the status of an object whose status is a subresource.\<close>

fun without_status :: "ResultObject \<Rightarrow> ResultObject" where
  "without_status (AnalysisResultObject r) = AnalysisResultObject (r\<lparr>anConditions := [], anActionRequired := ActionRequiredUnset,
     anDiagnosis := no_diagnosis, anOptions := [], anSandbox := no_sandbox, anTokenUsage := no_tokens, anFailureReason := ''''\<rparr>)"
| "without_status (ExecutionResultObject r) = ExecutionResultObject (r\<lparr>xrConditions := [], xrActionsTaken := [],
     xrSandbox := no_sandbox, xrTokenUsage := no_tokens, xrFailureReason := ''''\<rparr>)"
| "without_status (VerificationResultObject r) = VerificationResultObject (r\<lparr>vrConditions := [], vrChecks := [],
     vrSummary := '''', vrSandbox := no_sandbox, vrTokenUsage := no_tokens, vrFailureReason := ''''\<rparr>)"
| "without_status (EscalationResultObject r) = EscalationResultObject (r\<lparr>erConditions := [], erSummary := '''',
     erContent := '''', erSandbox := no_sandbox, erTokenUsage := no_tokens, erFailureReason := ''''\<rparr>)"

definition same_result :: "ResultObject \<Rightarrow> ResultObject \<Rightarrow> bool" where
  "same_result a b \<longleftrightarrow> result_kind a = result_kind b \<and> meta_key (result_meta a) = meta_key (result_meta b)"

fun replay :: "world \<Rightarrow> event \<Rightarrow> world" where
  "replay W (EvStatusPatch base new r) = W\<lparr>wRuns := map (ref_status_patch base new) (wRuns W)\<rparr>"
| "replay W (EvMetaPatch lock base new r) = W\<lparr>wRuns := map (ref_meta_patch lock base new) (wRuns W)\<rparr>"
| "replay W (EvDeleteRun key r) = W\<lparr>wRuns := map (ref_delete key (wNow W)) (wRuns W)\<rparr>"
| "replay W (EvCreateApproval a (Inr b)) = W\<lparr>wApprovals := wApprovals W @ [b]\<rparr>"
| "replay W (EvCreateResult obj (Inr stored)) = W\<lparr>wResults := wResults W @ [stored]\<rparr>"
| "replay W (EvPatchResult base obj None) = W\<lparr>wResults := map (\<lambda>x. if same_result x obj then obj else x) (wResults W)\<rparr>"
| "replay W _ = W"

definition world_at :: "world \<Rightarrow> history \<Rightarrow> world" where
  "world_at W h = foldl replay W h"

lemma world_at_Nil [simp]: "world_at W [] = W"
  and world_at_snoc [simp]: "world_at W (h @ [e]) = replay (world_at W h) e"
  by (simp_all add: world_at_def)

definition missing :: error where
  "missing = StatusError NotFound ''not found''"

definition of_option :: "'a option \<Rightarrow> error + 'a" where
  "of_option x = (case x of None \<Rightarrow> Inl missing | Some y \<Rightarrow> Inr y)"

lemma of_option_simps [simp]: "of_option None = Inl missing" "of_option (Some x) = Inr x"
  by (simp_all add: of_option_def)

definition answer_status_patch :: "world \<Rightarrow> AgenticRun \<Rightarrow> AgenticRun \<Rightarrow> error + AgenticRun" where
  "answer_status_patch W base new =
     (case find_run W (run_key base) of
        None \<Rightarrow> Inl missing
      | Some r \<Rightarrow> if mResourceVersion (rMeta r) = mResourceVersion (rMeta base)
                  then Inr (ref_status_patch base new r) else Inl (StatusError Conflict ''conflict''))"

definition answer_meta_patch :: "world \<Rightarrow> bool \<Rightarrow> AgenticRun \<Rightarrow> AgenticRun \<Rightarrow> error + AgenticRun" where
  "answer_meta_patch W lock base new =
     (case find_run W (run_key base) of
        None \<Rightarrow> Inl missing
      | Some r \<Rightarrow> if lock \<longrightarrow> mResourceVersion (rMeta r) = mResourceVersion (rMeta base)
                  then Inr (ref_meta_patch lock base new r) else Inl (StatusError Conflict ''conflict''))"

definition answer_result :: "world \<Rightarrow> SandboxStep \<Rightarrow> ObjectKey \<Rightarrow> ResultObject option" where
  "answer_result W kind key = find (\<lambda>x. result_kind x = kind \<and> meta_key (result_meta x) = key) (wResults W)"

definition select_runs :: "(string \<times> string) option \<Rightarrow> AgenticRun list \<Rightarrow> AgenticRun list" where
  "select_runs sel rs =
     (case sel of None \<Rightarrow> filter live rs | Some (k, v) \<Rightarrow> filter (\<lambda>r. live r \<and> mLabels (rMeta r) k = Some v) rs)"

definition ref_server :: "world \<Rightarrow> kube" where
  "ref_server W = \<lparr>
     FindStatusCondition = get_condition,
     SetStatusCondition = ref_set_condition,
     RemoveStatusCondition = ref_remove_condition,
     on_now = (\<lambda>h. wNow W + int (length h)),
     on_get_run = (\<lambda>h key. of_option (find_run (world_at W h) key)),
     on_list_runs = (\<lambda>h sel. Inr (select_runs sel (wRuns (world_at W h)))),
     on_get_config = (\<lambda>h. of_option (wConfig W)),
     on_get_policy = (\<lambda>h. of_option (wPolicy W)),
     on_get_approval = (\<lambda>h key. of_option (find (\<lambda>a. meta_key (vMeta a) = key) (wApprovals (world_at W h)))),
     on_create_approval = (\<lambda>h a. Inr a),
     on_get_agent = (\<lambda>h n. of_option (find (\<lambda>a. agName a = n) (wAgents W))),
     on_get_llm = (\<lambda>h n. of_option (find (\<lambda>l. llName l = n) (wLLMs W))),
     on_get_secret = (\<lambda>h key. of_option (map_option snd (find (\<lambda>p. fst p = key) (wSecrets W)))),
     on_status_patch = (\<lambda>h base new. answer_status_patch (world_at W h) base new),
     on_meta_patch = (\<lambda>h lock base new. answer_meta_patch (world_at W h) lock base new),
     on_delete_run = (\<lambda>h key. case find_run (world_at W h) key of None \<Rightarrow> Some missing | Some _ \<Rightarrow> None),
     on_get_analysis = (\<lambda>h key. case answer_result (world_at W h) SandboxStepAnalysis key of
        Some (AnalysisResultObject r) \<Rightarrow> Inr r | _ \<Rightarrow> Inl missing),
     on_get_execution = (\<lambda>h key. case answer_result (world_at W h) SandboxStepExecution key of
        Some (ExecutionResultObject r) \<Rightarrow> Inr r | _ \<Rightarrow> Inl missing),
     on_get_verification = (\<lambda>h key. case answer_result (world_at W h) SandboxStepVerification key of
        Some (VerificationResultObject r) \<Rightarrow> Inr r | _ \<Rightarrow> Inl missing),
     on_get_escalation = (\<lambda>h key. case answer_result (world_at W h) SandboxStepEscalation key of
        Some (EscalationResultObject r) \<Rightarrow> Inr r | _ \<Rightarrow> Inl missing),
     on_create_result = (\<lambda>h obj.
        if list_ex (same_result obj) (wResults (world_at W h)) then Inl (StatusError AlreadyExists ''exists'')
        else Inr (without_status obj)),
     on_patch_result = (\<lambda>h base obj. None),
     on_delete = (\<lambda>h c k key. None),
     on_list_bindings = (\<lambda>h c uid step. Inr []),
     on_new_client = (\<lambda>h cfg. None),
     RESTConfigFromKubeConfig = (\<lambda>s. Inl (NewError ''invalid configuration'')),
     IsConfigTransportTLS = (\<lambda>c. True),
     LoadKubeconfig = (\<lambda>s. Inl (NewError ''invalid configuration'')),
     on_delete_logs = (\<lambda>h uid. None),
     on_context_done = (\<lambda>h. False),
     workloads = \<lparr>
       on_create_rbac = (\<lambda>h c obj. None),
       on_list_pods = (\<lambda>h sel. Inr (wPods W)),
       on_get_sandbox_object = (\<lambda>h kind key. of_option (find (\<lambda>m. meta_key m = key) (wClaims W))),
       on_list_claims = (\<lambda>h. Inr (wClaims W))\<rparr>\<rparr>"

text \<open>The answers of the reference server, one at a time.\<close>

lemma ref_server_answers:
  "FindStatusCondition (ref_server W) = get_condition"
  "SetStatusCondition (ref_server W) = ref_set_condition"
  "RemoveStatusCondition (ref_server W) = ref_remove_condition"
  "on_now (ref_server W) h = wNow W + int (length h)"
  "on_get_run (ref_server W) h key = of_option (find_run (world_at W h) key)"
  "on_list_runs (ref_server W) h sel = Inr (select_runs sel (wRuns (world_at W h)))"
  "on_get_config (ref_server W) h = of_option (wConfig W)"
  "on_get_policy (ref_server W) h = of_option (wPolicy W)"
  "on_get_approval (ref_server W) h key = of_option (find (\<lambda>a. meta_key (vMeta a) = key) (wApprovals (world_at W h)))"
  "on_create_approval (ref_server W) h a = Inr a"
  "on_get_agent (ref_server W) h n = of_option (find (\<lambda>a. agName a = n) (wAgents W))"
  "on_get_llm (ref_server W) h n = of_option (find (\<lambda>l. llName l = n) (wLLMs W))"
  "on_get_secret (ref_server W) h key = of_option (map_option snd (find (\<lambda>p. fst p = key) (wSecrets W)))"
  "on_status_patch (ref_server W) h base new = answer_status_patch (world_at W h) base new"
  "on_meta_patch (ref_server W) h lock base new = answer_meta_patch (world_at W h) lock base new"
  "on_delete_run (ref_server W) h key = (case find_run (world_at W h) key of None \<Rightarrow> Some missing | Some _ \<Rightarrow> None)"
  by (simp_all add: ref_server_def)

lemma ref_server_conditions: "ref_server W = ref_conditions (ref_server W)"
  by (simp add: ref_server_def ref_conditions_def)

interpretation ref_server_conds: status_conditions "ref_server W" for W
  by (subst ref_server_conditions) (rule ref_conds.status_conditions_axioms)

subsection \<open>The reference server satisfies the contract\<close>

lemma find_map_key:
  "(\<And>r. run_key (g r) = run_key r) \<Longrightarrow>
   find (\<lambda>r. run_key r = key) (map g rs) = map_option g (find (\<lambda>r. run_key r = key) rs)"
  by (induction rs) auto

lemma ref_patch_keys [simp]:
  "mName (rMeta (ref_status_patch b n r)) = mName (rMeta r)" "mNamespace (rMeta (ref_status_patch b n r)) = mNamespace (rMeta r)"
  "mName (rMeta (ref_meta_patch l b n r)) = mName (rMeta r)" "mNamespace (rMeta (ref_meta_patch l b n r)) = mNamespace (rMeta r)"
  "mName (rMeta (ref_delete k t r)) = mName (rMeta r)" "mNamespace (rMeta (ref_delete k t r)) = mNamespace (rMeta r)"
  by (simp_all add: ref_status_patch_def ref_meta_patch_def ref_delete_def bump_def)

text \<open>The fate of one stored object under one event: kept, replaced by a later version, or removed.\<close>

inductive evolves :: "AgenticRun option \<Rightarrow> AgenticRun option \<Rightarrow> bool" where
  keep: "evolves x x"
| change: "mResourceVersion (rMeta a) < mResourceVersion (rMeta b) \<Longrightarrow> evolves (Some a) (Some b)"
| remove: "evolves (Some a) None"

inductive_simps evolves_simps: "evolves x (Some b)" "evolves None x"

lemma evolves_trans: "evolves x y \<Longrightarrow> evolves y z \<Longrightarrow> evolves x z"
  by (auto elim!: evolves.cases intro: evolves.intros)

lemma evolves_same_version:
  "evolves (Some a) (Some b) \<Longrightarrow> mResourceVersion (rMeta a) = mResourceVersion (rMeta b) \<Longrightarrow> a = b"
  by (auto simp: evolves_simps)

lemma evolves_patch:
  "evolves (if_live x) (if_live (map_option (ref_status_patch base new) x))"
  "evolves (if_live x) (if_live (map_option (ref_meta_patch lock base new) x))"
  "evolves (if_live x) (if_live (map_option (ref_delete k t) x))"
  by (cases x; auto simp: if_live_def ref_status_patch_def ref_meta_patch_def ref_delete_def bump_def
      intro: evolves.intros)+

lemma evolves_replay: "evolves (find_run W key) (find_run (replay W e) key)"
  by (induction W e rule: replay.induct)
    (auto simp: find_run_def find_map_key evolves_patch intro: evolves.keep)

lemma evolves_world_at: "evolves (find_run (world_at W h) key) (find_run (world_at W (h @ es)) key)"
proof (induction es rule: rev_induct)
  case Nil
  then show ?case by (simp add: evolves.keep)
next
  case (snoc e es)
  have "evolves (find_run (world_at W (h @ es)) key) (find_run (world_at W (h @ es @ [e])) key)"
    using evolves_replay [of "world_at W (h @ es)" key e] by (simp flip: append_assoc)
  then show ?case using snoc evolves_trans by blast
qed

lemma find_run_key: "find_run W key = Some r \<Longrightarrow> run_key r = key \<and> live r"
  by (auto simp: find_run_def if_live_def find_Some_iff split: option.splits if_splits)

lemma find_run_map:
  "(\<And>r. run_key (g r) = run_key r) \<Longrightarrow>
   find_run (W\<lparr>wRuns := map g (wRuns W)\<rparr>) key = if_live (map_option g (find (\<lambda>r. run_key r = key) (wRuns W)))"
  by (simp add: find_run_def find_map_key)

lemma status_patch_stored:
  assumes cur: "find_run W (run_key base) = Some cur"
    and rv: "mResourceVersion (rMeta cur) = mResourceVersion (rMeta base)"
  shows "find_run (replay W (EvStatusPatch base new r)) (run_key base) = Some (ref_status_patch base new cur)"
    and "rStatus (ref_status_patch base new cur) = rStatus new"
proof -
  obtain key where key: "run_key base = key" by simp
  have "find (\<lambda>r. run_key r = key) (wRuns W) = Some cur" "live cur" "run_key cur = key"
    using cur find_run_key [OF cur] unfolding key
    by (auto simp: find_run_def if_live_def split: option.splits if_splits)
  with rv show "find_run (replay W (EvStatusPatch base new r)) (run_key base) = Some (ref_status_patch base new cur)"
    and "rStatus (ref_status_patch base new cur) = rStatus new"
    unfolding key
    by (auto simp: find_run_map if_live_def ref_status_patch_def bump_def live_def key [symmetric])
qed

interpretation ref_server_store: run_server "ref_server W" "\<lambda>h. find_run (world_at W h)" for W
proof
  fix h es key a b r base new
  show "on_get_run (ref_server W) h key = Inr r \<Longrightarrow> find_run (world_at W h) key = Some r"
    by (auto simp: ref_server_def of_option_def split: option.splits)
  show "find_run (world_at W h) key = Some r \<Longrightarrow> run_key r = key"
    using find_run_key by blast
  assume patch: "on_status_patch (ref_server W) h base new = Inr r"
  then obtain cur where cur: "find_run (world_at W h) (run_key base) = Some cur"
    and rv: "mResourceVersion (rMeta cur) = mResourceVersion (rMeta base)"
    and r: "r = ref_status_patch base new cur"
    by (auto simp: ref_server_def answer_status_patch_def split: option.splits if_splits)
  then show "\<exists>cur. find_run (world_at W h) (run_key base) = Some cur \<and>
      mResourceVersion (rMeta cur) = mResourceVersion (rMeta base)" by blast
  show "find_run (world_at W (h @ [EvStatusPatch base new (Inr r)])) (run_key base) = Some r \<and> rStatus r = rStatus new"
    using status_patch_stored [OF cur rv] by (simp add: r)
next
  fix h es key a b
  assume "find_run (world_at W h) key = Some a" "find_run (world_at W (h @ es)) key = Some b"
    "mResourceVersion (rMeta a) = mResourceVersion (rMeta b)"
  then show "a = b"
    using evolves_world_at [of W h key es] evolves_same_version by simp
qed

section \<open>Sample objects\<close>

definition no_meta :: ObjectMeta where
  "no_meta = \<lparr>mName = '''', mNamespace = '''', mUID = '''', mResourceVersion = 0, mGeneration = 1,
      mCreationTimestamp = 0, mDeletionTimestamp = 0, mLabels = Map.empty,
      mAnnotations = Map.empty, mFinalizers = [], mOwnerReferences = []\<rparr>"

definition no_step_status :: AnalysisStepStatus where
  "no_step_status = \<lparr>ssConditions = [], ssSandbox = no_sandbox, ssResults = []\<rparr>"

definition no_status :: AgenticRunStatus where
  "no_status = \<lparr>suConditions = [],
     suSteps = \<lparr>stAnalysis = no_step_status, stExecution = no_step_status,
                stVerification = no_step_status, stEscalation = no_step_status\<rparr>,
     suTokenUsage = no_tokens, suTerminalTime = None, suDeleteAfter = None\<rparr>"

text \<open>A run as a user creates it, with all steps configured.\<close>

definition sample_run :: AgenticRun where
  "sample_run = \<lparr>
     rMeta = no_meta\<lparr>mName := ''fix-node'', mNamespace := ''openshift-lightspeed'', mUID := ''u-1''\<rparr>,
     rSpec = \<lparr>spRequest = ''node is not ready'', spTargetCluster = '''',
       spAnalysisOutput = \<lparr>aoMode = AnalysisOutputModeUnset, aoSchema = None\<rparr>,
       spTools = \<lparr>toSkills = [], toMCPServers = [], toRequiredSecrets = []\<rparr>,
       spAnalysis = \<lparr>arAgent = ''smart''\<rparr>, spExecution = \<lparr>arAgent = ''smart''\<rparr>,
       spVerification = \<lparr>arAgent = ''smart''\<rparr>, spRevisionFeedback = '''', spTerminalTTL = None\<rparr>,
     rStatus = no_status\<rparr>"

definition cond :: "string \<Rightarrow> ConditionStatus \<Rightarrow> string \<Rightarrow> Condition" where
  "cond t s r = \<lparr>cType = t, cStatus = s, cReason = r, cMessage = '''', cObservedGeneration = 1,
     cLastTransitionTime = 1000\<rparr>"

definition empty_world :: world where
  "empty_world = \<lparr>wNow = 1000000000000, wRuns = [], wConfig = None, wPolicy = None, wApprovals = [], wAgents = [],
     wLLMs = [], wSecrets = [], wResults = [], wPods = [], wClaims = []\<rparr>"

abbreviation finalizing :: "AgenticRun \<Rightarrow> AgenticRun" where
  "finalizing run \<equiv> set_finalizers run [rbacCleanupFinalizer, templogCleanupFinalizer]"

lemmas sample_defs =
  no_meta_def no_step_status_def no_status_def sample_run_def cond_def empty_world_def no_tokens_def
  no_sandbox_def no_diagnosis_def

lemmas server_defs =
  ref_server_def find_run_def if_live_def live_def world_at_def answer_status_patch_def answer_meta_patch_def
  ref_status_patch_def ref_meta_patch_def ref_delete_def bump_def answer_result_def select_runs_def
  missing_def of_option_def

end
