(* ===== verification/Results.thy ===== *)
theory Results
  imports Server
begin

text \<open>
  Result resources: \<^verbatim>\<open>controller/agenticrun/results.go\<close>, the outputs of \<^verbatim>\<open>agent.go\<close>, and the name
  helpers of \<^verbatim>\<open>rbac.go\<close>.

  Names are cut to 63 bytes. The lemmas say when that keeps them apart (results of runs with short
  names have distinct names) and when it does not (from 63 bytes on, every result of a run gets the
  same name). \<open>createIdempotent\<close> writes the whole status whether the resource is new or already there.
\<close>

section \<open>Names\<close>

definition LabelStep :: string where
  [go_consts]: "LabelStep = ''agentic.openshift.io/step''"
definition LabelRun :: string where
  [go_consts]: "LabelRun = ''agentic.openshift.io/run''"
definition LabelComponent :: string where
  [go_consts]: "LabelComponent = ''agentic.openshift.io/component''"
definition AnnotationRunName :: string where
  [go_consts]: "AnnotationRunName = ''agentic.openshift.io/run-name''"

definition truncateK8sName :: "string \<Rightarrow> string" where
  "truncateK8sName name =
     (if length name > 63 then trim_right (\<lambda>c. c \<in> set ''-._'') (take 63 name) else name)"

definition resultCRName :: "string \<Rightarrow> string \<Rightarrow> nat \<Rightarrow> string" where
  "resultCRName agenticRunName step index =
     truncateK8sName (agenticRunName @ ''-'' @ step @ ''-'' @ decimal index)"

definition nextResultIndex :: "AgenticRun \<Rightarrow> string \<Rightarrow> nat" where
  "nextResultIndex run step =
     (if step = ''analysis'' then length (ssResults (stAnalysis (steps run))) + 1
      else if step = ''execution'' then length (ssResults (stExecution (steps run))) + 1
      else if step = ''verification'' then length (ssResults (stVerification (steps run))) + 1
      else if step = ''escalation'' then length (ssResults (stEscalation (steps run))) + 1
      else 1)"

definition agenticRunOwnerRef :: "AgenticRun \<Rightarrow> OwnerReference" where
  "agenticRunOwnerRef run =
     \<lparr>oAPIVersion = ''agentic.openshift.io/v1alpha1'', oKind = ''AgenticRun'', oName = mName (rMeta run),
      oUID = mUID (rMeta run), oController = True, oBlockOwnerDeletion = False\<rparr>"

definition resultLabels :: "string \<Rightarrow> string \<Rightarrow> string \<rightharpoonup> string" where
  "resultLabels runUID step = [LabelRun \<mapsto> runUID, LabelStep \<mapsto> step]"

section \<open>Building results\<close>

definition maxResultFailureReason :: nat where
  "maxResultFailureReason = 8192"

fun valid_limit :: "string \<Rightarrow> nat \<Rightarrow> nat" where
  "valid_limit reason 0 = 0"
| "valid_limit reason (Suc limit) =
     (if valid_string (take (Suc limit) reason) then Suc limit else valid_limit reason limit)"

definition boundedFailureReason :: "string \<Rightarrow> string" where
  "boundedFailureReason reason =
     (if length reason \<le> maxResultFailureReason then reason
      else trim_space (take (valid_limit reason (maxResultFailureReason - length ''...'')) reason) @ ''...'')"

definition resultConditions :: "Time option \<Rightarrow> Time \<Rightarrow> ActionOutcome \<Rightarrow> Condition list" where
  "resultConditions startTime completionTime outcome =
     (case startTime of
        None \<Rightarrow> []
      | Some t \<Rightarrow> [\<lparr>cType = ResultConditionStarted, cStatus = ConditionTrue, cReason = ResultReasonStepStarted,
                    cMessage = '''', cObservedGeneration = 0, cLastTransitionTime = t\<rparr>]) @
     [\<lparr>cType = ResultConditionCompleted, cStatus = ConditionTrue,
       cReason = (if outcome = ActionOutcomeSucceeded then ResultReasonSucceeded else ResultReasonFailed),
       cMessage = '''', cObservedGeneration = 0, cLastTransitionTime = completionTime\<rparr>]"

record AnalysisOutput =
  oaSuccess :: bool
  oaSummary :: string
  oaActionRequired :: "bool option"
  oaOptions :: "RemediationOption list"
  oaDiagnosis :: "DiagnosisResult option"

definition IsActionRequired :: "AnalysisOutput \<Rightarrow> bool" where
  "IsActionRequired a = (case oaActionRequired a of None \<Rightarrow> True | Some b \<Rightarrow> b)"

record VerificationOutput =
  ovSuccess :: bool
  ovChecks :: "VerifyCheck list"
  ovSummary :: string

record EscalationOutput =
  oeSuccess :: bool
  oeSummary :: string
  oeContent :: string

text \<open>\<open>copyResultStatus(dst, src)\<close> and the condition setters; the default branch leaves \<open>dst\<close> alone.\<close>

fun copyResultStatus :: "ResultObject \<Rightarrow> ResultObject \<Rightarrow> ResultObject" where
  "copyResultStatus (AnalysisResultObject d) (AnalysisResultObject s) = AnalysisResultObject
     (d\<lparr>anOptions := anOptions s, anActionRequired := anActionRequired s, anDiagnosis := anDiagnosis s,
        anTokenUsage := anTokenUsage s, anFailureReason := anFailureReason s, anSandbox := anSandbox s\<rparr>)"
| "copyResultStatus (ExecutionResultObject d) (ExecutionResultObject s) = ExecutionResultObject
     (d\<lparr>xrActionsTaken := xrActionsTaken s, xrTokenUsage := xrTokenUsage s,
        xrFailureReason := xrFailureReason s, xrSandbox := xrSandbox s\<rparr>)"
| "copyResultStatus (VerificationResultObject d) (VerificationResultObject s) = VerificationResultObject
     (d\<lparr>vrChecks := vrChecks s, vrSummary := vrSummary s, vrTokenUsage := vrTokenUsage s,
        vrFailureReason := vrFailureReason s, vrSandbox := vrSandbox s\<rparr>)"
| "copyResultStatus (EscalationResultObject d) (EscalationResultObject s) = EscalationResultObject
     (d\<lparr>erSummary := erSummary s, erContent := erContent s, erTokenUsage := erTokenUsage s,
        erFailureReason := erFailureReason s, erSandbox := erSandbox s\<rparr>)"
| "copyResultStatus d s = d"

fun GetConditions :: "ResultObject \<Rightarrow> Condition list" where
  "GetConditions (AnalysisResultObject r) = anConditions r"
| "GetConditions (ExecutionResultObject r) = xrConditions r"
| "GetConditions (VerificationResultObject r) = vrConditions r"
| "GetConditions (EscalationResultObject r) = erConditions r"

fun SetConditions :: "ResultObject \<Rightarrow> Condition list \<Rightarrow> ResultObject" where
  "SetConditions (AnalysisResultObject r) cs = AnalysisResultObject (r\<lparr>anConditions := cs\<rparr>)"
| "SetConditions (ExecutionResultObject r) cs = ExecutionResultObject (r\<lparr>xrConditions := cs\<rparr>)"
| "SetConditions (VerificationResultObject r) cs = VerificationResultObject (r\<lparr>vrConditions := cs\<rparr>)"
| "SetConditions (EscalationResultObject r) cs = EscalationResultObject (r\<lparr>erConditions := cs\<rparr>)"

fun set_result_meta :: "ResultObject \<Rightarrow> ObjectMeta \<Rightarrow> ResultObject" where
  "set_result_meta (AnalysisResultObject r) m = AnalysisResultObject (r\<lparr>anMeta := m\<rparr>)"
| "set_result_meta (ExecutionResultObject r) m = ExecutionResultObject (r\<lparr>xrMeta := m\<rparr>)"
| "set_result_meta (VerificationResultObject r) m = VerificationResultObject (r\<lparr>vrMeta := m\<rparr>)"
| "set_result_meta (EscalationResultObject r) m = EscalationResultObject (r\<lparr>erMeta := m\<rparr>)"

text \<open>\<open>c.Get\<close> into an object of the same type.\<close>

fun getResultLike :: "kube \<Rightarrow> ResultObject \<Rightarrow> (error + ResultObject) op" where
  "getResultLike K (AnalysisResultObject r) =
     do { x \<leftarrow> getAnalysisResult K (meta_key (anMeta r)); State_Monad.return (map_sum id AnalysisResultObject x) }"
| "getResultLike K (ExecutionResultObject r) =
     do { x \<leftarrow> getExecutionResult K (meta_key (xrMeta r)); State_Monad.return (map_sum id ExecutionResultObject x) }"
| "getResultLike K (VerificationResultObject r) =
     do { x \<leftarrow> getVerificationResult K (meta_key (vrMeta r)); State_Monad.return (map_sum id VerificationResultObject x) }"
| "getResultLike K (EscalationResultObject r) =
     do { x \<leftarrow> getEscalationResult K (meta_key (erMeta r)); State_Monad.return (map_sum id EscalationResultObject x) }"

text \<open>Returns what \<open>obj\<close> holds afterwards.\<close>

definition createIdempotent :: "kube \<Rightarrow> ResultObject \<Rightarrow> string \<Rightarrow> (error + ResultObject) op" where
  "createIdempotent K obj kind =
    (let withStatus = obj; name = mName (result_meta obj) in
     do {
       created \<leftarrow> createResult K obj;
       case created of
         Inl err \<Rightarrow>
           if IsAlreadyExists err then do {
             got \<leftarrow> getResultLike K obj;
             case got of
               Inl getErr \<Rightarrow> State_Monad.return (Inl (WrapError (''get existing '' @ kind @ '' '' @ name) getErr))
             | Inr existing \<Rightarrow>
                 let patched = copyResultStatus (SetConditions existing (GetConditions withStatus)) withStatus in
                 do {
                   patchErr \<leftarrow> patchResult K existing patched;
                   case patchErr of
                     Some e \<Rightarrow> State_Monad.return (Inl (WrapError (''update existing '' @ kind @ '' '' @ name @ '' status'') e))
                   | None \<Rightarrow> State_Monad.return (Inr (set_result_meta obj
                       ((result_meta obj)\<lparr>mUID := mUID (result_meta existing),
                          mCreationTimestamp := mCreationTimestamp (result_meta existing)\<rparr>)))
                 }
           }
           else State_Monad.return (Inl (WrapError (''create '' @ kind @ '' '' @ name) err))
       | Inr obj' \<Rightarrow> do {
           patchErr \<leftarrow> patchResult K obj' (set_result_meta withStatus
              ((result_meta withStatus)\<lparr>mResourceVersion := mResourceVersion (result_meta obj')\<rparr>));
           case patchErr of
             Some e \<Rightarrow> State_Monad.return (Inl (WrapError (''patch '' @ kind @ '' '' @ mName (result_meta obj') @ '' status'') e))
           | None \<Rightarrow> State_Monad.return (Inr obj')
         }
     })"

definition new_result_meta :: "string \<Rightarrow> string \<Rightarrow> AgenticRun \<Rightarrow> string \<Rightarrow> ObjectMeta" where
  "new_result_meta crName namespace run step =
     \<lparr>mName = crName, mNamespace = namespace, mUID = '''', mResourceVersion = 0, mGeneration = 0,
      mCreationTimestamp = 0, mDeletionTimestamp = 0, mLabels = resultLabels (mUID (rMeta run)) step,
      mAnnotations = Map.empty, mFinalizers = [], mOwnerReferences = [agenticRunOwnerRef run]\<rparr>"

text \<open>The snapshot the callers get back: the object as built, with the server's UID and creation time.\<close>

definition snapshot_meta :: "ObjectMeta \<Rightarrow> ResultObject \<Rightarrow> ObjectMeta" where
  "snapshot_meta m stored =
     m\<lparr>mUID := mUID (result_meta stored), mCreationTimestamp := mCreationTimestamp (result_meta stored)\<rparr>"

definition createAnalysisResult ::
    "kube \<Rightarrow> string \<Rightarrow> AgenticRun \<Rightarrow> AnalysisOutput option \<Rightarrow> SandboxInfo \<Rightarrow> Time option \<Rightarrow> Time option \<Rightarrow>
     string \<Rightarrow> (string \<times> (error + AnalysisResult)) op" where
  "createAnalysisResult K namespace run result sandbox startTime completionTime failureReason =
    (let crName = resultCRName (mName (rMeta run)) ''analysis'' (length (ssResults (stAnalysis (steps run))) + 1);
         outcome = (case result of None \<Rightarrow> ActionOutcomeFailed | Some o1 \<Rightarrow> ActionOutcomeFromBool (oaSuccess o1)) in
     do {
       t \<leftarrow> now K;
       let completedAt = (case completionTime of None \<Rightarrow> t | Some c \<Rightarrow> c);
       let meta = new_result_meta crName namespace run ''analysis'';
       let cr = \<lparr>anMeta = meta, anAgenticRunName = mName (rMeta run),
                 anConditions = resultConditions startTime completedAt outcome,
                 anActionRequired = (case result of None \<Rightarrow> ActionRequiredUnset
                   | Some o1 \<Rightarrow> ActionRequiredFromBool (IsActionRequired o1)),
                 anDiagnosis = (case result of None \<Rightarrow> no_diagnosis
                   | Some o1 \<Rightarrow> (case oaDiagnosis o1 of None \<Rightarrow> no_diagnosis
                       | Some d \<Rightarrow> if \<not> IsActionRequired o1 \<and> dSummary d \<noteq> '''' \<and> dRootCause d \<noteq> ''''
                                   then d else no_diagnosis)),
                 anOptions = (case result of None \<Rightarrow> [] | Some o1 \<Rightarrow> oaOptions o1),
                 anSandbox = sandbox, anTokenUsage = no_tokens,
                 anFailureReason = boundedFailureReason failureReason\<rparr>;
       r \<leftarrow> createIdempotent K (AnalysisResultObject cr) ''AnalysisResult'';
       State_Monad.return (crName, map_sum id (\<lambda>obj. cr\<lparr>anMeta := snapshot_meta meta obj\<rparr>) r)
     })"

definition createExecutionResult ::
    "kube \<Rightarrow> string \<Rightarrow> AgenticRun \<Rightarrow> ExecutionOutput option \<Rightarrow> SandboxInfo \<Rightarrow> Time option \<Rightarrow> Time option \<Rightarrow>
     string \<Rightarrow> (string \<times> (error + ExecutionResult)) op" where
  "createExecutionResult K namespace run result sandbox startTime completionTime failureReason =
    (let crName = resultCRName (mName (rMeta run)) ''execution'' (length (ssResults (stExecution (steps run))) + 1);
         outcome = (case result of None \<Rightarrow> ActionOutcomeFailed | Some o1 \<Rightarrow> ActionOutcomeFromBool (eoSuccess o1)) in
     do {
       t \<leftarrow> now K;
       let completedAt = (case completionTime of None \<Rightarrow> t | Some c \<Rightarrow> c);
       let meta = new_result_meta crName namespace run ''execution'';
       let cr = \<lparr>xrMeta = meta, xrAgenticRunName = mName (rMeta run),
                 xrConditions = resultConditions startTime completedAt outcome,
                 xrActionsTaken = (case result of None \<Rightarrow> [] | Some o1 \<Rightarrow> eoActionsTaken o1),
                 xrSandbox = sandbox, xrTokenUsage = no_tokens,
                 xrFailureReason = boundedFailureReason failureReason\<rparr>;
       r \<leftarrow> createIdempotent K (ExecutionResultObject cr) ''ExecutionResult'';
       State_Monad.return (crName, map_sum id (\<lambda>obj. cr\<lparr>xrMeta := snapshot_meta meta obj\<rparr>) r)
     })"

definition createVerificationResult ::
    "kube \<Rightarrow> string \<Rightarrow> AgenticRun \<Rightarrow> VerificationOutput option \<Rightarrow> SandboxInfo \<Rightarrow> Time option \<Rightarrow> Time option \<Rightarrow>
     string \<Rightarrow> (string \<times> (error + VerificationResult)) op" where
  "createVerificationResult K namespace run result sandbox startTime completionTime failureReason =
    (let crName = resultCRName (mName (rMeta run)) ''verification'' (length (ssResults (stVerification (steps run))) + 1);
         outcome = (case result of None \<Rightarrow> ActionOutcomeFailed | Some o1 \<Rightarrow> ActionOutcomeFromBool (ovSuccess o1)) in
     do {
       t \<leftarrow> now K;
       let completedAt = (case completionTime of None \<Rightarrow> t | Some c \<Rightarrow> c);
       let meta = new_result_meta crName namespace run ''verification'';
       let cr = \<lparr>vrMeta = meta, vrAgenticRunName = mName (rMeta run),
                 vrConditions = resultConditions startTime completedAt outcome,
                 vrChecks = (case result of None \<Rightarrow> [] | Some o1 \<Rightarrow> ovChecks o1),
                 vrSummary = (case result of None \<Rightarrow> '''' | Some o1 \<Rightarrow> ovSummary o1),
                 vrSandbox = sandbox, vrTokenUsage = no_tokens,
                 vrFailureReason = boundedFailureReason failureReason\<rparr>;
       r \<leftarrow> createIdempotent K (VerificationResultObject cr) ''VerificationResult'';
       State_Monad.return (crName, map_sum id (\<lambda>obj. cr\<lparr>vrMeta := snapshot_meta meta obj\<rparr>) r)
     })"

definition createEscalationResult ::
    "kube \<Rightarrow> string \<Rightarrow> AgenticRun \<Rightarrow> EscalationOutput option \<Rightarrow> SandboxInfo \<Rightarrow> Time option \<Rightarrow> Time option \<Rightarrow>
     string \<Rightarrow> (string \<times> (error + EscalationResult)) op" where
  "createEscalationResult K namespace run result sandbox startTime completionTime failureReason =
    (let crName = resultCRName (mName (rMeta run)) ''escalation'' (length (ssResults (stEscalation (steps run))) + 1);
         outcome = (case result of None \<Rightarrow> ActionOutcomeFailed | Some o1 \<Rightarrow> ActionOutcomeFromBool (oeSuccess o1)) in
     do {
       t \<leftarrow> now K;
       let completedAt = (case completionTime of None \<Rightarrow> t | Some c \<Rightarrow> c);
       let meta = new_result_meta crName namespace run ''escalation'';
       let cr = \<lparr>erMeta = meta, erAgenticRunName = mName (rMeta run),
                 erConditions = resultConditions startTime completedAt outcome,
                 erSummary = (case result of None \<Rightarrow> '''' | Some o1 \<Rightarrow> oeSummary o1),
                 erContent = (case result of None \<Rightarrow> '''' | Some o1 \<Rightarrow> oeContent o1),
                 erSandbox = sandbox, erTokenUsage = no_tokens,
                 erFailureReason = boundedFailureReason failureReason\<rparr>;
       r \<leftarrow> createIdempotent K (EscalationResultObject cr) ''EscalationResult'';
       State_Monad.return (crName, map_sum id (\<lambda>obj. cr\<lparr>erMeta := snapshot_meta meta obj\<rparr>) r)
     })"

section \<open>What the operations emit\<close>

definition result_event :: "event \<Rightarrow> bool" where
  "result_event e \<longleftrightarrow> (case e of EvNow _ \<Rightarrow> True | EvCreateResult _ _ \<Rightarrow> True | EvGetResult _ _ \<Rightarrow> True
     | EvPatchResult _ _ _ \<Rightarrow> True | _ \<Rightarrow> False)"

lemma result_event_simps [simp]:
  "result_event (EvNow t)" "result_event (EvCreateResult obj r)" "result_event (EvGetResult key r2)"
  "result_event (EvPatchResult b obj r3)"
  by (simp_all add: result_event_def)

lemma getResultLike_wp [wp]:
  "(\<And>r. r = (case r of Inl e \<Rightarrow> Inl e | Inr x \<Rightarrow> Inr x) \<Longrightarrow>
     (\<forall>x. r = Inr x \<longrightarrow> result_kind x = result_kind obj) \<Longrightarrow>
     P h (EvGetResult (meta_key (result_meta obj)) r) \<and> Q r (h @ [EvGetResult (meta_key (result_meta obj)) r])) \<Longrightarrow>
   wp P (getResultLike K obj) Q h"
  by (cases obj) (auto intro!: wp simp: map_sum_def split: sum.splits)

lemma createIdempotent_emits: "emits result_event (createIdempotent K obj kind)"
  unfolding createIdempotent_def Let_def by (intro emitsI wp conjI) auto

lemma createIdempotent_wp [wp]:
  "(\<And>h e. result_event e \<Longrightarrow> P h e) \<Longrightarrow> (\<And>x es. Q x (h @ es)) \<Longrightarrow> wp P (createIdempotent K obj kind) Q h"
  by (rule emits_wp [OF createIdempotent_emits])

lemma create_results_wp [wp]:
  assumes "\<And>h e. result_event e \<Longrightarrow> P h e"
  shows "(\<And>x es. Q1 x (h @ es)) \<Longrightarrow> wp P (createAnalysisResult K ns run o1 sb t1 t2 msg) Q1 h"
    and "(\<And>x es. Q2 x (h @ es)) \<Longrightarrow> wp P (createExecutionResult K ns run o2 sb t1 t2 msg) Q2 h"
    and "(\<And>x es. Q3 x (h @ es)) \<Longrightarrow> wp P (createVerificationResult K ns run o3 sb t1 t2 msg) Q3 h"
    and "(\<And>x es. Q4 x (h @ es)) \<Longrightarrow> wp P (createEscalationResult K ns run o4 sb t1 t2 msg) Q4 h"
  unfolding createAnalysisResult_def createExecutionResult_def createVerificationResult_def
    createEscalationResult_def Let_def
  by (intro wp conjI; simp add: assms)+

section \<open>Names stay apart while they are short\<close>

lemma truncateK8sName_bound: "length (truncateK8sName name) \<le> 63"
  using length_trim_right [of "\<lambda>c. c \<in> set ''-._''" "take 63 name"]
  by (simp add: truncateK8sName_def)

lemma decimal_no_dash: "CHR ''-'' \<notin> set (decimal n)"
proof (induction n rule: decimal.induct)
  case (1 n)
  have "digit (n mod 10) \<noteq> CHR ''-''" "n < 10 \<Longrightarrow> digit n \<noteq> CHR ''-''"
    by (auto simp: digit_def dest: arg_cong [where f = "of_char :: char \<Rightarrow> nat"])
  with 1 show ?case
    by (cases "n < 10") (auto simp: decimal_small decimal_large)
qed

lemma append_at_first:
  "x \<notin> set b \<Longrightarrow> x \<notin> set d \<Longrightarrow> b @ x # a = d @ x # c \<longleftrightarrow> b = d \<and> a = c"
proof (induction b arbitrary: d)
  case Nil
  then show ?case by (cases d) auto
next
  case (Cons y b)
  then show ?case by (cases d) auto
qed

lemma append_dash_inject:
  assumes "CHR ''-'' \<notin> set b" and "CHR ''-'' \<notin> set d"
  shows "a @ CHR ''-'' # b = c @ CHR ''-'' # d \<longleftrightarrow> a = c \<and> b = d"
proof -
  have "a @ CHR ''-'' # b = c @ CHR ''-'' # d \<longleftrightarrow> rev b @ CHR ''-'' # rev a = rev d @ CHR ''-'' # rev c"
    by (subst rev_is_rev_conv [symmetric]) simp
  also have "\<dots> \<longleftrightarrow> rev b = rev d \<and> rev a = rev c"
    using assms by (intro append_at_first) simp_all
  finally show ?thesis by auto
qed

text \<open>
  Result names identify the run, the step and the attempt, as long as the untruncated names fit
  into 63 bytes (the step names contain no dash).
\<close>

theorem result_names_distinct:
  assumes "length (r1 @ ''-'' @ s1 @ ''-'' @ decimal i) \<le> 63"
    and "length (r2 @ ''-'' @ s2 @ ''-'' @ decimal j) \<le> 63"
    and "CHR ''-'' \<notin> set s1" and "CHR ''-'' \<notin> set s2"
    and "resultCRName r1 s1 i = resultCRName r2 s2 j"
  shows "r1 = r2 \<and> s1 = s2 \<and> i = j"
proof -
  have "(r1 @ CHR ''-'' # s1) @ CHR ''-'' # decimal i = (r2 @ CHR ''-'' # s2) @ CHR ''-'' # decimal j"
    using assms(1,2,5) by (simp add: resultCRName_def truncateK8sName_def)
  then have "r1 @ CHR ''-'' # s1 = r2 @ CHR ''-'' # s2" and "decimal i = decimal j"
    by (simp_all only: append_dash_inject decimal_no_dash simp_thms)
  then show ?thesis
    using assms(3,4) append_dash_inject [of s1 s2 r1 r2] decimal_inject by simp
qed

theorem result_names_distinct_witness:
  "resultCRName ''a'' ''analysis'' 1 \<noteq> resultCRName ''a-analysis-1'' ''analysis'' 1"
  using result_names_distinct [of "''a''" "''analysis''" 1 "''a-analysis-1''" "''analysis''" 1]
  by (auto simp: decimal_small digit_def)

text \<open>
  From a run name of 63 bytes on, every step and every attempt of the run gets the same result
  name, and so do all runs whose names share those 63 bytes: the step and attempt suffixes are cut off.
\<close>

theorem result_names_collide:
  assumes "63 \<le> length r1" and "take 63 r1 = take 63 r2" and "63 \<le> length r2"
  shows "resultCRName r1 s1 i = resultCRName r2 s2 j"
  using assms by (simp add: resultCRName_def truncateK8sName_def)

theorem result_names_collide_witness:
  "resultCRName (replicate 63 (CHR ''a'')) ''analysis'' 1 = resultCRName (replicate 63 (CHR ''a'')) ''execution'' 2"
  by (rule result_names_collide) simp_all

section \<open>Failure reasons\<close>

lemma valid_limit_le: "valid_limit reason n \<le> n"
  by (induction n) auto

lemma valid_limit_valid: "valid_string (take (valid_limit reason n) reason)"
  by (induction n) (auto simp: valid_string_def)

lemma valid_limit_greatest:
  "k \<le> n \<Longrightarrow> valid_string (take k reason) \<Longrightarrow> k \<le> valid_limit reason n"
  by (induction n) (auto simp: le_Suc_eq)

text \<open>
  A recorded failure reason never exceeds the 8192 bytes the CRD allows. A reason that fits is
  kept as it is; a longer one is cut at the largest valid UTF-8 prefix of 8189 bytes at most.
\<close>

theorem boundedFailureReason_bound:
  "length (boundedFailureReason reason) \<le> 8192 \<and>
   (length reason \<le> 8192 \<longrightarrow> boundedFailureReason reason = reason) \<and>
   (8192 < length reason \<longrightarrow>
      (\<exists>n \<le> 8189. boundedFailureReason reason = trim_space (take n reason) @ ''...'' \<and>
         valid_string (take n reason) \<and>
         (\<forall>k \<le> 8189. valid_string (take k reason) \<longrightarrow> k \<le> n)))"
proof (cases "length reason \<le> 8192")
  case True
  then show ?thesis by (simp add: boundedFailureReason_def maxResultFailureReason_def)
next
  case False
  define n where "n = valid_limit reason 8189"
  have bounded: "boundedFailureReason reason = trim_space (take n reason) @ ''...''"
    using False by (simp add: boundedFailureReason_def maxResultFailureReason_def n_def)
  have n: "n \<le> 8189" "valid_string (take n reason)" "\<forall>k \<le> 8189. valid_string (take k reason) \<longrightarrow> k \<le> n"
    using valid_limit_le valid_limit_valid valid_limit_greatest by (auto simp: n_def)
  have "length (trim_space (take n reason)) \<le> n"
    using length_trim_space [of "take n reason"] by simp
  with bounded n False show ?thesis by auto
qed

theorem boundedFailureReason_witness:
  "length (boundedFailureReason (replicate 9000 (CHR ''x''))) \<le> 8192 \<and>
   boundedFailureReason ''agent failed'' = ''agent failed''"
  using boundedFailureReason_bound [of "replicate 9000 (CHR ''x'')"] boundedFailureReason_bound [of "''agent failed''"]
  by simp

section \<open>Idempotent creation\<close>

text \<open>The status of a result resource, with its identity blanked out.\<close>

fun status_of :: "ResultObject \<Rightarrow> ResultObject" where
  "status_of (AnalysisResultObject r) = AnalysisResultObject (r\<lparr>anMeta := no_meta, anAgenticRunName := ''''\<rparr>)"
| "status_of (ExecutionResultObject r) = ExecutionResultObject (r\<lparr>xrMeta := no_meta, xrAgenticRunName := ''''\<rparr>)"
| "status_of (VerificationResultObject r) = VerificationResultObject (r\<lparr>vrMeta := no_meta, vrAgenticRunName := ''''\<rparr>)"
| "status_of (EscalationResultObject r) = EscalationResultObject (r\<lparr>erMeta := no_meta, erAgenticRunName := ''''\<rparr>)"

lemma status_of_set_meta [simp]: "status_of (set_result_meta obj m) = status_of obj"
  by (cases obj) simp_all

lemma status_of_copy:
  "result_kind existing = result_kind obj \<Longrightarrow>
   status_of (copyResultStatus (SetConditions existing (GetConditions obj)) obj) = status_of obj"
  by (cases existing; cases obj) simp_all

lemma result_kind_set_meta [simp]:
  "result_kind (set_result_meta obj m) = result_kind obj"
  "result_kind (SetConditions obj cs) = result_kind obj"
  "result_kind (copyResultStatus obj obj2) = result_kind obj"
  by (cases obj; cases obj2; simp)+

lemma createIdempotent_last:
  "wp (\<lambda>_ _. True) (createIdempotent K obj kind)
     (\<lambda>r h'. \<forall>x. r = Inr x \<longrightarrow> (\<exists>h1 base patched. h' = h1 @ [EvPatchResult base patched None] \<and>
        result_kind patched = result_kind obj \<and> status_of patched = status_of obj)) h"
  unfolding createIdempotent_def Let_def
  by (intro wp conjI allI impI TrueI) (auto simp: status_of_copy)

text \<open>
  When \<open>createIdempotent\<close> succeeds, its last request was an accepted status patch that carries the
  complete status of the object, conditions included, whether the resource was created or existed.
\<close>

theorem createIdempotent_writes_status:
  assumes "returned (createIdempotent K obj kind) h = Inr stored"
  shows "\<exists>base patched. last (snd (run_state (createIdempotent K obj kind) h)) = EvPatchResult base patched None \<and>
     result_kind patched = result_kind obj \<and> status_of patched = status_of obj"
  using wp_result [OF createIdempotent_last [of K obj kind h]] assms by (auto simp: returned_def)

definition sample_escalation :: EscalationResult where
  "sample_escalation = \<lparr>erMeta = no_meta\<lparr>mName := ''fix-node-escalation-1''\<rparr>, erAgenticRunName = ''fix-node'',
     erConditions = resultConditions (Some 5) 9 ActionOutcomeSucceeded, erSummary = ''disk full'',
     erContent = ''details'', erSandbox = no_sandbox, erTokenUsage = no_tokens, erFailureReason = ''''\<rparr>"

theorem createIdempotent_writes_status_witness:
  "\<exists>base patched. last (snd (run_state
       (createIdempotent (ref_server empty_world) (EscalationResultObject sample_escalation) ''EscalationResult'') [])) =
     EvPatchResult base patched None \<and>
   result_kind patched = SandboxStepEscalation \<and>
   status_of patched = status_of (EscalationResultObject sample_escalation)"
  using createIdempotent_writes_status
    [of "ref_server empty_world" "EscalationResultObject sample_escalation" "''EscalationResult''" "[]"]
  by (simp add: returned_def createIdempotent_def Let_def request_defs server_defs empty_world_def)

end
