(* ===== verification/Approval.thy ===== *)
theory Approval
  imports Results
begin

text \<open>
  Approval gates (\<^verbatim>\<open>controller/agenticrun/approval.go\<close>) and the admission of an approval
  (\<^verbatim>\<open>webhooks.go\<close>, \<^verbatim>\<open>AgenticRunApprovalMutator\<close>).

  A stage may run when the approval lists it without a denial, when the policy automates it, or, for
  escalation, when the policy does not demand a manual decision.
\<close>

section \<open>Reading and creating the approval\<close>

definition getApprovalPolicy :: "kube \<Rightarrow> (error + ApprovalPolicy option) op" where
  "getApprovalPolicy K = do {
     r \<leftarrow> getPolicy K;
     State_Monad.return (case r of
       Inr policy \<Rightarrow> Inr (Some policy)
     | Inl e \<Rightarrow> if IsNotFound e then Inr None else Inl (WrapError ''get ApprovalPolicy'' e))
   }"

definition getAgenticRunApproval :: "kube \<Rightarrow> AgenticRun \<Rightarrow> string \<Rightarrow> (error + AgenticRunApproval) op" where
  "getAgenticRunApproval K run namespace = getApproval K \<lparr>kName = mName (rMeta run), kNamespace = namespace\<rparr>"

text \<open>The body of the loop over the policy's stages: the approval stage one of them contributes.\<close>

definition auto_stage :: "AgenticRun \<Rightarrow> ApprovalPolicyStage \<Rightarrow> ApprovalStage list" where
  "auto_stage run ps =
     (if psApproval ps \<noteq> ApprovalModeAutomatic then []
      else case psName ps of
        SandboxStepAnalysis \<Rightarrow> [NewApprovalStage ApprovalStageAnalysis ApprovalDecisionUnset '''' None]
      | SandboxStepExecution \<Rightarrow>
          if AgenticRunStep_IsZero (spExecution (rSpec run)) then []
          else [NewApprovalStage ApprovalStageExecution ApprovalDecisionUnset '''' None]
      | SandboxStepVerification \<Rightarrow>
          if AgenticRunStep_IsZero (spVerification (rSpec run)) then []
          else [NewApprovalStage ApprovalStageVerification ApprovalDecisionUnset '''' None]
      | SandboxStepEscalation \<Rightarrow> [])"

definition auto_stages :: "AgenticRun \<Rightarrow> ApprovalPolicy option \<Rightarrow> ApprovalStage list" where
  "auto_stages run policy = (case policy of None \<Rightarrow> [] | Some p \<Rightarrow> concat (map (auto_stage run) (ppStages p)))"

definition new_approval :: "AgenticRun \<Rightarrow> ApprovalPolicy option \<Rightarrow> string \<Rightarrow> AgenticRunApproval" where
  "new_approval run policy namespace =
     \<lparr>vMeta = \<lparr>mName = mName (rMeta run), mNamespace = namespace, mUID = '''', mResourceVersion = 0,
         mGeneration = 0, mCreationTimestamp = 0, mDeletionTimestamp = 0, mLabels = Map.empty,
         mAnnotations = Map.empty, mFinalizers = [],
         mOwnerReferences = [\<lparr>oAPIVersion = ''agentic.openshift.io/v1alpha1'', oKind = ''AgenticRun'',
           oName = mName (rMeta run), oUID = mUID (rMeta run), oController = True, oBlockOwnerDeletion = True\<rparr>]\<rparr>,
      vApprover = \<lparr>aiUID = '''', aiUsername = '''', aiApprovedAt = ''''\<rparr>,
      vStages = auto_stages run policy\<rparr>"

definition ensureAgenticRunApproval ::
    "kube \<Rightarrow> AgenticRun \<Rightarrow> ApprovalPolicy option \<Rightarrow> string \<Rightarrow> (error + AgenticRunApproval) op" where
  "ensureAgenticRunApproval K run policy namespace = do {
     r \<leftarrow> getAgenticRunApproval K run namespace;
     case r of
       Inr existing \<Rightarrow> State_Monad.return (Inr existing)
     | Inl e \<Rightarrow>
         if \<not> IsNotFound e then State_Monad.return (Inl (WrapError ''get AgenticRunApproval'' e))
         else do {
           c \<leftarrow> createApproval K (new_approval run policy namespace);
           case c of
             Inl err \<Rightarrow>
               if IsAlreadyExists err then getAgenticRunApproval K run namespace
               else State_Monad.return (Inl (WrapError ''create AgenticRunApproval'' err))
           | Inr approval \<Rightarrow> State_Monad.return (Inr approval)
         }
   }"

section \<open>Decisions\<close>

text \<open>\<open>string(s.Type) == string(stage)\<close>: the two enumerations have the same spellings.\<close>

definition stage_is :: "ApprovalStage \<Rightarrow> SandboxStep \<Rightarrow> bool" where
  "stage_is s stage \<longleftrightarrow> (case gType s of
      ApprovalStageAnalysis \<Rightarrow> stage = SandboxStepAnalysis
    | ApprovalStageExecution \<Rightarrow> stage = SandboxStepExecution
    | ApprovalStageVerification \<Rightarrow> stage = SandboxStepVerification
    | ApprovalStageEscalation \<Rightarrow> stage = SandboxStepEscalation)"

definition isStagePolicyManual :: "ApprovalPolicy option \<Rightarrow> SandboxStep \<Rightarrow> bool" where
  "isStagePolicyManual policy stage = (case policy of
      None \<Rightarrow> False
    | Some p \<Rightarrow> list_ex (\<lambda>ps. psName ps = stage \<and> psApproval ps = ApprovalModeManual) (ppStages p))"

definition isAutoApprovedByPolicy :: "ApprovalPolicy option \<Rightarrow> SandboxStep \<Rightarrow> bool" where
  "isAutoApprovedByPolicy policy stage = (case policy of
      None \<Rightarrow> False
    | Some p \<Rightarrow> list_ex (\<lambda>ps. psName ps = stage \<and> psApproval ps = ApprovalModeAutomatic) (ppStages p))"

definition isStageApproved :: "AgenticRunApproval option \<Rightarrow> ApprovalPolicy option \<Rightarrow> SandboxStep \<Rightarrow> bool" where
  "isStageApproved approval policy stage =
     (if (case approval of None \<Rightarrow> False
          | Some a \<Rightarrow> list_ex (\<lambda>s. stage_is s stage \<and> gDecision s \<noteq> ApprovalDecisionDenied) (vStages a)) then True
      else if (case policy of None \<Rightarrow> False
          | Some p \<Rightarrow> list_ex (\<lambda>ps. psName ps = stage \<and> psApproval ps = ApprovalModeAutomatic) (ppStages p)) then True
      else if stage = SandboxStepEscalation \<and> \<not> isStagePolicyManual policy stage then True
      else False)"

definition isStageDenied :: "AgenticRunApproval option \<Rightarrow> SandboxStep \<Rightarrow> bool" where
  "isStageDenied approval stage = (case approval of
      None \<Rightarrow> False
    | Some a \<Rightarrow> list_ex (\<lambda>s. stage_is s stage \<and> gDecision s = ApprovalDecisionDenied) (vStages a))"

text \<open>The agent named by the arm of a stage that belongs to the step, when that arm is present.\<close>

definition stage_agent :: "ApprovalStage \<Rightarrow> SandboxStep \<Rightarrow> string option" where
  "stage_agent s stage = (case stage of
      SandboxStepAnalysis \<Rightarrow> map_option apAgent (gAnalysis s)
    | SandboxStepExecution \<Rightarrow> map_option exAgent (gExecution s)
    | SandboxStepVerification \<Rightarrow> map_option apAgent (gVerification s)
    | SandboxStepEscalation \<Rightarrow> map_option apAgent (gEscalation s))"

fun stages_override :: "ApprovalStage list \<Rightarrow> SandboxStep \<Rightarrow> string" where
  "stages_override [] stage = ''''"
| "stages_override (s # ss) stage =
     (if \<not> stage_is s stage then stages_override ss stage
      else case stage_agent s stage of Some a \<Rightarrow> a | None \<Rightarrow> stages_override ss stage)"

definition getStageOverrideAgent :: "AgenticRunApproval option \<Rightarrow> SandboxStep \<Rightarrow> string" where
  "getStageOverrideAgent approval stage =
     (case approval of None \<Rightarrow> '''' | Some a \<Rightarrow> stages_override (vStages a) stage)"

fun stages_option :: "ApprovalStage list \<Rightarrow> int option" where
  "stages_option [] = None"
| "stages_option (s # ss) =
     (if gType s = ApprovalStageExecution
      then (case gExecution s of Some e \<Rightarrow> (case exOption e of Some i \<Rightarrow> Some i | None \<Rightarrow> stages_option ss)
            | None \<Rightarrow> stages_option ss)
      else stages_option ss)"

definition getStageOption :: "AgenticRunApproval option \<Rightarrow> int" where
  "getStageOption approval =
     (case approval of None \<Rightarrow> 0 | Some a \<Rightarrow> (case stages_option (vStages a) of Some i \<Rightarrow> i | None \<Rightarrow> 0))"

section \<open>Admission of approvals\<close>

text \<open>
  The mutating webhook sees the submitted document: whether it has a non-null spec that is an object,
  and the approver the client put there, if any. JSON decoding failures are errors. The request's
  user comes from the API server's authentication.
\<close>

datatype Operation = OpCreate | OpUpdate | OpDelete | OpConnect

datatype SubmittedSpec = NoSpec | SpecNotAnObject | SubmittedSpec "ApproverInfo option" "ApprovalStage list"

record AdmissionRequest =
  aqOperation :: Operation
  aqUserUID :: string
  aqUsername :: string
  aqObject :: "SubmittedSpec option"

datatype AdmissionResponse =
    Allowed string
  | Errored nat
  | AddSpec ApproverInfo
  | AddApprover ApproverInfo
  | ReplaceApprover ApproverInfo

definition AgenticRunApprovalMutator_Handle :: "string \<Rightarrow> AdmissionRequest \<Rightarrow> AdmissionResponse" where
  "AgenticRunApprovalMutator_Handle nowRFC3339 req =
     (if aqOperation req = OpCreate then Allowed ''create passes through''
      else let approver = \<lparr>aiUID = aqUserUID req, aiUsername = aqUsername req, aiApprovedAt = nowRFC3339\<rparr> in
        case aqObject req of
          None \<Rightarrow> Errored 400
        | Some NoSpec \<Rightarrow> AddSpec approver
        | Some SpecNotAnObject \<Rightarrow> Errored 400
        | Some (SubmittedSpec None stages) \<Rightarrow> AddApprover approver
        | Some (SubmittedSpec (Some a) stages) \<Rightarrow> ReplaceApprover approver)"

text \<open>
  What the API server admits after applying the JSON patch (RFC 6902): adding a member sets it, and replacing one fails when it is not there.
\<close>

definition admitted :: "SubmittedSpec option \<Rightarrow> AdmissionResponse \<Rightarrow> SubmittedSpec option" where
  "admitted obj resp = (case resp of
      Allowed _ \<Rightarrow> obj
    | Errored _ \<Rightarrow> None
    | AddSpec a \<Rightarrow> Some (SubmittedSpec (Some a) [])
    | AddApprover a \<Rightarrow> (case obj of Some (SubmittedSpec _ st) \<Rightarrow> Some (SubmittedSpec (Some a) st) | _ \<Rightarrow> None)
    | ReplaceApprover a \<Rightarrow> (case obj of Some (SubmittedSpec (Some _) st) \<Rightarrow> Some (SubmittedSpec (Some a) st) | _ \<Rightarrow> None))"

section \<open>What the operations emit\<close>

definition approval_event :: "event \<Rightarrow> bool" where
  "approval_event e \<longleftrightarrow> (case e of EvGetApproval _ _ \<Rightarrow> True | EvCreateApproval _ _ \<Rightarrow> True | EvGetPolicy _ \<Rightarrow> True | _ \<Rightarrow> False)"

lemma approval_event_simps [simp]:
  "approval_event (EvGetApproval key r)" "approval_event (EvCreateApproval a r)" "approval_event (EvGetPolicy p)"
  by (simp_all add: approval_event_def)

lemma getApprovalPolicy_wp [wp]:
  "(\<And>h e. approval_event e \<Longrightarrow> P h e) \<Longrightarrow> (\<And>x es. Q x (h @ es)) \<Longrightarrow> wp P (getApprovalPolicy K) Q h"
  unfolding getApprovalPolicy_def by (intro wp conjI) auto

text \<open>
  The policy a caller goes on with when it takes every failed read as no policy: the one that was read, or none after a read that failed.
\<close>

definition policy_read :: "history \<Rightarrow> ApprovalPolicy option \<Rightarrow> bool" where
  "policy_read h policy = (case policy of Some p \<Rightarrow> EvGetPolicy (Inr p) \<in> set h | None \<Rightarrow> \<exists>e. EvGetPolicy (Inl e) \<in> set h)"

lemma policy_read_mono: "policy_read h policy \<Longrightarrow> set h \<subseteq> set h' \<Longrightarrow> policy_read h' policy"
  by (auto simp: policy_read_def split: option.splits)

lemma getApprovalPolicy_reads:
  assumes "\<And>h e. approval_event e \<Longrightarrow> P h e"
    and "\<And>x es. policy_read es (case x of Inl _ \<Rightarrow> None | Inr p \<Rightarrow> p) \<Longrightarrow> Q x (h @ es)"
  shows "wp P (getApprovalPolicy K) Q h"
  unfolding getApprovalPolicy_def
  by (intro wp_bindI wp_requests wp_returnI conjI assms(1)) (auto simp: policy_read_def intro!: assms(2) split: sum.split)

lemma ensureAgenticRunApproval_wp [wp]:
  "(\<And>h e. approval_event e \<Longrightarrow> P h e) \<Longrightarrow> (\<And>x es. Q x (h @ es)) \<Longrightarrow>
   wp P (ensureAgenticRunApproval K run policy namespace) Q h"
  unfolding ensureAgenticRunApproval_def getAgenticRunApproval_def by (intro wp conjI) auto

section \<open>Stages of a new approval\<close>

lemma auto_stage_cases:
  "s \<in> set (auto_stage run ps) \<Longrightarrow>
     psApproval ps = ApprovalModeAutomatic \<and> stage_is s (psName ps) \<and> psName ps \<noteq> SandboxStepEscalation \<and>
     valid_stage s \<and> gDecision s = ApprovalDecisionUnset \<and>
     (psName ps = SandboxStepExecution \<longrightarrow> \<not> AgenticRunStep_IsZero (spExecution (rSpec run))) \<and>
     (psName ps = SandboxStepVerification \<longrightarrow> \<not> AgenticRunStep_IsZero (spVerification (rSpec run)))"
  by (auto simp: auto_stage_def NewApprovalStage_def stage_is_def valid_stage_def
      split: if_splits SandboxStep.splits)

lemma stage_is_inject: "stage_is s a \<Longrightarrow> stage_is s b \<Longrightarrow> a = b"
  by (auto simp: stage_is_def split: ApprovalStageType.splits)

lemma auto_stages_members:
  "s \<in> set (auto_stages run policy) \<Longrightarrow>
     \<exists>p ps. policy = Some p \<and> ps \<in> set (ppStages p) \<and> s \<in> set (auto_stage run ps)"
  by (auto simp: auto_stages_def split: option.splits)

text \<open>
  The approval created for a run lists exactly the steps the policy automates and the run
  configures (escalation never), each as a well-formed stage without a decision.
\<close>

theorem new_approval_stages:
  "(\<exists>s \<in> set (vStages (new_approval run policy namespace)). stage_is s stage) \<longleftrightarrow>
     isAutoApprovedByPolicy policy stage \<and> stage \<noteq> SandboxStepEscalation \<and>
     (stage = SandboxStepExecution \<longrightarrow> \<not> AgenticRunStep_IsZero (spExecution (rSpec run))) \<and>
     (stage = SandboxStepVerification \<longrightarrow> \<not> AgenticRunStep_IsZero (spVerification (rSpec run)))"
  (is "?listed \<longleftrightarrow> ?automatic")
proof
  assume ?listed
  then obtain s p ps where "stage_is s stage" "policy = Some p" "ps \<in> set (ppStages p)" "s \<in> set (auto_stage run ps)"
    by (auto simp: new_approval_def dest: auto_stages_members)
  then show ?automatic
    using auto_stage_cases [of s run ps] stage_is_inject [of s stage "psName ps"]
    by (auto simp: isAutoApprovedByPolicy_def list_ex_iff)
next
  assume auto: ?automatic
  then obtain p ps where p: "policy = Some p" "ps \<in> set (ppStages p)" "psName ps = stage"
    "psApproval ps = ApprovalModeAutomatic"
    by (auto simp: isAutoApprovedByPolicy_def list_ex_iff split: option.splits)
  have "\<exists>s \<in> set (auto_stage run ps). stage_is s stage"
    using auto p by (cases stage) (auto simp: auto_stage_def NewApprovalStage_def stage_is_def)
  then show ?listed
    using p by (auto simp: new_approval_def auto_stages_def)
qed

theorem new_approval_stages_witness:
  "(\<exists>s \<in> set (vStages (new_approval sample_run
      (Some \<lparr>ppStages = [\<lparr>psName = SandboxStepAnalysis, psApproval = ApprovalModeAutomatic\<rparr>], ppMaxConcurrentRuns = 0\<rparr>)
      ''openshift-lightspeed'')). stage_is s SandboxStepAnalysis)"
  by (subst new_approval_stages) (simp add: isAutoApprovedByPolicy_def)

text \<open>
  C21: A freshly created approval grants nothing of its own: right after creation a step is approved exactly if the policy automates
  it, or it is escalation and the policy (there may be none) does not ask for a manual decision.
\<close>

theorem new_approval_grants_nothing:
  "isStageApproved (Some (new_approval run policy namespace)) policy stage \<longleftrightarrow>
     isAutoApprovedByPolicy policy stage \<or> (stage = SandboxStepEscalation \<and> \<not> isStagePolicyManual policy stage)"
proof -
  have "list_ex (\<lambda>s. stage_is s stage \<and> gDecision s \<noteq> ApprovalDecisionDenied)
      (vStages (new_approval run policy namespace)) \<Longrightarrow> isAutoApprovedByPolicy policy stage"
    using new_approval_stages [of run policy namespace stage] by (auto simp: list_ex_iff)
  then show ?thesis
    by (auto simp: isStageApproved_def isAutoApprovedByPolicy_def split: option.splits)
qed

text \<open>
  The approval of a run is found by the run's name alone: an existing approval in the operator's
  namespace is taken as it is for every run of that name, whatever the run's namespace and UID are.
\<close>

theorem approval_shared_by_name:
  assumes "mName (rMeta run1) = mName (rMeta run2)"
    and "on_get_approval K h \<lparr>kName = mName (rMeta run1), kNamespace = namespace\<rparr> = Inr approval"
  shows "returned (ensureAgenticRunApproval K run1 policy namespace) h = Inr approval \<and>
         returned (ensureAgenticRunApproval K run2 policy namespace) h = Inr approval"
  using assms by (simp add: returned_def ensureAgenticRunApproval_def getAgenticRunApproval_def request_defs)

definition sample_approval :: AgenticRunApproval where
  "sample_approval = \<lparr>vMeta = no_meta\<lparr>mName := ''fix-node'', mNamespace := ''openshift-lightspeed''\<rparr>,
     vApprover = \<lparr>aiUID = ''u-admin'', aiUsername = ''admin'', aiApprovedAt = ''2026-01-01T00:00:00Z''\<rparr>,
     vStages = [NewApprovalStage ApprovalStageExecution ApprovalDecisionApproved '''' (Some 1)]\<rparr>"

definition other_namespace_run :: AgenticRun where
  "other_namespace_run = sample_run\<lparr>rMeta := (rMeta sample_run)\<lparr>mNamespace := ''tenant-b'', mUID := ''u-2''\<rparr>\<rparr>"

theorem approval_shared_by_name_witness:
  "returned (ensureAgenticRunApproval (ref_server (empty_world\<lparr>wApprovals := [sample_approval]\<rparr>))
      other_namespace_run None ''openshift-lightspeed'') [] = Inr sample_approval \<and>
   isStageApproved (Some sample_approval) None SandboxStepExecution"
  using approval_shared_by_name [of sample_run other_namespace_run
      "ref_server (empty_world\<lparr>wApprovals := [sample_approval]\<rparr>)" "[]" "''openshift-lightspeed''" sample_approval None]
  by (simp add: server_defs sample_defs sample_approval_def other_namespace_run_def isStageApproved_def
      stage_is_def NewApprovalStage_def)

text \<open>
  C22: Every approval admitted by an update carries the authenticated user of the request as its
  approver, whatever approver the client submitted, and keeps the submitted stages.
\<close>

theorem webhook_sets_approver:
  assumes "aqOperation req \<noteq> OpCreate"
    and "admitted (aqObject req) (AgenticRunApprovalMutator_Handle t req) = Some spec"
  shows "\<exists>stages. spec = SubmittedSpec (Some \<lparr>aiUID = aqUserUID req, aiUsername = aqUsername req, aiApprovedAt = t\<rparr>) stages \<and>
     (\<forall>a submitted. aqObject req = Some (SubmittedSpec a submitted) \<longrightarrow> stages = submitted)"
  using assms
  by (auto simp: AgenticRunApprovalMutator_Handle_def admitted_def Let_def
      split: if_splits option.splits SubmittedSpec.splits)

theorem webhook_sets_approver_witness:
  "admitted (Some (SubmittedSpec (Some \<lparr>aiUID = ''root'', aiUsername = ''root'', aiApprovedAt = ''''\<rparr>) []))
     (AgenticRunApprovalMutator_Handle ''now'' \<lparr>aqOperation = OpUpdate, aqUserUID = ''u-7'', aqUsername = ''eve'',
        aqObject = Some (SubmittedSpec (Some \<lparr>aiUID = ''root'', aiUsername = ''root'', aiApprovedAt = ''''\<rparr>) [])\<rparr>) =
   Some (SubmittedSpec (Some \<lparr>aiUID = ''u-7'', aiUsername = ''eve'', aiApprovedAt = ''now''\<rparr>) [])"
  using webhook_sets_approver [of "\<lparr>aqOperation = OpUpdate, aqUserUID = ''u-7'', aqUsername = ''eve'',
        aqObject = Some (SubmittedSpec (Some \<lparr>aiUID = ''root'', aiUsername = ''root'', aiApprovedAt = ''''\<rparr>) [])\<rparr>" "''now''"
      "SubmittedSpec (Some \<lparr>aiUID = ''u-7'', aiUsername = ''eve'', aiApprovedAt = ''now''\<rparr>) []"]
  by (simp add: AgenticRunApprovalMutator_Handle_def admitted_def)

end
