(* ===== verification/Resolve.thy ===== *)
theory Resolve
  imports Approval
begin

text \<open>
  Resolution of a run's agents and providers (\<^verbatim>\<open>controller/agenticrun/resolve.go\<close>), step budgets
  (\<^verbatim>\<open>limits.go\<close>) and the pod deadline of \<^verbatim>\<open>sandbox_agent.go\<close>.

  A successful resolution is complete: each configured step carries the agent its effective name
  selects, and the provider that agent references, whose credentials secret was found.
\<close>

section \<open>Agents and providers\<close>

definition credentialsSecretName :: "LLMProvider \<Rightarrow> string" where
  "credentialsSecretName llm = (case llType llm of
      LLMProviderAnthropic \<Rightarrow> anCredentialsSecret (llAnthropic llm)
    | LLMProviderGoogleCloudVertex \<Rightarrow> gvCredentialsSecret (llGoogleCloudVertex llm)
    | LLMProviderOpenAI \<Rightarrow> anCredentialsSecret (llOpenAI llm)
    | LLMProviderAzureOpenAI \<Rightarrow> azCredentialsSecret (llAzureOpenAI llm)
    | LLMProviderAWSBedrock \<Rightarrow> awCredentialsSecret (llAWSBedrock llm))"

text \<open>Returns the agent and its provider, or the one issue found.\<close>

definition validateAgentDependencies ::
    "kube \<Rightarrow> string \<Rightarrow> string \<Rightarrow> (error + Agent \<times> LLMProvider) op" where
  "validateAgentDependencies K namespace name = (
     let agentName = (if name = '''' then ''default'' else name) in
     do {
       a \<leftarrow> getAgent K agentName;
       case a of
         Inl e \<Rightarrow> State_Monad.return (Inl (
           if IsNotFound e then NewError (''Agent '' @ quote_name agentName @ '' not found'')
           else WrapError (''get Agent '' @ quote_name agentName) e))
       | Inr agent \<Rightarrow>
           let llmName = agLLMProvider agent in
           do {
             l \<leftarrow> getLLM K llmName;
             case l of
               Inl e \<Rightarrow> State_Monad.return (Inl (
                 if IsNotFound e
                 then NewError (''Agent '' @ quote_name agentName @ '' references missing LLMProvider '' @ quote_name llmName)
                 else WrapError (''get LLMProvider '' @ quote_name llmName @ '' referenced by Agent '' @ quote_name agentName) e))
             | Inr llm \<Rightarrow>
                 let secretName = credentialsSecretName llm in
                 if secretName = '''' then State_Monad.return (Inl (NewError
                   (''LLMProvider '' @ quote_name llmName @ '' has no credentials Secret configured'')))
                 else do {
                   s \<leftarrow> getSecret K \<lparr>kName = secretName, kNamespace = namespace\<rparr>;
                   case s of
                     Inl e \<Rightarrow> State_Monad.return (Inl (
                       if IsNotFound e
                       then NewError (''LLMProvider '' @ quote_name llmName @ '' references missing Secret '' @
                         quote_name secretName @ '' in namespace '' @ quote_name namespace)
                       else WrapError (''get Secret '' @ quote_name secretName @ '' for LLMProvider '' @ quote_name llmName) e))
                   | Inr data \<Rightarrow> State_Monad.return (Inr (agent, llm))
                 }
           }
     })"

definition stepAgentName :: "AgenticRunStep \<Rightarrow> string" where
  "stepAgentName step = (if arAgent step \<noteq> '''' then arAgent step else ''default'')"

definition effectiveStepAgentName :: "AgenticRunApproval option \<Rightarrow> SandboxStep \<Rightarrow> AgenticRunStep \<Rightarrow> string" where
  "effectiveStepAgentName approval stage step =
     (let override = getStageOverrideAgent approval stage in
      if override \<noteq> '''' then override else stepAgentName step)"

text \<open>The loop state of \<open>validateAgenticRun\<close>: errors, validated agents and providers, names seen.\<close>

record validation =
  vaErrors :: "error list"
  vaAgents :: "string \<rightharpoonup> Agent"
  vaLLMs :: "string \<rightharpoonup> LLMProvider"
  vaSeen :: "string list"

fun validate_steps ::
    "kube \<Rightarrow> AgenticRunApproval option \<Rightarrow> string \<Rightarrow> (SandboxStep \<times> AgenticRunStep \<times> bool) list \<Rightarrow>
     validation \<Rightarrow> validation op" where
  "validate_steps K approval namespace [] acc = State_Monad.return acc"
| "validate_steps K approval namespace ((stage, step, configured) # rest) acc =
    (if \<not> configured then validate_steps K approval namespace rest acc
     else
       let agentName = effectiveStepAgentName approval stage step in
       if agentName = '''' \<or> agentName \<in> set (vaSeen acc) then validate_steps K approval namespace rest acc
       else do {
         r \<leftarrow> validateAgentDependencies K namespace agentName;
         let acc' = (case r of
             Inl e \<Rightarrow> acc\<lparr>vaErrors := vaErrors acc @ [e], vaSeen := vaSeen acc @ [agentName]\<rparr>
           | Inr (agent, llm) \<Rightarrow> acc\<lparr>vaAgents := (vaAgents acc)(agentName \<mapsto> agent),
               vaLLMs := (vaLLMs acc)(agLLMProvider agent \<mapsto> llm), vaSeen := vaSeen acc @ [agentName]\<rparr>);
         validate_steps K approval namespace rest acc'
       })"

definition validateAgenticRun ::
    "kube \<Rightarrow> AgenticRun \<Rightarrow> AgenticRunApproval option \<Rightarrow> string \<Rightarrow> validation op" where
  "validateAgenticRun K run approval namespace =
     validate_steps K approval namespace
       [(SandboxStepAnalysis, spAnalysis (rSpec run), True),
        (SandboxStepExecution, spExecution (rSpec run), \<not> AgenticRunStep_IsZero (spExecution (rSpec run))),
        (SandboxStepVerification, spVerification (rSpec run), \<not> AgenticRunStep_IsZero (spVerification (rSpec run))),
        (SandboxStepEscalation, spAnalysis (rSpec run), True)]
       \<lparr>vaErrors = [], vaAgents = Map.empty, vaLLMs = Map.empty, vaSeen = []\<rparr>"

record resolvedWorkflow =
  rwAnalysis :: resolvedStep
  rwExecution :: "resolvedStep option"
  rwVerification :: "resolvedStep option"

text \<open>The lookup of one step's agent and provider among the validated ones.\<close>

definition resolve_step ::
    "validation \<Rightarrow> AgenticRunApproval option \<Rightarrow> ToolsSpec \<Rightarrow> string \<Rightarrow> SandboxStep \<Rightarrow> AgenticRunStep \<Rightarrow> error + resolvedStep" where
  "resolve_step v approval tools msg stage step =
    (let agentName = effectiveStepAgentName approval stage step in
     case vaAgents v agentName of
       None \<Rightarrow> Inl (NewError (msg @ '': get Agent '' @ quote_name agentName))
     | Some agent \<Rightarrow>
         (case vaLLMs v (agLLMProvider agent) of
            None \<Rightarrow> Inl (NewError (msg @ '': get LLMProvider '' @ quote_name (agLLMProvider agent) @
                     '' (referenced by Agent '' @ quote_name agentName @ '')''))
          | Some llm \<Rightarrow> Inr \<lparr>sAgent = agent, sLLM = llm, sTools = tools\<rparr>))"

definition optional_step ::
    "validation \<Rightarrow> AgenticRunApproval option \<Rightarrow> ToolsSpec \<Rightarrow> string \<Rightarrow> SandboxStep \<Rightarrow> AgenticRunStep \<Rightarrow> error + resolvedStep option" where
  "optional_step v approval tools msg stage step =
     (if AgenticRunStep_IsZero step then Inr None
      else map_sum id Some (resolve_step v approval tools msg stage step))"

definition resolve_validated ::
    "validation \<Rightarrow> AgenticRun \<Rightarrow> AgenticRunApproval option \<Rightarrow> error + resolvedWorkflow" where
  "resolve_validated v run approval =
    (if length (vaErrors v) > 0 then Inl (JoinErrors (vaErrors v))
     else let tools = spTools (rSpec run) in
       case resolve_step v approval tools ''resolve analysis step'' SandboxStepAnalysis (spAnalysis (rSpec run)) of
         Inl e \<Rightarrow> Inl e
       | Inr analysis \<Rightarrow>
           (case optional_step v approval tools ''resolve execution step'' SandboxStepExecution (spExecution (rSpec run)) of
              Inl e \<Rightarrow> Inl e
            | Inr execution \<Rightarrow>
                (case optional_step v approval tools ''resolve verification step'' SandboxStepVerification
                        (spVerification (rSpec run)) of
                   Inl e \<Rightarrow> Inl e
                 | Inr verification \<Rightarrow>
                     Inr \<lparr>rwAnalysis = analysis, rwExecution = execution, rwVerification = verification\<rparr>)))"

definition resolveAgenticRun ::
    "kube \<Rightarrow> AgenticRun \<Rightarrow> AgenticRunApproval option \<Rightarrow> string \<Rightarrow> (error + resolvedWorkflow) op" where
  "resolveAgenticRun K run approval namespace = do {
     v \<leftarrow> validateAgenticRun K run approval namespace;
     State_Monad.return (resolve_validated v run approval)
   }"

section \<open>Budgets and deadlines\<close>

definition DefaultAnalysisTimeout :: int where "DefaultAnalysisTimeout = 600"
definition DefaultExecutionTimeout :: int where "DefaultExecutionTimeout = 600"
definition DefaultVerificationTimeout :: int where "DefaultVerificationTimeout = 1800"
definition DefaultEscalationTimeout :: int where "DefaultEscalationTimeout = 600"
definition DefaultMaxTurns :: int where "DefaultMaxTurns = 200"

lemmas default_limits =
  DefaultAnalysisTimeout_def DefaultExecutionTimeout_def DefaultVerificationTimeout_def
  DefaultEscalationTimeout_def DefaultMaxTurns_def

definition configured_timeout :: "AgentTimeouts \<Rightarrow> string \<Rightarrow> int" where
  "configured_timeout t step =
     (if step = ''analysis'' then tAnalysisSeconds t
      else if step = ''execution'' then tExecutionSeconds t
      else if step = ''verification'' then tVerificationSeconds t
      else if step = ''escalation'' then tEscalationSeconds t
      else 0)"

definition resolveTimeout :: "Agent option \<Rightarrow> string \<Rightarrow> int" where
  "resolveTimeout agent step =
     (if (case agent of None \<Rightarrow> False | Some a \<Rightarrow> configured_timeout (agTimeouts a) step > 0)
      then configured_timeout (agTimeouts (the agent)) step
      else if step = ''execution'' then DefaultExecutionTimeout
      else if step = ''verification'' then DefaultVerificationTimeout
      else if step = ''escalation'' then DefaultEscalationTimeout
      else DefaultAnalysisTimeout)"

definition resolveMaxTurns :: "Agent option \<Rightarrow> int" where
  "resolveMaxTurns agent =
     (case agent of Some a \<Rightarrow> if agMaxTurns a > 0 then agMaxTurns a else DefaultMaxTurns | None \<Rightarrow> DefaultMaxTurns)"

definition sandboxStartupTimeout :: Duration where
  "sandboxStartupTimeout = 5 * Minute"
definition sandboxRunningGrace :: Duration where
  "sandboxRunningGrace = 1 * Minute"
definition podStartTimeout :: Duration where
  "podStartTimeout = 5 * Minute"

definition stepTimeout :: "string \<Rightarrow> Duration" where
  "stepTimeout step =
     (if step = ''analysis'' \<or> step = ''escalation'' then 10 * Minute
      else if step = ''execution'' then 10 * Minute
      else if step = ''verification'' then 30 * Minute
      else 10 * Minute)"

text \<open>Durations are 64-bit nanosecond counts, so the product and the sums are cut to 64 bits.\<close>

definition sandboxPodDeadline :: "Agent option \<Rightarrow> string \<Rightarrow> Duration" where
  "sandboxPodDeadline agent step =
     int64 (int64 (sandboxStartupTimeout + int64 (resolveTimeout agent step * Second)) + sandboxRunningGrace)"

section \<open>Resolution is complete and faithful to what was read\<close>

definition resolve_event :: "event \<Rightarrow> bool" where
  "resolve_event e \<longleftrightarrow> (case e of EvGetAgent _ _ \<Rightarrow> True | EvGetLLM _ _ \<Rightarrow> True | EvGetSecret _ _ \<Rightarrow> True | _ \<Rightarrow> False)"

lemma resolve_event_simps [simp]:
  "resolve_event (EvGetAgent n r)" "resolve_event (EvGetLLM n r2)" "resolve_event (EvGetSecret key r3)"
  by (simp_all add: resolve_event_def)

lemma effective_name_nonempty: "effectiveStepAgentName approval stage step \<noteq> ''''"
  by (simp add: effectiveStepAgentName_def stepAgentName_def Let_def)

text \<open>An agent with its provider, read from the server along a history, with its secret found.\<close>

definition read_pair :: "string \<Rightarrow> history \<Rightarrow> string \<Rightarrow> Agent \<Rightarrow> LLMProvider \<Rightarrow> bool" where
  "read_pair namespace h name agent llm \<longleftrightarrow>
     EvGetAgent name (Inr agent) \<in> set h \<and> EvGetLLM (agLLMProvider agent) (Inr llm) \<in> set h \<and>
     credentialsSecretName llm \<noteq> '''' \<and>
     (\<exists>data. EvGetSecret \<lparr>kName = credentialsSecretName llm, kNamespace = namespace\<rparr> (Inr data) \<in> set h)"

lemma validateAgentDependencies_wp [wp]:
  assumes "\<And>h e. resolve_event e \<Longrightarrow> P h e"
    and "\<And>e es. Q (Inl e) (h @ es)"
    and "\<And>agent llm es. read_pair namespace (h @ es) (if name = '''' then ''default'' else name) agent llm \<Longrightarrow>
      Q (Inr (agent, llm)) (h @ es)"
  shows "wp P (validateAgentDependencies K namespace name) Q h"
  unfolding validateAgentDependencies_def Let_def
  by (intro wp conjI) (auto simp: read_pair_def intro!: assms)

definition validation_inv :: "string \<Rightarrow> history \<Rightarrow> validation \<Rightarrow> bool" where
  "validation_inv namespace h v \<longleftrightarrow>
     (\<forall>n a. vaAgents v n = Some a \<longrightarrow>
        EvGetAgent n (Inr a) \<in> set h \<and> (\<exists>l. vaLLMs v (agLLMProvider a) = Some l)) \<and>
     (\<forall>m l. vaLLMs v m = Some l \<longrightarrow>
        EvGetLLM m (Inr l) \<in> set h \<and> credentialsSecretName l \<noteq> '''' \<and>
        (\<exists>data. EvGetSecret \<lparr>kName = credentialsSecretName l, kNamespace = namespace\<rparr> (Inr data) \<in> set h)) \<and>
     (vaErrors v = [] \<longrightarrow> (\<forall>n \<in> set (vaSeen v). vaAgents v n \<noteq> None))"

lemma validation_inv_append: "validation_inv namespace h v \<Longrightarrow> validation_inv namespace (h @ es) v"
  by (auto simp: validation_inv_def) blast+

lemma validation_inv_error:
  "validation_inv namespace h v \<Longrightarrow>
   validation_inv namespace h (v\<lparr>vaErrors := vaErrors v @ [e], vaSeen := vaSeen v @ [n]\<rparr>)"
  by (simp add: validation_inv_def)

lemma validation_inv_ok:
  assumes "validation_inv namespace h v" and "read_pair namespace h n agent llm"
  shows "validation_inv namespace h (v\<lparr>vaAgents := (vaAgents v)(n \<mapsto> agent),
     vaLLMs := (vaLLMs v)(agLLMProvider agent \<mapsto> llm), vaSeen := vaSeen v @ [n]\<rparr>)"
  using assms by (auto simp: validation_inv_def read_pair_def)

lemma validate_steps_wp:
  assumes P: "\<And>h e. resolve_event e \<Longrightarrow> P h e"
  shows "validation_inv namespace h v \<Longrightarrow>
    (\<And>v' es. validation_inv namespace (h @ es) v' \<Longrightarrow> set (vaSeen v) \<subseteq> set (vaSeen v') \<Longrightarrow>
       (\<And>stage step. (stage, step, True) \<in> set ss \<Longrightarrow> effectiveStepAgentName approval stage step \<in> set (vaSeen v')) \<Longrightarrow>
       Q v' (h @ es)) \<Longrightarrow>
    wp P (validate_steps K approval namespace ss v) Q h"
proof (induction ss arbitrary: v h)
  case Nil
  show ?case
    using Nil(2) [of "[]" v] Nil(1) by (auto intro: wp_returnI)
next
  case (Cons s rest)
  obtain stage step configured where s: "s = (stage, step, configured)" by (cases s)
  let ?n = "effectiveStepAgentName approval stage step"
  have more: "wp P (validate_steps K approval namespace rest w) Q (h @ es)"
    if "validation_inv namespace (h @ es) w" "set (vaSeen v) \<subseteq> set (vaSeen w)" "configured \<longrightarrow> ?n \<in> set (vaSeen w)" for w es
  proof (rule Cons.IH [OF that(1)])
    fix v' es'
    assume v': "validation_inv namespace ((h @ es) @ es') v'" "set (vaSeen w) \<subseteq> set (vaSeen v')"
      "\<And>stage step. (stage, step, True) \<in> set rest \<Longrightarrow> effectiveStepAgentName approval stage step \<in> set (vaSeen v')"
    show "Q v' ((h @ es) @ es')"
      using Cons.prems(2) [of "es @ es'" v'] v' that(2,3) by (auto simp: s)
  qed
  show ?case
  proof (cases "configured \<and> ?n \<notin> set (vaSeen v)")
    case False
    then show ?thesis
      using more [of "[]" v] Cons.prems(1) by (auto simp: s Let_def)
  next
    case True
    have "validation_inv namespace (h @ es) (v\<lparr>vaErrors := vaErrors v @ [e], vaSeen := vaSeen v @ [?n]\<rparr>)" for e es
      using Cons.prems(1) by (intro validation_inv_error validation_inv_append)
    moreover have "validation_inv namespace (h @ es) (v\<lparr>vaAgents := (vaAgents v)(?n \<mapsto> agent),
        vaLLMs := (vaLLMs v)(agLLMProvider agent \<mapsto> llm), vaSeen := vaSeen v @ [?n]\<rparr>)"
      if "read_pair namespace (h @ es) ?n agent llm" for agent llm es
      using Cons.prems(1) that by (intro validation_inv_ok validation_inv_append)
    ultimately show ?thesis
      using True effective_name_nonempty [of approval stage step]
      by (auto simp: s Let_def intro!: wp_bindI validateAgentDependencies_wp P more)
  qed
qed

lemma validation_inv_init:
  "validation_inv namespace h \<lparr>vaErrors = [], vaAgents = Map.empty, vaLLMs = Map.empty, vaSeen = []\<rparr>"
  by (simp add: validation_inv_def)

lemma resolve_step_seen:
  assumes "validation_inv namespace h v" and "vaErrors v = []"
    and "effectiveStepAgentName approval stage step \<in> set (vaSeen v)"
  shows "\<exists>r. resolve_step v approval tools msg stage step = Inr r \<and> sTools r = tools \<and>
     read_pair namespace h (effectiveStepAgentName approval stage step) (sAgent r) (sLLM r)"
proof -
  obtain a l where "vaAgents v (effectiveStepAgentName approval stage step) = Some a" "vaLLMs v (agLLMProvider a) = Some l"
    using assms by (auto simp: validation_inv_def) blast
  then show ?thesis
    using assms(1) by (auto simp: resolve_step_def Let_def validation_inv_def read_pair_def)
qed

text \<open>The contract of a resolved workflow for a run, against what was read along a history.\<close>

definition step_resolved ::
    "string \<Rightarrow> history \<Rightarrow> AgenticRunApproval option \<Rightarrow> AgenticRun \<Rightarrow> SandboxStep \<Rightarrow> AgenticRunStep \<Rightarrow> resolvedStep \<Rightarrow> bool" where
  "step_resolved namespace h approval run stage step r \<longleftrightarrow>
     sTools r = spTools (rSpec run) \<and>
     read_pair namespace h (effectiveStepAgentName approval stage step) (sAgent r) (sLLM r)"

definition workflow_resolved ::
    "string \<Rightarrow> history \<Rightarrow> AgenticRunApproval option \<Rightarrow> AgenticRun \<Rightarrow> resolvedWorkflow \<Rightarrow> bool" where
  "workflow_resolved namespace h approval run w \<longleftrightarrow>
     step_resolved namespace h approval run SandboxStepAnalysis (spAnalysis (rSpec run)) (rwAnalysis w) \<and>
     (rwExecution w = None \<longleftrightarrow> AgenticRunStep_IsZero (spExecution (rSpec run))) \<and>
     (\<forall>r. rwExecution w = Some r \<longrightarrow> step_resolved namespace h approval run SandboxStepExecution (spExecution (rSpec run)) r) \<and>
     (rwVerification w = None \<longleftrightarrow> AgenticRunStep_IsZero (spVerification (rSpec run))) \<and>
     (\<forall>r. rwVerification w = Some r \<longrightarrow>
        step_resolved namespace h approval run SandboxStepVerification (spVerification (rSpec run)) r)"

lemma optional_step_seen:
  assumes "validation_inv namespace h v" and "vaErrors v = []"
    and "\<not> AgenticRunStep_IsZero step \<Longrightarrow> effectiveStepAgentName approval stage step \<in> set (vaSeen v)"
  shows "\<exists>x. optional_step v approval (spTools (rSpec run)) msg stage step = Inr x \<and>
     (x = None \<longleftrightarrow> AgenticRunStep_IsZero step) \<and>
     (\<forall>r. x = Some r \<longrightarrow> step_resolved namespace h approval run stage step r)"
  using resolve_step_seen [OF assms(1,2,3), of "spTools (rSpec run)" msg]
  by (cases "AgenticRunStep_IsZero step") (auto simp: optional_step_def step_resolved_def)

lemma resolve_validated_ok:
  assumes "validation_inv namespace h v" and "vaErrors v = []"
    and "effectiveStepAgentName approval SandboxStepAnalysis (spAnalysis (rSpec run)) \<in> set (vaSeen v)"
    and "\<not> AgenticRunStep_IsZero (spExecution (rSpec run)) \<Longrightarrow>
      effectiveStepAgentName approval SandboxStepExecution (spExecution (rSpec run)) \<in> set (vaSeen v)"
    and "\<not> AgenticRunStep_IsZero (spVerification (rSpec run)) \<Longrightarrow>
      effectiveStepAgentName approval SandboxStepVerification (spVerification (rSpec run)) \<in> set (vaSeen v)"
  shows "\<exists>w. resolve_validated v run approval = Inr w \<and> workflow_resolved namespace h approval run w"
proof -
  obtain a where a: "resolve_step v approval (spTools (rSpec run)) ''resolve analysis step'' SandboxStepAnalysis
      (spAnalysis (rSpec run)) = Inr a" "step_resolved namespace h approval run SandboxStepAnalysis (spAnalysis (rSpec run)) a"
    using resolve_step_seen [OF assms(1,2,3), of "spTools (rSpec run)"] by (auto simp: step_resolved_def)
  obtain x where x: "optional_step v approval (spTools (rSpec run)) ''resolve execution step'' SandboxStepExecution
      (spExecution (rSpec run)) = Inr x" "x = None \<longleftrightarrow> AgenticRunStep_IsZero (spExecution (rSpec run))"
    "\<forall>r. x = Some r \<longrightarrow> step_resolved namespace h approval run SandboxStepExecution (spExecution (rSpec run)) r"
    using optional_step_seen [OF assms(1,2,4), of run "''resolve execution step''"] by auto
  obtain y where y: "optional_step v approval (spTools (rSpec run)) ''resolve verification step'' SandboxStepVerification
      (spVerification (rSpec run)) = Inr y" "y = None \<longleftrightarrow> AgenticRunStep_IsZero (spVerification (rSpec run))"
    "\<forall>r. y = Some r \<longrightarrow> step_resolved namespace h approval run SandboxStepVerification (spVerification (rSpec run)) r"
    using optional_step_seen [OF assms(1,2,5), of run "''resolve verification step''"] by auto
  show ?thesis
    using a x y assms(2) by (simp add: resolve_validated_def Let_def workflow_resolved_def)
qed

lemma resolveAgenticRun_wp [wp]:
  assumes "\<And>h e. resolve_event e \<Longrightarrow> P h e"
    and "\<And>errs es. errs \<noteq> [] \<Longrightarrow> Q (Inl (JoinErrors errs)) (h @ es)"
    and "\<And>w es. workflow_resolved namespace (h @ es) approval run w \<Longrightarrow> Q (Inr w) (h @ es)"
  shows "wp P (resolveAgenticRun K run approval namespace) Q h"
  unfolding resolveAgenticRun_def validateAgenticRun_def
proof (intro wp_bindI validate_steps_wp wp_returnI)
  fix v' es
  assume inv: "validation_inv namespace (h @ es) v'"
    and seen: "\<And>stage step. (stage, step, True) \<in> set
      [(SandboxStepAnalysis, spAnalysis (rSpec run), True),
       (SandboxStepExecution, spExecution (rSpec run), \<not> AgenticRunStep_IsZero (spExecution (rSpec run))),
       (SandboxStepVerification, spVerification (rSpec run), \<not> AgenticRunStep_IsZero (spVerification (rSpec run))),
       (SandboxStepEscalation, spAnalysis (rSpec run), True)] \<Longrightarrow>
      effectiveStepAgentName approval stage step \<in> set (vaSeen v')"
  show "Q (resolve_validated v' run approval) (h @ es)"
  proof (cases "vaErrors v' = []")
    case False
    then show ?thesis by (simp add: resolve_validated_def assms(2))
  next
    case True
    obtain w where "resolve_validated v' run approval = Inr w" "workflow_resolved namespace (h @ es) approval run w"
      using resolve_validated_ok [OF inv True, of approval run] seen by auto
    then show ?thesis by (simp add: assms(3))
  qed
qed (use assms(1) in \<open>auto simp: validation_inv_init\<close>)

text \<open>
  C23: Resolution either reports the validation issues or resolves every configured step, and nothing
  else: each step has the agent its effective name selects (an approval override, else the step's
  agent, else \<open>default\<close>), the provider that agent references, whose credentials secret exists, and the
  run's tools; a step is left out exactly when the run does not configure it.
\<close>

theorem resolve_complete:
  "case returned (resolveAgenticRun K run approval namespace) h of
     Inl e \<Rightarrow> \<exists>errs. errs \<noteq> [] \<and> e = JoinErrors errs
   | Inr w \<Rightarrow> workflow_resolved namespace (snd (run_state (resolveAgenticRun K run approval namespace) h)) approval run w"
proof -
  have "wp (\<lambda>_ _. True) (resolveAgenticRun K run approval namespace)
     (\<lambda>r h'. case r of Inl e \<Rightarrow> \<exists>errs. errs \<noteq> [] \<and> e = JoinErrors errs
        | Inr w \<Rightarrow> workflow_resolved namespace h' approval run w) h"
    by (rule resolveAgenticRun_wp) auto
  from wp_result [OF this] show ?thesis by (simp add: returned_def)
qed

section \<open>Budgets\<close>

text \<open>
  C24: Every step has a positive budget, and for agents within the 32-bit range of the API the pod
  deadline is exactly five minutes for starting, the budget, and one minute of grace: the 64-bit
  nanosecond arithmetic does not wrap.
\<close>

theorem pod_deadline_exact:
  assumes "\<And>a. agent = Some a \<Longrightarrow> configured_timeout (agTimeouts a) step < 2 ^ 31"
  shows "0 < resolveTimeout agent step \<and>
     sandboxPodDeadline agent step = (300 + resolveTimeout agent step + 60) * Second"
proof -
  have t: "0 < resolveTimeout agent step" "resolveTimeout agent step < 2 ^ 31"
    using assms by (cases agent; auto simp: resolveTimeout_def default_limits)+
  have "int64 (resolveTimeout agent step * Second) = resolveTimeout agent step * Second"
    using t by (intro int64_id) (simp_all add: Second_def)
  moreover have "int64 (sandboxStartupTimeout + resolveTimeout agent step * Second) =
      sandboxStartupTimeout + resolveTimeout agent step * Second"
    using t by (intro int64_id) (simp_all add: Second_def Minute_def sandboxStartupTimeout_def)
  moreover have "int64 (sandboxStartupTimeout + resolveTimeout agent step * Second + sandboxRunningGrace) =
      sandboxStartupTimeout + resolveTimeout agent step * Second + sandboxRunningGrace"
    using t by (intro int64_id) (simp_all add: Second_def Minute_def sandboxStartupTimeout_def sandboxRunningGrace_def)
  ultimately show ?thesis
    using t by (simp add: sandboxPodDeadline_def sandboxStartupTimeout_def sandboxRunningGrace_def Minute_def
        algebra_simps)
qed

definition sample_agent :: Agent where
  "sample_agent = \<lparr>agName = ''smart'', agLLMProvider = ''claude'', agModel = ''opus'',
     agTimeouts = \<lparr>tAnalysisSeconds = 900, tExecutionSeconds = 0, tVerificationSeconds = 0, tEscalationSeconds = 0\<rparr>,
     agMaxTurns = 50, agInstructions = None, agReasoningConfig = []\<rparr>"

theorem pod_deadline_exact_witness:
  "sandboxPodDeadline (Some sample_agent) ''analysis'' = 1260 * Second \<and>
   sandboxPodDeadline (Some sample_agent) ''verification'' = 2160 * Second"
  using pod_deadline_exact [of "Some sample_agent" "''analysis''"] pod_deadline_exact [of "Some sample_agent" "''verification''"]
  by (simp add: sample_agent_def resolveTimeout_def configured_timeout_def default_limits)

end
