(* ===== verification/Rbac.thy ===== *)
theory Rbac
  imports Resolve
begin

text \<open>
  Access of the sandboxes: the execution RBAC of \<^verbatim>\<open>controller/agenticrun/rbac.go\<close> and the spoke access
  and step cleanup of \<^verbatim>\<open>spoke.go\<close>.

  Execution rights come from the approved option only, bound to the run's own service account, and
  the clean-up of the execution step deletes every object their creation can have left behind, because
  the namespaces are recorded on the run before any of them is created.
\<close>

section \<open>Names and rules\<close>

definition stepAbbrev :: "string \<Rightarrow> string" where
  "stepAbbrev step =
     (if step = ''analysis'' then ''anl'' else if step = ''execution'' then ''exe''
      else if step = ''verification'' then ''ver'' else if step = ''escalation'' then ''esc'' else step)"

definition sandboxKubeconfigSecretName :: "string \<Rightarrow> string \<Rightarrow> string" where
  "sandboxKubeconfigSecretName runUID step = truncateK8sName (''ls-sandbox-kubeconfig-'' @ stepAbbrev step @ ''-'' @ runUID)"

definition sandboxPodNameAnnotation :: string where
  [go_consts]: "sandboxPodNameAnnotation = ''agents.x-k8s.io/pod-name''"

definition sandboxSAName :: "AgenticRun \<Rightarrow> string \<Rightarrow> string" where
  "sandboxSAName run step = ''ls-'' @ stepAbbrev step @ ''-'' @ mUID (rMeta run)"

definition perRunCRBName :: "string \<Rightarrow> string \<Rightarrow> nat \<Rightarrow> string" where
  "perRunCRBName runUID step index =
     truncateK8sName (''ls-reader-'' @ stepAbbrev step @ ''-'' @ runUID @ ''-'' @ decimal index)"

definition executionRoleName :: "string \<Rightarrow> string" where
  "executionRoleName agenticRunName = truncateK8sName (''ls-exec-'' @ agenticRunName)"

definition clusterRoleName :: "string \<Rightarrow> string" where
  "clusterRoleName agenticRunName = truncateK8sName (''ls-exec-cluster-'' @ agenticRunName)"

definition resultRoleName :: "string \<Rightarrow> string \<Rightarrow> string" where
  "resultRoleName runUID step = ''ls-result-'' @ step @ ''-'' @ runUID"

definition rbacLabels :: "string \<Rightarrow> string \<Rightarrow> string \<rightharpoonup> string" where
  "rbacLabels runUID component = [LabelRun \<mapsto> runUID, LabelComponent \<mapsto> component]"

definition normalizeCoreAPIGroup :: "string list \<Rightarrow> string list" where
  "normalizeCoreAPIGroup groups = map (\<lambda>g. if g = ''core'' then '''' else g) groups"

definition rbacRulesToPolicyRules :: "RBACRule list \<Rightarrow> PolicyRule list" where
  "rbacRulesToPolicyRules rules =
     map (\<lambda>r. \<lparr>prAPIGroups = normalizeCoreAPIGroup (rbAPIGroups r), prResources = rbResources r,
               prResourceNames = rbResourceNames r, prVerbs = rbVerbs r\<rparr>) rules"

fun collect_namespaces :: "RBACRule list \<Rightarrow> string list \<Rightarrow> string list" where
  "collect_namespaces [] nsList = nsList"
| "collect_namespaces (rule # rules) nsList =
     collect_namespaces rules
       (if rbNamespace rule \<noteq> '''' \<and> rbNamespace rule \<notin> set nsList then nsList @ [rbNamespace rule] else nsList)"

definition rbacTargetNamespaces :: "RBACResult option \<Rightarrow> string list" where
  "rbacTargetNamespaces rbac = (case rbac of None \<Rightarrow> [] | Some r \<Rightarrow> collect_namespaces (rbNamespaceScoped r) [])"

definition annotatedRBACNamespaces :: "AgenticRun \<Rightarrow> string list" where
  "annotatedRBACNamespaces run =
     (let val = lookup (mAnnotations (rMeta run)) rbacNamespacesAnnotation in
      if val = '''' then [] else split_comma val)"

section \<open>Creating access\<close>

definition create_or_exists :: "kube \<Rightarrow> Cluster \<Rightarrow> RbacObject \<Rightarrow> string \<Rightarrow> error option op" where
  "create_or_exists K c obj msg = do {
     r \<leftarrow> createRbac K c obj;
     State_Monad.return (case r of
        Some e \<Rightarrow> if IsAlreadyExists e then None else Some (WrapError msg e) | None \<Rightarrow> None)
   }"

text \<open>\<open>if err := first; err != nil { return err }\<close>, then the rest.\<close>

definition and_then :: "error option op \<Rightarrow> error option op \<Rightarrow> error option op" where
  "and_then first rest = do {
     r \<leftarrow> first;
     case r of Some e \<Rightarrow> State_Monad.return (Some e) | None \<Rightarrow> rest
   }"

definition execution_subjects :: "AgenticRun \<Rightarrow> string \<Rightarrow> Subject list" where
  "execution_subjects run operatorNS =
     [\<lparr>sjKind = ''ServiceAccount'', sjName = sandboxSAName run ''execution'', sjNamespace = operatorNS\<rparr>]"

definition namespace_role :: "AgenticRun \<Rightarrow> RBACResult \<Rightarrow> (string \<rightharpoonup> string) \<Rightarrow> string \<Rightarrow> RbacObject" where
  "namespace_role run rbac labels ns =
     \<lparr>roKind = RoleK, roKey = \<lparr>kName = executionRoleName (mUID (rMeta run)), kNamespace = ns\<rparr>, roLabels = labels,
      roRules = rbacRulesToPolicyRules (filter (\<lambda>rule. rbNamespace rule = ns) (rbNamespaceScoped rbac)),
      roRoleRef = None, roSubjects = []\<rparr>"

definition namespace_binding :: "AgenticRun \<Rightarrow> string \<Rightarrow> (string \<rightharpoonup> string) \<Rightarrow> string \<Rightarrow> RbacObject" where
  "namespace_binding run operatorNS labels ns =
     \<lparr>roKind = RoleBindingK, roKey = \<lparr>kName = executionRoleName (mUID (rMeta run)), kNamespace = ns\<rparr>, roLabels = labels,
      roRules = [],
      roRoleRef = Some \<lparr>rfAPIGroup = ''rbac.authorization.k8s.io'', rfKind = ''Role'',
        rfName = executionRoleName (mUID (rMeta run))\<rparr>,
      roSubjects = execution_subjects run operatorNS\<rparr>"

definition cluster_role :: "AgenticRun \<Rightarrow> RBACResult \<Rightarrow> (string \<rightharpoonup> string) \<Rightarrow> RbacObject" where
  "cluster_role run rbac labels =
     \<lparr>roKind = ClusterRoleK, roKey = \<lparr>kName = clusterRoleName (mUID (rMeta run)), kNamespace = ''''\<rparr>, roLabels = labels,
      roRules = rbacRulesToPolicyRules (rbClusterScoped rbac), roRoleRef = None, roSubjects = []\<rparr>"

definition cluster_binding :: "AgenticRun \<Rightarrow> string \<Rightarrow> (string \<rightharpoonup> string) \<Rightarrow> RbacObject" where
  "cluster_binding run operatorNS labels =
     \<lparr>roKind = ClusterRoleBindingK, roKey = \<lparr>kName = clusterRoleName (mUID (rMeta run)), kNamespace = ''''\<rparr>, roLabels = labels,
      roRules = [],
      roRoleRef = Some \<lparr>rfAPIGroup = ''rbac.authorization.k8s.io'', rfKind = ''ClusterRole'',
        rfName = clusterRoleName (mUID (rMeta run))\<rparr>,
      roSubjects = execution_subjects run operatorNS\<rparr>"

fun ensure_namespaces ::
    "kube \<Rightarrow> Cluster \<Rightarrow> AgenticRun \<Rightarrow> RBACResult \<Rightarrow> string \<Rightarrow> (string \<rightharpoonup> string) \<Rightarrow> string list \<Rightarrow> error option op" where
  "ensure_namespaces K c run rbac operatorNS labels [] = State_Monad.return None"
| "ensure_namespaces K c run rbac operatorNS labels (ns # rest) =
     and_then (create_or_exists K c (namespace_role run rbac labels ns) (''create Role in '' @ ns))
      (and_then (create_or_exists K c (namespace_binding run operatorNS labels ns) (''create RoleBinding in '' @ ns))
        (ensure_namespaces K c run rbac operatorNS labels rest))"

text \<open>Returns the run as well, whose annotations the operation changes.\<close>

definition ensureExecutionRBAC ::
    "kube \<Rightarrow> Cluster \<Rightarrow> AgenticRun \<Rightarrow> RBACResult option \<Rightarrow> string \<Rightarrow> (string \<rightharpoonup> string) \<Rightarrow>
     (AgenticRun \<times> error option) op" where
  "ensureExecutionRBAC K c run rbacResult operatorNS extraLabels =
    (case rbacResult of
       None \<Rightarrow> State_Monad.return (run, None)
     | Some rbac \<Rightarrow>
         let labels = rbacLabels (mUID (rMeta run)) ''execution-rbac'' ++ extraLabels;
             targetNS = (if length (rbNamespaceScoped rbac) > 0 then rbacTargetNamespaces (Some rbac) else []);
             run' = (if length targetNS > 0
               then set_annotations run ((mAnnotations (rMeta run))(rbacNamespacesAnnotation \<mapsto> join_comma targetNS))
               else run) in
         do {
           r \<leftarrow> and_then (ensure_namespaces K c run' rbac operatorNS labels targetNS)
             (if length (rbClusterScoped rbac) > 0
              then and_then
                (create_or_exists K c (cluster_role run' rbac labels)
                  (''create ClusterRole '' @ clusterRoleName (mUID (rMeta run))))
                (create_or_exists K c (cluster_binding run' operatorNS labels)
                  (''create ClusterRoleBinding '' @ clusterRoleName (mUID (rMeta run))))
              else State_Monad.return None);
           State_Monad.return (run', r)
         })"

definition stepResultResource :: "string \<rightharpoonup> string" where
  "stepResultResource = [''analysis'' \<mapsto> ''analysisresults'', ''execution'' \<mapsto> ''executionresults'',
     ''verification'' \<mapsto> ''verificationresults'', ''escalation'' \<mapsto> ''escalationresults'']"

definition result_rules :: "string \<Rightarrow> string \<Rightarrow> string \<Rightarrow> PolicyRule list" where
  "result_rules step resource resultName =
     [\<lparr>prAPIGroups = [''agentic.openshift.io''], prResources = [resource], prResourceNames = [], prVerbs = [''create'']\<rparr>,
      \<lparr>prAPIGroups = [''agentic.openshift.io''], prResources = [resource, resource @ ''/status''],
       prResourceNames = [resultName], prVerbs = [''get'', ''patch'', ''update'']\<rparr>] @
     (if step = ''escalation''
      then [\<lparr>prAPIGroups = [''agentic.openshift.io''],
             prResources = [''analysisresults'', ''executionresults'', ''verificationresults''],
             prResourceNames = [], prVerbs = [''get'', ''list'']\<rparr>]
      else [])"

definition ensureResultRBAC :: "kube \<Rightarrow> AgenticRun \<Rightarrow> string \<Rightarrow> string \<Rightarrow> string \<Rightarrow> error option op" where
  "ensureResultRBAC K run step serviceAccount operatorNS =
    (case stepResultResource step of
       None \<Rightarrow> State_Monad.return (Some (NewError (''unknown step '' @ quote_name step @ '' for result RBAC'')))
     | Some resource \<Rightarrow>
         let roleName = resultRoleName (mUID (rMeta run)) step;
             labels = rbacLabels (mUID (rMeta run)) ''result-rbac'';
             resultName = resultCRName (mName (rMeta run)) step (nextResultIndex run step);
             key = \<lparr>kName = roleName, kNamespace = operatorNS\<rparr> in
         and_then
           (create_or_exists K Hub \<lparr>roKind = RoleK, roKey = key, roLabels = labels,
              roRules = result_rules step resource resultName, roRoleRef = None, roSubjects = []\<rparr>
              (''create result Role '' @ roleName))
           (create_or_exists K Hub \<lparr>roKind = RoleBindingK, roKey = key, roLabels = labels, roRules = [],
              roRoleRef = Some \<lparr>rfAPIGroup = ''rbac.authorization.k8s.io'', rfKind = ''Role'', rfName = roleName\<rparr>,
              roSubjects = [\<lparr>sjKind = ''ServiceAccount'', sjName = serviceAccount, sjNamespace = operatorNS\<rparr>]\<rparr>
              (''create result RoleBinding '' @ roleName)))"

section \<open>Removing access\<close>

definition deleteIfExists :: "kube \<Rightarrow> Cluster \<Rightarrow> Kind \<Rightarrow> ObjectKey \<Rightarrow> error option op" where
  "deleteIfExists K c kind key = do {
     r \<leftarrow> deleteObject K c kind key;
     State_Monad.return (case r of Some e \<Rightarrow> if IsNotFound e then None else Some e | None \<Rightarrow> None)
   }"

definition delete_or_wrap :: "kube \<Rightarrow> Cluster \<Rightarrow> Kind \<Rightarrow> ObjectKey \<Rightarrow> string \<Rightarrow> error option op" where
  "delete_or_wrap K c kind key msg = do {
     r \<leftarrow> deleteIfExists K c kind key;
     State_Monad.return (map_option (WrapError msg) r)
   }"

fun cleanup_namespaces :: "kube \<Rightarrow> Cluster \<Rightarrow> string \<Rightarrow> string list \<Rightarrow> error option op" where
  "cleanup_namespaces K c roleName [] = State_Monad.return None"
| "cleanup_namespaces K c roleName (ns # rest) =
     and_then (delete_or_wrap K c RoleBindingK \<lparr>kName = roleName, kNamespace = ns\<rparr> (''delete RoleBinding in '' @ ns))
      (and_then (delete_or_wrap K c RoleK \<lparr>kName = roleName, kNamespace = ns\<rparr> (''delete Role in '' @ ns))
        (cleanup_namespaces K c roleName rest))"

definition cleanupExecutionRBAC :: "kube \<Rightarrow> Cluster \<Rightarrow> AgenticRun \<Rightarrow> error option op" where
  "cleanupExecutionRBAC K c run =
    (let roleName = executionRoleName (mUID (rMeta run));
         crName = clusterRoleName (mUID (rMeta run)) in
     and_then (cleanup_namespaces K c roleName (annotatedRBACNamespaces run))
      (and_then (delete_or_wrap K c ClusterRoleBindingK \<lparr>kName = crName, kNamespace = ''''\<rparr>
          (''delete ClusterRoleBinding '' @ crName))
        (delete_or_wrap K c ClusterRoleK \<lparr>kName = crName, kNamespace = ''''\<rparr> (''delete ClusterRole '' @ crName))))"

text \<open>Deletions that all happen; the first error is kept.\<close>

fun delete_all :: "(error option op) list \<Rightarrow> error option \<Rightarrow> error option op" where
  "delete_all [] firstErr = State_Monad.return firstErr"
| "delete_all (d # ds) firstErr = do {
     r \<leftarrow> d;
     delete_all ds (if firstErr = None then r else firstErr)
   }"

definition spokeReaderBindingNames :: "string list" where
  "spokeReaderBindingNames = [''lightspeed-hub:cluster-reader'', ''lightspeed-hub:cluster-monitoring-view'']"

definition removeReaderSubjectOnSpoke :: "kube \<Rightarrow> Cluster \<Rightarrow> string \<Rightarrow> string \<Rightarrow> error option op" where
  "removeReaderSubjectOnSpoke K c runUID step =
     delete_all (map (\<lambda>i. delete_or_wrap K c ClusterRoleBindingK \<lparr>kName = perRunCRBName runUID step i, kNamespace = ''''\<rparr>
         (''delete ClusterRoleBinding '' @ perRunCRBName runUID step i)) [0..<length spokeReaderBindingNames]) None"

definition removeReaderSubject :: "kube \<Rightarrow> Cluster \<Rightarrow> string \<Rightarrow> string \<Rightarrow> error option op" where
  "removeReaderSubject K c runUID step = do {
     r \<leftarrow> listBindings K c runUID step;
     case r of
       Inl e \<Rightarrow> State_Monad.return (Some (WrapError
         ''remove subject from reader ClusterRoleBinding: list per-run reader bindings'' e))
     | Inr names \<Rightarrow>
         delete_all (map (\<lambda>name. delete_or_wrap K c ClusterRoleBindingK \<lparr>kName = name, kNamespace = ''''\<rparr>
           (''remove subject from reader ClusterRoleBinding '' @ name)) names) None
   }"

section \<open>Spoke clusters\<close>

definition spokeKubeconfigPrefix :: string where
  [go_consts]: "spokeKubeconfigPrefix = ''spoke-kubeconfig-''"
definition spokeManagedNamespace :: string where
  [go_consts]: "spokeManagedNamespace = ''openshift-lightspeed-managed''"
definition kubeconfigKey :: string where
  [go_consts]: "kubeconfigKey = ''kubeconfig''"
definition spokeDialTimeout :: Duration where
  "spokeDialTimeout = 10 * Second"

record SpokeAccess =
  saCluster :: Cluster
  saConfig :: RestConfig
  saNamespace :: string
  saProxyURL :: string

definition spoke_proxy :: "kube \<Rightarrow> string \<Rightarrow> string" where
  "spoke_proxy K kubeconfig = (case LoadKubeconfig K kubeconfig of
      Inl e \<Rightarrow> ''''
    | Inr raw \<Rightarrow> (case kcContexts raw (kcCurrentContext raw) of
          None \<Rightarrow> ''''
        | Some cluster \<Rightarrow> (case kcClusterProxyURL raw cluster of None \<Rightarrow> '''' | Some url \<Rightarrow> url)))"

definition external_credentials :: "RestConfig \<Rightarrow> bool" where
  "external_credentials cfg \<longleftrightarrow> rcExecProvider cfg \<or> rcAuthProvider cfg \<or> rcBearerTokenFile cfg \<noteq> '''' \<or>
     rcCAFile cfg \<noteq> '''' \<or> rcCertFile cfg \<noteq> '''' \<or> rcKeyFile cfg \<noteq> ''''"

definition spokeAccessForRun :: "kube \<Rightarrow> AgenticRun \<Rightarrow> string \<Rightarrow> (error + SpokeAccess option) op" where
  "spokeAccessForRun K run operatorNS =
    (let tc = spTargetCluster (rSpec run) in
     if tc = '''' then State_Monad.return (Inr None)
     else let secretName = spokeKubeconfigPrefix @ tc in
     do {
       s \<leftarrow> getSecret K \<lparr>kName = secretName, kNamespace = operatorNS\<rparr>;
       case s of
         Inl e \<Rightarrow> State_Monad.return (Inl (WrapError (''get spoke kubeconfig Secret '' @ secretName) e))
       | Inr data \<Rightarrow>
         (case data kubeconfigKey of
            None \<Rightarrow> State_Monad.return (Inl (NewError (''parse spoke kubeconfig '' @ secretName @ '': missing '' @
              quote_name kubeconfigKey @ '' key'')))
          | Some kubeconfigBytes \<Rightarrow>
            (case RESTConfigFromKubeConfig K kubeconfigBytes of
               Inl e \<Rightarrow> State_Monad.return (Inl (WrapError (''parse spoke kubeconfig '' @ secretName) e))
             | Inr cfg \<Rightarrow>
                 if \<not> IsConfigTransportTLS K cfg \<or> rcInsecure cfg
                 then State_Monad.return (Inl (NewError
                   (''spoke kubeconfig has insecure TLS or non-HTTPS endpoint: '' @ secretName)))
                 else if external_credentials cfg
                 then State_Monad.return (Inl (NewError (''parse spoke kubeconfig '' @ secretName @
                   '': external credential providers and file references are not allowed'')))
                 else let cfg' = cfg\<lparr>rcTimeout := spokeDialTimeout\<rparr>; proxyURL = spoke_proxy K kubeconfigBytes in
                 do {
                   c \<leftarrow> newClient K cfg';
                   case c of
                     Some e \<Rightarrow> State_Monad.return (Inl (WrapError (''create spoke client for spoke '' @ tc) e))
                   | None \<Rightarrow> State_Monad.return (Inr (Some \<lparr>saCluster = Spoke tc, saConfig = cfg',
                       saNamespace = spokeManagedNamespace, saProxyURL = proxyURL\<rparr>))
                 }))
     })"

definition cleanupStepRBAC :: "kube \<Rightarrow> SpokeAccess option \<Rightarrow> string \<Rightarrow> AgenticRun \<Rightarrow> string \<Rightarrow> error option op" where
  "cleanupStepRBAC K spoke hubNS run step =
    (if spTargetCluster (rSpec run) \<noteq> '''' \<and> spoke = None then State_Monad.return None
     else
       let (c, ns) = (case spoke of None \<Rightarrow> (Hub, hubNS) | Some s \<Rightarrow> (saCluster s, saNamespace s));
           runUID = mUID (rMeta run); saName = sandboxSAName run step in
       do {
         reader \<leftarrow> (if spoke \<noteq> None then removeReaderSubjectOnSpoke K c runUID step
                    else removeReaderSubject K c runUID step);
         exec \<leftarrow> (if step = ''execution'' then cleanupExecutionRBAC K c run else State_Monad.return None);
         sa \<leftarrow> deleteIfExists K c ServiceAccountK \<lparr>kName = saName, kNamespace = ns\<rparr>;
         State_Monad.return (case reader of Some e \<Rightarrow> Some e
           | None \<Rightarrow> (case exec of Some e \<Rightarrow> Some e | None \<Rightarrow> sa))
       })"

section \<open>What the operations emit\<close>

definition rbac_event :: "event \<Rightarrow> bool" where
  "rbac_event e \<longleftrightarrow> (case e of EvDelete _ _ _ _ \<Rightarrow> True | EvListBindings _ _ _ _ \<Rightarrow> True | EvGetSecret _ _ \<Rightarrow> True
     | EvNewClient _ _ \<Rightarrow> True | EvCreateRbac _ _ _ \<Rightarrow> True | _ \<Rightarrow> False)"

lemma rbac_event_simps [simp]:
  "rbac_event (EvDelete c k key r)" "rbac_event (EvListBindings c u st r2)" "rbac_event (EvGetSecret key r3)"
  "rbac_event (EvNewClient cfg r4)" "rbac_event (EvCreateRbac c obj r5)"
  by (simp_all add: rbac_event_def)

lemma emits_and_then [emit]: "emits P m \<Longrightarrow> emits P n \<Longrightarrow> emits P (and_then m n)"
  unfolding and_then_def by (intro emit)

lemma emits_rbac_requests [emit]:
  "(\<And>r. P (EvDelete c k key r)) \<Longrightarrow> emits P (deleteIfExists K c k key)"
  "(\<And>r. P (EvDelete c k key r)) \<Longrightarrow> emits P (delete_or_wrap K c k key msg)"
  "(\<And>r. P (EvCreateRbac c obj r)) \<Longrightarrow> emits P (create_or_exists K c obj msg)"
  unfolding delete_or_wrap_def deleteIfExists_def create_or_exists_def by (intro emit; assumption)+

lemma cleanup_namespaces_emits [emit]: "emits rbac_event (cleanup_namespaces K c roleName nss)"
  by (induction nss) (simp_all only: cleanup_namespaces.simps, (intro emit rbac_event_simps; assumption)+)

lemma cleanupExecutionRBAC_emits [emit]: "emits rbac_event (cleanupExecutionRBAC K c run)"
  unfolding cleanupExecutionRBAC_def by (intro emit rbac_event_simps)

lemma delete_all_emits: "(\<And>d. d \<in> set ds \<Longrightarrow> emits P d) \<Longrightarrow> emits P (delete_all ds e)"
  by (induction ds arbitrary: e) (auto intro!: emit)

lemma remove_readers_emits [emit]:
  "emits rbac_event (removeReaderSubjectOnSpoke K c uid step)" "emits rbac_event (removeReaderSubject K c uid step)"
  unfolding removeReaderSubjectOnSpoke_def removeReaderSubject_def
  by (auto intro!: emit delete_all_emits)

lemma cleanupStepRBAC_emits [emit]: "emits rbac_event (cleanupStepRBAC K spoke hubNS run step)"
  unfolding cleanupStepRBAC_def by (intro emit rbac_event_simps)

lemma spokeAccessForRun_emits [emit]: "emits rbac_event (spokeAccessForRun K run ns)"
  unfolding spokeAccessForRun_def by (intro emit rbac_event_simps)

lemma rbac_wp [wp]:
  "(\<And>h e. rbac_event e \<Longrightarrow> P h e) \<Longrightarrow> (\<And>x es. Q x (h @ es)) \<Longrightarrow> wp P (cleanupStepRBAC K spoke hubNS run step) Q h"
  "(\<And>h e. rbac_event e \<Longrightarrow> P h e) \<Longrightarrow> (\<And>x es. R x (h @ es)) \<Longrightarrow> wp P (spokeAccessForRun K run ns) R h"
  by (rule emits_wp [OF cleanupStepRBAC_emits] emits_wp [OF spokeAccessForRun_emits]; simp)+

section \<open>Target namespaces\<close>

lemma collect_namespaces_spec:
  "distinct acc \<Longrightarrow> distinct (collect_namespaces rules acc) \<and>
   set (collect_namespaces rules acc) = set acc \<union> (rbNamespace ` set rules - {''''})"
  by (induction rules arbitrary: acc) auto

lemma annotation_round_trip:
  assumes "nss \<noteq> []" and "\<forall>ns \<in> set nss. ns \<noteq> '''' \<and> CHR '','' \<notin> set ns"
  shows "annotatedRBACNamespaces (set_annotations run ((mAnnotations (rMeta run))(rbacNamespacesAnnotation \<mapsto> join_comma nss))) = nss"
proof -
  have "join_comma nss \<noteq> ''''"
    using assms by (cases nss rule: join_comma.cases) auto
  then show ?thesis
    using split_join_comma [OF assms(1)] assms(2)
    by (auto simp: annotatedRBACNamespaces_def lookup_def)
qed

section \<open>Execution access: what is created, and that clean-up removes it\<close>

text \<open>The objects creation may write for a run and an approved set of rules.\<close>

definition execution_objects :: "AgenticRun \<Rightarrow> RBACResult \<Rightarrow> string \<Rightarrow> (string \<rightharpoonup> string) \<Rightarrow> RbacObject set" where
  "execution_objects run rbac operatorNS labels =
     namespace_role run rbac labels ` set (rbacTargetNamespaces (Some rbac)) \<union>
     namespace_binding run operatorNS labels ` set (rbacTargetNamespaces (Some rbac)) \<union>
     (if rbClusterScoped rbac \<noteq> [] then {cluster_role run rbac labels, cluster_binding run operatorNS labels} else {})"

lemma ensure_namespaces_emits:
  assumes "\<And>ns r. ns \<in> set nss \<Longrightarrow> P (EvCreateRbac c (namespace_role run rbac labels ns) r)"
    and "\<And>ns r. ns \<in> set nss \<Longrightarrow> P (EvCreateRbac c (namespace_binding run operatorNS labels ns) r)"
  shows "emits P (ensure_namespaces K c run rbac operatorNS labels nss)"
  using assms
proof (induction nss)
  case Nil
  show ?case unfolding ensure_namespaces.simps by (rule emits_return)
next
  case (Cons ns nss)
  show ?case unfolding ensure_namespaces.simps
    by (intro emit Cons) simp_all
qed

lemma execution_objects_annotations [simp]:
  "namespace_role (set_annotations run m) = namespace_role run"
  "namespace_binding (set_annotations run m) = namespace_binding run"
  "cluster_role (set_annotations run m) = cluster_role run"
  "cluster_binding (set_annotations run m) = cluster_binding run"
  by (auto simp: fun_eq_iff namespace_role_def namespace_binding_def cluster_role_def cluster_binding_def
      execution_subjects_def sandboxSAName_def)

lemma ensureExecutionRBAC_emits:
  "emits (\<lambda>e. \<exists>obj r. e = EvCreateRbac c obj r \<and>
       obj \<in> execution_objects run rbac operatorNS (rbacLabels (mUID (rMeta run)) ''execution-rbac'' ++ extra))
     (ensureExecutionRBAC K c run (Some rbac) operatorNS extra)"
  unfolding ensureExecutionRBAC_def option.case Let_def
  by (intro emit ensure_namespaces_emits) (auto simp: execution_objects_def split: if_splits)

subsection \<open>Requested access\<close>

text \<open>The objects whose creation on a cluster was asked for.\<close>

definition requested :: "event list \<Rightarrow> Cluster \<Rightarrow> RbacObject set" where
  "requested es c = {obj. \<exists>r. EvCreateRbac c obj r \<in> set es}"

lemma requested_simps [simp]:
  "requested [] c = {}" "requested (xs @ ys) c = requested xs c \<union> requested ys c" "requested [EvCreateRbac c obj r] c = {obj}"
  by (auto simp: requested_def)

text \<open>
  What roles and bindings give, by the rules of Kubernetes: a binding gives its subjects the rules of the role it refers to, a
  \<open>RoleBinding\<close> in its own namespace, a \<open>ClusterRoleBinding\<close> everywhere (the namespace is then empty here).
\<close>

definition grants :: "RbacObject set \<Rightarrow> Subject \<Rightarrow> string \<Rightarrow> PolicyRule \<Rightarrow> bool" where
  "grants objs s ns rule \<longleftrightarrow> (\<exists>b \<in> objs. \<exists>role \<in> objs. \<exists>ref. s \<in> set (roSubjects b) \<and> rule \<in> set (roRules role) \<and>
     roRoleRef b = Some ref \<and> rfName ref = kName (roKey role) \<and>
     (roKind b = RoleBindingK \<and> kNamespace (roKey b) = ns \<and>
        (rfKind ref = ''Role'' \<and> roKind role = RoleK \<and> kNamespace (roKey role) = ns \<or> rfKind ref = ''ClusterRole'' \<and> roKind role = ClusterRoleK) \<or>
      roKind b = ClusterRoleBindingK \<and> ns = '''' \<and> rfKind ref = ''ClusterRole'' \<and> roKind role = ClusterRoleK))"

lemma grants_mono: "grants objs s ns rule \<Longrightarrow> objs \<subseteq> objs' \<Longrightarrow> grants objs' s ns rule"
  unfolding grants_def by (meson subsetD)

text \<open>What the option asks for: its rules, with the API group \<open>core\<close> normalised, for the execution service account of the run.\<close>

definition option_grants :: "AgenticRun \<Rightarrow> RBACResult \<Rightarrow> string \<Rightarrow> Subject \<Rightarrow> string \<Rightarrow> PolicyRule \<Rightarrow> bool" where
  "option_grants run rbac operatorNS s ns rule \<longleftrightarrow>
     s = \<lparr>sjKind = ''ServiceAccount'', sjName = sandboxSAName run ''execution'', sjNamespace = operatorNS\<rparr> \<and>
     (\<exists>q. rule = \<lparr>prAPIGroups = normalizeCoreAPIGroup (rbAPIGroups q), prResources = rbResources q,
                  prResourceNames = rbResourceNames q, prVerbs = rbVerbs q\<rparr> \<and>
        (if ns = '''' then q \<in> set (rbClusterScoped rbac) else q \<in> set (rbNamespaceScoped rbac) \<and> rbNamespace q = ns))"

lemma target_namespace_iff: "ns \<in> set (rbacTargetNamespaces (Some rbac)) \<longleftrightarrow> ns \<noteq> '''' \<and> (\<exists>q \<in> set (rbNamespaceScoped rbac). rbNamespace q = ns)"
  using collect_namespaces_spec [of "[]" "rbNamespaceScoped rbac"] by (auto simp: rbacTargetNamespaces_def)

lemmas execution_object_defs = namespace_role_def namespace_binding_def cluster_role_def cluster_binding_def

lemma execution_objects_grant:
  "grants (execution_objects run rbac operatorNS labels) s ns rule \<longleftrightarrow> option_grants run rbac operatorNS s ns rule"
proof
  assume "grants (execution_objects run rbac operatorNS labels) s ns rule"
  then show "option_grants run rbac operatorNS s ns rule"
    by (auto simp: grants_def option_grants_def execution_objects_def execution_object_defs execution_subjects_def
        rbacRulesToPolicyRules_def target_namespace_iff split: if_splits)
next
  assume asked: "option_grants run rbac operatorNS s ns rule"
  show "grants (execution_objects run rbac operatorNS labels) s ns rule"
  proof (cases "ns = ''''")
    case True
    with asked show ?thesis
      unfolding grants_def
      by (intro bexI [of _ "cluster_binding run operatorNS labels"] bexI [of _ "cluster_role run rbac labels"])
        (auto simp: option_grants_def execution_objects_def execution_object_defs execution_subjects_def rbacRulesToPolicyRules_def)
  next
    case False
    with asked have "ns \<in> set (rbacTargetNamespaces (Some rbac))"
      by (auto simp: option_grants_def target_namespace_iff)
    then have "namespace_binding run operatorNS labels ns \<in> execution_objects run rbac operatorNS labels"
      "namespace_role run rbac labels ns \<in> execution_objects run rbac operatorNS labels"
      by (simp_all add: execution_objects_def)
    with False asked show ?thesis
      unfolding grants_def
      by (intro bexI [of _ "namespace_binding run operatorNS labels ns"] bexI [of _ "namespace_role run rbac labels ns"])
        (auto simp: option_grants_def execution_object_defs execution_subjects_def rbacRulesToPolicyRules_def)
  qed
qed

text \<open>A creation without error has asked for every object.\<close>

lemma and_then_wp:
  assumes "wp P m (\<lambda>r h'. case r of None \<Rightarrow> wp P n Q h' | Some e \<Rightarrow> Q (Some e) h') h"
  shows "wp P (and_then m n) Q h"
  unfolding and_then_def by (intro wp_bindI wp_mono [OF assms]) (auto intro: wp_returnI split: option.splits)

lemma create_or_exists_wp:
  assumes "\<And>r. P h (EvCreateRbac c obj r)" and "\<And>x es. obj \<in> requested es c \<Longrightarrow> Q x (h @ es)"
  shows "wp P (create_or_exists K c obj msg) Q h"
  unfolding create_or_exists_def createRbac_def by (intro wp_bindI wp_performI wp_returnI conjI assms) simp_all

lemma create_pair_wp:
  assumes "\<And>h c obj r. P h (EvCreateRbac c obj r)" and "\<And>e es. Q (Some e) (h @ es)"
    and "\<And>es. {a, b} \<subseteq> requested es c \<Longrightarrow> wp P m Q (h @ es)"
  shows "wp P (and_then (create_or_exists K c a msg) (and_then (create_or_exists K c b msg') m)) Q h"
proof (intro and_then_wp create_or_exists_wp assms(1))
  fix x es assume "a \<in> requested es c"
  then have "wp P m Q (h @ es @ es')" if "b \<in> requested es' c" for es'
    using that assms(3) [of "es @ es'"] by simp
  then show "case x of None \<Rightarrow> wp P (and_then (create_or_exists K c b msg') m) Q (h @ es) | Some e \<Rightarrow> Q (Some e) (h @ es)"
    by (auto intro!: and_then_wp create_or_exists_wp assms(1,2) split: option.split)
qed

lemma ensure_namespaces_wp:
  assumes "\<And>h c obj r. P h (EvCreateRbac c obj r)" and "\<And>e es. Q (Some e) (h @ es)"
    and "\<And>es. (\<And>ns. ns \<in> set nss \<Longrightarrow> {namespace_role run rbac labels ns, namespace_binding run operatorNS labels ns} \<subseteq> requested es c) \<Longrightarrow>
      Q None (h @ es)"
  shows "wp P (ensure_namespaces K c run rbac operatorNS labels nss) Q h"
  using assms(2,3)
proof (induction nss arbitrary: h)
  case Nil
  then show ?case using Nil(2) [of "[]"] by (simp add: wp_returnI)
next
  case (Cons ns nss)
  show ?case
    unfolding ensure_namespaces.simps
  proof (intro create_pair_wp assms(1) Cons.prems(1) Cons.IH)
    show "Q (Some e) ((h @ es) @ es')" for e es es' using Cons.prems(1) [of e "es @ es'"] by simp
    fix es es'
    assume "{namespace_role run rbac labels ns, namespace_binding run operatorNS labels ns} \<subseteq> requested es c"
      "\<And>ns'. ns' \<in> set nss \<Longrightarrow> {namespace_role run rbac labels ns', namespace_binding run operatorNS labels ns'} \<subseteq> requested es' c"
    then show "Q None ((h @ es) @ es')" using Cons.prems(2) [of "es @ es'"] by auto
  qed
qed

lemma create_pair_last_wp:
  assumes "\<And>h c obj r. P h (EvCreateRbac c obj r)" and "\<And>e es. Q (Some e) (h @ es)"
    and "\<And>es. {a, b} \<subseteq> requested es c \<Longrightarrow> Q None (h @ es)"
  shows "wp P (and_then (create_or_exists K c a msg) (create_or_exists K c b msg')) Q h"
proof (intro and_then_wp create_or_exists_wp assms(1))
  fix x es assume a: "a \<in> requested es c"
  have "Q y (h @ es @ es')" if "b \<in> requested es' c" for es' y
    using that a assms(2) [of _ "es @ es'"] assms(3) [of "es @ es'"] by (cases y) auto
  then show "case x of None \<Rightarrow> wp P (create_or_exists K c b msg') Q (h @ es) | Some e \<Rightarrow> Q (Some e) (h @ es)"
    by (auto intro!: create_or_exists_wp assms(1,2) split: option.split)
qed

lemma ensureExecutionRBAC_requests:
  assumes "snd (returned (ensureExecutionRBAC K c run (Some rbac) operatorNS extra) h) = None"
  shows "execution_objects run rbac operatorNS (rbacLabels (mUID (rMeta run)) ''execution-rbac'' ++ extra) \<subseteq>
    requested (new_events (ensureExecutionRBAC K c run (Some rbac) operatorNS extra) h) c"
    (is "?objs \<subseteq> _")
proof -
  let ?m = "ensureExecutionRBAC K c run (Some rbac) operatorNS extra"
  let ?Q = "\<lambda>x h'. snd x = None \<longrightarrow> ?objs \<subseteq> requested (drop (length h) h') c"
  have "wp (\<lambda>_ _. True) ?m ?Q h"
    unfolding ensureExecutionRBAC_def option.case Let_def
    by (intro wp_bindI and_then_wp ensure_namespaces_wp)
      (auto simp: execution_objects_def rbacTargetNamespaces_def intro!: wp_returnI create_pair_last_wp wp_ifI split: if_splits)
  then have "?Q (returned ?m h) (snd (run_state ?m h))"
    unfolding returned_def by (rule wp_result)
  with assms show ?thesis by (simp add: new_events_def)
qed

text \<open>
  C25: Execution access is exactly what the approved option asks for. Every object requested is on the target cluster, and every binding
  refers to the execution role of the run, in its namespace or cluster-wide. The roles and bindings requested give nothing but the
  option's rules (API group \<open>core\<close> normalised), each in its own namespace or cluster-wide as the option has it, and only to the run's own
  execution service account; and when the operation reports no error they give all of them. An object that already exists under the run's
  name for it is taken as created.
\<close>

theorem execution_access_from_option:
  assumes es: "es = new_events (ensureExecutionRBAC K c run (Some rbac) operatorNS extra) h"
  shows "(\<forall>c' obj r. EvCreateRbac c' obj r \<in> set es \<longrightarrow> c' = c \<and>
      (\<forall>ref. roRoleRef obj = Some ref \<longrightarrow> rfName ref = kName (roKey obj) \<and>
         (roKind obj, rfKind ref, rfName ref) \<in> {(RoleBindingK, ''Role'', executionRoleName (mUID (rMeta run))),
            (ClusterRoleBindingK, ''ClusterRole'', clusterRoleName (mUID (rMeta run)))})) \<and>
    (\<forall>s ns rule. grants (requested es c) s ns rule \<longrightarrow> option_grants run rbac operatorNS s ns rule) \<and>
    (snd (returned (ensureExecutionRBAC K c run (Some rbac) operatorNS extra) h) = None \<longrightarrow>
      (\<forall>s ns rule. option_grants run rbac operatorNS s ns rule \<longrightarrow> grants (requested es c) s ns rule))"
proof (intro conjI impI allI)
  let ?objs = "execution_objects run rbac operatorNS (rbacLabels (mUID (rMeta run)) ''execution-rbac'' ++ extra)"
  have obj: "c' = c \<and> obj \<in> ?objs" if "EvCreateRbac c' obj r \<in> set es" for c' obj r
    using emits_new_events [OF ensureExecutionRBAC_emits that [unfolded es]] by auto
  then show "c' = c" if "EvCreateRbac c' obj r \<in> set es" for c' obj r
    using that by blast
  show "rfName ref = kName (roKey obj)" and "(roKind obj, rfKind ref, rfName ref) \<in> {(RoleBindingK, ''Role'', executionRoleName (mUID (rMeta run))),
            (ClusterRoleBindingK, ''ClusterRole'', clusterRoleName (mUID (rMeta run)))}"
    if "EvCreateRbac c' obj r \<in> set es" "roRoleRef obj = Some ref" for c' obj r ref
    using obj [OF that(1)] that(2) by (auto simp: execution_objects_def execution_object_defs split: if_splits)
  show "option_grants run rbac operatorNS s ns rule" if "grants (requested es c) s ns rule" for s ns rule
    using grants_mono [OF that, of ?objs] obj by (auto simp: execution_objects_grant requested_def)
  show "grants (requested es c) s ns rule"
    if "snd (returned (ensureExecutionRBAC K c run (Some rbac) operatorNS extra) h) = None" "option_grants run rbac operatorNS s ns rule" for s ns rule
    using grants_mono [OF _ ensureExecutionRBAC_requests [OF that(1)]] that(2) unfolding es execution_objects_grant .
qed

definition sample_rbac :: RBACResult where
  "sample_rbac = \<lparr>rbNamespaceScoped = [\<lparr>rbNamespace = ''prod'', rbAPIGroups = [''core''], rbResources = [''pods''],
       rbResourceNames = [], rbVerbs = [''delete''], rbJustification = ''restart''\<rparr>], rbClusterScoped = []\<rparr>"

lemma sample_run_uid: "mUID (rMeta sample_run) = ''u-1''"
  by (simp add: sample_run_def)

lemma sample_rbac_namespaces: "rbacTargetNamespaces (Some sample_rbac) = [''prod'']"
  by (simp add: rbacTargetNamespaces_def sample_rbac_def)

lemma sample_rbac_scopes: "length (rbNamespaceScoped sample_rbac) > 0" "rbClusterScoped sample_rbac = []"
  by (simp_all add: sample_rbac_def)

lemma sample_rbac_events:
  "new_events (ensureExecutionRBAC (ref_server empty_world) Hub sample_run (Some sample_rbac) ''ops'' Map.empty) [] =
     [EvCreateRbac Hub (namespace_role sample_run sample_rbac (rbacLabels ''u-1'' ''execution-rbac'') ''prod'') None,
      EvCreateRbac Hub (namespace_binding sample_run ''ops'' (rbacLabels ''u-1'' ''execution-rbac'') ''prod'') None]"
  using sample_rbac_scopes
  by (simp add: new_events_def ensureExecutionRBAC_def sample_rbac_namespaces and_then_def
      create_or_exists_def createRbac_def ref_server_def sample_run_uid Let_def)

theorem execution_access_from_option_witness:
  "grants (requested (new_events (ensureExecutionRBAC (ref_server empty_world) Hub sample_run (Some sample_rbac) ''ops'' Map.empty) []) Hub)
     \<lparr>sjKind = ''ServiceAccount'', sjName = ''ls-exe-u-1'', sjNamespace = ''ops''\<rparr> ''prod''
     \<lparr>prAPIGroups = [''''], prResources = [''pods''], prResourceNames = [], prVerbs = [''delete'']\<rparr>"
proof -
  have "snd (returned (ensureExecutionRBAC (ref_server empty_world) Hub sample_run (Some sample_rbac) ''ops'' Map.empty) []) = None"
    using sample_rbac_scopes by (simp add: returned_def ensureExecutionRBAC_def sample_rbac_namespaces and_then_def create_or_exists_def
        createRbac_def ref_server_def Let_def)
  moreover have "option_grants sample_run sample_rbac ''ops'' \<lparr>sjKind = ''ServiceAccount'', sjName = ''ls-exe-u-1'', sjNamespace = ''ops''\<rparr> ''prod''
     \<lparr>prAPIGroups = [''''], prResources = [''pods''], prResourceNames = [], prVerbs = [''delete'']\<rparr>"
    by (simp add: option_grants_def sample_rbac_def normalizeCoreAPIGroup_def sandboxSAName_def stepAbbrev_def sample_run_uid)
  ultimately show ?thesis
    using execution_access_from_option [OF refl] by blast
qed

section \<open>Clean-up is complete\<close>

definition deleted :: "event list \<Rightarrow> Cluster \<Rightarrow> Kind \<Rightarrow> ObjectKey \<Rightarrow> bool" where
  "deleted es c k key \<longleftrightarrow>
     (\<exists>r. EvDelete c k key r \<in> set es \<and> (case r of None \<Rightarrow> True | Some e \<Rightarrow> IsNotFound e))"

lemma deleted_append: "deleted (xs @ ys) c k key \<longleftrightarrow> deleted xs c k key \<or> deleted ys c k key"
  by (auto simp: deleted_def)

lemma deletedI:
  "deleted [EvDelete c k key None] c k key" "IsNotFound e \<Longrightarrow> deleted [EvDelete c k key (Some e)] c k key"
  by (auto simp: deleted_def)

lemma delete_or_wrap_deleted:
  "run_state (delete_or_wrap K c k key msg) h = (None, h') \<Longrightarrow> \<exists>es. h' = h @ es \<and> deleted es c k key"
  by (auto simp: delete_or_wrap_def deleteIfExists_def deleteObject_def intro: deletedI split: option.splits if_splits)

lemma and_then_None:
  "run_state (and_then m n) h = (None, h') \<Longrightarrow> \<exists>h1. run_state m h = (None, h1) \<and> run_state n h1 = (None, h')"
  by (auto simp: and_then_def split: prod.splits option.splits)

lemma cleanup_namespaces_deleted:
  "run_state (cleanup_namespaces K c role nss) h = (None, h') \<Longrightarrow>
   \<exists>es. h' = h @ es \<and> (\<forall>ns \<in> set nss. deleted es c RoleBindingK \<lparr>kName = role, kNamespace = ns\<rparr> \<and>
                                deleted es c RoleK \<lparr>kName = role, kNamespace = ns\<rparr>)"
proof (induction nss arbitrary: h)
  case Nil
  then show ?case by simp
next
  case (Cons ns nss)
  from Cons.prems obtain h1 h2 where
    "run_state (delete_or_wrap K c RoleBindingK \<lparr>kName = role, kNamespace = ns\<rparr> (''delete RoleBinding in '' @ ns)) h = (None, h1)"
    "run_state (delete_or_wrap K c RoleK \<lparr>kName = role, kNamespace = ns\<rparr> (''delete Role in '' @ ns)) h1 = (None, h2)"
    and rest: "run_state (cleanup_namespaces K c role nss) h2 = (None, h')"
    unfolding cleanup_namespaces.simps by (blast dest!: and_then_None)
  then obtain es1 es2 where "h1 = h @ es1" "deleted es1 c RoleBindingK \<lparr>kName = role, kNamespace = ns\<rparr>"
    "h2 = h1 @ es2" "deleted es2 c RoleK \<lparr>kName = role, kNamespace = ns\<rparr>"
    by (blast dest!: delete_or_wrap_deleted)
  moreover obtain es3 where "h' = h2 @ es3" "\<forall>ns \<in> set nss. deleted es3 c RoleBindingK \<lparr>kName = role, kNamespace = ns\<rparr> \<and>
      deleted es3 c RoleK \<lparr>kName = role, kNamespace = ns\<rparr>"
    using Cons.IH [OF rest] by blast
  ultimately show ?case
    by (intro exI [of _ "es1 @ es2 @ es3"]) (auto simp: deleted_append)
qed

lemma cleanupExecutionRBAC_deleted:
  assumes "returned (cleanupExecutionRBAC K c run) h = None"
  shows "\<forall>ns \<in> set (annotatedRBACNamespaces run).
       deleted (new_events (cleanupExecutionRBAC K c run) h) c RoleBindingK \<lparr>kName = executionRoleName (mUID (rMeta run)), kNamespace = ns\<rparr> \<and>
       deleted (new_events (cleanupExecutionRBAC K c run) h) c RoleK \<lparr>kName = executionRoleName (mUID (rMeta run)), kNamespace = ns\<rparr>"
    and "deleted (new_events (cleanupExecutionRBAC K c run) h) c ClusterRoleBindingK \<lparr>kName = clusterRoleName (mUID (rMeta run)), kNamespace = ''''\<rparr>"
    and "deleted (new_events (cleanupExecutionRBAC K c run) h) c ClusterRoleK \<lparr>kName = clusterRoleName (mUID (rMeta run)), kNamespace = ''''\<rparr>"
proof -
  obtain h' where run: "run_state (cleanupExecutionRBAC K c run) h = (None, h')"
    using assms by (cases "run_state (cleanupExecutionRBAC K c run) h") (simp add: returned_def)
  then obtain h1 h2 where
    ns: "run_state (cleanup_namespaces K c (executionRoleName (mUID (rMeta run))) (annotatedRBACNamespaces run)) h = (None, h1)"
    and "run_state (delete_or_wrap K c ClusterRoleBindingK \<lparr>kName = clusterRoleName (mUID (rMeta run)), kNamespace = ''''\<rparr>
      (''delete ClusterRoleBinding '' @ clusterRoleName (mUID (rMeta run)))) h1 = (None, h2)"
    and "run_state (delete_or_wrap K c ClusterRoleK \<lparr>kName = clusterRoleName (mUID (rMeta run)), kNamespace = ''''\<rparr>
      (''delete ClusterRole '' @ clusterRoleName (mUID (rMeta run)))) h2 = (None, h')"
    unfolding cleanupExecutionRBAC_def Let_def by (blast dest!: and_then_None)
  then obtain es2 es3 where
    "h2 = h1 @ es2" "deleted es2 c ClusterRoleBindingK \<lparr>kName = clusterRoleName (mUID (rMeta run)), kNamespace = ''''\<rparr>"
    "h' = h2 @ es3" "deleted es3 c ClusterRoleK \<lparr>kName = clusterRoleName (mUID (rMeta run)), kNamespace = ''''\<rparr>"
    by (blast dest!: delete_or_wrap_deleted)
  moreover obtain es1 where "h1 = h @ es1" "\<forall>ns \<in> set (annotatedRBACNamespaces run).
      deleted es1 c RoleBindingK \<lparr>kName = executionRoleName (mUID (rMeta run)), kNamespace = ns\<rparr> \<and>
      deleted es1 c RoleK \<lparr>kName = executionRoleName (mUID (rMeta run)), kNamespace = ns\<rparr>"
    using cleanup_namespaces_deleted [OF ns] by blast
  moreover have "new_events (cleanupExecutionRBAC K c run) h = es1 @ es2 @ es3"
    using calculation run by (simp add: new_events_def)
  ultimately show "\<forall>ns \<in> set (annotatedRBACNamespaces run).
       deleted (new_events (cleanupExecutionRBAC K c run) h) c RoleBindingK \<lparr>kName = executionRoleName (mUID (rMeta run)), kNamespace = ns\<rparr> \<and>
       deleted (new_events (cleanupExecutionRBAC K c run) h) c RoleK \<lparr>kName = executionRoleName (mUID (rMeta run)), kNamespace = ns\<rparr>"
    and "deleted (new_events (cleanupExecutionRBAC K c run) h) c ClusterRoleBindingK \<lparr>kName = clusterRoleName (mUID (rMeta run)), kNamespace = ''''\<rparr>"
    and "deleted (new_events (cleanupExecutionRBAC K c run) h) c ClusterRoleK \<lparr>kName = clusterRoleName (mUID (rMeta run)), kNamespace = ''''\<rparr>"
    by (auto simp: deleted_append)
qed

lemma ensureExecutionRBAC_run:
  "fst (returned (ensureExecutionRBAC K c run (Some rbac) operatorNS extra) h) =
     (if rbacTargetNamespaces (Some rbac) \<noteq> []
      then set_annotations run ((mAnnotations (rMeta run))(rbacNamespacesAnnotation \<mapsto> join_comma (rbacTargetNamespaces (Some rbac))))
      else run)"
  by (auto simp: returned_def ensureExecutionRBAC_def Let_def rbacTargetNamespaces_def split: prod.splits)

text \<open>The namespaces of an option are non-empty names, and free of commas when its rules are.\<close>

lemma target_namespaces:
  "\<forall>q \<in> set (rbNamespaceScoped rbac). CHR '','' \<notin> set (rbNamespace q) \<Longrightarrow>
   \<forall>ns \<in> set (rbacTargetNamespaces (Some rbac)). ns \<noteq> '''' \<and> CHR '','' \<notin> set ns"
  using collect_namespaces_spec [of "[]" "rbNamespaceScoped rbac"] by (auto simp: rbacTargetNamespaces_def)

text \<open>
  C27: The clean-up of a run reads back from its annotation exactly the namespaces, in order, for which execution access was requested,
  whether or not the creation of the roles succeeded, provided that no namespace name contains a comma.
\<close>

theorem annotation_recovers_namespaces:
  assumes "\<forall>q \<in> set (rbNamespaceScoped rbac). CHR '','' \<notin> set (rbNamespace q)" and "rbacTargetNamespaces (Some rbac) \<noteq> []"
  shows "annotatedRBACNamespaces (fst (returned (ensureExecutionRBAC K c run (Some rbac) operatorNS extra) h)) = rbacTargetNamespaces (Some rbac)"
  using annotation_round_trip [OF assms(2) target_namespaces [OF assms(1)]] assms(2) by (simp add: ensureExecutionRBAC_run)

theorem annotation_recovers_namespaces_witness:
  "annotatedRBACNamespaces (fst (returned (ensureExecutionRBAC (ref_server empty_world) Hub sample_run (Some sample_rbac) ''ops'' Map.empty) [])) =
     [''prod'']"
proof -
  have "\<forall>q \<in> set (rbNamespaceScoped sample_rbac). CHR '','' \<notin> set (rbNamespace q)" "rbacTargetNamespaces (Some sample_rbac) \<noteq> []"
    by (simp_all add: sample_rbac_def rbacTargetNamespaces_def)
  from annotation_recovers_namespaces [OF this] show ?thesis by (simp add: sample_rbac_namespaces)
qed

text \<open>
  C26: A successful clean-up removes all execution access: every object whose creation was attempted for
  the run, whatever the server answered, is deleted (or found absent) by the clean-up of the run as it
  was annotated. Namespace names are non-empty when they matter and contain no comma.
\<close>

theorem cleanup_removes_execution_access:
  assumes "\<forall>q \<in> set (rbNamespaceScoped rbac). CHR '','' \<notin> set (rbNamespace q)"
    and "EvCreateRbac c obj r \<in> set (new_events (ensureExecutionRBAC K c run (Some rbac) operatorNS extra) h)"
    and "run' = fst (returned (ensureExecutionRBAC K c run (Some rbac) operatorNS extra) h)"
    and "returned (cleanupExecutionRBAC K c run') h2 = None"
  shows "deleted (new_events (cleanupExecutionRBAC K c run') h2) c (roKind obj) (roKey obj)"
proof -
  let ?nss = "rbacTargetNamespaces (Some rbac)"
  note nss = target_namespaces [OF assms(1)]
  have uid: "mUID (rMeta run') = mUID (rMeta run)"
    by (simp add: assms(3) ensureExecutionRBAC_run)
  have ann: "?nss \<noteq> [] \<Longrightarrow> annotatedRBACNamespaces run' = ?nss"
    using annotation_round_trip [of ?nss run] nss by (simp add: assms(3) ensureExecutionRBAC_run)
  have "obj \<in> execution_objects run rbac operatorNS (rbacLabels (mUID (rMeta run)) ''execution-rbac'' ++ extra)"
    using emits_new_events [OF ensureExecutionRBAC_emits assms(2)] by auto
  then consider ns where "ns \<in> set ?nss" "roKind obj = RoleK \<or> roKind obj = RoleBindingK"
      "roKey obj = \<lparr>kName = executionRoleName (mUID (rMeta run)), kNamespace = ns\<rparr>"
    | "roKind obj = ClusterRoleK \<or> roKind obj = ClusterRoleBindingK"
      "roKey obj = \<lparr>kName = clusterRoleName (mUID (rMeta run)), kNamespace = ''''\<rparr>"
    by (auto simp: execution_objects_def namespace_role_def namespace_binding_def cluster_role_def cluster_binding_def
        split: if_splits)
  then show ?thesis
  proof cases
    case 1
    then have "ns \<in> set (annotatedRBACNamespaces run')"
      using ann by (cases "?nss = []") auto
    then show ?thesis
      using 1 cleanupExecutionRBAC_deleted(1) [OF assms(4)] by (auto simp: uid)
  next
    case 2
    then show ?thesis
      using cleanupExecutionRBAC_deleted(2,3) [OF assms(4)] by (auto simp: uid)
  qed
qed

lemma ref_delete_or_wrap:
  "run_state (delete_or_wrap (ref_server W) c k key msg) h = (None, h @ [EvDelete c k key None])"
  by (simp add: delete_or_wrap_def deleteIfExists_def deleteObject_def ref_server_def)

lemma and_then_run: "run_state m h = (None, h1) \<Longrightarrow> run_state (and_then m n) h = run_state n h1"
  by (simp add: and_then_def)

lemma ref_cleanup_namespaces: "\<exists>h'. run_state (cleanup_namespaces (ref_server W) c role nss) h = (None, h')"
  by (induction nss arbitrary: h)
    (simp_all only: cleanup_namespaces.simps and_then_run [OF ref_delete_or_wrap] run_state_return, blast)

lemma ref_cleanupExecutionRBAC: "returned (cleanupExecutionRBAC (ref_server W) c run) h = None"
proof -
  obtain h1 where "run_state (cleanup_namespaces (ref_server W) c (executionRoleName (mUID (rMeta run)))
      (annotatedRBACNamespaces run)) h = (None, h1)"
    using ref_cleanup_namespaces by blast
  then show ?thesis
    by (simp add: returned_def cleanupExecutionRBAC_def Let_def and_then_run ref_delete_or_wrap
        and_then_run [OF ref_delete_or_wrap])
qed

theorem cleanup_removes_execution_access_witness:
  "deleted (new_events (cleanupExecutionRBAC (ref_server empty_world) Hub
      (fst (returned (ensureExecutionRBAC (ref_server empty_world) Hub sample_run (Some sample_rbac) ''ops'' Map.empty) []))) [])
     Hub RoleK \<lparr>kName = ''ls-exec-u-1'', kNamespace = ''prod''\<rparr>"
proof -
  have "roKind (namespace_role sample_run sample_rbac (rbacLabels ''u-1'' ''execution-rbac'') ''prod'') = RoleK"
    "roKey (namespace_role sample_run sample_rbac (rbacLabels ''u-1'' ''execution-rbac'') ''prod'') =
       \<lparr>kName = ''ls-exec-u-1'', kNamespace = ''prod''\<rparr>"
    by (simp_all add: namespace_role_def executionRoleName_def truncateK8sName_def sample_run_uid)
  moreover have "\<forall>q \<in> set (rbNamespaceScoped sample_rbac). CHR '','' \<notin> set (rbNamespace q)"
    by (simp add: sample_rbac_def)
  ultimately show ?thesis
    using cleanup_removes_execution_access [OF _ _ refl, of sample_rbac Hub
        "namespace_role sample_run sample_rbac (rbacLabels ''u-1'' ''execution-rbac'') ''prod''" None
        "ref_server empty_world" sample_run "''ops''" Map.empty "[]" "[]"]
    unfolding sample_rbac_events by (simp add: ref_cleanupExecutionRBAC)
qed

section \<open>Spoke credentials\<close>

text \<open>
  C28: A client for a spoke cluster is only ever built from a kubeconfig with a verified TLS endpoint
  and without credential plugins or file references, and always with the ten second dial timeout.
\<close>

theorem spoke_client_is_safe:
  assumes "EvNewClient cfg r \<in> set (new_events (spokeAccessForRun K run operatorNS) h)"
  shows "\<exists>parsed. cfg = parsed\<lparr>rcTimeout := 10 * Second\<rparr> \<and> IsConfigTransportTLS K parsed \<and>
     \<not> rcInsecure parsed \<and> \<not> external_credentials parsed \<and> spTargetCluster (rSpec run) \<noteq> ''''"
proof -
  have "emits (\<lambda>e. \<forall>cfg r. e = EvNewClient cfg r \<longrightarrow> (\<exists>parsed. cfg = parsed\<lparr>rcTimeout := 10 * Second\<rparr> \<and>
     IsConfigTransportTLS K parsed \<and> \<not> rcInsecure parsed \<and> \<not> external_credentials parsed \<and>
     spTargetCluster (rSpec run) \<noteq> '''')) (spokeAccessForRun K run operatorNS)"
    unfolding spokeAccessForRun_def spokeDialTimeout_def by (intro emit) auto
  from emits_new_events [OF this assms] show ?thesis by simp
qed

definition sample_spoke_config :: RestConfig where
  "sample_spoke_config = \<lparr>rcHost = ''https://spoke:6443'', rcInsecure = False, rcExecProvider = False,
     rcAuthProvider = False, rcBearerTokenFile = '''', rcCAFile = '''', rcCertFile = '''', rcKeyFile = '''', rcTimeout = 0, rcCAData = '''', rcServerName = ''''\<rparr>"

definition spoke_run :: AgenticRun where
  "spoke_run = sample_run\<lparr>rSpec := (rSpec sample_run)\<lparr>spTargetCluster := ''east''\<rparr>\<rparr>"

definition spoke_kube :: kube where
  "spoke_kube = (ref_server (empty_world\<lparr>wSecrets :=
     [(\<lparr>kName = ''spoke-kubeconfig-east'', kNamespace = ''ops''\<rparr>, [''kubeconfig'' \<mapsto> ''yaml''])]\<rparr>))
     \<lparr>RESTConfigFromKubeConfig := \<lambda>_. Inr sample_spoke_config\<rparr>"

lemma spoke_events:
  "EvNewClient (sample_spoke_config\<lparr>rcTimeout := 10 * Second\<rparr>) None \<in>
     set (new_events (spokeAccessForRun spoke_kube spoke_run ''ops'') [])"
  by (simp add: new_events_def spokeAccessForRun_def Let_def request_defs spoke_kube_def spoke_run_def ref_server_def
      empty_world_def of_option_def kubeconfigKey_def spokeKubeconfigPrefix_def external_credentials_def
      sample_spoke_config_def spokeDialTimeout_def)

theorem spoke_client_is_safe_witness:
  "spTargetCluster (rSpec spoke_run) \<noteq> '''' \<and>
   (\<exists>parsed. sample_spoke_config\<lparr>rcTimeout := 10 * Second\<rparr> = parsed\<lparr>rcTimeout := 10 * Second\<rparr> \<and>
      \<not> rcInsecure parsed \<and> \<not> external_credentials parsed)"
  using spoke_client_is_safe [OF spoke_events] by blast

end
