(* ===== verification/SandboxAgent.thy ===== *)
theory SandboxAgent
  imports Rbac
begin

text \<open>
  The agent interface (\<^verbatim>\<open>controller/agenticrun/agent.go\<close>) and its two implementations: the production
  caller of \<^verbatim>\<open>sandbox_agent.go\<close>, which launches and releases sandboxes through the sandbox lifecycle, and
  the no-op caller for tests.

  The locale \<open>agent_caller\<close> states what the reconciler relies on from an implementation: the calls
  write the run only through guarded status patches, and never touch its metadata. Both implementations
  are interpretations of it.
\<close>

section \<open>The interface\<close>

record AgentCaller =
  acAnalyze :: "AgenticRun \<Rightarrow> resolvedStep \<Rightarrow> error option op"
  acExecute :: "AgenticRun \<Rightarrow> resolvedStep \<Rightarrow> RemediationOption option \<Rightarrow> error option op"
  acVerify :: "AgenticRun \<Rightarrow> resolvedStep \<Rightarrow> RemediationOption option \<Rightarrow> ExecutionOutput option \<Rightarrow> error option op"
  acEscalate :: "AgenticRun \<Rightarrow> resolvedStep \<Rightarrow> error option op"
  acReleaseSandboxes :: "AgenticRun \<Rightarrow> bool \<Rightarrow> error option op"
  acReleaseSandbox :: "AgenticRun \<Rightarrow> string \<Rightarrow> error option op"

text \<open>A call through the interface leaves its own mark in the history before it runs.\<close>

definition agent_call :: "AgentCaller \<Rightarrow> AgentCall \<Rightarrow> error option op" where
  "agent_call A call = do {
     perform (\<lambda>_. ()) (\<lambda>_. EvAgent call);
     (case call of
        CallAnalyze run step \<Rightarrow> acAnalyze A run step
      | CallExecute run step opt \<Rightarrow> acExecute A run step opt
      | CallVerify run step opt exec \<Rightarrow> acVerify A run step opt exec
      | CallEscalate run step \<Rightarrow> acEscalate A run step
      | CallReleaseSandboxes run zeroGrace \<Rightarrow> acReleaseSandboxes A run zeroGrace
      | CallReleaseSandbox run step \<Rightarrow> acReleaseSandbox A run step)
   }"

definition StubAgentCaller :: AgentCaller where
  "StubAgentCaller = \<lparr>
     acAnalyze = \<lambda>_ _. State_Monad.return None,
     acExecute = \<lambda>_ _ _. State_Monad.return None,
     acVerify = \<lambda>_ _ _ _. State_Monad.return None,
     acEscalate = \<lambda>_ _. State_Monad.return None,
     acReleaseSandboxes = \<lambda>_ _. State_Monad.return None,
     acReleaseSandbox = \<lambda>_ _. State_Monad.return None\<rparr>"

section \<open>The sandbox caller\<close>

text \<open>\<open>SandboxLifecycle\<close>: the sandbox manager behind the caller, with what each call is given.\<close>

record SandboxLifecycle =
  slCreate :: "history \<Rightarrow> AgenticRun \<Rightarrow> string \<Rightarrow> resolvedStep \<Rightarrow> Duration \<Rightarrow> agentContext \<Rightarrow> error + string"
  slRelease :: "history \<Rightarrow> AgenticRun \<Rightarrow> string \<Rightarrow> SpokeAccess option \<Rightarrow> bool \<Rightarrow> error option"

record SandboxAgentCaller =
  scSandbox :: SandboxLifecycle
  scK8sClient :: kube
  scAPIReader :: bool
  scNamespace :: string

definition createSandbox ::
    "SandboxAgentCaller \<Rightarrow> AgenticRun \<Rightarrow> string \<Rightarrow> resolvedStep \<Rightarrow> Duration \<Rightarrow> agentContext \<Rightarrow> (error + string) op" where
  "createSandbox s run stepName step deadline agentCtx =
     perform (\<lambda>h. slCreate (scSandbox s) h run stepName step deadline agentCtx)
       (EvSandboxCreate run stepName step deadline agentCtx)"

definition releaseSandbox_lifecycle ::
    "SandboxAgentCaller \<Rightarrow> AgenticRun \<Rightarrow> string \<Rightarrow> SpokeAccess option \<Rightarrow> bool \<Rightarrow> error option op" where
  "releaseSandbox_lifecycle s run step spoke zeroGrace =
     perform (\<lambda>h. slRelease (scSandbox s) h run step spoke zeroGrace)
       (EvSandboxRelease run step (spoke \<noteq> None) zeroGrace)"

definition collectFailedResults :: "StepResultRef list \<Rightarrow> string \<Rightarrow> agentPreviousAttempt list" where
  "collectFailedResults results stepName =
     concat (map (\<lambda>(i, ref). if rrOutcome ref \<noteq> ActionOutcomeSucceeded
         then [\<lparr>paAttempt = int (i + 1), paFailureReason = stepName @ '' attempt '' @ decimal (i + 1) @ '' failed''\<rparr>] else [])
       (enumerate 0 results))"

definition buildAgentContext :: "AgenticRun \<Rightarrow> agentContext" where
  "buildAgentContext run = \<lparr>
     acPreviousAttempts =
       collectFailedResults (ssResults (stAnalysis (steps run))) ''analysis'' @
       collectFailedResults (ssResults (stExecution (steps run))) ''execution'' @
       collectFailedResults (ssResults (stVerification (steps run))) ''verification'',
     acApprovedOption = None, acExecutionResult = None\<rparr>"

definition executionOutputToAgentResult :: "ExecutionOutput option \<Rightarrow> agentExecutionResult option" where
  "executionOutputToAgentResult exec =
     map_option (\<lambda>e. \<lparr>aeSuccess = eoSuccess e, aeActionsTaken = eoActionsTaken e\<rparr>) exec"

definition sandboxInfoPatchAttempts :: nat where
  "sandboxInfoPatchAttempts = 5"

definition with_sandbox_info :: "AgenticRun \<Rightarrow> string \<Rightarrow> SandboxInfo \<Rightarrow> AgenticRun" where
  "with_sandbox_info run step info =
    (let st = steps run in
     if step = ''analysis'' then set_steps run (st\<lparr>stAnalysis := (stAnalysis st)\<lparr>ssSandbox := info\<rparr>\<rparr>)
     else if step = ''execution'' then set_steps run (st\<lparr>stExecution := (stExecution st)\<lparr>ssSandbox := info\<rparr>\<rparr>)
     else if step = ''verification'' then set_steps run (st\<lparr>stVerification := (stVerification st)\<lparr>ssSandbox := info\<rparr>\<rparr>)
     else if step = ''escalation'' then set_steps run (st\<lparr>stEscalation := (stEscalation st)\<lparr>ssSandbox := info\<rparr>\<rparr>)
     else run)"

fun patch_info_attempts ::
    "SandboxAgentCaller \<Rightarrow> AgenticRun \<Rightarrow> string \<Rightarrow> string \<Rightarrow> nat \<Rightarrow> error \<Rightarrow> error option op" where
  "patch_info_attempts s run step claimName 0 lastErr =
     State_Monad.return (Some (WrapError (''patch sandbox info for step '' @ step) lastErr))"
| "patch_info_attempts s run step claimName (Suc n) lastErr = do {
     r \<leftarrow> readRunnableRun (scK8sClient s) (scAPIReader s) (run_key run) (run_uid run);
     case r of
       Inl e \<Rightarrow> State_Monad.return (Some e)
     | Inr current \<Rightarrow> do {
         p \<leftarrow> patchStatus (scK8sClient s) current
           (with_sandbox_info current step \<lparr>sClaimName = claimName, sNamespace = scNamespace s\<rparr>);
         case p of
           Inr _ \<Rightarrow> State_Monad.return None
         | Inl e \<Rightarrow>
             if \<not> IsConflict e
             then State_Monad.return (Some (WrapError (''patch sandbox info for step '' @ step) e))
             else patch_info_attempts s run step claimName n e
       }
   }"

definition patchSandboxInfo :: "SandboxAgentCaller \<Rightarrow> AgenticRun \<Rightarrow> string \<Rightarrow> string \<Rightarrow> error option op" where
  "patchSandboxInfo s run step claimName =
    (if \<not> scAPIReader s
     then State_Monad.return (Some (NewError ''uncached API reader is required before patching sandbox info''))
     else patch_info_attempts s run step claimName sandboxInfoPatchAttempts (NewError ''''))"

definition launchSandbox ::
    "SandboxAgentCaller \<Rightarrow> AgenticRun \<Rightarrow> string \<Rightarrow> resolvedStep \<Rightarrow> agentContext \<Rightarrow> error option op" where
  "launchSandbox s run stepName step agentCtx =
    (let podDeadline = sandboxPodDeadline (Some (sAgent step)) stepName in
     do {
       r \<leftarrow> retryOnTransient (scK8sClient s) (createSandbox s run stepName step podDeadline agentCtx);
       case r of
         Inl e \<Rightarrow> State_Monad.return (Some (WrapError ''claim sandbox'' e))
       | Inr name \<Rightarrow> do {
           p \<leftarrow> patchSandboxInfo s run stepName name;
           State_Monad.return (map_option (WrapError (''patch sandbox info for step '' @ stepName)) p)
         }
     })"

definition Analyze :: "SandboxAgentCaller \<Rightarrow> AgenticRun \<Rightarrow> resolvedStep \<Rightarrow> error option op" where
  "Analyze s run step = launchSandbox s run (stepString SandboxStepAnalysis) step (buildAgentContext run)"

definition Execute ::
    "SandboxAgentCaller \<Rightarrow> AgenticRun \<Rightarrow> resolvedStep \<Rightarrow> RemediationOption option \<Rightarrow> error option op" where
  "Execute s run step opt =
     launchSandbox s run (stepString SandboxStepExecution) step
       (case opt of None \<Rightarrow> buildAgentContext run | Some x \<Rightarrow> (buildAgentContext run)\<lparr>acApprovedOption := Some x\<rparr>)"

definition Verify ::
    "SandboxAgentCaller \<Rightarrow> AgenticRun \<Rightarrow> resolvedStep \<Rightarrow> RemediationOption option \<Rightarrow> ExecutionOutput option \<Rightarrow> error option op" where
  "Verify s run step opt exec =
     launchSandbox s run (stepString SandboxStepVerification) step
       ((case opt of None \<Rightarrow> buildAgentContext run | Some x \<Rightarrow> (buildAgentContext run)\<lparr>acApprovedOption := Some x\<rparr>)
        \<lparr>acExecutionResult := executionOutputToAgentResult exec\<rparr>)"

definition Escalate :: "SandboxAgentCaller \<Rightarrow> AgenticRun \<Rightarrow> resolvedStep \<Rightarrow> error option op" where
  "Escalate s run step = launchSandbox s run (stepString SandboxStepEscalation) step (buildAgentContext run)"

text \<open>\<open>spokeAccessForRun\<close> as the callers use it: the access if any, and the error.\<close>

definition spoke_or_error :: "error + SpokeAccess option \<Rightarrow> SpokeAccess option \<times> error option" where
  "spoke_or_error r = (case r of Inl e \<Rightarrow> (None, Some e) | Inr x \<Rightarrow> (x, None))"

definition ReleaseSandbox :: "SandboxAgentCaller \<Rightarrow> AgenticRun \<Rightarrow> string \<Rightarrow> error option op" where
  "ReleaseSandbox s run step = do {
     r \<leftarrow> spokeAccessForRun (scK8sClient s) run (scNamespace s);
     let (spoke, spokeErr) = spoke_or_error r;
     e \<leftarrow> releaseSandbox_lifecycle s run step spoke False;
     State_Monad.return (case e of Some err \<Rightarrow> Some err | None \<Rightarrow> spokeErr)
   }"

text \<open>The loop over the four steps: the first error and whether the execution sandbox was released.\<close>

fun release_steps ::
    "SandboxAgentCaller \<Rightarrow> AgenticRun \<Rightarrow> SpokeAccess option \<Rightarrow> bool \<Rightarrow> string list \<Rightarrow> error option \<times> bool \<Rightarrow>
     (error option \<times> bool) op" where
  "release_steps s run spoke zeroGrace [] acc = State_Monad.return acc"
| "release_steps s run spoke zeroGrace (step # rest) (firstErr, executionReleased) =
    (if sandboxClaimName run step = '''' then release_steps s run spoke zeroGrace rest (firstErr, executionReleased)
     else do {
       e \<leftarrow> releaseSandbox_lifecycle s run step spoke zeroGrace;
       release_steps s run spoke zeroGrace rest
         (if firstErr = None then e else firstErr, executionReleased \<or> step = ''execution'')
     })"

definition all_steps :: "string list" where
  "all_steps = [''analysis'', ''execution'', ''verification'', ''escalation'']"

definition ReleaseSandboxes :: "SandboxAgentCaller \<Rightarrow> AgenticRun \<Rightarrow> bool \<Rightarrow> error option op" where
  "ReleaseSandboxes s run zeroGrace = do {
     r \<leftarrow> spokeAccessForRun (scK8sClient s) run (scNamespace s);
     let (spoke, spokeErr) = spoke_or_error r;
     let firstErr = (case spokeErr of
         Some e \<Rightarrow> if \<not> IsNotFound e \<or> IsZero (mDeletionTimestamp (rMeta run)) then Some e else None
       | None \<Rightarrow> None);
     (firstErr, executionReleased) \<leftarrow> release_steps s run spoke zeroGrace all_steps (firstErr, False);
     if executionReleased then State_Monad.return firstErr
     else do {
       e \<leftarrow> cleanupStepRBAC (scK8sClient s) spoke (scNamespace s) run ''execution'';
       State_Monad.return (if firstErr = None then e else firstErr)
     }
   }"

definition sandbox_caller :: "SandboxAgentCaller \<Rightarrow> AgentCaller" where
  "sandbox_caller s = \<lparr>acAnalyze = Analyze s, acExecute = Execute s, acVerify = Verify s, acEscalate = Escalate s,
     acReleaseSandboxes = ReleaseSandboxes s, acReleaseSandbox = ReleaseSandbox s\<rparr>"

section \<open>The contract of an agent caller\<close>

definition release_event :: "event \<Rightarrow> bool" where
  "release_event e \<longleftrightarrow> rbac_event e \<or> (case e of EvSandboxRelease _ _ _ _ _ \<Rightarrow> True | _ \<Rightarrow> False)"

definition sandbox_event :: "event \<Rightarrow> bool" where
  "sandbox_event e \<longleftrightarrow> release_event e \<or>
     (case e of EvGetRun _ _ \<Rightarrow> True | EvGetConfig _ \<Rightarrow> True | EvStatusPatch _ _ _ \<Rightarrow> True
      | EvSandboxCreate _ _ _ _ _ _ \<Rightarrow> True | EvContextDone _ \<Rightarrow> True | _ \<Rightarrow> False)"

lemma sandbox_event_simps [simp]:
  "sandbox_event (EvGetRun key r)" "sandbox_event (EvGetConfig c)" "sandbox_event (EvStatusPatch b n r2)"
  "sandbox_event (EvSandboxCreate run st rs d ctx r3)" "sandbox_event (EvContextDone d2)"
  "release_event e \<Longrightarrow> sandbox_event e"
  by (simp_all add: sandbox_event_def)

lemma release_event_simps [simp]:
  "release_event (EvSandboxRelease run st b z r)" "rbac_event e \<Longrightarrow> release_event e"
  by (simp_all add: release_event_def)

lemma release_event_guarded: "release_event e \<Longrightarrow> guarded_write K h e"
  by (auto simp: release_event_def rbac_event_def guarded_write_def split: event.splits)

locale agent_caller =
  fixes A :: AgentCaller and K :: kube
  assumes analyze_guarded: "wp (\<lambda>h e. guarded_write K h e \<and> sandbox_event e) (acAnalyze A run step) (\<lambda>_ _. True) h"
    and execute_guarded: "wp (\<lambda>h e. guarded_write K h e \<and> sandbox_event e) (acExecute A run step opt) (\<lambda>_ _. True) h"
    and verify_guarded: "wp (\<lambda>h e. guarded_write K h e \<and> sandbox_event e) (acVerify A run step opt exec) (\<lambda>_ _. True) h"
    and escalate_guarded: "wp (\<lambda>h e. guarded_write K h e \<and> sandbox_event e) (acEscalate A run step) (\<lambda>_ _. True) h"
    and release_all_emits: "emits release_event (acReleaseSandboxes A run zeroGrace)"
    and release_one_emits: "emits release_event (acReleaseSandbox A run stepName)"
begin

lemma agent_call_wp:
  assumes "P h (EvAgent call)"
    and "\<And>h e. guarded_write K h e \<Longrightarrow> sandbox_event e \<Longrightarrow> P h e"
    and "\<And>x es. Q x (h @ es)"
  shows "wp P (agent_call A call) Q h"
proof -
  have call: "wp P m Q (h @ [e])"
    if "wp (\<lambda>h e. guarded_write K h e \<and> sandbox_event e) m (\<lambda>_ _. True) (h @ [e])" for m e
    using assms(2) assms(3) by (intro wp_mono [OF wp_mono_event [OF that]]) auto
  have rel: "wp P m Q (h @ [e])" if "emits release_event m" for m e
    by (rule emits_wp [OF that]) (use assms(2,3) release_event_guarded in auto)
  show ?thesis
    unfolding agent_call_def
    by (intro wp_bindI wp_performI assms(1), cases call)
      (simp_all add: call [OF analyze_guarded] call [OF execute_guarded] call [OF verify_guarded]
        call [OF escalate_guarded] rel [OF release_all_emits] rel [OF release_one_emits])
qed

lemma release_call_wp:
  assumes "\<not> launches_agent call" and "P h (EvAgent call)"
    and "\<And>h e. release_event e \<Longrightarrow> P h e" and "\<And>x es. Q x (h @ es)"
  shows "wp P (agent_call A call) Q h"
proof -
  have rel: "wp P m Q (h @ [e])" if "emits release_event m" for m e
    by (rule emits_wp [OF that]) (use assms(3,4) in auto)
  show ?thesis
    using assms(1) unfolding agent_call_def
    by (intro wp_bindI wp_performI assms(2), cases call)
      (simp_all add: rel [OF release_all_emits] rel [OF release_one_emits])
qed

end

interpretation stub_caller: agent_caller StubAgentCaller K for K
  by unfold_locales (auto simp: StubAgentCaller_def intro!: wp_returnI emit)

subsection \<open>The sandbox caller satisfies it\<close>

lemma retry_attempts_wp:
  assumes "\<And>h. wp P fn (\<lambda>_ _. True) h" and "\<And>h d. P h (EvContextDone d)"
  shows "wp P (retry_attempts K n fn) (\<lambda>_ _. True) h"
proof (induction n arbitrary: h)
  case 0
  show ?case by (simp add: wp_returnI)
next
  case (Suc n)
  show ?case
    unfolding retry_attempts.simps
    by (intro wp_bindI wp_mono [OF assms(1)] wp_case_sum wp_ifI wp_returnI wp_requests2 conjI assms(2) Suc) simp_all
qed

lemma patch_info_guarded:
  "wp (\<lambda>h e. guarded_write (scK8sClient s) h e \<and> sandbox_event e) (patch_info_attempts s run step claim n err) (\<lambda>_ _. True) h"
proof (induction n arbitrary: h err)
  case 0
  show ?case unfolding patch_info_attempts.simps by (intro wp TrueI)
next
  case (Suc n)
  show ?case
    unfolding patch_info_attempts.simps
    by (intro wp_bindI readRunnableRun_wp wp_case_sum wp_returnI wp_requests wp_ifI conjI Suc TrueI)
      (auto dest: runnable_fresh)
qed

lemma launchSandbox_guarded:
  "wp (\<lambda>h e. guarded_write (scK8sClient s) h e \<and> sandbox_event e) (launchSandbox s run stepName step ctx) (\<lambda>_ _. True) h"
proof -
  have retry: "wp (\<lambda>h e. guarded_write (scK8sClient s) h e \<and> sandbox_event e)
      (retryOnTransient (scK8sClient s) (createSandbox s run stepName step d ctx)) (\<lambda>_ _. True) h" for d
    unfolding retryOnTransient_def createSandbox_def
    by (rule retry_attempts_wp) (simp_all add: wp_performI)
  show ?thesis
    unfolding launchSandbox_def patchSandboxInfo_def Let_def
    by (intro wp_bindI wp_mono [OF retry] wp_case_sum wp_ifI wp_returnI wp_mono [OF patch_info_guarded] TrueI)
qed

lemma release_steps_emits: "emits release_event (release_steps s run spoke z ss acc)"
  by (induction s run spoke z ss acc rule: release_steps.induct)
    (auto simp: releaseSandbox_lifecycle_def intro!: emit emits_perform)

interpretation prod_caller: agent_caller "sandbox_caller s" "scK8sClient s" for s
proof
  show "emits release_event (acReleaseSandboxes (sandbox_caller s) run zeroGrace)" for run zeroGrace
    unfolding sandbox_caller_def AgentCaller.simps ReleaseSandboxes_def
    by (intro emit release_steps_emits emits_mono [OF spokeAccessForRun_emits] emits_mono [OF cleanupStepRBAC_emits]) simp_all
  show "emits release_event (acReleaseSandbox (sandbox_caller s) run stepName)" for run stepName
    unfolding sandbox_caller_def AgentCaller.simps ReleaseSandbox_def releaseSandbox_lifecycle_def
    by (intro emit emits_perform emits_mono [OF spokeAccessForRun_emits]) simp_all
qed (simp_all only: sandbox_caller_def AgentCaller.simps Analyze_def Execute_def Verify_def Escalate_def launchSandbox_guarded)

section \<open>Launching and releasing\<close>

fun is_create :: "event \<Rightarrow> bool" where
  "is_create (EvSandboxCreate _ _ _ _ _ _) = True"
| "is_create _ = False"

fun is_patch :: "event \<Rightarrow> bool" where
  "is_patch (EvStatusPatch _ _ _) = True"
| "is_patch _ = False"

abbreviation count :: "(event \<Rightarrow> bool) \<Rightarrow> event list \<Rightarrow> nat" where
  "count p es \<equiv> length (filter p es)"

lemma retry_create_count:
  "wp (\<lambda>_ _. True) (retry_attempts K n (createSandbox s run step rs d ctx))
     (\<lambda>_ h'. count is_create h' \<le> count is_create h + n \<and> count is_patch h' = count is_patch h) h"
proof (induction n arbitrary: h)
  case 0
  show ?case by (simp add: wp_returnI)
next
  case (Suc n)
  show ?case
    unfolding retry_attempts.simps createSandbox_def
    by (intro wp_bindI wp_performI wp_case_sum wp_ifI wp_returnI wp_requests2 conjI TrueI wp_mono [OF Suc.IH [unfolded createSandbox_def]])
      auto
qed

lemma patch_info_count:
  "wp (\<lambda>_ _. True) (patch_info_attempts s run step claim n err)
     (\<lambda>_ h'. count is_create h' = count is_create h \<and> count is_patch h' \<le> count is_patch h + n) h"
proof (induction n arbitrary: h err)
  case 0
  show ?case unfolding patch_info_attempts.simps by (simp add: wp_returnI)
next
  case (Suc n)
  let ?Q = "\<lambda>h'. count is_create h' = count is_create h \<and> count is_patch h' = count is_patch h"
  have read: "wp (\<lambda>_ _. True) (readRunnableRun K reader key uid) (\<lambda>_. ?Q) h" for K reader key uid
    unfolding readRunnableRun_def
    by (intro wp_bindI wp_case_sum wp_ifI wp_returnI wp_requests conjI TrueI) auto
  show ?case
    unfolding patch_info_attempts.simps
    by (intro wp_bindI wp_mono [OF read] wp_case_sum wp_ifI wp_returnI wp_requests conjI TrueI wp_mono [OF Suc.IH])
      auto
qed

text \<open>
  C29: Launching a step creates at most three sandboxes and patches the status at most five times,
  whatever the server and the sandbox manager answer.
\<close>

theorem launch_is_bounded:
  "count is_create (new_events (launchSandbox s run stepName step ctx) h) \<le> 3 \<and>
   count is_patch (new_events (launchSandbox s run stepName step ctx) h) \<le> 5"
proof -
  let ?m = "launchSandbox s run stepName step ctx"
  have "wp (\<lambda>_ _. True) ?m
     (\<lambda>_ h'. count is_create h' \<le> count is_create h + 3 \<and> count is_patch h' \<le> count is_patch h + 5) h"
    unfolding launchSandbox_def Let_def retryOnTransient_def maxCreateRetries_def patchSandboxInfo_def sandboxInfoPatchAttempts_def
    by (intro wp_bindI wp_mono [OF retry_create_count] wp_case_sum wp_ifI wp_returnI wp_mono [OF patch_info_count]) auto
  from wp_result [OF this] wp_history [OF this] show ?thesis by simp
qed

lemma patch_info_success:
  "wp (\<lambda>_ _. True) (patch_info_attempts s run step claim n err)
     (\<lambda>r h'. r = None \<longrightarrow> (\<exists>h1 current p.
        h' = h1 @ [EvStatusPatch current (with_sandbox_info current step \<lparr>sClaimName = claim, sNamespace = scNamespace s\<rparr>) (Inr p)] \<and>
        fresh_base (scK8sClient s) h1 current \<and> mUID (rMeta current) = run_uid run \<and>
        \<not> HasAcceptedStop (scK8sClient s) current)) h"
proof (induction n arbitrary: h err)
  case 0
  show ?case unfolding patch_info_attempts.simps by (simp add: wp_returnI)
next
  case (Suc n)
  have uid: "runnable_at K h key uid current h' \<Longrightarrow> run_uid current = uid" for K h key uid current h'
    by (auto simp: runnable_at_def)
  show ?case
    unfolding patch_info_attempts.simps
    by (intro wp_bindI readRunnableRun_wp wp_case_sum wp_ifI wp_returnI wp_requests conjI TrueI Suc.IH)
      (auto dest: runnable_fresh uid)
qed

text \<open>
  A launch that reports success has recorded the sandbox on the run: its last request is an accepted
  status patch that stores the claim name under the launched step, starting from a run with the same
  UID that was read from the server during the launch and had no accepted stop.
\<close>

theorem launch_records_sandbox:
  assumes "returned (launchSandbox s run stepName step ctx) h = None"
  shows "\<exists>h1 current claim p. snd (run_state (launchSandbox s run stepName step ctx) h) =
       h1 @ [EvStatusPatch current (with_sandbox_info current stepName \<lparr>sClaimName = claim, sNamespace = scNamespace s\<rparr>) (Inr p)] \<and>
     fresh_base (scK8sClient s) h1 current \<and> mUID (rMeta current) = run_uid run \<and>
     \<not> HasAcceptedStop (scK8sClient s) current"
proof -
  have any: "wp (\<lambda>_ _. True) (retry_attempts K n (createSandbox s run stepName step d ctx)) (\<lambda>_ _. True) h" for K n d
    by (rule retry_attempts_wp) (simp_all add: createSandbox_def wp_performI)
  have "wp (\<lambda>_ _. True) (launchSandbox s run stepName step ctx)
     (\<lambda>r h'. r = None \<longrightarrow> (\<exists>h1 current claim p.
        h' = h1 @ [EvStatusPatch current (with_sandbox_info current stepName \<lparr>sClaimName = claim, sNamespace = scNamespace s\<rparr>) (Inr p)] \<and>
        fresh_base (scK8sClient s) h1 current \<and> mUID (rMeta current) = run_uid run \<and>
        \<not> HasAcceptedStop (scK8sClient s) current)) h"
    unfolding launchSandbox_def Let_def retryOnTransient_def patchSandboxInfo_def
    by (intro wp_bindI wp_mono [OF any] wp_case_sum wp_ifI wp_returnI wp_mono [OF patch_info_success]) auto
  from wp_result [OF this] assms show ?thesis by (simp add: returned_def)
qed

lemma release_steps_all:
  "wp (\<lambda>_ _. True) (release_steps s run spoke z ss acc)
     (\<lambda>r h'. (\<exists>es. h' = h @ es \<and> (\<forall>step \<in> set ss. sandboxClaimName run step \<noteq> '''' \<longrightarrow>
          (\<exists>e. EvSandboxRelease run step (spoke \<noteq> None) z e \<in> set es \<and> (fst r = None \<longrightarrow> e = None)))) \<and>
        (fst r = None \<longrightarrow> fst acc = None) \<and>
        (snd r \<longleftrightarrow> snd acc \<or> (''execution'' \<in> set ss \<and> sandboxClaimName run ''execution'' \<noteq> ''''))) h"
proof (induction ss arbitrary: acc h)
  case Nil
  show ?case by (cases acc) (simp add: wp_returnI)
next
  case (Cons step ss)
  obtain fe er where acc: "acc = (fe, er)" by (cases acc)
  show ?case
  proof (cases "sandboxClaimName run step = ''''")
    case True
    then show ?thesis
      using Cons.IH [of acc h] unfolding acc release_steps.simps by (auto elim!: wp_mono)
  next
    case False
    have "wp (\<lambda>_ _. True) (release_steps s run spoke z ss (if fe = None then e else fe, er \<or> step = ''execution''))
        (\<lambda>r h'. (\<exists>es. h' = h @ es \<and> (\<forall>st \<in> set (step # ss). sandboxClaimName run st \<noteq> '''' \<longrightarrow>
          (\<exists>e. EvSandboxRelease run st (spoke \<noteq> None) z e \<in> set es \<and> (fst r = None \<longrightarrow> e = None)))) \<and>
        (fst r = None \<longrightarrow> fst acc = None) \<and>
        (snd r \<longleftrightarrow> snd acc \<or> (''execution'' \<in> set (step # ss) \<and> sandboxClaimName run ''execution'' \<noteq> '''')))
        (h @ [EvSandboxRelease run step (spoke \<noteq> None) z e])" for e
      using False by (intro wp_mono [OF Cons.IH]) (auto simp: acc split: if_splits)
    then show ?thesis
      using False unfolding acc release_steps.simps releaseSandbox_lifecycle_def
      by (auto intro!: wp_bindI wp_performI)
  qed
qed

text \<open>
  Releasing is thorough: every step with a recorded claim is released, with the requested grace,
  even when spoke access or an earlier release fails; no error is reported only if every release
  succeeded.
\<close>

theorem release_is_thorough:
  assumes "step \<in> set all_steps" and "sandboxClaimName run step \<noteq> ''''"
  shows "\<exists>spoke e. EvSandboxRelease run step spoke zeroGrace e \<in> set (new_events (ReleaseSandboxes s run zeroGrace) h) \<and>
     (returned (ReleaseSandboxes s run zeroGrace) h = None \<longrightarrow> e = None)"
proof -
  let ?Q = "\<lambda>r h'. (\<exists>es. h' = h @ es \<and> (\<exists>spoke e. EvSandboxRelease run step spoke zeroGrace e \<in> set es \<and> (r = None \<longrightarrow> e = None)))"
  have extend: "?Q r h' \<Longrightarrow> ?Q r (h' @ es)" for r h' es
    by force
  have cleanup: "wp (\<lambda>_ _. True) (cleanupStepRBAC K spoke ns run st) Q h'" if "\<And>x es. Q x (h' @ es)" for K spoke ns st Q h'
    using that by (intro rbac_wp) auto
  have "wp (\<lambda>_ _. True) (ReleaseSandboxes s run zeroGrace) ?Q h"
    unfolding ReleaseSandboxes_def Let_def
    by (intro wp_bindI rbac_wp(2) wp_case_prod wp_mono [OF release_steps_all] wp_ifI wp_returnI cleanup TrueI)
      (use assms in \<open>(force split: if_splits)+\<close>)
  from wp_result [OF this] wp_history [OF this] show ?thesis
    by (auto simp: returned_def)
qed

definition sample_lifecycle :: SandboxLifecycle where
  "sample_lifecycle = \<lparr>slCreate = \<lambda>_ run step _ _ _. Inr (''ls-'' @ step @ ''-'' @ mName (rMeta run)), slRelease = \<lambda>_ _ _ _ _. None\<rparr>"

definition sample_llm :: LLMProvider where
  "sample_llm = \<lparr>llName = ''claude'', llType = LLMProviderAnthropic,
     llAnthropic = \<lparr>anCredentialsSecret = ''llm-creds'', anURL = ''''\<rparr>,
     llGoogleCloudVertex = \<lparr>gvCredentialsSecret = '''', gvProjectID = '''', gvRegion = '''',
       gvModelProvider = GoogleCloudVertexModelProviderUnset, gvURL = ''''\<rparr>,
     llOpenAI = \<lparr>anCredentialsSecret = '''', anURL = ''''\<rparr>,
     llAzureOpenAI = \<lparr>azCredentialsSecret = '''', azEndpoint = '''', azAPIVersion = '''', azURL = ''''\<rparr>,
     llAWSBedrock = \<lparr>awCredentialsSecret = '''', awRegion = '''', awURL = ''''\<rparr>\<rparr>"

definition sample_step :: resolvedStep where
  "sample_step = \<lparr>sAgent = sample_agent, sLLM = sample_llm, sTools = spTools (rSpec sample_run)\<rparr>"

definition sample_world :: world where
  "sample_world = empty_world\<lparr>wRuns := [sample_run], wAgents := [sample_agent], wLLMs := [sample_llm],
     wSecrets := [(\<lparr>kName = ''llm-creds'', kNamespace = ''openshift-lightspeed''\<rparr>, Map.empty)]\<rparr>"

definition sample_caller :: SandboxAgentCaller where
  "sample_caller = \<lparr>scSandbox = sample_lifecycle, scK8sClient = ref_server sample_world, scAPIReader = True,
     scNamespace = ''openshift-lightspeed''\<rparr>"

lemma sample_launch:
  "returned (launchSandbox sample_caller sample_run ''analysis'' sample_step (buildAgentContext sample_run)) [] = None"
  by (simp add: returned_def launchSandbox_def Let_def retryOnTransient_def maxCreateRetries_def numeral_3_eq_3 createSandbox_def
      patchSandboxInfo_def sandboxInfoPatchAttempts_def eval_nat_numeral readRunnableRun_def HasAcceptedStop_def HasFinalStopOutcome_def
      request_defs server_defs sample_caller_def sample_world_def sample_lifecycle_def sample_defs)

theorem launch_records_sandbox_witness:
  "\<exists>h1 current claim p. snd (run_state (launchSandbox sample_caller sample_run ''analysis'' sample_step (buildAgentContext sample_run)) []) =
     h1 @ [EvStatusPatch current (with_sandbox_info current ''analysis'' \<lparr>sClaimName = claim, sNamespace = ''openshift-lightspeed''\<rparr>) (Inr p)]"
  using launch_records_sandbox [OF sample_launch] by (auto simp: sample_caller_def)

definition claimed_run :: AgenticRun where
  "claimed_run = with_sandbox_info sample_run ''verification'' \<lparr>sClaimName = ''ls-v'', sNamespace = ''openshift-lightspeed''\<rparr>"

theorem release_is_thorough_witness:
  "\<exists>spoke e. EvSandboxRelease claimed_run ''verification'' spoke True e \<in>
     set (new_events (ReleaseSandboxes sample_caller claimed_run True) [])"
proof -
  have "sandboxClaimName claimed_run ''verification'' \<noteq> ''''"
    by (simp add: claimed_run_def with_sandbox_info_def sandboxClaimName_def Let_def)
  then show ?thesis
    using release_is_thorough [of "''verification''" claimed_run True sample_caller "[]"] by (auto simp: all_steps_def)
qed

end
