(* ===== verification/Handlers.thy ===== *)
theory Handlers
  imports SandboxAgent
begin

text \<open>
  The step handlers of the reconciler: \<^verbatim>\<open>controller/agenticrun/handlers.go\<close> (without suspension, see
  \<open>Suspension\<close>), and the parts of \<^verbatim>\<open>helpers.go\<close> they use.

  A handler gets the run the reconciler has read and returns the controller result and an error. The
  lemmas show that a handler launches an agent only behind its approval gate and after the run was
  marked in progress by an accepted patch, and that all its status writes are guarded.
\<close>

section \<open>The reconciler\<close>

definition sandboxModeSandboxClaim :: string where
  [go_consts]: "sandboxModeSandboxClaim = ''sandbox-claim''"

text \<open>The fields of the parsed configuration that the run controller reads.\<close>

record Config =
  cfSandboxMode :: string
  cfTerminalTTLDays :: int

text \<open>
  \<open>AgenticRunReconciler\<close>: the API client and reader behind one interface to the server (the flag says
  whether the uncached reader is set), the agent caller, the suspension cleanup of the sandbox manager
  if one is set, the loaded configuration if there is one, and whether auditing and the log store are set.
\<close>

record Reconciler =
  rKube :: kube
  rAPIReader :: bool
  rAgent :: AgentCaller
  rSandbox :: "(history \<Rightarrow> UID \<Rightarrow> Duration \<Rightarrow> SuspensionCleanup \<times> error option) option"
  rConfig :: "Config option"
  rNamespace :: string
  rAudit :: bool
  rTempLog :: bool

record CtrlResult =
  crRequeue :: bool
  crRequeueAfter :: Duration

type_synonym outcome = "CtrlResult \<times> error option"

definition no_result :: CtrlResult where
  "no_result = \<lparr>crRequeue = False, crRequeueAfter = 0\<rparr>"

abbreviation done_ok :: "outcome op" where
  "done_ok \<equiv> State_Monad.return (no_result, None)"

abbreviation fail_with :: "error \<Rightarrow> outcome op" where
  "fail_with e \<equiv> State_Monad.return (no_result, Some e)"

abbreviation requeue_now :: "outcome op" where
  "requeue_now \<equiv> State_Monad.return (no_result\<lparr>crRequeue := True\<rparr>, None)"

abbreviation requeue_after :: "Duration \<Rightarrow> outcome op" where
  "requeue_after d \<equiv> State_Monad.return (no_result\<lparr>crRequeueAfter := d\<rparr>, None)"

section \<open>Results and options of a run\<close>

definition appendResultRef :: "AgenticRun \<Rightarrow> string \<Rightarrow> string \<Rightarrow> ActionOutcome \<Rightarrow> AgenticRun" where
  "appendResultRef run step name outcome =
    (let ref = \<lparr>rrName = name, rrOutcome = outcome\<rparr>; st = steps run;
         add = (\<lambda>s. s\<lparr>ssResults := ssResults s @ [ref]\<rparr>) in
     if step = ''analysis'' then set_steps run (st\<lparr>stAnalysis := add (stAnalysis st)\<rparr>)
     else if step = ''execution'' then set_steps run (st\<lparr>stExecution := add (stExecution st)\<rparr>)
     else if step = ''verification'' then set_steps run (st\<lparr>stVerification := add (stVerification st)\<rparr>)
     else if step = ''escalation'' then set_steps run (st\<lparr>stEscalation := add (stEscalation st)\<rparr>)
     else run)"

definition getLatestAnalysisResult :: "Reconciler \<Rightarrow> AgenticRun \<Rightarrow> (error + AnalysisResult option) op" where
  "getLatestAnalysisResult r run =
    (let results = ssResults (stAnalysis (steps run)) in
     if results = [] then State_Monad.return (Inr None)
     else let latestRef = last results in
     do {
       x \<leftarrow> getAnalysisResult (rKube r) \<lparr>kName = rrName latestRef, kNamespace = rNamespace r\<rparr>;
       State_Monad.return (case x of
           Inl e \<Rightarrow> Inl (WrapError (''get AnalysisResult '' @ rrName latestRef) e)
         | Inr res \<Rightarrow> Inr (Some res))
     })"

definition selectedOption :: "Reconciler \<Rightarrow> AgenticRun \<Rightarrow> (error + RemediationOption option) op" where
  "selectedOption r run = do {
     x \<leftarrow> getLatestAnalysisResult r run;
     State_Monad.return (case x of
         Inl e \<Rightarrow> Inl e
       | Inr None \<Rightarrow> Inr None
       | Inr (Some res) \<Rightarrow> Inr (case anOptions res of [] \<Rightarrow> None | opt # _ \<Rightarrow> Some opt))
   }"

text \<open>\<open>%d\<close> of an integer.\<close>

definition sprint_int :: "int \<Rightarrow> string" where
  "sprint_int i = (if i < 0 then ''-'' @ decimal (nat (- i)) else decimal (nat i))"

definition trimNonSelectedOptions ::
    "Reconciler \<Rightarrow> AgenticRun \<Rightarrow> AgenticRunApproval option \<Rightarrow> (error + RemediationOption option) op" where
  "trimNonSelectedOptions r run approval = do {
     x \<leftarrow> getLatestAnalysisResult r run;
     case x of
       Inl e \<Rightarrow> State_Monad.return (Inl e)
     | Inr None \<Rightarrow> State_Monad.return (Inr None)
     | Inr (Some res) \<Rightarrow>
         let options = anOptions res in
         if length options = 0 then State_Monad.return (Inr None)
         else if length options = 1 then State_Monad.return (Inr (Some (options ! 0)))
         else
           let idx = getStageOption approval in
           if idx < 0 \<or> idx \<ge> int (length options)
           then State_Monad.return (Inl (NewError (''selected option index '' @ sprint_int idx @
             '' out of range (have '' @ decimal (length options) @ '' options)'')))
           else
             let selected = options ! nat idx in
             do {
               p \<leftarrow> patchResult (rKube r) (AnalysisResultObject res)
                 (AnalysisResultObject (res\<lparr>anOptions := [selected]\<rparr>));
               State_Monad.return (case p of
                   Some e \<Rightarrow> Inl (WrapError ''trim AnalysisResult options'' e)
                 | None \<Rightarrow> Inr (Some selected))
             }
   }"

section \<open>Failing and denying\<close>

text \<open>The failure result of a step, and the run with its reference when it could be created.\<close>

definition record_failure ::
    "Reconciler \<Rightarrow> AgenticRun \<Rightarrow> string \<Rightarrow> Time option \<Rightarrow> Time \<Rightarrow> string \<Rightarrow> AgenticRun op" where
  "record_failure r run conditionType startTime completedAt msg =
    (let K = rKube r; ns = rNamespace r in
     if conditionType = AgenticRunConditionAnalyzed then do {
       (crName, res) \<leftarrow> createAnalysisResult K ns run None (ssSandbox (stAnalysis (steps run))) startTime (Some completedAt) msg;
       State_Monad.return (case res of Inl _ \<Rightarrow> run | Inr _ \<Rightarrow> appendResultRef run ''analysis'' crName ActionOutcomeFailed)
     }
     else if conditionType = AgenticRunConditionExecuted then do {
       (crName, res) \<leftarrow> createExecutionResult K ns run None (ssSandbox (stExecution (steps run))) startTime (Some completedAt) msg;
       State_Monad.return (case res of Inl _ \<Rightarrow> run | Inr _ \<Rightarrow> appendResultRef run ''execution'' crName ActionOutcomeFailed)
     }
     else if conditionType = AgenticRunConditionVerified then do {
       (crName, res) \<leftarrow> createVerificationResult K ns run None (ssSandbox (stVerification (steps run))) startTime (Some completedAt) msg;
       State_Monad.return (case res of Inl _ \<Rightarrow> run | Inr _ \<Rightarrow> appendResultRef run ''verification'' crName ActionOutcomeFailed)
     }
     else if conditionType = AgenticRunConditionEscalated then do {
       (crName, res) \<leftarrow> createEscalationResult K ns run None (ssSandbox (stEscalation (steps run))) startTime (Some completedAt) msg;
       State_Monad.return (case res of Inl _ \<Rightarrow> run | Inr _ \<Rightarrow> appendResultRef run ''escalation'' crName ActionOutcomeFailed)
     }
     else State_Monad.return run)"

definition failStep :: "Reconciler \<Rightarrow> AgenticRun \<Rightarrow> string \<Rightarrow> error \<Rightarrow> outcome op" where
  "failStep r run conditionType err =
    (if \<not> rAPIReader r then fail_with (NewError ''uncached API reader is required before failing a run step'')
     else do {
       g \<leftarrow> readRunnableRun (rKube r) (rAPIReader r) (run_key run) (run_uid run);
       case g of
         Inl e \<Rightarrow> if e = StopAccepted then requeue_now else fail_with e
       | Inr current \<Rightarrow> do {
           completedAt \<leftarrow> now (rKube r);
           run1 \<leftarrow> record_failure r current conditionType (conditionTime (rKube r) (conditions current) conditionType)
             completedAt (err_text err);
           run2 \<leftarrow> setCondition (rKube r) run1 conditionType ConditionFalse reasonFailed (err_text err);
           patchStatus (rKube r) current run2;
           done_ok
         }
     })"

definition denyAgenticRun :: "Reconciler \<Rightarrow> AgenticRun \<Rightarrow> string \<Rightarrow> outcome op" where
  "denyAgenticRun r run message = do {
     run' \<leftarrow> setCondition (rKube r) run AgenticRunConditionDenied ConditionTrue reasonUserDenied message;
     p \<leftarrow> patchStatus (rKube r) run run';
     case p of Inl e \<Rightarrow> fail_with (WrapError ''update to Denied'' e) | Inr _ \<Rightarrow> done_ok
   }"

text \<open>What follows an agent call: a stop that was accepted meanwhile requeues, other errors fail the step.\<close>

definition after_call :: "Reconciler \<Rightarrow> AgenticRun \<Rightarrow> string \<Rightarrow> error option \<Rightarrow> outcome op" where
  "after_call r run conditionType res = (case res of
      Some e \<Rightarrow> if is_stop_accepted e then requeue_now else failStep r run conditionType e
    | None \<Rightarrow> done_ok)"

section \<open>Analysis and revision\<close>

definition handleAnalysis ::
    "Reconciler \<Rightarrow> AgenticRun \<Rightarrow> resolvedWorkflow \<Rightarrow> AgenticRunApproval option \<Rightarrow> ApprovalPolicy option \<Rightarrow> outcome op" where
  "handleAnalysis r run resolved approval policy =
    (if isStageDenied approval SandboxStepAnalysis then do {
       audit (rAudit r) (EmitApprovalSpan (run_uid run) approval '''');
       denyAgenticRun r run ''Analysis denied by user''
     }
     else if \<not> isStageApproved approval policy SandboxStepAnalysis then done_ok
     else if (case FindStatusCondition (rKube r) (conditions run) AgenticRunConditionAnalyzed of
                Some c \<Rightarrow> cStatus c = ConditionUnknown \<or> cStatus c = ConditionTrue | None \<Rightarrow> False)
     then done_ok
     else do {
       run' \<leftarrow> setCondition (rKube r) run AgenticRunConditionAnalyzed ConditionUnknown reasonInProgress ''Analysis agent is running'';
       p \<leftarrow> patchStatus (rKube r) run run';
       case p of
         Inl e \<Rightarrow> fail_with (WrapError ''update to Analyzing'' e)
       | Inr run2 \<Rightarrow> do {
           res \<leftarrow> agent_call (rAgent r) (CallAnalyze run2 (rwAnalysis resolved));
           after_call r run2 AgenticRunConditionAnalyzed res
         }
     })"

text \<open>The status a revision starts from: later steps forgotten, timestamps cleared, analysis in progress.\<close>

definition revised_status :: "kube \<Rightarrow> Time \<Rightarrow> AgenticRun \<Rightarrow> AgenticRun" where
  "revised_status K t run =
    (let run1 = without_condition K run AgenticRunConditionExecuted;
         run2 = without_condition K run1 AgenticRunConditionVerified;
         run3 = without_condition K run2 AgenticRunConditionEscalated;
         run4 = set_steps run3 (resetExecutionAndVerification (steps run3));
         run5 = run4\<lparr>rStatus := (rStatus run4)\<lparr>suTerminalTime := None, suDeleteAfter := None\<rparr>\<rparr> in
     with_condition K t run5 AgenticRunConditionAnalyzed ConditionUnknown reasonRevising
       (''Re-analyzing for generation '' @ sprint_int (mGeneration (rMeta run))))"

definition revise :: "Reconciler \<Rightarrow> AgenticRun \<Rightarrow> resolvedWorkflow \<Rightarrow> outcome op" where
  "revise r run resolved = do {
     t \<leftarrow> now (rKube r);
     p \<leftarrow> patchStatus (rKube r) run (revised_status (rKube r) t run);
     case p of
       Inl e \<Rightarrow> fail_with (WrapError ''update to Analyzing (revision)'' e)
     | Inr run2 \<Rightarrow> do {
         res \<leftarrow> agent_call (rAgent r) (CallAnalyze run2 (rwAnalysis resolved));
         after_call r run2 AgenticRunConditionAnalyzed res
       }
   }"

definition handleRevision :: "Reconciler \<Rightarrow> AgenticRun \<Rightarrow> resolvedWorkflow \<Rightarrow> outcome op" where
  "handleRevision r run resolved =
    (if isStepInProgress (rKube r) run AgenticRunConditionAnalyzed then done_ok
     else if lookup (mLabels (rMeta run)) terminalTTLLabel \<noteq> '''' then do {
       p \<leftarrow> patchMeta (rKube r) False run (set_labels run ((mLabels (rMeta run))(terminalTTLLabel := None)));
       case p of
         Inl e \<Rightarrow> fail_with (WrapError ''clear terminal TTL label'' e)
       | Inr run' \<Rightarrow> revise r run' resolved
     }
     else revise r run resolved)"

section \<open>Execution, verification and escalation\<close>

definition skip_execution :: "Reconciler \<Rightarrow> AgenticRun \<Rightarrow> resolvedWorkflow \<Rightarrow> outcome op" where
  "skip_execution r run resolved = do {
     run1 \<leftarrow> setCondition (rKube r) run AgenticRunConditionExecuted ConditionTrue reasonSkipped ''Execution step not configured'';
     if rwVerification resolved = None then do {
       run2 \<leftarrow> setVerificationSkipped (rKube r) run1;
       p \<leftarrow> patchStatus (rKube r) run run2;
       case p of Inl e \<Rightarrow> fail_with (WrapError ''update to Completed (advisory)'' e) | Inr _ \<Rightarrow> done_ok
     }
     else do {
       p \<leftarrow> patchStatus (rKube r) run run1;
       case p of Inl e \<Rightarrow> fail_with (WrapError ''update after execution skip'' e) | Inr _ \<Rightarrow> done_ok
     }
   }"

definition start_execution ::
    "Reconciler \<Rightarrow> AgenticRun \<Rightarrow> resolvedStep \<Rightarrow> AgenticRunApproval option \<Rightarrow> ApprovalPolicy option \<Rightarrow> outcome op" where
  "start_execution r run step approval policy = do {
     x \<leftarrow> trimNonSelectedOptions r run approval;
     case x of
       Inl trimErr \<Rightarrow> failStep r run AgenticRunConditionExecuted trimErr
     | Inr selected \<Rightarrow> do {
         audit (rAudit r \<and> \<not> isAutoApprovedByPolicy policy SandboxStepExecution)
           (EmitApprovalSpan (run_uid run) approval (case selected of None \<Rightarrow> '''' | Some opt \<Rightarrow> opTitle opt));
         run' \<leftarrow> setCondition (rKube r) (without_condition (rKube r) run AgenticRunConditionVerified)
           AgenticRunConditionExecuted ConditionUnknown reasonInProgress ''Execution agent is running'';
         p \<leftarrow> patchStatus (rKube r) run run';
         case p of
           Inl e \<Rightarrow> fail_with (WrapError ''update to Executing'' e)
         | Inr run2 \<Rightarrow> do {
             res \<leftarrow> agent_call (rAgent r) (CallExecute run2 step selected);
             after_call r run2 AgenticRunConditionExecuted res
           }
       }
   }"

definition handleExecution ::
    "Reconciler \<Rightarrow> AgenticRun \<Rightarrow> resolvedWorkflow \<Rightarrow> AgenticRunApproval option \<Rightarrow> ApprovalPolicy option \<Rightarrow> outcome op" where
  "handleExecution r run resolved approval policy =
    (case rwExecution resolved of
       None \<Rightarrow> skip_execution r run resolved
     | Some step \<Rightarrow>
         if isStageDenied approval SandboxStepExecution then do {
           audit (rAudit r) (EmitApprovalSpan (run_uid run) approval '''');
           denyAgenticRun r run ''Execution denied by user''
         }
         else if \<not> isStageApproved approval policy SandboxStepExecution then done_ok
         else if (case FindStatusCondition (rKube r) (conditions run) AgenticRunConditionExecuted of
                    Some c \<Rightarrow> cStatus c = ConditionUnknown \<or> cStatus c = ConditionTrue | None \<Rightarrow> False)
         then done_ok
         else start_execution r run step approval policy)"

definition latest_execution_output :: "Reconciler \<Rightarrow> AgenticRun \<Rightarrow> ExecutionOutput option op" where
  "latest_execution_output r run =
    (let refs = ssResults (stExecution (steps run)) in
     if refs = [] then State_Monad.return None
     else let latestRef = last refs in
     do {
       x \<leftarrow> getExecutionResult (rKube r) \<lparr>kName = rrName latestRef, kNamespace = rNamespace r\<rparr>;
       State_Monad.return (case x of
           Inl e \<Rightarrow> None
         | Inr execCR \<Rightarrow> Some \<lparr>eoSuccess = (rrOutcome latestRef = ActionOutcomeSucceeded), eoSummary = '''',
             eoActionsTaken = xrActionsTaken execCR\<rparr>)
     })"

definition handleVerification ::
    "Reconciler \<Rightarrow> AgenticRun \<Rightarrow> resolvedWorkflow \<Rightarrow> AgenticRunApproval option \<Rightarrow> ApprovalPolicy option \<Rightarrow> outcome op" where
  "handleVerification r run resolved approval policy =
    (case rwVerification resolved of
       None \<Rightarrow> do {
         run' \<leftarrow> setVerificationSkipped (rKube r) run;
         p \<leftarrow> patchStatus (rKube r) run run';
         case p of Inl e \<Rightarrow> fail_with e | Inr _ \<Rightarrow> done_ok
       }
     | Some step \<Rightarrow>
         if isStageDenied approval SandboxStepVerification then do {
           audit (rAudit r) (EmitApprovalSpan (run_uid run) approval '''');
           denyAgenticRun r run ''Verification denied by user''
         }
         else if \<not> isStageApproved approval policy SandboxStepVerification then done_ok
         else if isStepInProgress (rKube r) run AgenticRunConditionVerified then done_ok
         else do {
           run' \<leftarrow> setCondition (rKube r) run AgenticRunConditionVerified ConditionUnknown reasonInProgress ''Verification agent is running'';
           p \<leftarrow> patchStatus (rKube r) run run';
           case p of
             Inl e \<Rightarrow> fail_with (WrapError ''update to Verifying'' e)
           | Inr run2 \<Rightarrow> do {
               x \<leftarrow> selectedOption r run2;
               case x of
                 Inl selErr \<Rightarrow> failStep r run2 AgenticRunConditionVerified (WrapError ''resolve selected option'' selErr)
               | Inr selected \<Rightarrow> do {
                   execOutput \<leftarrow> latest_execution_output r run2;
                   res \<leftarrow> agent_call (rAgent r) (CallVerify run2 step selected execOutput);
                   after_call r run2 AgenticRunConditionVerified res
                 }
             }
         })"

text \<open>The escalation step: the resolved analysis step, or the agent the approval names instead.\<close>

definition escalation_step ::
    "Reconciler \<Rightarrow> resolvedWorkflow \<Rightarrow> AgenticRunApproval option \<Rightarrow> (error + resolvedStep) op" where
  "escalation_step r resolved approval =
    (let override = getStageOverrideAgent approval SandboxStepEscalation in
     if override = '''' then State_Monad.return (Inr (rwAnalysis resolved))
     else do {
       a \<leftarrow> getAgent (rKube r) override;
       case a of
         Inl e \<Rightarrow> State_Monad.return (Inl (WrapError (''get override Agent '' @ quote_name override) e))
       | Inr agent \<Rightarrow> do {
           l \<leftarrow> getLLM (rKube r) (agLLMProvider agent);
           State_Monad.return (case l of
               Inl e \<Rightarrow> Inl (WrapError (''get LLMProvider '' @ quote_name (agLLMProvider agent)) e)
             | Inr llm \<Rightarrow> Inr \<lparr>sAgent = agent, sLLM = llm, sTools = sTools (rwAnalysis resolved)\<rparr>)
         }
     })"

definition handleEscalation ::
    "Reconciler \<Rightarrow> AgenticRun \<Rightarrow> resolvedWorkflow \<Rightarrow> AgenticRunApproval option \<Rightarrow> ApprovalPolicy option \<Rightarrow> outcome op" where
  "handleEscalation r run resolved approval policy =
    (if isStageDenied approval SandboxStepEscalation then do {
       audit (rAudit r) (EmitApprovalSpan (run_uid run) approval '''');
       denyAgenticRun r run ''Escalation denied by user''
     }
     else if \<not> isStageApproved approval policy SandboxStepEscalation then done_ok
     else if (case FindStatusCondition (rKube r) (conditions run) AgenticRunConditionEscalated of
                Some c \<Rightarrow> (cStatus c = ConditionUnknown \<and>
                    (cReason c = reasonInProgress \<or> cReason c = ReasonRunning \<or> cReason c = ReasonWaitingForSandbox)) \<or>
                  cStatus c = ConditionTrue
              | None \<Rightarrow> False)
     then done_ok
     else do {
       x \<leftarrow> escalation_step r resolved approval;
       case x of
         Inl e \<Rightarrow> failStep r run AgenticRunConditionEscalated e
       | Inr step \<Rightarrow> do {
           run' \<leftarrow> setCondition (rKube r) run AgenticRunConditionEscalated ConditionUnknown reasonInProgress ''Escalation agent is running'';
           p \<leftarrow> patchStatus (rKube r) run run';
           case p of
             Inl e \<Rightarrow> fail_with (WrapError ''update to Escalating'' e)
           | Inr run2 \<Rightarrow> do {
               res \<leftarrow> agent_call (rAgent r) (CallEscalate run2 step);
               after_call r run2 AgenticRunConditionEscalated res
             }
         }
     })"

section \<open>Terminal clean-up\<close>

text \<open>The loop of \<open>handleFailed\<close> over the steps.\<close>

fun cleanup_failed_steps :: "Reconciler \<Rightarrow> SpokeAccess option \<Rightarrow> AgenticRun \<Rightarrow> string list \<Rightarrow> unit op" where
  "cleanup_failed_steps r spoke run [] = State_Monad.return ()"
| "cleanup_failed_steps r spoke run (step # rest) =
    (if spoke = None \<and> step \<noteq> ''execution'' then cleanup_failed_steps r spoke run rest
     else if spoke = None \<and> lookup (mAnnotations (rMeta run)) rbacNamespacesAnnotation = ''''
     then cleanup_failed_steps r spoke run rest
     else do {
       cleanupStepRBAC (rKube r) spoke (rNamespace r) run step;
       cleanup_failed_steps r spoke run rest
     })"

definition handleFailed :: "Reconciler \<Rightarrow> AgenticRun \<Rightarrow> outcome op" where
  "handleFailed r run =
    (if preserveFailedSandbox run then done_ok
     else do {
       x \<leftarrow> spokeAccessForRun (rKube r) run (rNamespace r);
       let (spoke, spokeErr) = spoke_or_error x;
       cleanup_failed_steps r spoke run all_steps;
       done_ok
     })"

text \<open>\<open>AddDate(0, 0, days)\<close> in UTC.\<close>

definition Day :: Duration where
  "Day = 24 * 60 * Minute"

definition ttl_days :: "AgenticRun \<Rightarrow> int \<Rightarrow> int" where
  "ttl_days run ceilingDays = (case spTerminalTTL (rSpec run) of
      Some d \<Rightarrow> if d < ceilingDays then d else ceilingDays | None \<Rightarrow> ceilingDays)"

definition label_terminal :: "Reconciler \<Rightarrow> AgenticRun \<Rightarrow> outcome op" where
  "label_terminal r run =
    (if lookup (mLabels (rMeta run)) terminalTTLLabel \<noteq> ''true'' then do {
       p \<leftarrow> patchMeta (rKube r) True run (set_labels run ((mLabels (rMeta run))(terminalTTLLabel \<mapsto> ''true'')));
       case p of Inl e \<Rightarrow> fail_with (WrapError ''label terminal run'' e) | Inr _ \<Rightarrow> done_ok
     }
     else done_ok)"

definition stamped :: "AgenticRun \<Rightarrow> Time \<Rightarrow> int \<Rightarrow> AgenticRun" where
  "stamped run t days = run\<lparr>rStatus := (rStatus run)\<lparr>suTerminalTime := Some t, suDeleteAfter := Some (t + days * Day)\<rparr>\<rparr>"

definition handleTerminalRecord :: "Reconciler \<Rightarrow> AgenticRun \<Rightarrow> AgenticRunPhase \<Rightarrow> int \<Rightarrow> outcome op" where
  "handleTerminalRecord r run0 phase ceilingDays =
    (if \<not> rAPIReader r then fail_with (NewError ''uncached API reader is required by terminal run handling'')
     else do {
       g \<leftarrow> getRun (rKube r) (run_key run0);
       case g of
         Inl e \<Rightarrow> State_Monad.return (no_result, IgnoreNotFound e)
       | Inr run \<Rightarrow>
           if run_uid run \<noteq> run_uid run0 then done_ok
           else do {
             audit (rAudit r) (EmitTerminalSpan (run_uid run) phase (terminalReason run));
             audit (rAudit r) (CleanupAudit (run_uid run));
             if suTerminalTime (rStatus run) = None then do {
               t \<leftarrow> now (rKube r);
               p \<leftarrow> patchStatus (rKube r) run (stamped run t (ttl_days run ceilingDays));
               case p of
                 Inl e \<Rightarrow> fail_with (WrapError ''stamp terminal TTL'' e)
               | Inr run1 \<Rightarrow> do {
                   g2 \<leftarrow> getRun (rKube r) (run_key run1);
                   case g2 of
                     Inl e \<Rightarrow> State_Monad.return (no_result, IgnoreNotFound e)
                   | Inr run2 \<Rightarrow> if run_uid run2 \<noteq> run_uid run then done_ok else label_terminal r run2
                 }
             }
             else label_terminal r run
           }
     })"

definition handleTerminalCleanup :: "Reconciler \<Rightarrow> AgenticRun \<Rightarrow> AgenticRunPhase \<Rightarrow> int \<Rightarrow> outcome op" where
  "handleTerminalCleanup r run phase ceilingDays =
    (if hasSandboxClaims run then do {
       agent_call (rAgent r) (CallReleaseSandboxes run False);
       handleTerminalRecord r run phase ceilingDays
     }
     else handleTerminalRecord r run phase ceilingDays)"

definition handleSuspendedTerminalCleanup :: "Reconciler \<Rightarrow> AgenticRun \<Rightarrow> AgenticRunPhase \<Rightarrow> int \<Rightarrow> outcome op" where
  "handleSuspendedTerminalCleanup r run phase ceilingDays =
    (if lookup (mLabels (rMeta run)) terminalTTLLabel = ''true'' \<and> suDeleteAfter (rStatus run) \<noteq> None then done_ok
     else handleTerminalRecord r run phase ceilingDays)"

section \<open>Log store clean-up\<close>

definition templog_attempts :: "AgenticRun \<Rightarrow> int" where
  "templog_attempts run = (case mAnnotations (rMeta run) templogCleanupAttemptsAnnotation of
      None \<Rightarrow> 0
    | Some v \<Rightarrow> (case atoi v of None \<Rightarrow> 0 | Some parsed \<Rightarrow> if parsed < 0 then 0 else parsed))"

text \<open>\<open>controllerutil.RemoveFinalizer\<close> and \<open>AddFinalizer\<close>.\<close>

definition RemoveFinalizer :: "AgenticRun \<Rightarrow> string \<Rightarrow> AgenticRun" where
  "RemoveFinalizer run f = set_finalizers run (filter (\<lambda>x. x \<noteq> f) (mFinalizers (rMeta run)))"

definition AddFinalizer :: "AgenticRun \<Rightarrow> string \<Rightarrow> AgenticRun" where
  "AddFinalizer run f =
     (if f \<in> set (mFinalizers (rMeta run)) then run else set_finalizers run (mFinalizers (rMeta run) @ [f]))"

definition remove_templog_finalizer :: "Reconciler \<Rightarrow> AgenticRun \<Rightarrow> outcome op" where
  "remove_templog_finalizer r run = do {
     p \<leftarrow> patchMeta (rKube r) False run (RemoveFinalizer run templogCleanupFinalizer);
     case p of
       Inl e \<Rightarrow> if IgnoreNotFound e \<noteq> None then fail_with (WrapError ''remove finalizer'' e) else done_ok
     | Inr _ \<Rightarrow> done_ok
   }"

definition handleTemplogCleanup :: "Reconciler \<Rightarrow> AgenticRun \<Rightarrow> outcome op" where
  "handleTemplogCleanup r run =
    (let attempts = templog_attempts run in
     if rTempLog r \<and> attempts < templogMaxCleanupAttempts then do {
       e \<leftarrow> deleteLogs (rKube r) (run_uid run);
       case e of
         Some err \<Rightarrow> do {
           p \<leftarrow> patchMeta (rKube r) False run (set_annotations run
             ((mAnnotations (rMeta run))(templogCleanupAttemptsAnnotation \<mapsto> sprint_int (attempts + 1))));
           case p of
             Inl patchErr \<Rightarrow>
               if IgnoreNotFound patchErr \<noteq> None then fail_with (WrapError ''patch templog cleanup attempts'' patchErr)
               else requeue_after templogCleanupRequeueAfter
           | Inr _ \<Rightarrow> requeue_after templogCleanupRequeueAfter
         }
       | None \<Rightarrow> remove_templog_finalizer r run
     }
     else remove_templog_finalizer r run)"

section \<open>What the handlers do to the world\<close>

fun quiet :: "event \<Rightarrow> bool" where
  "quiet (EvStatusPatch _ _ _) = False"
| "quiet (EvMetaPatch _ _ _ _) = False"
| "quiet (EvDeleteRun _ _) = False"
| "quiet (EvAgent call) = (\<not> launches_agent call)"
| "quiet _ = True"

text \<open>Event predicates that allow everything a guarded operation without a launch does.\<close>

definition admits :: "kube \<Rightarrow> (history \<Rightarrow> event \<Rightarrow> bool) \<Rightarrow> bool" where
  "admits K P \<longleftrightarrow> (\<forall>h e. quiet e \<longrightarrow> P h e) \<and>
     (\<forall>h base new res. fresh_base K h base \<longrightarrow> \<not> HasAcceptedStop K base \<longrightarrow> P h (EvStatusPatch base new res))"

lemma admits_quiet: "admits K P \<Longrightarrow> quiet e \<Longrightarrow> P h e"
  by (simp add: admits_def)

lemma admits_patch:
  "admits K P \<Longrightarrow> fresh_base K h base \<Longrightarrow> \<not> HasAcceptedStop K base \<Longrightarrow> P h (EvStatusPatch base new res)"
  by (simp add: admits_def)

lemma quiet_events:
  "rbac_event e \<Longrightarrow> quiet e" "release_event e \<Longrightarrow> quiet e" "result_event e \<Longrightarrow> quiet e"
  "resolve_event e \<Longrightarrow> quiet e" "approval_event e \<Longrightarrow> quiet e"
  by (cases e; simp add: rbac_event_def release_event_def result_event_def resolve_event_def approval_event_def)+

lemma admits_sandbox: "admits K P \<Longrightarrow> guarded_write K h e \<Longrightarrow> sandbox_event e \<Longrightarrow> P h e"
  by (cases e) (auto simp: admits_def sandbox_event_def release_event_def rbac_event_def)

lemma guarded_admits: "admits K (guarded_write K)"
  by (auto simp: admits_def guarded_write_def split: event.splits)

lemma appendResultRef_frame [simp]:
  "rMeta (appendResultRef run step name out) = rMeta run" "rSpec (appendResultRef run step name out) = rSpec run"
  "conditions (appendResultRef run step name out) = conditions run"
  "suTokenUsage (rStatus (appendResultRef run step name out)) = suTokenUsage (rStatus run)"
  by (simp_all add: appendResultRef_def Let_def)

locale reconciler =
  fixes r :: Reconciler
  assumes agent: "agent_caller (rAgent r) (rKube r)"

sublocale reconciler \<subseteq> agent_caller "rAgent r" "rKube r"
  by (rule agent)

interpretation prod_reconciler: reconciler "r\<lparr>rAgent := sandbox_caller s, rKube := scK8sClient s\<rparr>" for r s
  by (rule reconciler.intro) (simp add: prod_caller.agent_caller_axioms)

interpretation stub_reconciler: reconciler "r\<lparr>rAgent := StubAgentCaller\<rparr>" for r
  by (rule reconciler.intro) (simp add: stub_caller.agent_caller_axioms)

context reconciler
begin

lemma record_failure_wp:
  assumes "admits (rKube r) P" and "\<And>x es. Q x (h @ es)"
  shows "wp P (record_failure r run ct t1 t2 msg) Q h"
  unfolding record_failure_def Let_def
  by (intro wp_ifI wp_bindI create_results_wp wp_case_prod wp_returnI)
    (use assms(2) [of _ "[]"] in \<open>auto intro: admits_quiet [OF assms(1)] quiet_events assms(2)\<close>)

lemma failStep_wp:
  assumes "admits (rKube r) P"
  shows "wp P (failStep r run ct err) (\<lambda>_ _. True) h"
  unfolding failStep_def
  by (intro wp_ifI wp_bindI wp_case_sum wp_returnI wp_requests wp_setCondition readRunnableRun_wp record_failure_wp
      conjI TrueI assms)
    (auto intro!: admits_patch [OF assms] intro: admits_quiet [OF assms] dest!: runnable_fresh)

lemma after_call_wp: "admits (rKube r) P \<Longrightarrow> wp P (after_call r run ct res) (\<lambda>_ _. True) h"
  unfolding after_call_def by (intro wp_case_option wp_ifI wp_returnI failStep_wp TrueI)

lemma launch_wp:
  assumes "admits (rKube r) P" and "P h (EvAgent call)"
  shows "wp P (agent_call (rAgent r) call \<bind> (\<lambda>res. after_call r run ct res)) (\<lambda>_ _. True) h"
  by (intro wp_bindI agent_call_wp after_call_wp assms admits_sandbox [OF assms(1)])

lemma denyAgenticRun_wp:
  assumes "admits (rKube r) P" "fresh_base (rKube r) h run" "\<not> HasAcceptedStop (rKube r) run"
  shows "wp P (denyAgenticRun r run msg) (\<lambda>_ _. True) h"
  unfolding denyAgenticRun_def
  by (intro wp_bindI wp_setCondition wp_requests wp_case_sum wp_returnI conjI TrueI
      admits_patch [OF assms(1)] admits_quiet [OF assms(1)] assms(3) fresh_base_append assms(2)) simp

lemma deny_audit_wp:
  assumes "admits (rKube r) P" "fresh_base (rKube r) h run" "\<not> HasAcceptedStop (rKube r) run"
  shows "wp P (audit b call \<bind> (\<lambda>_. denyAgenticRun r run msg)) (\<lambda>_ _. True) h"
  by (intro wp_bindI wp_audit denyAgenticRun_wp assms(1,3) fresh_base_append assms(2) admits_quiet [OF assms(1)]) simp

end

text \<open>The run passed on to an agent is the server's answer to a patch that marked the step in progress.\<close>

definition marked_in_progress :: "kube \<Rightarrow> history \<Rightarrow> AgenticRun \<Rightarrow> AgenticRun \<Rightarrow> string \<Rightarrow> bool" where
  "marked_in_progress K h run run2 ct \<longleftrightarrow>
     (\<exists>t base reason msg. EvStatusPatch run (with_condition K t base ct ConditionUnknown reason msg) (Inr run2) \<in> set h)"

lemma marked_append: "marked_in_progress K h run run2 ct \<Longrightarrow> marked_in_progress K (h @ es) run run2 ct"
  by (auto simp: marked_in_progress_def)

lemma marked_last:
  "res = Inr run2 \<Longrightarrow>
   marked_in_progress K (h @ [EvStatusPatch run (with_condition K t base ct ConditionUnknown reason msg) res]) run run2 ct"
  by (auto simp: marked_in_progress_def)

lemma option_reads_emit [emit]:
  "emits result_event (getLatestAnalysisResult r run)" "emits result_event (selectedOption r run)"
  "emits result_event (trimNonSelectedOptions r run approval)" "emits result_event (latest_execution_output r run)"
  unfolding trimNonSelectedOptions_def selectedOption_def latest_execution_output_def getLatestAnalysisResult_def
  by (intro emit result_event_simps)+

lemma escalation_step_emits: "emits resolve_event (escalation_step r resolved approval)"
  unfolding escalation_step_def by (intro emit resolve_event_simps)

context reconciler
begin

lemma quiet_reads_wp:
  assumes "admits (rKube r) P"
  shows "(\<And>x es. Q1 x (h @ es)) \<Longrightarrow> wp P (selectedOption r run) Q1 h"
    and "(\<And>x es. Q2 x (h @ es)) \<Longrightarrow> wp P (trimNonSelectedOptions r run approval) Q2 h"
    and "(\<And>x es. Q3 x (h @ es)) \<Longrightarrow> wp P (latest_execution_output r run) Q3 h"
    and "(\<And>x es. Q4 x (h @ es)) \<Longrightarrow> wp P (escalation_step r resolved approval) Q4 h"
  by (rule emits_wp [OF option_reads_emit(2)] emits_wp [OF option_reads_emit(3)] emits_wp [OF option_reads_emit(4)]
      emits_wp [OF escalation_step_emits]; blast intro: admits_quiet [OF assms] quiet_events)+

lemma handleAnalysis_wp:
  assumes adm: "admits (rKube r) P" and run: "fresh_base (rKube r) h run" "\<not> HasAcceptedStop (rKube r) run"
    and launch: "\<And>h' run2. isStageApproved approval policy SandboxStepAnalysis \<Longrightarrow>
      \<not> isStageDenied approval SandboxStepAnalysis \<Longrightarrow>
      marked_in_progress (rKube r) h' run run2 AgenticRunConditionAnalyzed \<Longrightarrow>
      P h' (EvAgent (CallAnalyze run2 (rwAnalysis resolved)))"
  shows "wp P (handleAnalysis r run resolved approval policy) (\<lambda>_ _. True) h"
  unfolding handleAnalysis_def
  by (intro wp_ifI deny_audit_wp launch_wp wp_bindI wp_setCondition wp_requests wp_case_sum wp_returnI conjI TrueI
      adm run fresh_base_append admits_patch [OF adm] launch marked_last; (rule admits_quiet [OF adm], simp)?) simp_all

lemma revise_wp:
  assumes adm: "admits (rKube r) P" and patch: "\<And>h' new res. P h' (EvStatusPatch run new res)"
    and launch: "\<And>h' run2. marked_in_progress (rKube r) h' run run2 AgenticRunConditionAnalyzed \<Longrightarrow>
      P h' (EvAgent (CallAnalyze run2 (rwAnalysis resolved)))"
  shows "wp P (revise r run resolved) (\<lambda>_ _. True) h"
  unfolding revise_def revised_status_def Let_def
  by (intro launch_wp wp_bindI wp_requests wp_case_sum wp_returnI conjI TrueI adm patch launch marked_last
      admits_quiet [OF adm]) simp

lemma handleExecution_wp:
  assumes adm: "admits (rKube r) P" and run: "fresh_base (rKube r) h run" "\<not> HasAcceptedStop (rKube r) run"
    and launch: "\<And>h' run2 step opt. rwExecution resolved = Some step \<Longrightarrow>
      isStageApproved approval policy SandboxStepExecution \<Longrightarrow> \<not> isStageDenied approval SandboxStepExecution \<Longrightarrow>
      marked_in_progress (rKube r) h' run run2 AgenticRunConditionExecuted \<Longrightarrow>
      P h' (EvAgent (CallExecute run2 step opt))"
  shows "wp P (handleExecution r run resolved approval policy) (\<lambda>_ _. True) h"
  unfolding handleExecution_def start_execution_def skip_execution_def setVerificationSkipped_def
  by (intro wp_case_option wp_ifI deny_audit_wp failStep_wp quiet_reads_wp launch_wp wp_bindI wp_setCondition wp_requests
      wp_audit wp_case_sum wp_returnI conjI TrueI adm run fresh_base_append admits_patch [OF adm] launch marked_last;
      (rule admits_quiet [OF adm], simp)?) simp_all

lemma handleVerification_wp:
  assumes adm: "admits (rKube r) P" and run: "fresh_base (rKube r) h run" "\<not> HasAcceptedStop (rKube r) run"
    and launch: "\<And>h' run2 step opt out. rwVerification resolved = Some step \<Longrightarrow>
      isStageApproved approval policy SandboxStepVerification \<Longrightarrow> \<not> isStageDenied approval SandboxStepVerification \<Longrightarrow>
      marked_in_progress (rKube r) h' run run2 AgenticRunConditionVerified \<Longrightarrow>
      P h' (EvAgent (CallVerify run2 step opt out))"
  shows "wp P (handleVerification r run resolved approval policy) (\<lambda>_ _. True) h"
  unfolding handleVerification_def setVerificationSkipped_def
  by (intro wp_case_option wp_ifI deny_audit_wp failStep_wp quiet_reads_wp launch_wp wp_bindI wp_setCondition wp_requests
      wp_case_sum wp_returnI conjI TrueI adm run fresh_base_append admits_patch [OF adm] launch marked_append marked_last;
      (rule admits_quiet [OF adm], simp)?) simp_all

lemma handleEscalation_wp:
  assumes adm: "admits (rKube r) P" and run: "fresh_base (rKube r) h run" "\<not> HasAcceptedStop (rKube r) run"
    and launch: "\<And>h' run2 step. isStageApproved approval policy SandboxStepEscalation \<Longrightarrow>
      \<not> isStageDenied approval SandboxStepEscalation \<Longrightarrow>
      marked_in_progress (rKube r) h' run run2 AgenticRunConditionEscalated \<Longrightarrow>
      P h' (EvAgent (CallEscalate run2 step))"
  shows "wp P (handleEscalation r run resolved approval policy) (\<lambda>_ _. True) h"
  unfolding handleEscalation_def
  by (intro wp_ifI deny_audit_wp failStep_wp quiet_reads_wp launch_wp wp_bindI wp_setCondition wp_requests
      wp_case_sum wp_returnI conjI TrueI adm run fresh_base_append admits_patch [OF adm] launch marked_last;
      (rule admits_quiet [OF adm], simp)?) simp_all

end

section \<open>Terminal records\<close>

definition stamp_write :: "int \<Rightarrow> event \<Rightarrow> bool" where
  "stamp_write ceilingDays e \<longleftrightarrow> (case e of
      EvStatusPatch base new res \<Rightarrow>
        suTerminalTime (rStatus base) = None \<and> (\<exists>t. new = stamped base t (ttl_days base ceilingDays))
    | EvMetaPatch lock base new res \<Rightarrow>
        lock \<and> new = set_labels base ((mLabels (rMeta base))(terminalTTLLabel \<mapsto> ''true''))
    | _ \<Rightarrow> quiet e)"

lemma stamp_write_quiet: "quiet e \<Longrightarrow> stamp_write c e"
  by (cases e) (simp_all add: stamp_write_def)

lemma handleTerminalRecord_emits: "emits (stamp_write c) (handleTerminalRecord r run phase c)"
  unfolding handleTerminalRecord_def label_terminal_def
  by (intro emit) (auto simp: stamp_write_def)

lemma stamped_frame [simp]:
  "rMeta (stamped run t d) = rMeta run" "rSpec (stamped run t d) = rSpec run" "steps (stamped run t d) = steps run"
  "conditions (stamped run t d) = conditions run"
  by (simp_all add: stamped_def)

lemma ttl_days_min: "ttl_days run ceiling = (case spTerminalTTL (rSpec run) of Some d \<Rightarrow> min d ceiling | None \<Rightarrow> ceiling)"
  by (simp add: ttl_days_def min_def split: option.splits)

text \<open>
  C35: Recording a terminal run stamps the deadline once. A status patch is only made for a run without
  a terminal time; it sets the terminal time and, as the deletion deadline, that time plus the smaller of
  the configured ceiling and the run's own request, in whole days, and changes nothing else: no condition
  and no step, so the phase stays.
\<close>

theorem terminal_deadline_fixed_once:
  assumes "EvStatusPatch base new res \<in> set (new_events (handleTerminalRecord r run phase ceilingDays) h)"
  shows "suTerminalTime (rStatus base) = None \<and>
     (\<exists>t. suTerminalTime (rStatus new) = Some t \<and>
       suDeleteAfter (rStatus new) =
         Some (t + (case spTerminalTTL (rSpec base) of Some d \<Rightarrow> min d ceilingDays | None \<Rightarrow> ceilingDays) * (86400 * Second)) \<and>
       new = base\<lparr>rStatus := (rStatus base)\<lparr>suTerminalTime := suTerminalTime (rStatus new),
          suDeleteAfter := suDeleteAfter (rStatus new)\<rparr>\<rparr>)"
  using emits_new_events [OF handleTerminalRecord_emits assms]
  by (auto simp: stamp_write_def stamped_def ttl_days_min Day_def Minute_def)

definition terminal_run :: AgenticRun where
  "terminal_run = set_conditions (finalizing sample_run) [cond AgenticRunConditionDenied ConditionTrue reasonUserDenied]"

definition sample_reconciler :: "world \<Rightarrow> Reconciler" where
  "sample_reconciler W = \<lparr>rKube = ref_server W, rAPIReader = True, rAgent = StubAgentCaller,
     rSandbox = Some (\<lambda>_ _ _. (\<lparr>scPending = [], scFailures = [], scUnverified = []\<rparr>, None)),
     rConfig = Some \<lparr>cfSandboxMode = ''bare-pod'', cfTerminalTTLDays = 14\<rparr>, rNamespace = ''openshift-lightspeed'',
     rAudit = False, rTempLog = True\<rparr>"

lemma terminal_run_events:
  "\<exists>new res. EvStatusPatch terminal_run new res \<in>
     set (new_events (handleTerminalRecord (sample_reconciler (empty_world\<lparr>wRuns := [terminal_run]\<rparr>)) terminal_run
       AgenticRunPhaseDenied 14) [])"
  by (simp add: new_events_def handleTerminalRecord_def label_terminal_def audit_def request_defs server_defs sample_reconciler_def
      terminal_run_def sample_defs stamped_def lookup_def IgnoreNotFound_def go_consts)

theorem terminal_deadline_fixed_once_witness:
  "\<exists>new res t. EvStatusPatch terminal_run new res \<in>
     set (new_events (handleTerminalRecord (sample_reconciler (empty_world\<lparr>wRuns := [terminal_run]\<rparr>)) terminal_run
       AgenticRunPhaseDenied 14) []) \<and> suDeleteAfter (rStatus new) = Some (t + 14 * (86400 * Second))"
proof -
  obtain new res where e: "EvStatusPatch terminal_run new res \<in>
     set (new_events (handleTerminalRecord (sample_reconciler (empty_world\<lparr>wRuns := [terminal_run]\<rparr>)) terminal_run
       AgenticRunPhaseDenied 14) [])"
    using terminal_run_events by blast
  have "spTerminalTTL (rSpec terminal_run) = None"
    by (simp add: terminal_run_def sample_run_def)
  with terminal_deadline_fixed_once [OF e] e show ?thesis by auto
qed

section \<open>Log clean-up ends\<close>

lemma atoi_small: "atoi (sprint_int 1) = Some 1" "atoi (sprint_int 2) = Some 2" "atoi (sprint_int 3) = Some 3"
  by code_simp+

lemma templog_attempts_step:
  assumes "templog_attempts run < 3"
  shows "templog_attempts (set_annotations run
     ((mAnnotations (rMeta run))(templogCleanupAttemptsAnnotation \<mapsto> sprint_int (templog_attempts run + 1)))) =
     templog_attempts run + 1"
proof -
  have "0 \<le> templog_attempts run"
    by (simp add: templog_attempts_def split: option.splits)
  then consider "templog_attempts run = 0" | "templog_attempts run = 1" | "templog_attempts run = 2"
    using assms by linarith
  then show ?thesis
    by cases (simp_all add: templog_attempts_def [of "set_annotations run m" for m] atoi_small)
qed

text \<open>
  Log clean-up cannot block deletion. Each pass either asks for the removal of the log finalizer,
  leaving the others, or, with fewer than three failures so far, records one more failure in the
  annotation; malformed counters count as zero. Three failing passes therefore exhaust it.
\<close>

theorem templog_cleanup_progress:
  "\<exists>res. last (new_events (handleTemplogCleanup r run) h) =
       EvMetaPatch False run (RemoveFinalizer run templogCleanupFinalizer) res \<or>
     (\<exists>run'. last (new_events (handleTemplogCleanup r run) h) = EvMetaPatch False run run' res \<and>
        templog_attempts run < 3 \<and> templog_attempts run' = templog_attempts run + 1 \<and>
        mFinalizers (rMeta run') = mFinalizers (rMeta run))"
proof -
  let ?run' = "set_annotations run
     ((mAnnotations (rMeta run))(templogCleanupAttemptsAnnotation \<mapsto> sprint_int (templog_attempts run + 1)))"
  have "\<exists>es x y. run_state (handleTemplogCleanup r run) h =
      (x, h @ es @ [EvMetaPatch False run (RemoveFinalizer run templogCleanupFinalizer) y]) \<or>
      templog_attempts run < 3 \<and> run_state (handleTemplogCleanup r run) h = (x, h @ es @ [EvMetaPatch False run ?run' y])"
    by (auto simp: handleTemplogCleanup_def Let_def remove_templog_finalizer_def deleteLogs_def patchMeta_def
        templogMaxCleanupAttempts_def split: option.splits sum.splits)
  then show ?thesis
    using templog_attempts_step [of run] by (fastforce simp: new_events_def)
qed

section \<open>Denials\<close>

text \<open>
  A denied stage denies the run: the handler of the stage makes exactly one status patch, which sets
  the run to \<open>Denied\<close>, unless the run is already escalated or emergency-stopped.
\<close>

theorem denied_execution_denies_run:
  assumes "status_conditions (rKube r)" and "rwExecution resolved \<noteq> None"
    and "isStageDenied approval SandboxStepExecution"
    and "\<not> is_true (conditions run) AgenticRunConditionEmergencyStopped"
    and "\<not> is_true (conditions run) AgenticRunConditionEscalated"
  shows "\<exists>new res. filter (\<lambda>e. \<not> quiet e) (new_events (handleExecution r run resolved approval policy) h) =
       [EvStatusPatch run new res] \<and> DerivePhase (conditions new) = AgenticRunPhaseDenied"
proof -
  let ?new = "\<lambda>t. with_condition (rKube r) t run AgenticRunConditionDenied ConditionTrue reasonUserDenied ''Execution denied by user''"
  have phase: "DerivePhase (conditions (?new t)) = AgenticRunPhaseDenied" for t
    using assms(4,5) by (simp add: DerivePhase_alt status_conditions.with_condition_is_true [OF assms(1)])
  obtain step where "rwExecution resolved = Some step" using assms(2) by blast
  then have ops: "handleExecution r run resolved approval policy =
      audit (rAudit r) (EmitApprovalSpan (run_uid run) approval '''') \<bind> (\<lambda>_. denyAgenticRun r run ''Execution denied by user'')"
    using assms(3) by (simp add: handleExecution_def)
  have "\<exists>t res. filter (\<lambda>e. \<not> quiet e) (new_events (handleExecution r run resolved approval policy) h) = [EvStatusPatch run (?new t) res]"
    unfolding ops
    by (auto simp: new_events_def audit_def denyAgenticRun_def setCondition_def now_def patchStatus_def split: sum.splits)
  with phase show ?thesis by blast
qed

definition denied_approval :: AgenticRunApproval where
  "denied_approval = sample_approval\<lparr>vStages := [NewApprovalStage ApprovalStageExecution ApprovalDecisionDenied '''' None]\<rparr>"

definition sample_workflow :: resolvedWorkflow where
  "sample_workflow = \<lparr>rwAnalysis = sample_step, rwExecution = Some sample_step, rwVerification = Some sample_step\<rparr>"

theorem denied_execution_denies_run_witness:
  "\<exists>new res. filter (\<lambda>e. \<not> quiet e) (new_events (handleExecution (sample_reconciler sample_world) sample_run
       sample_workflow (Some denied_approval) None) []) = [EvStatusPatch sample_run new res] \<and>
     DerivePhase (conditions new) = AgenticRunPhaseDenied"
  by (rule denied_execution_denies_run)
    (simp_all add: sample_reconciler_def ref_server_conds.status_conditions_axioms sample_workflow_def isStageDenied_def
      denied_approval_def stage_is_def NewApprovalStage_def is_true_def sample_run_def no_status_def)

end
