(* ===== verification/Suspension.thy ===== *)
theory Suspension
  imports Handlers
begin

text \<open>
  The emergency stop of a run: \<open>handleSuspensionAt\<close> and the status writers it uses, from
  \<^verbatim>\<open>controller/agenticrun/handlers.go\<close>.

  A stop is accepted with the start time of the suspension; the sandbox workload and access are then
  torn down, and one status patch records the outcome: emergency-stopped after a confirmed clean-up,
  failed when the ten second window ends without one. The lemmas show what each patch does to the phase
  and to the stop markers, and that success is never recorded without a confirmed clean-up.
\<close>

section \<open>Status writers with conflict retries\<close>

definition stopRetries :: nat where
  "stopRetries = 5"

text \<open>Assignment through the pointer \<open>FindStatusCondition\<close> returns: the first condition of the type.\<close>

fun set_transition_time :: "Condition list \<Rightarrow> string \<Rightarrow> Time \<Rightarrow> Condition list" where
  "set_transition_time [] condType t = []"
| "set_transition_time (c # cs) condType t =
     (if cType c = condType then c\<lparr>cLastTransitionTime := t\<rparr> # cs else c # set_transition_time cs condType t)"

definition accept_stop :: "kube \<Rightarrow> Time \<Rightarrow> AgenticRun \<Rightarrow> Time \<Rightarrow> AgenticRun" where
  "accept_stop K t run start =
    (let run1 = with_condition K t run AgenticRunConditionStopping ConditionTrue reasonSystemSuspended
           ''Stop accepted by global system suspension'' in
     set_conditions run1 (set_transition_time (conditions run1) AgenticRunConditionStopping start))"

fun persist_attempts :: "Reconciler \<Rightarrow> nat \<Rightarrow> ObjectKey \<Rightarrow> UID \<Rightarrow> Time \<Rightarrow> (error + AgenticRun option) op" where
  "persist_attempts r 0 key uid start =
     State_Monad.return (Inl (NewError ''persist run stop acceptance: status conflict retry limit reached''))"
| "persist_attempts r (Suc n) key uid start = do {
     g \<leftarrow> getRun (rKube r) key;
     case g of
       Inl e \<Rightarrow> State_Monad.return (case IgnoreNotFound e of Some err \<Rightarrow> Inl err | None \<Rightarrow> Inr None)
     | Inr current \<Rightarrow>
         if run_uid current \<noteq> uid then State_Monad.return (Inr None)
         else if isTerminal (DerivePhase (conditions current)) \<or> HasAcceptedStop (rKube r) current
         then State_Monad.return (Inr (Some current))
         else do {
           t \<leftarrow> now (rKube r);
           p \<leftarrow> patchStatus (rKube r) current (accept_stop (rKube r) t current start);
           case p of
             Inl e \<Rightarrow>
               if IsConflict e then persist_attempts r n key uid start
               else State_Monad.return (Inl (WrapError ''persist run stop acceptance'' e))
           | Inr updated \<Rightarrow> State_Monad.return (Inr (Some updated))
         }
   }"

definition persistRunStop :: "Reconciler \<Rightarrow> ObjectKey \<Rightarrow> UID \<Rightarrow> Time \<Rightarrow> (error + AgenticRun option) op" where
  "persistRunStop r key uid start = persist_attempts r stopRetries key uid start"

definition terminal_stop_intent :: "kube \<Rightarrow> AgenticRun \<Rightarrow> bool" where
  "terminal_stop_intent K run \<longleftrightarrow> isTerminal (DerivePhase (conditions run)) \<and>
     (case FindStatusCondition K (conditions run) AgenticRunConditionStopping of
        Some c \<Rightarrow> cStatus c = ConditionTrue \<and> cReason c = reasonSystemSuspended | None \<Rightarrow> False)"

definition confirmed_outcome :: "kube \<Rightarrow> Time \<Rightarrow> AgenticRun \<Rightarrow> AgenticRun" where
  "confirmed_outcome K t run =
    (let run1 = with_condition K t run AgenticRunConditionStopping ConditionFalse reasonTeardownComplete
           ''Sandbox workload and access cleanup confirmed'';
         run2 = (if terminal_stop_intent K run then run1
           else with_condition K t run1 AgenticRunConditionEmergencyStopped ConditionTrue reasonSystemSuspended
             ''Terminated by system kill switch (AgenticOLSConfig.spec.suspended=true)'') in
     run2\<lparr>rStatus := clearRunSandboxInfo (rStatus run2)\<rparr>)"

definition failed_outcome :: "kube \<Rightarrow> Time \<Rightarrow> AgenticRun \<Rightarrow> AgenticRun" where
  "failed_outcome K t run =
    (let run1 = with_condition K t run AgenticRunConditionStopping ConditionFalse reasonTeardownFailed
           ''Sandbox cleanup remains unconfirmed after the suspension window'';
         condType = suspensionFailureCondition (DerivePhase (conditions run)) in
     if terminal_stop_intent K run then run1
     else if condType \<noteq> ''''
     then with_condition K t run1 condType ConditionFalse reasonEmergencyStopFailed
       ''Sandbox cleanup could not be confirmed; see suspension diagnostics''
     else run1)"

fun outcome_attempts :: "Reconciler \<Rightarrow> nat \<Rightarrow> ObjectKey \<Rightarrow> UID \<Rightarrow> bool \<Rightarrow> (error + AgenticRun option) op" where
  "outcome_attempts r 0 key uid confirmed =
     State_Monad.return (Inl (NewError ''persist run suspension outcome: status conflict retry limit reached''))"
| "outcome_attempts r (Suc n) key uid confirmed = do {
     g \<leftarrow> getRun (rKube r) key;
     case g of
       Inl e \<Rightarrow> State_Monad.return (case IgnoreNotFound e of Some err \<Rightarrow> Inl err | None \<Rightarrow> Inr None)
     | Inr current \<Rightarrow>
         if run_uid current \<noteq> uid then State_Monad.return (Inr None)
         else if HasFinalStopOutcome (rKube r) current then State_Monad.return (Inr (Some current))
         else if isTerminal (DerivePhase (conditions current)) \<and> \<not> terminal_stop_intent (rKube r) current
         then State_Monad.return (Inr (Some current))
         else if \<not> HasAcceptedStop (rKube r) current then State_Monad.return (Inr (Some current))
         else do {
           t \<leftarrow> now (rKube r);
           p \<leftarrow> patchStatus (rKube r) current
             (if confirmed then confirmed_outcome (rKube r) t current else failed_outcome (rKube r) t current);
           case p of
             Inl e \<Rightarrow>
               if IsConflict e then outcome_attempts r n key uid confirmed
               else State_Monad.return (Inl (WrapError ''persist run suspension outcome'' e))
           | Inr updated \<Rightarrow> State_Monad.return (Inr (Some updated))
         }
   }"

definition writeSuspensionOutcome :: "Reconciler \<Rightarrow> ObjectKey \<Rightarrow> UID \<Rightarrow> bool \<Rightarrow> (error + AgenticRun option) op" where
  "writeSuspensionOutcome r key uid confirmed = outcome_attempts r stopRetries key uid confirmed"

fun clear_attempts :: "Reconciler \<Rightarrow> nat \<Rightarrow> ObjectKey \<Rightarrow> UID \<Rightarrow> (error + AgenticRun option) op" where
  "clear_attempts r 0 key uid =
     State_Monad.return (Inl (NewError ''clear confirmed sandbox references: status conflict retry limit reached''))"
| "clear_attempts r (Suc n) key uid = do {
     g \<leftarrow> getRun (rKube r) key;
     case g of
       Inl e \<Rightarrow> State_Monad.return (case IgnoreNotFound e of Some err \<Rightarrow> Inl err | None \<Rightarrow> Inr None)
     | Inr current \<Rightarrow>
         if run_uid current \<noteq> uid then State_Monad.return (Inr None)
         else if \<not> hasRunSandboxInfo current then State_Monad.return (Inr (Some current))
         else do {
           p \<leftarrow> patchStatus (rKube r) current (current\<lparr>rStatus := clearRunSandboxInfo (rStatus current)\<rparr>);
           case p of
             Inl e \<Rightarrow>
               if IsConflict e then clear_attempts r n key uid
               else State_Monad.return (Inl (WrapError ''clear confirmed sandbox references'' e))
           | Inr updated \<Rightarrow> State_Monad.return (Inr (Some updated))
         }
   }"

definition clearRunSandboxInfo_method :: "Reconciler \<Rightarrow> ObjectKey \<Rightarrow> UID \<Rightarrow> (error + AgenticRun option) op" where
  "clearRunSandboxInfo_method r key uid = clear_attempts r stopRetries key uid"

section \<open>The stop of one run\<close>

type_synonym cleanup = "history \<Rightarrow> UID \<Rightarrow> Duration \<Rightarrow> SuspensionCleanup \<times> error option"

definition suspensionCleanupPass ::
    "Reconciler \<Rightarrow> cleanup \<Rightarrow> AgenticRun \<Rightarrow> Duration \<Rightarrow> (SuspensionCleanup \<times> error option \<times> string list) op" where
  "suspensionCleanupPass r sandbox run timeout = do {
     (report, cleanupErr) \<leftarrow> perform (\<lambda>h. sandbox h (run_uid run) timeout)
       (\<lambda>(report, cleanupErr). EvCleanupSuspension (run_uid run) timeout report cleanupErr);
     let remoteEvidence = RemoteExecutionEvidence run;
     if remoteEvidence \<noteq> [] then do {
       agent_call (rAgent r) (CallReleaseSandboxes run True);
       State_Monad.return (report, cleanupErr, remoteEvidence)
     }
     else State_Monad.return (report, cleanupErr, remoteEvidence)
   }"

definition pass_confirmed :: "SuspensionCleanup \<times> error option \<times> string list \<Rightarrow> bool" where
  "pass_confirmed p \<longleftrightarrow> (case p of (report, cleanupErr, remoteEvidence) \<Rightarrow>
     cleanupErr = None \<and> Confirmed report \<and> length remoteEvidence = 0)"

text \<open>The branch at the deadline: record the failure, then keep cleaning up in the background.\<close>

definition deadline_passed :: "Reconciler \<Rightarrow> cleanup \<Rightarrow> ObjectKey \<Rightarrow> AgenticRun \<Rightarrow> (AgenticRun \<times> outcome) op" where
  "deadline_passed r sandbox key current = do {
     u \<leftarrow> writeSuspensionOutcome r key (run_uid current) False;
     case u of
       Inl e \<Rightarrow> State_Monad.return (current, no_result, Some e)
     | Inr None \<Rightarrow> State_Monad.return (current, no_result, None)
     | Inr (Some updated) \<Rightarrow> do {
         pass \<leftarrow> suspensionCleanupPass r sandbox updated cleanupTimeout;
         if pass_confirmed pass then do {
           c \<leftarrow> clearRunSandboxInfo_method r key (run_uid updated);
           case c of
             Inl e \<Rightarrow> State_Monad.return (updated, no_result, Some e)
           | Inr cleaned \<Rightarrow> State_Monad.return
               (case cleaned of Some x \<Rightarrow> x | None \<Rightarrow> updated, no_result\<lparr>crRequeueAfter := suspensionRequeueAfter\<rparr>, None)
         }
         else State_Monad.return (updated, no_result\<lparr>crRequeueAfter := suspensionRequeueAfter\<rparr>, None)
       }
   }"

text \<open>After the clean-up pass within the window.\<close>

definition after_pass :: "Reconciler \<Rightarrow> ObjectKey \<Rightarrow> Time \<Rightarrow> bool \<Rightarrow> AgenticRun \<Rightarrow> (AgenticRun \<times> outcome) op" where
  "after_pass r key stopStart confirmed current =
    (let historicalTerminal = (isTerminal (DerivePhase (conditions current)) \<and> \<not> HasAcceptedStop (rKube r) current);
         finalOutcome = HasFinalStopOutcome (rKube r) current in
     if confirmed then do {
       u \<leftarrow> (if \<not> historicalTerminal \<and> \<not> finalOutcome then writeSuspensionOutcome r key (run_uid current) True
             else clearRunSandboxInfo_method r key (run_uid current));
       State_Monad.return (case u of
           Inl e \<Rightarrow> (current, no_result, Some e)
         | Inr updated \<Rightarrow> (case updated of Some x \<Rightarrow> x | None \<Rightarrow> current, no_result, None))
     }
     else if IsZero stopStart
     then State_Monad.return (current, no_result\<lparr>crRequeueAfter := suspensionRequeueAfter\<rparr>, None)
     else do {
       t \<leftarrow> now (rKube r);
       if \<not> t < stopStart + SuspensionStopWindow \<and> \<not> historicalTerminal \<and> \<not> finalOutcome then do {
         u \<leftarrow> writeSuspensionOutcome r key (run_uid current) False;
         State_Monad.return (case u of
             Inl e \<Rightarrow> (current, no_result, Some e)
           | Inr updated \<Rightarrow> (case updated of Some x \<Rightarrow> x | None \<Rightarrow> current,
               no_result\<lparr>crRequeueAfter := suspensionRequeueAfter\<rparr>, None))
       }
       else do {
         t2 \<leftarrow> now (rKube r);
         let remaining = stopStart + SuspensionStopWindow - t2;
         State_Monad.return (current, no_result\<lparr>crRequeueAfter :=
           (if remaining > 0 \<and> remaining < suspensionRequeueAfter then remaining else suspensionRequeueAfter)\<rparr>, None)
       }
     })"

definition stop_accepted_pass ::
    "Reconciler \<Rightarrow> cleanup \<Rightarrow> ObjectKey \<Rightarrow> Time \<Rightarrow> Duration \<Rightarrow> AgenticRun \<Rightarrow> (AgenticRun \<times> outcome) op" where
  "stop_accepted_pass r sandbox key stopStart remaining0 current =
    (let historicalTerminal = (isTerminal (DerivePhase (conditions current)) \<and> \<not> HasAcceptedStop (rKube r) current);
         finalOutcome = HasFinalStopOutcome (rKube r) current in
     do {
       remaining \<leftarrow> (if \<not> IsZero stopStart \<and> \<not> finalOutcome then do {
           t \<leftarrow> now (rKube r); State_Monad.return (stopStart + SuspensionStopWindow - t) }
         else State_Monad.return remaining0);
       if \<not> historicalTerminal \<and> \<not> finalOutcome \<and> \<not> IsZero stopStart \<and> remaining \<le> 0
       then deadline_passed r sandbox key current
       else do {
         pass \<leftarrow> suspensionCleanupPass r sandbox current
           (if remaining > 0 \<and> \<not> finalOutcome then remaining else cleanupTimeout);
         g \<leftarrow> getRun (rKube r) key;
         case g of
           Inl e \<Rightarrow> State_Monad.return (current, no_result, IgnoreNotFound e)
         | Inr current2 \<Rightarrow>
             if run_uid current2 \<noteq> run_uid current then State_Monad.return (current, no_result, None)
             else after_pass r key stopStart (pass_confirmed pass) current2
       }
     })"

definition handleSuspensionAt :: "Reconciler \<Rightarrow> AgenticRun \<Rightarrow> Time \<Rightarrow> (AgenticRun \<times> outcome) op" where
  "handleSuspensionAt r run activationStart =
    (if \<not> rAPIReader r
     then State_Monad.return (run, no_result, Some (NewError ''uncached API reader is required for suspension cleanup''))
     else case rSandbox r of
       None \<Rightarrow> State_Monad.return (run, no_result, Some (NewError ''sandbox manager is required for suspension cleanup''))
     | Some sandbox \<Rightarrow> do {
         let key = run_key run;
         g \<leftarrow> getRun (rKube r) key;
         case g of
           Inl e \<Rightarrow> State_Monad.return (run, no_result, IgnoreNotFound e)
         | Inr current \<Rightarrow>
             if run_uid current \<noteq> run_uid run then State_Monad.return (run, no_result, None)
             else if run_uid current = '''' then State_Monad.return (run, no_result,
               Some (NewError ''run UID is required for suspension cleanup''))
             else
               let historicalTerminal = (isTerminal (DerivePhase (conditions current)) \<and> \<not> HasAcceptedStop (rKube r) current);
                   stopStart = (case FindStatusCondition (rKube r) (conditions current) AgenticRunConditionStopping of
                     Some c \<Rightarrow> if cStatus c = ConditionTrue \<and> cReason c = reasonSystemSuspended \<and> \<not> IsZero (cLastTransitionTime c)
                       then cLastTransitionTime c else activationStart
                   | None \<Rightarrow> activationStart) in
               do {
                 remaining \<leftarrow> (if IsZero stopStart then State_Monad.return 0 else do {
                   t \<leftarrow> now (rKube r); State_Monad.return (stopStart + SuspensionStopWindow - t) });
                 if \<not> historicalTerminal \<and> \<not> HasAcceptedStop (rKube r) current then
                   if IsZero stopStart \<or> remaining \<le> 0
                   then State_Monad.return (current, no_result\<lparr>crRequeueAfter := suspensionRequeueAfter\<rparr>, None)
                   else do {
                     u \<leftarrow> persistRunStop r key (run_uid current) stopStart;
                     case u of
                       Inl e \<Rightarrow> State_Monad.return (current, no_result, Some e)
                     | Inr None \<Rightarrow> State_Monad.return (current, no_result, None)
                     | Inr (Some updated) \<Rightarrow> stop_accepted_pass r sandbox key stopStart remaining updated
                   }
                 else stop_accepted_pass r sandbox key stopStart remaining current
               }
       })"

section \<open>The stop markers\<close>

lemma set_transition_time_get:
  "get_condition (set_transition_time cs ct t) u =
     (if u = ct then map_option (\<lambda>c. c\<lparr>cLastTransitionTime := t\<rparr>) (get_condition cs u) else get_condition cs u)"
  by (induction cs) auto

lemma accept_stop_frame [simp]:
  "rMeta (accept_stop K t run start) = rMeta run" "rSpec (accept_stop K t run start) = rSpec run"
  "steps (accept_stop K t run start) = steps run"
  by (simp_all add: accept_stop_def Let_def)

lemma outcome_frame [simp]:
  "rMeta (confirmed_outcome K t run) = rMeta run" "rSpec (confirmed_outcome K t run) = rSpec run"
  "rMeta (failed_outcome K t run) = rMeta run" "rSpec (failed_outcome K t run) = rSpec run"
  "steps (failed_outcome K t run) = steps run"
  by (simp_all add: confirmed_outcome_def failed_outcome_def Let_def)

context status_conditions
begin

lemma accept_stop_get:
  "get_condition (conditions (accept_stop K t run start)) u =
     (if u = AgenticRunConditionStopping
      then Some \<lparr>cType = AgenticRunConditionStopping, cStatus = ConditionTrue, cReason = reasonSystemSuspended,
             cMessage = ''Stop accepted by global system suspension'',
             cObservedGeneration = mGeneration (rMeta run), cLastTransitionTime = start\<rparr>
      else get_condition (conditions run) u)"
  by (simp add: accept_stop_def Let_def set_transition_time_get with_condition_get)

lemma accept_stop_phase: "DerivePhase (conditions (accept_stop K t run start)) = DerivePhase (conditions run)"
  by (rule DerivePhase_cong) (simp add: accept_stop_get)

lemma accept_stop_accepted: "HasAcceptedStop K (accept_stop K t run start)"
  by (simp add: HasAcceptedStop_def find_cond accept_stop_get)

text \<open>An accepted stop without a final outcome is the intent that the two outcome writers look for.\<close>

lemma pending_stop_intent:
  assumes "HasAcceptedStop K run" "\<not> HasFinalStopOutcome K run"
  shows "terminal_stop_intent K run \<longleftrightarrow> isTerminal (DerivePhase (conditions run))"
  using assms by (auto simp: HasAcceptedStop_def terminal_stop_intent_def split: option.splits)

lemma confirmed_outcome_final: "HasFinalStopOutcome K (confirmed_outcome K t run)"
  by (simp add: HasFinalStopOutcome_def confirmed_outcome_def Let_def find_cond with_condition_get)

lemma failed_outcome_final: "HasFinalStopOutcome K (failed_outcome K t run)"
  by (simp add: HasFinalStopOutcome_def failed_outcome_def Let_def find_cond with_condition_get
      suspensionFailureCondition_workflow suspensionFailureCondition_workflow [symmetric])

lemma confirmed_outcome_phase:
  "DerivePhase (conditions (confirmed_outcome K t run)) =
     (if terminal_stop_intent K run then DerivePhase (conditions run) else AgenticRunPhaseEmergencyStopped)"
  by (simp add: confirmed_outcome_def Let_def stopping_keeps_phase)
    (simp add: DerivePhase_alt with_condition_is_true)

lemma failed_outcome_phase:
  assumes "terminal_stop_intent K run \<longleftrightarrow> isTerminal (DerivePhase (conditions run))"
  shows "DerivePhase (conditions (failed_outcome K t run)) =
     (if isTerminal (DerivePhase (conditions run)) then DerivePhase (conditions run) else AgenticRunPhaseFailed)"
  using assms teardown_failure_phase [of "with_condition K t run AgenticRunConditionStopping ConditionFalse
      reasonTeardownFailed ''Sandbox cleanup remains unconfirmed after the suspension window''" t]
  by (simp add: failed_outcome_def Let_def stopping_keeps_phase suspensionFailureCondition_nonterminal)

lemma outcome_emergency_stop:
  "is_true (conditions (failed_outcome K t run)) AgenticRunConditionEmergencyStopped =
   is_true (conditions run) AgenticRunConditionEmergencyStopped"
  "is_true (conditions (accept_stop K t run start)) AgenticRunConditionEmergencyStopped =
   is_true (conditions run) AgenticRunConditionEmergencyStopped"
  by (simp_all add: failed_outcome_def Let_def with_condition_get suspensionFailureCondition_workflow
      suspensionFailureCondition_workflow [symmetric] is_true_def accept_stop_get)

end

lemma confirmed_outcome_no_info: "\<not> hasRunSandboxInfo (confirmed_outcome K t run)"
  by (simp add: confirmed_outcome_def Let_def cleared_no_info)

section \<open>What the writers patch\<close>

text \<open>One patch of each status writer, by the base it was computed from.\<close>

definition accept_write :: "kube \<Rightarrow> UID \<Rightarrow> Time \<Rightarrow> AgenticRun \<Rightarrow> AgenticRun \<Rightarrow> bool" where
  "accept_write K uid start base new \<longleftrightarrow> run_uid base = uid \<and> \<not> isTerminal (DerivePhase (conditions base)) \<and>
     \<not> HasAcceptedStop K base \<and> (\<exists>t. new = accept_stop K t base start)"

definition outcome_write :: "kube \<Rightarrow> UID \<Rightarrow> bool \<Rightarrow> AgenticRun \<Rightarrow> AgenticRun \<Rightarrow> bool" where
  "outcome_write K uid confirmed base new \<longleftrightarrow> run_uid base = uid \<and> HasAcceptedStop K base \<and> \<not> HasFinalStopOutcome K base \<and>
     (\<exists>t. new = (if confirmed then confirmed_outcome K t base else failed_outcome K t base))"

definition clear_write :: "AgenticRun \<Rightarrow> AgenticRun \<Rightarrow> bool" where
  "clear_write base new \<longleftrightarrow> new = base\<lparr>rStatus := clearRunSandboxInfo (rStatus base)\<rparr>"

lemma persist_wp:
  assumes "\<And>h t. P h (EvNow t)" "\<And>h k x. P h (EvGetRun k x)"
    and "\<And>h base new res. accept_write (rKube r) uid start base new \<Longrightarrow> fresh_base (rKube r) h base \<Longrightarrow> P h (EvStatusPatch base new res)"
    and "\<And>x es. Q x (h @ es)"
  shows "wp P (persist_attempts r n key uid start) Q h"
  using assms(4)
proof (induction n arbitrary: h)
  case 0
  then show ?case using 0 [of _ "[]"] by (simp add: wp_returnI)
next
  case (Suc n)
  have stop: "Q x h" for x
    using Suc.prems [of x "[]"] by simp
  show ?case
    unfolding persist_attempts.simps
    by (intro wp_bindI wp_requests wp_case_sum wp_ifI wp_returnI conjI assms(1,2) assms(3) Suc.IH fresh_base_append fresh_baseI)
      (auto simp: accept_write_def Suc.prems stop intro: fresh_baseI)
qed

lemma outcome_wp:
  assumes "\<And>h t. P h (EvNow t)" "\<And>h k x. P h (EvGetRun k x)"
    and "\<And>h' base new res. outcome_write (rKube r) uid confirmed base new \<Longrightarrow> set h \<subseteq> set h' \<Longrightarrow> P h' (EvStatusPatch base new res)"
    and "\<And>x es. Q x (h @ es)"
  shows "wp P (outcome_attempts r n key uid confirmed) Q h"
  using assms(3,4)
proof (induction n arbitrary: h)
  case 0
  then show ?case using 0(2) [of _ "[]"] by (simp add: wp_returnI)
next
  case (Suc n)
  have stop: "Q x h" for x
    using Suc.prems(2) [of x "[]"] by simp
  show ?case
    unfolding outcome_attempts.simps
    by (intro wp_bindI wp_requests wp_case_sum wp_ifI wp_returnI conjI assms(1,2) Suc.prems(1) Suc.IH)
      (auto simp: outcome_write_def Suc.prems(2) stop intro: Suc.prems(1))
qed

lemma clear_wp:
  assumes "\<And>h k x. P h (EvGetRun k x)"
    and "\<And>h' base new res. run_uid base = uid \<Longrightarrow> clear_write base new \<Longrightarrow> set h \<subseteq> set h' \<Longrightarrow> P h' (EvStatusPatch base new res)"
    and "\<And>x es. Q x (h @ es)"
  shows "wp P (clear_attempts r n key uid) Q h"
  using assms(2,3)
proof (induction n arbitrary: h)
  case 0
  then show ?case using 0(2) [of _ "[]"] by (simp add: wp_returnI)
next
  case (Suc n)
  have stop: "Q x h" for x
    using Suc.prems(2) [of x "[]"] by simp
  show ?case
    unfolding clear_attempts.simps
    by (intro wp_bindI wp_requests wp_case_sum wp_ifI wp_returnI conjI assms(1) Suc.prems(1) Suc.IH)
      (auto simp: clear_write_def Suc.prems(2) stop)
qed

section \<open>What the stop of a run does\<close>

definition cleanup_confirmed :: "history \<Rightarrow> UID \<Rightarrow> bool" where
  "cleanup_confirmed h uid \<longleftrightarrow> (\<exists>d report. EvCleanupSuspension uid d report None \<in> set h \<and> Confirmed report)"

definition window_over :: "history \<Rightarrow> Time \<Rightarrow> bool" where
  "window_over h start \<longleftrightarrow> (\<exists>t. EvNow t \<in> set h \<and> start + SuspensionStopWindow \<le> t)"

definition stop_event :: "kube \<Rightarrow> Time set \<Rightarrow> history \<Rightarrow> event \<Rightarrow> bool" where
  "stop_event K starts h e = (case e of
      EvStatusPatch base new res \<Rightarrow>
        (\<exists>start \<in> starts. accept_write K (run_uid base) start base new \<and> fresh_base K h base) \<or>
        outcome_write K (run_uid base) True base new \<and> cleanup_confirmed h (run_uid base) \<or>
        outcome_write K (run_uid base) False base new \<and> (\<exists>start \<in> starts. window_over h start) \<or>
        clear_write base new \<and> cleanup_confirmed h (run_uid base)
    | EvAgent call \<Rightarrow> \<not> launches_agent call
    | EvSandboxCreate _ _ _ _ _ _ \<Rightarrow> False | EvMetaPatch _ _ _ _ \<Rightarrow> False | EvDeleteRun _ _ \<Rightarrow> False
    | _ \<Rightarrow> True)"

lemma stop_event_simps [simp]:
  "stop_event K S h (EvNow t)" "stop_event K S h (EvGetRun k x)" "stop_event K S h (EvCleanupSuspension u d rep err)"
  "stop_event K S h (EvAgent (CallReleaseSandboxes run z))" "release_event e \<Longrightarrow> stop_event K S h e"
  by (auto simp: stop_event_def release_event_def rbac_event_def split: event.splits)

lemma stop_event_patches:
  "accept_write K uid start base new \<Longrightarrow> start \<in> S \<Longrightarrow> fresh_base K h base \<Longrightarrow> stop_event K S h (EvStatusPatch base new res)"
  "outcome_write K uid True base new \<Longrightarrow> cleanup_confirmed h uid \<Longrightarrow> stop_event K S h (EvStatusPatch base new res)"
  "outcome_write K uid False base new \<Longrightarrow> start \<in> S \<Longrightarrow> window_over h start \<Longrightarrow> stop_event K S h (EvStatusPatch base new res)"
  "clear_write base new \<Longrightarrow> cleanup_confirmed h (run_uid base) \<Longrightarrow> stop_event K S h (EvStatusPatch base new res)"
  by (auto simp: stop_event_def accept_write_def outcome_write_def)

lemma cleanup_confirmed_mono: "cleanup_confirmed h uid \<Longrightarrow> set h \<subseteq> set h' \<Longrightarrow> cleanup_confirmed h' uid"
  by (auto simp: cleanup_confirmed_def)

lemma window_over_mono: "window_over h start \<Longrightarrow> set h \<subseteq> set h' \<Longrightarrow> window_over h' start"
  by (auto simp: window_over_def)

text \<open>A confirmed pass leaves its confirmation in the history.\<close>

context reconciler
begin

lemma suspensionCleanupPass_wp:
  assumes "\<And>report err ev es. Q (report, err, ev) (h @ EvCleanupSuspension (run_uid run) timeout report err # es)"
  shows "wp (stop_event (rKube r) S) (suspensionCleanupPass r sandbox run timeout) Q h"
proof -
  have "\<And>report err ev. Q (report, err, ev) (h @ [EvCleanupSuspension (run_uid run) timeout report err])"
    using assms [of _ _ _ "[]"] by simp
  then show ?thesis
    unfolding suspensionCleanupPass_def
    by (intro wp_bindI wp_performI wp_case_prod wp_letI wp_ifI wp_returnI release_call_wp)
      (auto simp: assms split: prod.splits)
qed

lemma confirmed_outcome_wp:
  assumes "cleanup_confirmed h uid" and "\<And>x es. Q x (h @ es)"
  shows "wp (stop_event (rKube r) S) (writeSuspensionOutcome r key uid True) Q h"
  unfolding writeSuspensionOutcome_def
  using assms(2)
  by (intro outcome_wp) (auto intro: stop_event_patches(2) [OF _ cleanup_confirmed_mono [OF assms(1)]])

lemma failed_outcome_wp:
  assumes "start \<in> S" "window_over h start" and "\<And>x es. Q x (h @ es)"
  shows "wp (stop_event (rKube r) S) (writeSuspensionOutcome r key uid False) Q h"
  unfolding writeSuspensionOutcome_def
  using assms(3)
  by (intro outcome_wp) (auto intro: stop_event_patches(3) [OF _ assms(1) window_over_mono [OF assms(2)]])

end

lemma clear_stop_wp:
  assumes "cleanup_confirmed h uid" and "\<And>x es. Q x (h @ es)"
  shows "wp (stop_event K S) (clearRunSandboxInfo_method r key uid) Q h"
  unfolding clearRunSandboxInfo_method_def using cleanup_confirmed_mono [OF assms(1)] assms(2)
  by (intro clear_wp) (auto intro!: stop_event_patches(4))

context reconciler
begin

lemma deadline_passed_wp:
  assumes "start \<in> S" "window_over h start"
  shows "wp (stop_event (rKube r) S) (deadline_passed r sandbox key current) (\<lambda>_ _. True) h"
  unfolding deadline_passed_def
  by (intro wp_bindI failed_outcome_wp [OF assms] wp_case_sum wp_case_option wp_ifI wp_returnI suspensionCleanupPass_wp
      clear_stop_wp TrueI)
    (auto simp: cleanup_confirmed_def pass_confirmed_def)

lemma after_pass_wp:
  assumes "stopStart \<in> S" and "confirmed \<Longrightarrow> cleanup_confirmed h (run_uid current)"
  shows "wp (stop_event (rKube r) S) (after_pass r key stopStart confirmed current) (\<lambda>_ _. True) h"
  unfolding after_pass_def Let_def
  by (intro wp_bindI wp_ifI wp_returnI wp_requests confirmed_outcome_wp failed_outcome_wp [OF assms(1)] clear_stop_wp
      conjI TrueI assms(2))
    (auto simp: window_over_def)

lemma stop_accepted_pass_wp:
  assumes "stopStart \<in> S"
  shows "wp (stop_event (rKube r) S) (stop_accepted_pass r sandbox key stopStart remaining0 current) (\<lambda>_ _. True) h"
proof -
  have confirmed: "pass_confirmed (report, err, ev) \<Longrightarrow> run_uid current2 = run_uid current \<Longrightarrow>
      cleanup_confirmed ((h' @ EvCleanupSuspension (run_uid current) d report err # es) @ es') (run_uid current2)"
    for h' d report err ev es es' current2
    by (auto simp: cleanup_confirmed_def pass_confirmed_def)
  show ?thesis
    unfolding stop_accepted_pass_def Let_def
    by (intro wp_bindI wp_ifI wp_returnI wp_requests wp_case_sum suspensionCleanupPass_wp deadline_passed_wp [OF assms] after_pass_wp
        conjI TrueI assms confirmed; auto simp: window_over_def)
qed

end

text \<open>The start of the window: the accepted stop of the run that was read, or the activation of the suspension.\<close>

definition suspension_starts :: "kube \<Rightarrow> history \<Rightarrow> AgenticRun \<Rightarrow> Time \<Rightarrow> Time set" where
  "suspension_starts K h run activationStart = insert activationStart
     {cLastTransitionTime c | c current. on_get_run K h (run_key run) = Inr current \<and>
        FindStatusCondition K (conditions current) AgenticRunConditionStopping = Some c \<and>
        cStatus c = ConditionTrue \<and> cReason c = reasonSystemSuspended}"

context reconciler
begin

lemma handleSuspensionAt_wp:
  "wp (stop_event (rKube r) (suspension_starts (rKube r) h run activationStart))
     (handleSuspensionAt r run activationStart) (\<lambda>_ _. True) h"
proof -
  let ?S = "suspension_starts (rKube r) h run activationStart"
  have start: "start \<in> ?S" if "on_get_run (rKube r) h (run_key run) = Inr current"
    and "start = (case FindStatusCondition (rKube r) (conditions current) AgenticRunConditionStopping of
       Some c \<Rightarrow> if cStatus c = ConditionTrue \<and> cReason c = reasonSystemSuspended \<and> \<not> IsZero (cLastTransitionTime c)
         then cLastTransitionTime c else activationStart
     | None \<Rightarrow> activationStart)" for current start
    using that by (auto simp: suspension_starts_def split: option.splits)
  have persist: "wp (stop_event (rKube r) ?S) (persistRunStop r key uid start) Q h'"
    if "start \<in> ?S" "\<And>x es. Q x (h' @ es)" for start Q h' key uid
    unfolding persistRunStop_def using that
    by (intro persist_wp) (auto intro: stop_event_patches(1))
  show ?thesis
    unfolding handleSuspensionAt_def
    by (intro wp_bindI wp_ifI wp_returnI wp_requests wp_case_option wp_case_sum wp_letI persist stop_accepted_pass_wp
        conjI TrueI; (rule start, simp, assumption)?; simp)
qed

end

section \<open>Properties\<close>

text \<open>
  Accepting a stop patches only a run that is neither terminal nor already stopping; the patch leaves
  its phase and its steps alone, records the start of the suspension as the time of the \<open>Stopping\<close>
  condition, and makes the stop accepted for every later guarded read.
\<close>

theorem stop_acceptance_write:
  assumes "status_conditions (rKube r)"
    and "EvStatusPatch base new res \<in> set (new_events (persistRunStop r key uid start) h)"
  shows "run_uid base = uid \<and> \<not> isTerminal (DerivePhase (conditions base)) \<and> \<not> HasAcceptedStop (rKube r) base \<and>
     HasAcceptedStop (rKube r) new \<and> DerivePhase (conditions new) = DerivePhase (conditions base) \<and> steps new = steps base \<and>
     conditionTime (rKube r) (conditions new) AgenticRunConditionStopping = Some start"
proof -
  have "wp (\<lambda>_ e. case e of EvStatusPatch base new res \<Rightarrow> accept_write (rKube r) uid start base new | _ \<Rightarrow> True)
      (persistRunStop r key uid start) (\<lambda>_ _. True) h"
    unfolding persistRunStop_def by (rule persist_wp) auto
  from wp_new_events_mem [OF this assms(2)] show ?thesis
    by (auto simp: accept_write_def conditionTime_def status_conditions.find_cond [OF assms(1)]
        status_conditions.accept_stop_accepted [OF assms(1)] status_conditions.accept_stop_phase [OF assms(1)]
        status_conditions.accept_stop_get [OF assms(1)])
qed

lemma sample_stop_events:
  "\<exists>new res. EvStatusPatch sample_run new res \<in>
     set (new_events (persistRunStop (sample_reconciler sample_world) (run_key sample_run) ''u-1'' 5) [])"
  by (simp add: new_events_def persistRunStop_def stopRetries_def eval_nat_numeral request_defs server_defs sample_reconciler_def
      sample_world_def sample_defs HasAcceptedStop_def HasFinalStopOutcome_def isTerminal_def DerivePhase_def)

theorem stop_acceptance_write_witness:
  "\<exists>new res. EvStatusPatch sample_run new res \<in>
     set (new_events (persistRunStop (sample_reconciler sample_world) (run_key sample_run) ''u-1'' 5) []) \<and>
     HasAcceptedStop (ref_server sample_world) new"
proof -
  have K: "rKube (sample_reconciler sample_world) = ref_server sample_world"
    by (simp add: sample_reconciler_def)
  obtain new res where e: "EvStatusPatch sample_run new res \<in>
     set (new_events (persistRunStop (sample_reconciler sample_world) (run_key sample_run) ''u-1'' 5) [])"
    using sample_stop_events by blast
  with stop_acceptance_write [OF _ e] show ?thesis
    unfolding K using ref_server_conds.status_conditions_axioms by blast
qed

text \<open>
  C13: The outcome of a stop is written once: only over an accepted stop without an outcome, and it is
  final. A run that was already terminal keeps its phase; any other becomes emergency-stopped when the
  clean-up was confirmed and failed when it was not. A confirmed outcome drops the sandbox references,
  an unconfirmed one keeps them for later clean-up.
\<close>

theorem stop_outcome_write:
  assumes "status_conditions (rKube r)"
    and "EvStatusPatch base new res \<in> set (new_events (writeSuspensionOutcome r key uid confirmed) h)"
  shows "HasAcceptedStop (rKube r) base \<and> \<not> HasFinalStopOutcome (rKube r) base \<and> HasFinalStopOutcome (rKube r) new \<and>
     DerivePhase (conditions new) = (if isTerminal (DerivePhase (conditions base)) then DerivePhase (conditions base)
       else if confirmed then AgenticRunPhaseEmergencyStopped else AgenticRunPhaseFailed) \<and>
     (if confirmed then \<not> hasRunSandboxInfo new else steps new = steps base)"
proof -
  have "wp (\<lambda>_ e. case e of EvStatusPatch base new res \<Rightarrow> outcome_write (rKube r) uid confirmed base new | _ \<Rightarrow> True)
      (writeSuspensionOutcome r key uid confirmed) (\<lambda>_ _. True) h"
    unfolding writeSuspensionOutcome_def by (rule outcome_wp) auto
  then have w: "outcome_write (rKube r) uid confirmed base new"
    using wp_new_events_mem [OF _ assms(2)] by fastforce
  then have "terminal_stop_intent (rKube r) base \<longleftrightarrow> isTerminal (DerivePhase (conditions base))"
    using status_conditions.pending_stop_intent [OF assms(1)] by (simp add: outcome_write_def)
  with w show ?thesis
    by (cases confirmed) (auto simp: outcome_write_def status_conditions.confirmed_outcome_final [OF assms(1)]
        status_conditions.failed_outcome_final [OF assms(1)] status_conditions.confirmed_outcome_phase [OF assms(1)]
        status_conditions.failed_outcome_phase [OF assms(1)] confirmed_outcome_no_info)
qed

definition stopping_run :: AgenticRun where
  "stopping_run = set_conditions claimed_run [cond AgenticRunConditionStopping ConditionTrue reasonSystemSuspended]"

definition stopping_world :: world where
  "stopping_world = sample_world\<lparr>wRuns := [stopping_run]\<rparr>"

lemma sample_outcome_events:
  "\<exists>new res. EvStatusPatch stopping_run new res \<in>
     set (new_events (writeSuspensionOutcome (sample_reconciler stopping_world) (run_key stopping_run) ''u-1'' True) [])"
  by (simp add: new_events_def writeSuspensionOutcome_def stopRetries_def eval_nat_numeral request_defs server_defs
      sample_reconciler_def stopping_world_def stopping_run_def claimed_run_def with_sandbox_info_def sample_world_def sample_defs
      HasAcceptedStop_def HasFinalStopOutcome_def isTerminal_def DerivePhase_def Let_def go_consts)

theorem stop_outcome_write_witness:
  "\<exists>new res. EvStatusPatch stopping_run new res \<in>
     set (new_events (writeSuspensionOutcome (sample_reconciler stopping_world) (run_key stopping_run) ''u-1'' True) []) \<and>
     HasFinalStopOutcome (ref_server stopping_world) new \<and> hasRunSandboxInfo stopping_run \<and> \<not> hasRunSandboxInfo new"
proof -
  have K: "rKube (sample_reconciler stopping_world) = ref_server stopping_world"
    by (simp add: sample_reconciler_def)
  obtain new res where e: "EvStatusPatch stopping_run new res \<in>
     set (new_events (writeSuspensionOutcome (sample_reconciler stopping_world) (run_key stopping_run) ''u-1'' True) [])"
    using sample_outcome_events by blast
  moreover have "hasRunSandboxInfo stopping_run"
    by (simp add: hasRunSandboxInfo_def has_info_def stopping_run_def claimed_run_def with_sandbox_info_def Let_def)
  ultimately show ?thesis
    using stop_outcome_write [OF _ e] unfolding K using ref_server_conds.status_conditions_axioms by auto
qed

lemma stop_event_phase:
  assumes "status_conditions K" and "stop_event K S h (EvStatusPatch base new res)"
  shows "DerivePhase (conditions new) = DerivePhase (conditions base) \<or>
     DerivePhase (conditions new) = AgenticRunPhaseEmergencyStopped \<and> cleanup_confirmed h (run_uid base) \<or>
     DerivePhase (conditions new) = AgenticRunPhaseFailed \<and> (\<exists>start \<in> S. window_over h start)"
proof -
  consider start where "accept_write K (run_uid base) start base new"
    | "outcome_write K (run_uid base) True base new" "cleanup_confirmed h (run_uid base)"
    | "outcome_write K (run_uid base) False base new" "\<exists>start \<in> S. window_over h start"
    | "clear_write base new"
    using assms(2) by (auto simp: stop_event_def)
  then show ?thesis
  proof cases
    case 1
    then show ?thesis by (auto simp: accept_write_def status_conditions.accept_stop_phase [OF assms(1)])
  next
    case 2
    then show ?thesis
      by (auto simp: outcome_write_def status_conditions.confirmed_outcome_phase [OF assms(1)] split: if_splits)
  next
    case 3
    then show ?thesis
      using status_conditions.pending_stop_intent [OF assms(1), of base]
      by (auto simp: outcome_write_def status_conditions.failed_outcome_phase [OF assms(1)])
  next
    case 4
    then show ?thesis by (simp add: clear_write_def)
  qed
qed

text \<open>
  C12: The stop of a run changes its phase in two ways only. It becomes emergency-stopped only after a
  clean-up of the sandboxes of its UID returned no error and reported nothing pending, failed or
  unverified; it becomes failed only after a clock reading at least ten seconds later than the accepted
  stop or the activation of the suspension. Every other status patch leaves the phase as it was.
\<close>

theorem stop_changes_phase_only_by_outcome:
  assumes "reconciler r" and "status_conditions (rKube r)"
    and "i < length (new_events (handleSuspensionAt r run activationStart) h)"
    and "new_events (handleSuspensionAt r run activationStart) h ! i = EvStatusPatch base new res"
    and "DerivePhase (conditions new) \<noteq> DerivePhase (conditions base)"
  shows "let before = h @ take i (new_events (handleSuspensionAt r run activationStart) h) in
     DerivePhase (conditions new) = AgenticRunPhaseEmergencyStopped \<and>
       (\<exists>d report. EvCleanupSuspension (run_uid base) d report None \<in> set before \<and> Confirmed report) \<or>
     DerivePhase (conditions new) = AgenticRunPhaseFailed \<and>
       (\<exists>start t. start \<in> suspension_starts (rKube r) h run activationStart \<and>
          EvNow t \<in> set before \<and> start + 10 * Second \<le> t)"
proof -
  let ?es = "new_events (handleSuspensionAt r run activationStart) h"
  have "stop_event (rKube r) (suspension_starts (rKube r) h run activationStart) (h @ take i ?es) (EvStatusPatch base new res)"
    using good_nth [OF wp_new_events [OF reconciler.handleSuspensionAt_wp [OF assms(1)]] assms(3)] assms(4) by metis
  from stop_event_phase [OF assms(2) this] assms(5) show ?thesis
    unfolding Let_def cleanup_confirmed_def window_over_def SuspensionStopWindow_def by blast
qed

definition quick_world :: world where
  "quick_world = stopping_world\<lparr>wNow := 2000\<rparr>"

definition phase_change :: "event \<Rightarrow> (AgenticRunPhase \<times> AgenticRunPhase) option" where
  "phase_change e = (case e of
      EvStatusPatch base new res \<Rightarrow> Some (DerivePhase (conditions base), DerivePhase (conditions new)) | _ \<Rightarrow> None)"

lemma phase_change_Some:
  "phase_change e = Some (p, q) \<longleftrightarrow>
     (\<exists>base new res. e = EvStatusPatch base new res \<and> DerivePhase (conditions base) = p \<and> DerivePhase (conditions new) = q)"
  by (auto simp: phase_change_def split: event.splits)

lemma sample_stop_history:
  "map phase_change (new_events (handleSuspensionAt (sample_reconciler quick_world) stopping_run 5) []) =
     [None, None, None, None, None, None, None, Some (AgenticRunPhasePending, AgenticRunPhaseEmergencyStopped)]"
  by code_simp

theorem stop_changes_phase_only_by_outcome_witness:
  "\<exists>uid d report. EvCleanupSuspension uid d report None \<in>
     set (take 7 (new_events (handleSuspensionAt (sample_reconciler quick_world) stopping_run 5) [])) \<and> Confirmed report"
proof -
  let ?r = "sample_reconciler quick_world"
  let ?es = "new_events (handleSuspensionAt ?r stopping_run 5) []"
  have len: "length ?es = 8" and "phase_change (?es ! 7) = Some (AgenticRunPhasePending, AgenticRunPhaseEmergencyStopped)"
    using arg_cong [OF sample_stop_history, of length] arg_cong [OF sample_stop_history, of "\<lambda>xs. xs ! 7"] by simp_all
  then obtain base new res where e: "?es ! 7 = EvStatusPatch base new res"
    and ph: "DerivePhase (conditions base) = AgenticRunPhasePending"
      "DerivePhase (conditions new) = AgenticRunPhaseEmergencyStopped"
    by (auto simp: phase_change_Some)
  have r: "?r = ?r\<lparr>rAgent := StubAgentCaller\<rparr>" by (simp add: sample_reconciler_def)
  have "reconciler ?r" by (subst r) (rule stub_reconciler.reconciler_axioms)
  moreover have "status_conditions (rKube ?r)"
    using ref_server_conds.status_conditions_axioms by (simp add: sample_reconciler_def)
  ultimately show ?thesis
    using stop_changes_phase_only_by_outcome [OF _ _ _ e] len ph by (auto simp: Let_def)
qed

end
