(* ===== verification/PodHandler.thy ===== *)
theory PodHandler
  imports Suspension
begin

text \<open>
  The handling of sandbox pod events: \<^verbatim>\<open>controller/agenticrun/pod_handler.go\<close>.

  A pod event is traced back to its run by the labels, owner references or the ownership chain of the
  pod; a running pod updates the reason of the step's condition, a finished one completes the step. The
  lemmas show that the event handler writes the run only through guarded reads, that a completed step is
  never completed again, and how each outcome of the sandbox becomes a phase of the run.
\<close>

section \<open>Token usage\<close>

fun extractTokenUsage :: "ResultObject \<Rightarrow> TokenUsage" where
  "extractTokenUsage (AnalysisResultObject cr) = anTokenUsage cr"
| "extractTokenUsage (ExecutionResultObject cr) = xrTokenUsage cr"
| "extractTokenUsage (VerificationResultObject cr) = vrTokenUsage cr"
| "extractTokenUsage (EscalationResultObject cr) = erTokenUsage cr"

text \<open>
  \<open>*acc += *x\<close> on 64-bit counters. A nil \<open>acc\<close> under a non-nil \<open>x\<close> is a nil dereference.
\<close>

definition add_tokens :: "int option \<Rightarrow> int option \<Rightarrow> error + int option" where
  "add_tokens acc x = (case x of
      None \<Rightarrow> Inr acc
    | Some n \<Rightarrow> (case acc of None \<Rightarrow> Inl (Panic ''nil pointer dereference'') | Some m \<Rightarrow> Inr (Some (int64 (m + n)))))"

definition aggregateTokenUsage :: "AgenticRun \<Rightarrow> ResultObject \<Rightarrow> error + AgenticRun" where
  "aggregateTokenUsage run resultCR =
    (let tu = extractTokenUsage resultCR in
     if TokenUsage_IsZero tu then Inr run
     else
       let acc = (if TokenUsage_IsZero (suTokenUsage (rStatus run))
         then \<lparr>tuInputTokens = Some 0, tuOutputTokens = Some 0\<rparr> else suTokenUsage (rStatus run)) in
       case add_tokens (tuInputTokens acc) (tuInputTokens tu) of
         Inl e \<Rightarrow> Inl e
       | Inr inp \<Rightarrow>
           (case add_tokens (tuOutputTokens acc) (tuOutputTokens tu) of
              Inl e \<Rightarrow> Inl e
            | Inr outp \<Rightarrow> Inr (run\<lparr>rStatus := (rStatus run)\<lparr>suTokenUsage := \<lparr>tuInputTokens = inp, tuOutputTokens = outp\<rparr>\<rparr>\<rparr>)))"

section \<open>Result validation\<close>

definition msgSandboxNoResult :: string where
  [go_consts]: "msgSandboxNoResult = ''sandbox exited without creating result''"

definition msgToolResultSafetyInspectionFailed :: string where
  [go_consts]: "msgToolResultSafetyInspectionFailed =
     ''A possible security issue was detected in the tool output. The agentic run was stopped for safety.''"

fun validateResultStatus :: "ResultObject \<Rightarrow> string" where
  "validateResultStatus (AnalysisResultObject cr) =
     (if anActionRequired cr \<noteq> ActionRequiredFalse \<and> length (anOptions cr) = 0 then ''result CR missing options'' else '''')"
| "validateResultStatus (ExecutionResultObject cr) =
     (if length (xrActionsTaken cr) = 0 then ''result CR missing actionsTaken'' else '''')"
| "validateResultStatus (VerificationResultObject cr) =
     (if length (vrChecks cr) = 0 then ''result CR missing checks'' else '''')"
| "validateResultStatus (EscalationResultObject cr) =
     (if erSummary cr = '''' then ''result CR missing summary'' else '''')"

fun failure_reason :: "ResultObject \<Rightarrow> string" where
  "failure_reason (AnalysisResultObject cr) = anFailureReason cr"
| "failure_reason (ExecutionResultObject cr) = xrFailureReason cr"
| "failure_reason (VerificationResultObject cr) = vrFailureReason cr"
| "failure_reason (EscalationResultObject cr) = erFailureReason cr"

text \<open>The object with its conditions and failure reason, or nothing on any error.\<close>

definition fetched :: "('a \<Rightarrow> ResultObject) \<Rightarrow> error + 'a \<Rightarrow> (ResultObject \<times> Condition list \<times> string) option" where
  "fetched f x = (case x of Inl _ \<Rightarrow> None | Inr cr \<Rightarrow> Some (f cr, GetConditions (f cr), failure_reason (f cr)))"

definition fetchResultCRByStep ::
    "kube \<Rightarrow> ObjectKey \<Rightarrow> string \<Rightarrow> (ResultObject \<times> Condition list \<times> string) option op" where
  "fetchResultCRByStep K key step =
    (if step = ''analysis'' then do { x \<leftarrow> getAnalysisResult K key; State_Monad.return (fetched AnalysisResultObject x) }
     else if step = ''execution'' then do { x \<leftarrow> getExecutionResult K key; State_Monad.return (fetched ExecutionResultObject x) }
     else if step = ''verification'' then do { x \<leftarrow> getVerificationResult K key; State_Monad.return (fetched VerificationResultObject x) }
     else if step = ''escalation'' then do { x \<leftarrow> getEscalationResult K key; State_Monad.return (fetched EscalationResultObject x) }
     else State_Monad.return None)"

text \<open>The decision of \<open>validateResultCR\<close> on what was fetched: the object to link, if any, and the reason.\<close>

definition judge_result ::
    "kube \<Rightarrow> (ResultObject \<times> Condition list \<times> string) option \<Rightarrow> ResultObject option \<times> string" where
  "judge_result K f = (case f of
      None \<Rightarrow> (None, msgSandboxNoResult)
    | Some (obj, cs, failureReason) \<Rightarrow>
        (case FindStatusCondition K cs ResultConditionCompleted of
           None \<Rightarrow> (None, ''result CR missing Completed condition'')
         | Some c \<Rightarrow>
             if cStatus c \<noteq> ConditionTrue then (None, ''result CR missing Completed condition'')
             else if cReason c = ResultReasonAgentTimeout then (Some obj, ResultReasonAgentTimeout)
             else if failureReason \<noteq> '''' then (Some obj, failureReason)
             else if cReason c = ResultReasonFailed then (Some obj, ''agent reported failure'')
             else let reason = validateResultStatus obj in
               if reason \<noteq> '''' then (None, reason) else (Some obj, '''')))"

definition validateResultCR ::
    "kube \<Rightarrow> AgenticRun \<Rightarrow> string \<Rightarrow> string \<Rightarrow> (ResultObject option \<times> string) op" where
  "validateResultCR K run step namespace = do {
     f \<leftarrow> fetchResultCRByStep K
       \<lparr>kName = resultCRName (mName (rMeta run)) step (nextResultIndex run step), kNamespace = namespace\<rparr> step;
     State_Monad.return (judge_result K f)
   }"

definition podTerminatedInfo :: "Pod option \<Rightarrow> string \<times> int option" where
  "podTerminatedInfo pod = (case pod of
      None \<Rightarrow> ('''', None)
    | Some p \<Rightarrow> (case pContainerStatuses p of
        [] \<Rightarrow> ('''', None)
      | cs # _ \<Rightarrow> (case csTerminated cs of None \<Rightarrow> ('''', None) | Some (msg, code) \<Rightarrow> (msg, Some code))))"

definition podFailMessage :: "Pod \<Rightarrow> string" where
  "podFailMessage pod =
    (if pPhase pod = PodSucceeded then msgSandboxNoResult
     else let (msg, exitCode) = podTerminatedInfo (Some pod) in
       if msg \<noteq> '''' then
         (if msg = ReasonToolResultSafetyInspectionFailed then msgToolResultSafetyInspectionFailed else msg)
       else (case exitCode of
           Some code \<Rightarrow> ''sandbox pod failed (exit '' @ sprint_int code @ '')''
         | None \<Rightarrow> ''sandbox pod failed''))"

section \<open>Step status writers\<close>

definition patchStepCondition ::
    "Reconciler \<Rightarrow> AgenticRun \<Rightarrow> string \<Rightarrow> ConditionStatus \<Rightarrow> string \<Rightarrow> string \<Rightarrow> error option op" where
  "patchStepCondition r run condType status reason message =
    (if condType = '''' then State_Monad.return None
     else if \<not> rAPIReader r
     then State_Monad.return (Some (NewError ''uncached API reader is required before patching a run step''))
     else do {
       g \<leftarrow> readRunnableRun (rKube r) (rAPIReader r) (run_key run) (run_uid run);
       case g of
         Inl e \<Rightarrow> State_Monad.return (Some e)
       | Inr current \<Rightarrow>
           if (case FindStatusCondition (rKube r) (conditions current) condType of
                 Some c \<Rightarrow> cStatus c \<noteq> ConditionUnknown \<or> (cStatus c = status \<and> cReason c = reason)
               | None \<Rightarrow> False)
           then State_Monad.return None
           else do {
             run' \<leftarrow> setCondition (rKube r) current condType status reason message;
             p \<leftarrow> patchStatus (rKube r) current run';
             State_Monad.return (case p of Inl e \<Rightarrow> Some e | Inr _ \<Rightarrow> None)
           }
     })"

text \<open>The run with a result linked and its tokens added.\<close>

definition link_result :: "AgenticRun \<Rightarrow> string \<Rightarrow> string \<Rightarrow> ActionOutcome \<Rightarrow> ResultObject \<Rightarrow> error + AgenticRun" where
  "link_result run step crName outcome resultCR = aggregateTokenUsage (appendResultRef run step crName outcome) resultCR"

definition patchStepResult ::
    "Reconciler \<Rightarrow> AgenticRun \<Rightarrow> string \<Rightarrow> string \<Rightarrow> string \<Rightarrow> ResultObject \<Rightarrow> ConditionStatus \<Rightarrow> string \<Rightarrow> string \<Rightarrow>
     error option op" where
  "patchStepResult r run step condType crName resultCR status reason message =
    (if condType = '''' then State_Monad.return None
     else if \<not> rAPIReader r
     then State_Monad.return (Some (NewError ''uncached API reader is required before linking a run result''))
     else do {
       g \<leftarrow> readRunnableRun (rKube r) (rAPIReader r) (run_key run) (run_uid run);
       case g of
         Inl e \<Rightarrow> State_Monad.return (Some e)
       | Inr current \<Rightarrow>
           (case link_result current step crName
               (if status \<noteq> ConditionTrue then ActionOutcomeFailed else ActionOutcomeSucceeded) resultCR of
              Inl e \<Rightarrow> State_Monad.return (Some e)
            | Inr run1 \<Rightarrow> do {
                run' \<leftarrow> setCondition (rKube r) run1 condType status reason message;
                p \<leftarrow> patchStatus (rKube r) current run';
                State_Monad.return (case p of Inl e \<Rightarrow> Some e | Inr _ \<Rightarrow> None)
              })
     })"

definition patchVerificationFailedEscalating ::
    "Reconciler \<Rightarrow> AgenticRun \<Rightarrow> string \<Rightarrow> ResultObject \<Rightarrow> string \<Rightarrow> error option op" where
  "patchVerificationFailedEscalating r run crName resultCR reason =
    (if \<not> rAPIReader r
     then State_Monad.return (Some (NewError ''uncached API reader is required before linking a verification result''))
     else do {
       g \<leftarrow> readRunnableRun (rKube r) (rAPIReader r) (run_key run) (run_uid run);
       case g of
         Inl e \<Rightarrow> State_Monad.return (Some e)
       | Inr current \<Rightarrow>
           (case link_result current ''verification'' crName ActionOutcomeFailed resultCR of
              Inl e \<Rightarrow> State_Monad.return (Some e)
            | Inr run1 \<Rightarrow> do {
                run2 \<leftarrow> setCondition (rKube r) run1 AgenticRunConditionVerified ConditionFalse ReasonVerificationFailed
                  (''Verification failed: '' @ reason);
                run3 \<leftarrow> setCondition (rKube r) run2 AgenticRunConditionEscalated ConditionUnknown ReasonVerificationFailed
                  ''Verification failed, escalating'';
                p \<leftarrow> patchStatus (rKube r) current run3;
                State_Monad.return (case p of Inl e \<Rightarrow> Some e | Inr _ \<Rightarrow> None)
              })
     })"

section \<open>Completing a step\<close>

definition releaseSandbox :: "Reconciler \<Rightarrow> AgenticRun \<Rightarrow> string \<Rightarrow> unit op" where
  "releaseSandbox r run step = do {
     agent_call (rAgent r) (CallReleaseSandbox run step);
     State_Monad.return ()
   }"

text \<open>The reason and message of a valid result.\<close>

definition success_reason :: "string \<Rightarrow> ResultObject \<Rightarrow> string \<times> string" where
  "success_reason step resultCR =
    (if step = ''analysis'' \<and>
        (case resultCR of AnalysisResultObject ar \<Rightarrow> anActionRequired ar = ActionRequiredFalse | _ \<Rightarrow> False)
     then (reasonNoActionRequired, ''Analysis complete '' @ bytes [226, 128, 148] @ '' no action required'')
     else (ReasonSucceeded, ''Sandbox completed''))"

text \<open>The patch for a sandbox that exited successfully, and the result that was loaded.\<close>

definition complete_succeeded ::
    "Reconciler \<Rightarrow> AgenticRun \<Rightarrow> string \<Rightarrow> string \<Rightarrow> (error option \<times> ResultObject option) op" where
  "complete_succeeded r run step condType = do {
     (resultCR, reason) \<leftarrow> validateResultCR (rKube r) run step (rNamespace r);
     e \<leftarrow> (case resultCR of
         Some obj \<Rightarrow>
           let crName = mName (result_meta obj) in
           if reason = '''' then
             patchStepResult r run step condType crName obj ConditionTrue (fst (success_reason step obj)) (snd (success_reason step obj))
           else if reason = ResultReasonAgentTimeout \<and> step = ''verification'' then
             patchVerificationFailedEscalating r run crName obj reason
           else if reason = ResultReasonAgentTimeout then
             patchStepResult r run step condType crName obj ConditionFalse ReasonAgentTimeout
               ''Agent exceeded its configured execution budget''
           else if step = ''verification'' then
             patchVerificationFailedEscalating r run crName obj reason
           else patchStepResult r run step condType crName obj ConditionFalse ReasonSandboxFailed reason
       | None \<Rightarrow> patchStepCondition r run condType ConditionFalse ReasonSandboxFailed reason);
     State_Monad.return (e, resultCR)
   }"

definition record_completion ::
    "Reconciler \<Rightarrow> AgenticRun \<Rightarrow> Pod option \<Rightarrow> string \<Rightarrow> string \<Rightarrow> string \<Rightarrow> string \<Rightarrow> (error option \<times> ResultObject option) op" where
  "record_completion r run pod step condType timeoutMsg timeoutReason =
    (if timeoutMsg \<noteq> '''' then do {
       e \<leftarrow> patchStepCondition r run condType ConditionFalse
         (if timeoutReason = '''' then ReasonSandboxTimeout else timeoutReason) timeoutMsg;
       State_Monad.return (e, None)
     }
     else case pod of
       None \<Rightarrow> State_Monad.return (Some (Panic ''nil pointer dereference''), None)
     | Some p \<Rightarrow>
         if pPhase p = PodSucceeded then complete_succeeded r run step condType
         else do {
           e \<leftarrow> patchStepCondition r run condType ConditionFalse
             (if fst (podTerminatedInfo pod) = ReasonToolResultSafetyInspectionFailed
              then ReasonToolResultSafetyInspectionFailed else ReasonSandboxFailed) (podFailMessage p);
           State_Monad.return (e, None)
         })"

text \<open>What follows an accepted patch: the audit record, and the release of the sandbox unless it is kept.\<close>

definition finish_step :: "Reconciler \<Rightarrow> AgenticRun \<Rightarrow> string \<Rightarrow> string \<Rightarrow> ResultObject option \<Rightarrow> error option op" where
  "finish_step r run step condType resultCR = do {
     g \<leftarrow> readRunnableRun (rKube r) (rAPIReader r) (run_key run) (run_uid run);
     case g of
       Inl e \<Rightarrow> State_Monad.return (Some e)
     | Inr current \<Rightarrow> do {
         audit (rAudit r) (CompleteStep (run_uid current) step resultCR);
         if preserveFailedSandbox current \<and>
            (case FindStatusCondition (rKube r) (conditions current) condType of
               Some c \<Rightarrow> cStatus c = ConditionFalse | None \<Rightarrow> False)
         then State_Monad.return None
         else do {
           g2 \<leftarrow> readRunnableRun (rKube r) (rAPIReader r) (run_key current) (run_uid current);
           case g2 of
             Inl e \<Rightarrow> State_Monad.return (Some e)
           | Inr current2 \<Rightarrow> do {
               releaseSandbox r current2 step;
               State_Monad.return None
             }
         }
       }
   }"

definition completeStep ::
    "Reconciler \<Rightarrow> AgenticRun \<Rightarrow> Pod option \<Rightarrow> string \<Rightarrow> string \<Rightarrow> string \<Rightarrow> string \<Rightarrow> error option op" where
  "completeStep r run pod step condType timeoutMsg timeoutReason =
    (if \<not> rAPIReader r
     then State_Monad.return (Some (NewError ''uncached API reader is required before completing a run step''))
     else do {
       g \<leftarrow> readRunnableRun (rKube r) (rAPIReader r) (run_key run) (run_uid run);
       case g of
         Inl e \<Rightarrow> State_Monad.return (Some e)
       | Inr current \<Rightarrow>
           if (case FindStatusCondition (rKube r) (conditions current) condType of
                 Some c \<Rightarrow> cStatus c \<noteq> ConditionUnknown | None \<Rightarrow> False)
           then State_Monad.return None
           else do {
             (patchErr, resultCR) \<leftarrow> record_completion r current pod step condType timeoutMsg timeoutReason;
             (case patchErr of
                Some e \<Rightarrow> State_Monad.return (Some e)
              | None \<Rightarrow> finish_step r current step condType resultCR)
           }
     })"

section \<open>From a pod to its run\<close>

definition runForSandboxIdentity :: "Reconciler \<Rightarrow> string \<Rightarrow> UID \<Rightarrow> (error + AgenticRun option) op" where
  "runForSandboxIdentity r runName runUID =
    (if \<not> rAPIReader r
     then State_Monad.return (Inl (NewError ''uncached API reader is required to resolve sandbox Pod ownership''))
     else if runUID = '''' then State_Monad.return (Inr None)
     else
       let scan = do {
         l \<leftarrow> listRuns (rKube r) None;
         State_Monad.return (case l of
             Inl e \<Rightarrow> Inl e
           | Inr items \<Rightarrow> Inr (find (\<lambda>run. run_uid run = runUID \<and> (runName = '''' \<or> mName (rMeta run) = runName)) items))
       } in
       if runName \<noteq> '''' then do {
         g \<leftarrow> getRun (rKube r) \<lparr>kName = runName, kNamespace = rNamespace r\<rparr>;
         case g of
           Inr run \<Rightarrow> if run_uid run = runUID then State_Monad.return (Inr (Some run)) else scan
         | Inl e \<Rightarrow> if IgnoreNotFound e \<noteq> None then State_Monad.return (Inl e) else scan
       }
       else scan)"

fun bare_owners :: "OwnerReference list \<Rightarrow> string \<times> UID \<Rightarrow> string \<times> UID" where
  "bare_owners [] (runName, runUID) = (runName, runUID)"
| "bare_owners (owner # rest) (runName, runUID) =
    (if oKind owner \<noteq> ''AgenticRun'' then bare_owners rest (runName, runUID)
     else bare_owners rest (if runName = '''' then oName owner else runName, if runUID = '''' then oUID owner else runUID))"

definition resolveBarePodMetadata :: "Pod \<Rightarrow> string \<times> string \<times> UID" where
  "resolveBarePodMetadata pod =
    (let step = lookup (mLabels (pMeta pod)) LabelStep;
         (runName, runUID) = bare_owners (mOwnerReferences (pMeta pod))
           (lookup (mAnnotations (pMeta pod)) AnnotationRunName, lookup (mLabels (pMeta pod)) LabelRun) in
     (step, runName, runUID))"

fun sandbox_owners :: "OwnerReference list \<Rightarrow> string \<times> UID \<Rightarrow> string \<times> UID" where
  "sandbox_owners [] (runName, runUID) = (runName, runUID)"
| "sandbox_owners (owner # rest) (runName, runUID) =
    (if oKind owner = ''AgenticRun'' \<and> runUID = ''''
     then sandbox_owners rest (if runName = '''' then oName owner else runName, oUID owner)
     else sandbox_owners rest (runName, runUID))"

text \<open>The identity collected so far, completed from the labels and annotations of an object.\<close>

type_synonym identity = "string \<times> string \<times> UID"

definition complete_identity :: "identity \<Rightarrow> ObjectMeta \<Rightarrow> identity" where
  "complete_identity i m = (case i of (step, runName, runUID) \<Rightarrow>
     (if step = '''' then lookup (mLabels m) LabelStep else step,
      if runName = '''' then lookup (mAnnotations m) AnnotationRunName else runName,
      if runUID = '''' then lookup (mLabels m) LabelRun else runUID))"

definition identified :: "identity \<Rightarrow> bool" where
  "identified i \<longleftrightarrow> (case i of (step, runName, runUID) \<Rightarrow> step \<noteq> '''' \<and> runUID \<noteq> '''')"

text \<open>The inner loop ends the whole function at the first claim; without one the outer loop goes on.\<close>

fun claim_owner :: "OwnerReference list \<Rightarrow> OwnerReference option" where
  "claim_owner [] = None"
| "claim_owner (ref # rest) = (if oKind ref \<noteq> ''SandboxClaim'' then claim_owner rest else Some ref)"

fun follow_owners :: "kube \<Rightarrow> string \<Rightarrow> OwnerReference list \<Rightarrow> identity \<Rightarrow> (identity \<times> error option) op" where
  "follow_owners K namespace [] i = State_Monad.return (i, None)"
| "follow_owners K namespace (podRef # rest) i =
    (if oKind podRef \<noteq> ''Sandbox'' then follow_owners K namespace rest i
     else do {
       g \<leftarrow> getSandboxObject K SandboxKind \<lparr>kName = oName podRef, kNamespace = namespace\<rparr>;
       case g of
         Inl e \<Rightarrow> State_Monad.return (i, Some e)
       | Inr sb \<Rightarrow>
           let i1 = complete_identity i sb in
           if identified i1 then State_Monad.return (i1, None)
           else (case claim_owner (mOwnerReferences sb) of
               None \<Rightarrow> follow_owners K namespace rest i1
             | Some sbRef \<Rightarrow> do {
                 c \<leftarrow> getSandboxObject K SandboxClaimKind \<lparr>kName = oName sbRef, kNamespace = namespace\<rparr>;
                 State_Monad.return (case c of
                     Inl e \<Rightarrow> (i1, Some e)
                   | Inr claim \<Rightarrow> (complete_identity i1 claim, None))
               })
     })"

definition resolveSandboxPodMetadata :: "kube \<Rightarrow> Pod \<Rightarrow> (identity \<times> error option) op" where
  "resolveSandboxPodMetadata K pod =
    (let m = pMeta pod;
         (runName, runUID) = sandbox_owners (mOwnerReferences m)
           (lookup (mAnnotations m) AnnotationRunName, lookup (mLabels m) LabelRun);
         i = (lookup (mLabels m) LabelStep, runName, runUID) in
     if identified i then State_Monad.return (i, None)
     else follow_owners K (mNamespace m) (mOwnerReferences m) i)"

section \<open>The event handler\<close>

definition isSandboxClaimMode :: "Reconciler \<Rightarrow> bool" where
  "isSandboxClaimMode r = (case rConfig r of Some cfg \<Rightarrow> cfSandboxMode cfg = sandboxModeSandboxClaim | None \<Rightarrow> False)"

text \<open>A stop met on the way enqueues the run; every other error is logged.\<close>

definition requests_on_stop :: "ObjectKey \<Rightarrow> error option \<Rightarrow> ObjectKey list" where
  "requests_on_stop key e = (case e of Some err \<Rightarrow> if is_stop_accepted err then [key] else [] | None \<Rightarrow> [])"

definition pod_active :: "PodPhase \<Rightarrow> bool" where
  "pod_active phase \<longleftrightarrow> phase = PodRunning \<or> phase = PodPending \<or> phase = PodUnknown"

definition handlePodEvent :: "Reconciler \<Rightarrow> Pod \<Rightarrow> ObjectKey list op" where
  "handlePodEvent r pod = do {
     (i, metadataErr) \<leftarrow> (if isSandboxClaimMode r then resolveSandboxPodMetadata (rKube r) pod
                          else State_Monad.return (resolveBarePodMetadata pod, None));
     (case i of (step, runName, runUID) \<Rightarrow>
       if metadataErr \<noteq> None then State_Monad.return []
       else if step = '''' \<or> runUID = '''' then State_Monad.return []
       else do {
         x \<leftarrow> runForSandboxIdentity r runName runUID;
         case x of
           Inl e \<Rightarrow> State_Monad.return []
         | Inr None \<Rightarrow> State_Monad.return []
         | Inr (Some run) \<Rightarrow> do {
             g \<leftarrow> readRunnableRun (rKube r) (rAPIReader r) (run_key run) (run_uid run);
             case g of
               Inl e \<Rightarrow> State_Monad.return (if e = StopAccepted then [run_key run] else [])
             | Inr current \<Rightarrow>
                 if isTerminal (DerivePhase (conditions current)) then State_Monad.return []
                 else
                   let condType = stepConditionType step in
                   if pod_active (pPhase pod) then
                     let reason = (if pPhase pod \<noteq> PodRunning then ReasonWaitingForSandbox else ReasonRunning) in
                     do {
                       e \<leftarrow> patchStepCondition r current condType ConditionUnknown reason (''Sandbox pod '' @ reason);
                       State_Monad.return (requests_on_stop (run_key run) e)
                     }
                   else do {
                     e \<leftarrow> completeStep r current (Some pod) step condType '''' '''';
                     State_Monad.return (requests_on_stop (run_key run) e)
                   }
           }
       })
   }"

section \<open>Guarded writes\<close>

text \<open>
  The run was just checked: its last read, without an accepted stop, and the read of the configuration as not suspended are the last
  events but for looks at the clock.
\<close>

definition checked_now :: "kube \<Rightarrow> history \<Rightarrow> AgenticRun \<Rightarrow> bool" where
  "checked_now K h run \<longleftrightarrow> (\<exists>h0 key c ts. h = h0 @ EvGetRun key (Inr run) # EvGetConfig c # map EvNow ts \<and>
     on_get_run K h0 key = Inr run \<and> \<not> HasAcceptedStop K run \<and>
     (case c of Inl e \<Rightarrow> IsNotFound e | Inr config \<Rightarrow> \<not> olSuspended config))"

lemma checked_now_read: "runnable_at K h key uid run h' \<Longrightarrow> checked_now K h' run"
  unfolding runnable_at_def checked_now_def by (metis list.map(1))

lemma checked_now_fresh: "checked_now K h run \<Longrightarrow> fresh_base K h run \<and> \<not> HasAcceptedStop K run"
  by (auto simp: checked_now_def intro: fresh_baseI)

lemma checked_now_tick: "checked_now K h run \<Longrightarrow> checked_now K (h @ [EvNow t]) run"
proof -
  assume "checked_now K h run"
  then obtain h0 key c ts where "h = h0 @ EvGetRun key (Inr run) # EvGetConfig c # map EvNow ts"
    and "on_get_run K h0 key = Inr run" "\<not> HasAcceptedStop K run" "case c of Inl e \<Rightarrow> IsNotFound e | Inr config \<Rightarrow> \<not> olSuspended config"
    by (auto simp: checked_now_def)
  then show ?thesis
    unfolding checked_now_def by (intro exI [of _ h0] exI [of _ key] exI [of _ c] exI [of _ "ts @ [t]"]) simp
qed

lemma checked_now_ticks [simp]:
  "checked_now K (h @ es) run \<Longrightarrow> checked_now K (h @ es @ [EvNow t]) run"
  "checked_now K (h @ es) run \<Longrightarrow> checked_now K (h @ es @ [EvNow t, EvNow t']) run"
  using checked_now_tick [of K "h @ es" run t] checked_now_tick [of K "(h @ es) @ [EvNow t]" run t'] by simp_all

text \<open>Events that neither change the run nor call the agent.\<close>

fun calm :: "event \<Rightarrow> bool" where
  "calm (EvAgent call) = False"
| "calm e = quiet e"

lemma calm_quiet: "calm e \<Longrightarrow> quiet e"
  by (cases e) simp_all

lemma calm_events: "release_event e \<Longrightarrow> calm e" "result_event e \<Longrightarrow> calm e"
  by (cases e; simp add: rbac_event_def release_event_def result_event_def)+

text \<open>Event predicates that allow patches and releases of a run that was just checked, and whatever neither changes a run nor calls the agent.\<close>

definition admits_uid :: "kube \<Rightarrow> UID \<Rightarrow> (history \<Rightarrow> event \<Rightarrow> bool) \<Rightarrow> bool" where
  "admits_uid K uid P \<longleftrightarrow> (\<forall>h e. calm e \<longrightarrow> P h e) \<and>
     (\<forall>h run. checked_now K h run \<longrightarrow> run_uid run = uid \<longrightarrow>
        (\<forall>new res. P h (EvStatusPatch run new res)) \<and> (\<forall>step. P h (EvAgent (CallReleaseSandbox run step))))"

lemma admits_uid_calm: "admits_uid K uid P \<Longrightarrow> calm e \<Longrightarrow> P h e"
  by (simp add: admits_uid_def)

lemma admits_uid_checked:
  "admits_uid K uid P \<Longrightarrow> checked_now K h run \<Longrightarrow> run_uid run = uid \<Longrightarrow> P h (EvStatusPatch run new res)"
  "admits_uid K uid P \<Longrightarrow> checked_now K h run \<Longrightarrow> run_uid run = uid \<Longrightarrow> P h (EvAgent (CallReleaseSandbox run step))"
  by (simp_all add: admits_uid_def)

lemma guarded_read_wp:
  assumes "admits_uid K u P" "\<And>e es. Q (Inl e) (h @ es)"
    and "\<And>current es. checked_now K (h @ es) current \<Longrightarrow> run_uid current = uid \<Longrightarrow> Q (Inr current) (h @ es)"
  shows "wp P (readRunnableRun K reader key uid) Q h"
proof (intro readRunnableRun_wp assms(2) admits_uid_calm [OF assms(1)])
  fix current h'
  assume r: "runnable_at K h key uid current h'"
  then obtain es where "h' = h @ es" "run_uid current = uid" by (auto simp: runnable_at_def)
  then show "Q (Inr current) h'" using checked_now_read [OF r] assms(3) by simp
qed simp_all

lemma step_writers_wp:
  assumes adm: "admits_uid (rKube r) (run_uid run) P" and Q: "\<And>x es. Q x (h @ es)"
  shows "wp P (patchStepCondition r run ct st rs msg) Q h"
    and "wp P (patchStepResult r run step ct crName obj st rs msg) Q h"
    and "wp P (patchVerificationFailedEscalating r run crName obj rs) Q h"
proof -
  have Q0: "Q x h" for x using Q [of _ "[]"] by simp
  note rules = wp_ifI wp_bindI wp_case_sum wp_returnI wp_requests wp_setCondition guarded_read_wp [OF adm] conjI
    admits_uid_checked [OF adm]
  show "wp P (patchStepCondition r run ct st rs msg) Q h"
    unfolding patchStepCondition_def
    by (intro rules) (auto simp: Q Q0 intro: admits_uid_calm [OF adm])
  show "wp P (patchStepResult r run step ct crName obj st rs msg) Q h"
    unfolding patchStepResult_def
    by (intro rules) (auto simp: Q Q0 intro: admits_uid_calm [OF adm])
  show "wp P (patchVerificationFailedEscalating r run crName obj rs) Q h"
    unfolding patchVerificationFailedEscalating_def
    by (intro rules) (auto simp: Q Q0 intro: admits_uid_calm [OF adm])
qed

lemma fetchResultCRByStep_wp:
  assumes "\<And>h e. result_event e \<Longrightarrow> P h e" and "\<And>x es. Q x (h @ es)"
  shows "wp P (fetchResultCRByStep K key step) Q h"
  unfolding fetchResultCRByStep_def
  by (intro wp_ifI wp_bindI wp_requests2 wp_returnI conjI) (use assms(2) [of _ "[]"] in \<open>auto intro!: assms\<close>)

context reconciler
begin

lemma complete_succeeded_wp:
  assumes "admits_uid (rKube r) (run_uid run) P" and "\<And>x es. Q x (h @ es)"
  shows "wp P (complete_succeeded r run step ct) Q h"
  unfolding complete_succeeded_def validateResultCR_def Let_def
  by (intro wp_bindI fetchResultCRByStep_wp wp_case_prod wp_case_option wp_ifI wp_returnI step_writers_wp [OF assms(1)])
    (auto simp: assms(2) intro: admits_uid_calm [OF assms(1)] calm_events)

lemma record_completion_wp:
  assumes "admits_uid (rKube r) (run_uid run) P" and "\<And>x es. Q x (h @ es)"
  shows "wp P (record_completion r run pod step ct msg rs) Q h"
  unfolding record_completion_def
  by (intro wp_bindI wp_case_option wp_ifI wp_returnI step_writers_wp [OF assms(1)] complete_succeeded_wp [OF assms(1)])
    (use assms(2) [of _ "[]"] in \<open>auto simp: assms(2)\<close>)

lemma finish_step_wp:
  assumes "admits_uid (rKube r) (run_uid run) P" and "\<And>x es. Q x (h @ es)"
  shows "wp P (finish_step r run step ct obj) Q h"
  unfolding finish_step_def releaseSandbox_def
  by (intro wp_bindI wp_case_sum wp_ifI wp_returnI guarded_read_wp [OF assms(1)] wp_audit release_call_wp)
    (auto simp: assms(2) intro: admits_uid_calm [OF assms(1)] calm_events admits_uid_checked [OF assms(1)])

lemma completeStep_wp:
  assumes "admits_uid (rKube r) (run_uid run) P" and "\<And>x es. Q x (h @ es)"
  shows "wp P (completeStep r run pod step ct msg rs) Q h"
  unfolding completeStep_def
  by (intro wp_ifI wp_bindI wp_case_sum wp_case_prod wp_case_option wp_returnI guarded_read_wp [OF assms(1)]
      record_completion_wp finish_step_wp)
    (use assms(2) [of _ "[]"] in \<open>auto simp: assms(2) intro: assms(1)\<close>)

end

lemma runForSandboxIdentity_wp:
  assumes "admits_uid K u P" and "K = rKube r"
    and "\<And>e es. Q (Inl e) (h @ es)" "\<And>es. Q (Inr None) (h @ es)"
    and "\<And>run es. run_uid run = uid \<Longrightarrow> Q (Inr (Some run)) (h @ es)"
  shows "wp P (runForSandboxIdentity r name uid) Q h"
proof -
  have "Q (Inr None) h" "\<And>e. Q (Inl e) h"
    using assms(3) [of _ "[]"] assms(4) [of "[]"] by simp_all
  moreover have found: "Q (Inr (find (\<lambda>run. run_uid run = uid \<and> C run) items)) (h @ es)" for C items es
  proof (cases "find (\<lambda>run. run_uid run = uid \<and> C run) items")
    case (Some run)
    then have "run_uid run = uid" by (auto simp: find_Some_iff)
    with Some show ?thesis using assms(5) by simp
  qed (simp add: assms(4))
  moreover note found [of "\<lambda>_. True", unfolded simp_thms]
  ultimately show ?thesis
    unfolding runForSandboxIdentity_def Let_def
    by (intro wp_ifI wp_bindI wp_requests wp_case_sum wp_returnI conjI)
      (auto simp: assms(3,5) intro: admits_uid_calm [OF assms(1)] split: sum.split)
qed

fun sandbox_read :: "event \<Rightarrow> bool" where
  "sandbox_read (EvGetSandboxObject _ _ _) = True"
| "sandbox_read _ = False"

lemma follow_owners_emits: "emits sandbox_read (follow_owners K ns refs i)"
  by (induction K ns refs i rule: follow_owners.induct) (auto intro!: emit)

lemma resolveSandboxPodMetadata_emits: "emits sandbox_read (resolveSandboxPodMetadata K pod)"
  unfolding resolveSandboxPodMetadata_def by (intro emit follow_owners_emits)

lemma sandbox_read_calm: "sandbox_read e \<Longrightarrow> calm e"
  by (cases e) simp_all

section \<open>Properties\<close>

subsection \<open>The run a pod belongs to\<close>

text \<open>
  A UID is named by a pod when the label of the pod has it or an owner reference to a run; or, along the chain of owners, when the label of
  a \<open>Sandbox\<close> that owns the pod has it, or that of a \<open>SandboxClaim\<close> that owns such a \<open>Sandbox\<close>, as they were read in the given events.
\<close>

definition sandbox_of :: "event list \<Rightarrow> SandboxKind \<Rightarrow> string \<Rightarrow> OwnerReference list \<Rightarrow> ObjectMeta \<Rightarrow> bool" where
  "sandbox_of es kind namespace owners m \<longleftrightarrow>
     (\<exists>ref \<in> set owners. oKind ref = (case kind of SandboxKind \<Rightarrow> ''Sandbox'' | SandboxClaimKind \<Rightarrow> ''SandboxClaim'') \<and>
        EvGetSandboxObject kind \<lparr>kName = oName ref, kNamespace = namespace\<rparr> (Inr m) \<in> set es)"

definition names_run :: "event list \<Rightarrow> ObjectMeta \<Rightarrow> UID \<Rightarrow> bool" where
  "names_run es pod uid \<longleftrightarrow> lookup (mLabels pod) LabelRun = uid \<or>
     (\<exists>owner \<in> set (mOwnerReferences pod). oKind owner = ''AgenticRun'' \<and> oUID owner = uid) \<or>
     (\<exists>sb. sandbox_of es SandboxKind (mNamespace pod) (mOwnerReferences pod) sb \<and>
        (lookup (mLabels sb) LabelRun = uid \<or>
         (\<exists>claim. sandbox_of es SandboxClaimKind (mNamespace pod) (mOwnerReferences sb) claim \<and> lookup (mLabels claim) LabelRun = uid)))"

lemma sandbox_of_mono: "sandbox_of es kind ns owners m \<Longrightarrow> set es \<subseteq> set es' \<Longrightarrow> sandbox_of es' kind ns owners m"
  unfolding sandbox_of_def by blast

lemma names_run_mono: "names_run es pod uid \<Longrightarrow> set es \<subseteq> set es' \<Longrightarrow> names_run es' pod uid"
  unfolding names_run_def using sandbox_of_mono by metis

lemma names_runI:
  "sandbox_of es SandboxKind (mNamespace pod) (mOwnerReferences pod) sb \<Longrightarrow> names_run es pod (lookup (mLabels sb) LabelRun)"
  "sandbox_of es SandboxKind (mNamespace pod) (mOwnerReferences pod) sb \<Longrightarrow>
   sandbox_of es SandboxClaimKind (mNamespace pod) (mOwnerReferences sb) claim \<Longrightarrow> names_run es pod (lookup (mLabels claim) LabelRun)"
  unfolding names_run_def by blast+

lemma bare_owners_uid:
  "snd (bare_owners owners (name, uid)) = uid \<or> (\<exists>owner \<in> set owners. oKind owner = ''AgenticRun'' \<and> oUID owner = snd (bare_owners owners (name, uid)))"
  by (induction owners "(name, uid)" arbitrary: name uid rule: bare_owners.induct) auto

lemma sandbox_owners_uid:
  "snd (sandbox_owners owners (name, uid)) = uid \<or>
   (\<exists>owner \<in> set owners. oKind owner = ''AgenticRun'' \<and> oUID owner = snd (sandbox_owners owners (name, uid)))"
  by (induction owners "(name, uid)" arbitrary: name uid rule: sandbox_owners.induct) auto

lemma claim_owner_Some: "claim_owner refs = Some ref \<Longrightarrow> ref \<in> set refs \<and> oKind ref = ''SandboxClaim''"
  by (induction refs) (auto split: if_splits)

lemma complete_identity_uid: "snd (snd (complete_identity i m)) \<in> {snd (snd i), lookup (mLabels m) LabelRun}"
  by (auto simp: complete_identity_def split: prod.split)

lemma follow_owners_wp:
  assumes "\<And>h e. sandbox_read e \<Longrightarrow> P h e" and "set refs \<subseteq> set (mOwnerReferences pod)"
    and "n \<le> length h" "names_run (drop n h) pod (snd (snd i))"
    and "\<And>i' e es. names_run (drop n (h @ es)) pod (snd (snd i')) \<Longrightarrow> Q (i', e) (h @ es)"
  shows "wp P (follow_owners K (mNamespace pod) refs i) Q h"
  using assms(2-)
proof (induction refs arbitrary: i h)
  case Nil
  then show ?case using Nil.prems(4) [of "[]" i] by (simp add: wp_returnI)
next
  case (Cons ref refs)
  let ?key = "\<lparr>kName = oName ref, kNamespace = mNamespace pod\<rparr>"
  note n = Cons.prems(2) and Q = Cons.prems(4)
  have i: "names_run (drop n (h @ es)) pod (snd (snd i))" for es
    using names_run_mono [OF Cons.prems(3)] n by auto
  have rest: "wp P (follow_owners K (mNamespace pod) refs i') Q (h @ es)"
    if "names_run (drop n (h @ es)) pod (snd (snd i'))" for i' es
    using Cons.prems that by (intro Cons.IH) auto
  show ?case
  proof (cases "oKind ref = ''Sandbox''")
    case False
    then show ?thesis using rest [of "[]" i] Cons.prems(3) by simp
  next
    case True
    have sb: "sandbox_of (drop n (h @ EvGetSandboxObject SandboxKind ?key (Inr m) # es)) SandboxKind (mNamespace pod) (mOwnerReferences pod) m" for m es
      using Cons.prems(1) n True by (auto simp: sandbox_of_def)
    have one: "names_run (drop n (h @ EvGetSandboxObject SandboxKind ?key (Inr m) # es)) pod (snd (snd (complete_identity i m)))" for m es
      using complete_identity_uid [of i m] i names_runI(1) [OF sb [of m es]] by (metis empty_iff insert_iff)
    have two: "names_run (drop n (h @ EvGetSandboxObject SandboxKind ?key (Inr m) # EvGetSandboxObject SandboxClaimKind
        \<lparr>kName = oName ref', kNamespace = mNamespace pod\<rparr> (Inr m') # es)) pod (snd (snd (complete_identity (complete_identity i m) m')))"
      (is "names_run ?h pod _")
      if "claim_owner (mOwnerReferences m) = Some ref'" for m ref' m' es
    proof -
      have "sandbox_of ?h SandboxClaimKind (mNamespace pod) (mOwnerReferences m) m'"
        using claim_owner_Some [OF that] n by (auto simp: sandbox_of_def)
      then show ?thesis
        using complete_identity_uid [of "complete_identity i m" m'] one names_runI(2) [OF sb] by (metis empty_iff insert_iff)
    qed
    show ?thesis
      using True
      by (auto intro!: wp_bindI wp_requests2 wp_returnI assms(1) Q i one two rest simp: Let_def split: sum.split option.split)
  qed
qed

lemma resolveSandboxPodMetadata_wp:
  assumes "\<And>h e. sandbox_read e \<Longrightarrow> P h e"
    and "\<And>i e es. names_run es (pMeta pod) (snd (snd i)) \<Longrightarrow> Q (i, e) (h @ es)"
  shows "wp P (resolveSandboxPodMetadata K pod) Q h"
proof -
  let ?m = "pMeta pod"
  let ?o = "sandbox_owners (mOwnerReferences ?m) (lookup (mAnnotations ?m) AnnotationRunName, lookup (mLabels ?m) LabelRun)"
  have own: "names_run es ?m (snd ?o)" for es
    using sandbox_owners_uid [of "mOwnerReferences ?m" "lookup (mAnnotations ?m) AnnotationRunName" "lookup (mLabels ?m) LabelRun"]
    unfolding names_run_def by auto
  then show ?thesis
    unfolding resolveSandboxPodMetadata_def Let_def
    using assms(2) [of "[]"]
    by (cases ?o) (auto intro!: wp_returnI follow_owners_wp [where n = "length h"] assms)
qed

lemma bare_names_run: "names_run es (pMeta pod) (snd (snd (resolveBarePodMetadata pod)))"
  using bare_owners_uid [of "mOwnerReferences (pMeta pod)" "lookup (mAnnotations (pMeta pod)) AnnotationRunName" "lookup (mLabels (pMeta pod)) LabelRun"]
  by (auto simp: names_run_def resolveBarePodMetadata_def Let_def split: prod.splits)

subsection \<open>A pod event touches its own run\<close>

text \<open>The identity the handler works with, as it is resolved at a history.\<close>

definition pod_identity :: "Reconciler \<Rightarrow> Pod \<Rightarrow> history \<Rightarrow> identity" where
  "pod_identity r pod h = (if isSandboxClaimMode r then fst (returned (resolveSandboxPodMetadata (rKube r) pod) h) else resolveBarePodMetadata pod)"

text \<open>A patch or a release of a run of the UID that was just checked.\<close>

definition checked_event :: "kube \<Rightarrow> (UID \<Rightarrow> bool) \<Rightarrow> history \<Rightarrow> event \<Rightarrow> bool" where
  "checked_event K U h e = (case e of
      EvStatusPatch base new res \<Rightarrow> checked_now K h base \<and> U (run_uid base)
    | EvAgent call \<Rightarrow> (\<exists>run step. call = CallReleaseSandbox run step \<and> checked_now K h run \<and> U (run_uid run))
    | EvMetaPatch _ _ _ _ \<Rightarrow> False | EvDeleteRun _ _ \<Rightarrow> False | _ \<Rightarrow> True)"

lemma checked_event_calm: "calm e \<Longrightarrow> checked_event K U h e"
  by (cases e) (simp_all add: checked_event_def)

definition pod_event :: "kube \<Rightarrow> Pod \<Rightarrow> UID \<Rightarrow> nat \<Rightarrow> history \<Rightarrow> event \<Rightarrow> bool" where
  "pod_event K pod uid n h e = checked_event K (\<lambda>u. u = uid \<and> names_run (drop n h) (pMeta pod) u) h e"

lemma pod_event_admits:
  assumes "names_run (drop n h) (pMeta pod) uid"
  shows "admits_uid K uid (\<lambda>h' e. (\<exists>es. h' = h @ es) \<longrightarrow> pod_event K pod uid n h' e)"
proof -
  have "names_run (drop n (h @ es)) (pMeta pod) uid" for es
    using assms by (rule names_run_mono) simp
  then show ?thesis
    by (auto simp: admits_uid_def pod_event_def checked_event_def intro: checked_event_calm [unfolded checked_event_def])
qed

context reconciler
begin

lemma handlePodEvent_own_wp:
  "wp (pod_event (rKube r) pod (snd (snd (pod_identity r pod h))) (length h)) (handlePodEvent r pod) (\<lambda>_ _. True) h"
  (is "wp ?P _ _ _")
proof -
  have rest: "wp ?P (if e \<noteq> None then State_Monad.return [] else if step = '''' \<or> uid = '''' then State_Monad.return []
       else runForSandboxIdentity r name uid \<bind> f) (\<lambda>_ _. True) h1"
    if "\<And>h1 P. admits_uid (rKube r) uid P \<Longrightarrow> wp P (runForSandboxIdentity r name uid \<bind> f) (\<lambda>_ _. True) h1"
      "names_run (drop (length h) h1) (pMeta pod) uid" "uid = snd (snd (pod_identity r pod h))" for e step name uid f h1
    using that(1) [OF pod_event_admits [OF that(2)], THEN wp_later] that(3) by (auto intro: wp_returnI)
  have resolve: "wp ?P (if isSandboxClaimMode r then resolveSandboxPodMetadata (rKube r) pod
       else State_Monad.return (resolveBarePodMetadata pod, None))
     (\<lambda>x h1. fst x = pod_identity r pod h \<and> names_run (drop (length h) h1) (pMeta pod) (snd (snd (fst x)))) h"
  proof (cases "isSandboxClaimMode r")
    case True
    have "wp ?P (resolveSandboxPodMetadata (rKube r) pod) (\<lambda>x h1. names_run (drop (length h) h1) (pMeta pod) (snd (snd (fst x)))) h"
      by (rule resolveSandboxPodMetadata_wp) (auto simp: pod_event_def intro: checked_event_calm sandbox_read_calm)
    from wp_returned [OF this] True show ?thesis
      by (auto simp: pod_identity_def intro: wp_mono)
  qed (auto simp: pod_identity_def bare_names_run intro: wp_returnI)
  show ?thesis
    unfolding handlePodEvent_def Let_def
    by (intro wp_bindI wp_mono [OF resolve] wp_case_prod rest wp_case_sum wp_case_option wp_ifI wp_returnI TrueI
        runForSandboxIdentity_wp guarded_read_wp step_writers_wp(1) completeStep_wp) (auto dest: sym)
qed

end

text \<open>
  C11: A pod event touches only the run the pod belongs to. Every status patch made while handling an event, and every release of a sandbox,
  is of a run that has the UID of the identity resolved for the pod and that was read just before, without an accepted stop and in a system
  read as not suspended; no agent is launched, no run labelled or deleted. That UID is the one the label of the pod or its owner
  reference to a run names, or, with sandbox claims, the label of the \<open>Sandbox\<close> that owns the pod or of the \<open>SandboxClaim\<close> that owns this
  one, as the handler has read them.
\<close>

theorem pod_event_touches_own_run:
  assumes "reconciler r" and "i < length (new_events (handlePodEvent r pod) h)"
  shows "pod_event (rKube r) pod (snd (snd (pod_identity r pod h))) (length h)
    (h @ take i (new_events (handlePodEvent r pod) h)) (new_events (handlePodEvent r pod) h ! i)"
  by (rule good_nth [OF wp_new_events [OF reconciler.handlePodEvent_own_wp [OF assms(1)]] assms(2)])

definition sample_pod :: "PodPhase \<Rightarrow> string \<Rightarrow> Pod" where
  "sample_pod phase step = \<lparr>pMeta = no_meta\<lparr>mName := ''ls-pod'', mNamespace := ''openshift-lightspeed'',
       mLabels := [LabelStep \<mapsto> step, LabelRun \<mapsto> ''u-1''], mAnnotations := [AnnotationRunName \<mapsto> ''fix-node'']\<rparr>,
     pPhase = phase, pContainerStatuses = []\<rparr>"

lemma sample_pod_event:
  "length (new_events (handlePodEvent (sample_reconciler sample_world) (sample_pod PodRunning ''analysis'')) []) = 7 \<and>
   map phase_change (new_events (handlePodEvent (sample_reconciler sample_world) (sample_pod PodRunning ''analysis'')) []) ! 6 =
     Some (AgenticRunPhasePending, AgenticRunPhaseAnalyzing)"
  by code_simp

lemma sample_reconciler_valid: "reconciler (sample_reconciler W)" "status_conditions (rKube (sample_reconciler W))"
  "rKube (sample_reconciler W) = ref_server W"
proof -
  have "sample_reconciler W = (sample_reconciler W)\<lparr>rAgent := StubAgentCaller\<rparr>" by (simp add: sample_reconciler_def)
  then show "reconciler (sample_reconciler W)" using stub_reconciler.reconciler_axioms by metis
  show "status_conditions (rKube (sample_reconciler W))" "rKube (sample_reconciler W) = ref_server W"
    using ref_server_conds.status_conditions_axioms by (simp_all add: sample_reconciler_def)
qed

theorem pod_event_touches_own_run_witness:
  "\<exists>base new res. new_events (handlePodEvent (sample_reconciler sample_world) (sample_pod PodRunning ''analysis'')) [] ! 6 =
       EvStatusPatch base new res \<and> run_uid base = ''u-1'' \<and> \<not> HasAcceptedStop (ref_server sample_world) base"
proof -
  let ?es = "new_events (handlePodEvent (sample_reconciler sample_world) (sample_pod PodRunning ''analysis'')) []"
  obtain base new res where e: "?es ! 6 = EvStatusPatch base new res"
    using sample_pod_event by (auto simp: phase_change_Some)
  have "snd (snd (pod_identity (sample_reconciler sample_world) (sample_pod PodRunning ''analysis'') [])) = ''u-1''" by code_simp
  then show ?thesis
    using pod_event_touches_own_run [OF sample_reconciler_valid(1), of 6 sample_world "sample_pod PodRunning ''analysis''" "[]"]
      sample_pod_event e by (auto simp: pod_event_def checked_event_def sample_reconciler_valid(3) dest: checked_now_fresh)
qed

subsection \<open>Token usage\<close>

text \<open>The operator only ever writes both counters or none.\<close>

definition paired :: "TokenUsage \<Rightarrow> bool" where
  "paired t \<longleftrightarrow> (tuInputTokens t = None) = (tuOutputTokens t = None)"

definition tokens :: "int option \<Rightarrow> int" where
  "tokens x = (case x of None \<Rightarrow> 0 | Some n \<Rightarrow> n)"

text \<open>
  Aggregating token usage cannot dereference a nil counter, as long as the run has both counters or
  none, and it keeps that invariant. A result without usage changes nothing; any other makes both
  counters present and adds its own counts, modulo 64 bits, with an absent count read as zero.
\<close>

theorem aggregate_tokens:
  assumes "paired (suTokenUsage (rStatus run))"
  shows "\<exists>run'. aggregateTokenUsage run obj = Inr run' \<and> paired (suTokenUsage (rStatus run')) \<and>
     (if TokenUsage_IsZero (extractTokenUsage obj) then run' = run
      else suTokenUsage (rStatus run') = \<lparr>
        tuInputTokens = Some (if tuInputTokens (extractTokenUsage obj) = None then tokens (tuInputTokens (suTokenUsage (rStatus run)))
          else int64 (tokens (tuInputTokens (suTokenUsage (rStatus run))) + tokens (tuInputTokens (extractTokenUsage obj)))),
        tuOutputTokens = Some (if tuOutputTokens (extractTokenUsage obj) = None then tokens (tuOutputTokens (suTokenUsage (rStatus run)))
          else int64 (tokens (tuOutputTokens (suTokenUsage (rStatus run))) + tokens (tuOutputTokens (extractTokenUsage obj))))\<rparr>) \<and>
     conditions run' = conditions run \<and> steps run' = steps run"
  using assms
  by (auto simp: aggregateTokenUsage_def Let_def paired_def TokenUsage_IsZero_def add_tokens_def tokens_def split: option.splits)

definition sample_verification :: "CheckResult \<Rightarrow> VerificationResult" where
  "sample_verification c = \<lparr>vrMeta = no_meta\<lparr>mName := ''fix-node-verification-1'', mNamespace := ''openshift-lightspeed''\<rparr>,
     vrAgenticRunName = ''fix-node'', vrConditions = [cond ResultConditionCompleted ConditionTrue ResultReasonSucceeded],
     vrChecks = [\<lparr>vcName = ''node-ready'', vcSource = ''oc'', vcValue = ''False'', vcResult = c\<rparr>], vrSummary = '''',
     vrSandbox = no_sandbox, vrTokenUsage = \<lparr>tuInputTokens = Some 40, tuOutputTokens = Some 2\<rparr>, vrFailureReason = ''''\<rparr>"

theorem aggregate_tokens_witness:
  "\<exists>run'. aggregateTokenUsage sample_run (VerificationResultObject (sample_verification CheckResultPassed)) = Inr run' \<and>
     suTokenUsage (rStatus run') = \<lparr>tuInputTokens = Some 40, tuOutputTokens = Some 2\<rparr>"
proof -
  have "paired (suTokenUsage (rStatus sample_run))" by (simp add: paired_def sample_defs)
  from aggregate_tokens [OF this, of "VerificationResultObject (sample_verification CheckResultPassed)"] show ?thesis
    by (auto simp: sample_verification_def TokenUsage_IsZero_def tokens_def int64_def sample_defs)
qed

subsection \<open>Outcomes of a step\<close>

lemma link_result_ok:
  "link_result run step name outcome obj = Inr run' \<Longrightarrow>
     conditions run' = conditions run \<and> rMeta run' = rMeta run \<and> rSpec run' = rSpec run \<and>
     steps run' = steps (appendResultRef run step name outcome)"
  by (auto simp: link_result_def aggregateTokenUsage_def Let_def split: if_splits sum.splits)

text \<open>What each writer patches, whatever the server answers.\<close>

definition linked_write :: "kube \<Rightarrow> string \<Rightarrow> string \<Rightarrow> ConditionStatus \<Rightarrow> string \<Rightarrow> AgenticRun \<Rightarrow> AgenticRun \<Rightarrow> bool" where
  "linked_write K step name st rs base new \<longleftrightarrow>
     (\<exists>run1 t msg obj. link_result base step name (if st \<noteq> ConditionTrue then ActionOutcomeFailed else ActionOutcomeSucceeded) obj = Inr run1 \<and>
        new = with_condition K t run1 (stepConditionType step) st rs msg)"

definition escalating_write :: "kube \<Rightarrow> string \<Rightarrow> AgenticRun \<Rightarrow> AgenticRun \<Rightarrow> bool" where
  "escalating_write K name base new \<longleftrightarrow>
     (\<exists>run1 t t' msg msg' obj. link_result base ''verification'' name ActionOutcomeFailed obj = Inr run1 \<and>
        new = with_condition K t' (with_condition K t run1 AgenticRunConditionVerified ConditionFalse ReasonVerificationFailed msg)
          AgenticRunConditionEscalated ConditionUnknown ReasonVerificationFailed msg')"

lemma linked_writeI:
  "link_result base step name (if st \<noteq> ConditionTrue then ActionOutcomeFailed else ActionOutcomeSucceeded) obj = Inr run1 \<Longrightarrow>
   linked_write K step name st rs base (with_condition K t run1 (stepConditionType step) st rs msg)"
  unfolding linked_write_def by blast

lemma escalating_writeI:
  "link_result base ''verification'' name ActionOutcomeFailed obj = Inr run1 \<Longrightarrow>
   escalating_write K name base (with_condition K t' (with_condition K t run1 AgenticRunConditionVerified ConditionFalse
     ReasonVerificationFailed msg) AgenticRunConditionEscalated ConditionUnknown ReasonVerificationFailed msg')"
  unfolding escalating_write_def by blast

fun patch_is :: "(AgenticRun \<Rightarrow> AgenticRun \<Rightarrow> bool) \<Rightarrow> event \<Rightarrow> bool" where
  "patch_is W (EvStatusPatch base new res) = W base new"
| "patch_is W e = True"

lemma readRunnableRun_emits [emit]: "emits (patch_is W) (readRunnableRun K reader key uid)"
  unfolding readRunnableRun_def by (intro emit) simp_all

lemma setCondition_bind_emits:
  assumes "\<And>t. emits P (f (with_condition K t run ct st rs msg))" and "\<And>t. P (EvNow t)"
  shows "emits P (setCondition K run ct st rs msg \<bind> f)"
proof (rule emitsI, intro wp_bindI wp_setCondition conjI assms(2))
  fix h t
  show "wp (\<lambda>_. P) (f (with_condition K t run ct st rs msg)) (\<lambda>_ _. True) (h @ [EvNow t])"
    using assms(1) [of t] by (simp add: emits_def)
qed

lemma patchStepResult_emits:
  "emits (patch_is (linked_write (rKube r) step name st rs)) (patchStepResult r run step (stepConditionType step) name obj st rs msg)"
  unfolding patchStepResult_def
  by (intro emits_if emits_return emits_bind [OF readRunnableRun_emits] emits_case_sum setCondition_bind_emits
      emits_bind [OF emits_requests(11)]) (simp_all only: patch_is.simps linked_writeI)

lemma patchVerificationFailedEscalating_emits:
  "emits (patch_is (escalating_write (rKube r) name)) (patchVerificationFailedEscalating r run name obj rs)"
  unfolding patchVerificationFailedEscalating_def
  by (intro emits_if emits_return emits_bind [OF readRunnableRun_emits] emits_case_sum setCondition_bind_emits
      emits_bind [OF emits_requests(11)]) (simp_all only: patch_is.simps escalating_writeI)

definition cond_write :: "kube \<Rightarrow> string \<Rightarrow> ConditionStatus \<Rightarrow> AgenticRun \<Rightarrow> AgenticRun \<Rightarrow> bool" where
  "cond_write K ct st base new \<longleftrightarrow> (\<exists>t rs msg. new = with_condition K t base ct st rs msg)"

lemma patchStepCondition_emits:
  "emits (patch_is (cond_write (rKube r) ct st)) (patchStepCondition r run ct st rs msg)"
proof -
  have w: "cond_write (rKube r) ct st base (with_condition (rKube r) t base ct st rs msg)" for base t
    unfolding cond_write_def by blast
  show ?thesis
    unfolding patchStepCondition_def
    by (intro emits_if emits_return emits_bind [OF readRunnableRun_emits] emits_case_sum setCondition_bind_emits
        emits_bind [OF emits_requests(11)]) (simp_all only: patch_is.simps w)
qed

text \<open>All the ways \<open>completeStep\<close> can patch a run.\<close>

definition completion_write :: "kube \<Rightarrow> string \<Rightarrow> AgenticRun \<Rightarrow> AgenticRun \<Rightarrow> bool" where
  "completion_write K step base new \<longleftrightarrow>
     cond_write K (stepConditionType step) ConditionFalse base new \<or>
     (\<exists>name rs. linked_write K step name ConditionTrue rs base new) \<or>
     step \<noteq> ''verification'' \<and> (\<exists>name rs. linked_write K step name ConditionFalse rs base new) \<or>
     step = ''verification'' \<and> (\<exists>name. escalating_write K name base new)"

lemma patch_is_mono: "emits (patch_is W) m \<Longrightarrow> (\<And>b n. W b n \<Longrightarrow> V b n) \<Longrightarrow> emits (patch_is V) m"
  by (erule emits_mono) (auto elim: patch_is.elims)

lemma patch_is_release: "release_event e \<Longrightarrow> patch_is W e"
  by (cases e) (auto simp: release_event_def rbac_event_def)

lemma complete_succeeded_emits:
  "emits (patch_is (completion_write (rKube r) step)) (complete_succeeded r run step (stepConditionType step))"
proof -
  have fetch: "emits (patch_is W) (fetchResultCRByStep K key step)" for W K key
    unfolding fetchResultCRByStep_def by (intro emit) simp_all
  have success: "emits (patch_is (completion_write (rKube r) step))
      (patchStepResult r run step (stepConditionType step) name obj ConditionTrue rs msg)" for name obj rs msg
    by (rule patch_is_mono [OF patchStepResult_emits]) (unfold completion_write_def, blast)
  have failure: "step \<noteq> ''verification'' \<Longrightarrow> emits (patch_is (completion_write (rKube r) step))
      (patchStepResult r run step (stepConditionType step) name obj ConditionFalse rs msg)" for name obj rs msg
    by (rule patch_is_mono [OF patchStepResult_emits]) (unfold completion_write_def, blast)
  have escalate: "emits (patch_is (completion_write (rKube r) ''verification''))
      (patchVerificationFailedEscalating r run name obj rs)" for name obj rs
    by (rule patch_is_mono [OF patchVerificationFailedEscalating_emits]) (unfold completion_write_def, blast)
  have broken: "emits (patch_is (completion_write (rKube r) step))
      (patchStepCondition r run (stepConditionType step) ConditionFalse rs msg)" for rs msg
    by (rule patch_is_mono [OF patchStepCondition_emits]) (unfold completion_write_def, blast)
  show ?thesis
    unfolding complete_succeeded_def validateResultCR_def
    by (intro emits_bind emits_case_prod emits_case_option emits_let emits_if emits_return fetch success broken)
      (auto intro: failure escalate)
qed

context reconciler
begin

lemma completeStep_emits:
  "emits (patch_is (completion_write (rKube r) step)) (completeStep r run pod step (stepConditionType step) msg rs)"
proof -
  have broken: "emits (patch_is (completion_write (rKube r) step))
      (patchStepCondition r run (stepConditionType step) ConditionFalse rs msg)" for rs msg run
    by (rule patch_is_mono [OF patchStepCondition_emits]) (unfold completion_write_def, blast)
  have release: "emits (patch_is W) (agent_call (rAgent r) (CallReleaseSandbox run step))" for W run
    by (rule emitsI, rule release_call_wp) (auto intro: patch_is_release)
  show ?thesis
    unfolding completeStep_def record_completion_def finish_step_def releaseSandbox_def
    by (intro emits_bind emits_case_prod emits_case_option emits_case_sum emits_let emits_if emits_return readRunnableRun_emits
        broken release complete_succeeded_emits emits_audit) simp_all
qed

end

text \<open>
  The judgement of a verification result: accepted when it is completed, neither timed out nor failed, and has checks; reported as failed when
  it is completed with a timeout, a failure or a failure reason.
\<close>

definition completed_with :: "kube \<Rightarrow> VerificationResult \<Rightarrow> string \<Rightarrow> bool" where
  "completed_with K cr reason \<longleftrightarrow> (\<exists>c. FindStatusCondition K (vrConditions cr) ResultConditionCompleted = Some c \<and>
     cStatus c = ConditionTrue \<and> cReason c = reason)"

definition result_accepted :: "kube \<Rightarrow> VerificationResult \<Rightarrow> bool" where
  "result_accepted K cr \<longleftrightarrow> (\<exists>reason. completed_with K cr reason \<and> reason \<notin> {ResultReasonAgentTimeout, ResultReasonFailed}) \<and>
     vrFailureReason cr = '''' \<and> vrChecks cr \<noteq> []"

definition result_reports_failure :: "kube \<Rightarrow> VerificationResult \<Rightarrow> bool" where
  "result_reports_failure K cr \<longleftrightarrow> (\<exists>reason. completed_with K cr reason \<and>
     (reason \<in> {ResultReasonAgentTimeout, ResultReasonFailed} \<or> vrFailureReason cr \<noteq> ''''))"

lemma judge_verification:
  assumes "judge_result K (fetched VerificationResultObject x) = (obj, reason)"
  shows "case obj of
      Some ob \<Rightarrow> \<exists>cr. x = Inr cr \<and> ob = VerificationResultObject cr \<and> (if reason = '''' then result_accepted K cr else result_reports_failure K cr)
    | None \<Rightarrow> (\<forall>cr. x = Inr cr \<longrightarrow> \<not> result_accepted K cr \<and> \<not> result_reports_failure K cr)"
  using assms
  by (auto simp: judge_result_def fetched_def completed_with_def result_accepted_def result_reports_failure_def Let_def go_consts
      split: sum.splits option.splits if_splits)

text \<open>The answer to a read of the result of the next verification attempt of the run, as the run was read.\<close>

definition result_read :: "AgenticRun \<Rightarrow> event list \<Rightarrow> error + VerificationResult \<Rightarrow> bool" where
  "result_read run es x \<longleftrightarrow> (\<exists>current key. EvGetRun (run_key run) (Inr current) \<in> set es \<and> run_uid current = run_uid run \<and>
     EvGetResult key (map_sum id VerificationResultObject x) \<in> set es \<and>
     kName key = resultCRName (mName (rMeta current)) ''verification'' (nextResultIndex current ''verification''))"

lemma result_read_mono: "result_read run es x \<Longrightarrow> set es \<subseteq> set es' \<Longrightarrow> result_read run es' x"
  unfolding result_read_def by blast

definition pod_succeeded :: "Pod option \<Rightarrow> bool" where
  "pod_succeeded pod = (case pod of Some p \<Rightarrow> pPhase p = PodSucceeded | None \<Rightarrow> False)"

text \<open>
  The patches of a verification that has ended: the result is linked as succeeded when it is accepted, linked as failed together with the
  escalation when it reports a failure, and otherwise the step fails without a result.
\<close>

definition verification_write :: "kube \<Rightarrow> AgenticRun \<Rightarrow> bool \<Rightarrow> event list \<Rightarrow> AgenticRun \<Rightarrow> AgenticRun \<Rightarrow> bool" where
  "verification_write K run ended es base new \<longleftrightarrow>
     ended \<and> (\<exists>cr rs. result_read run es (Inr cr) \<and> result_accepted K cr \<and>
       linked_write K ''verification'' (mName (vrMeta cr)) ConditionTrue rs base new) \<or>
     ended \<and> (\<exists>cr. result_read run es (Inr cr) \<and> result_reports_failure K cr \<and> escalating_write K (mName (vrMeta cr)) base new) \<or>
     cond_write K AgenticRunConditionVerified ConditionFalse base new \<and>
       (\<not> ended \<or> (\<exists>x. result_read run es x \<and> (\<forall>cr. x = Inr cr \<longrightarrow> \<not> result_accepted K cr \<and> \<not> result_reports_failure K cr)))"

lemma verification_writeI:
  "result_read run es (Inr cr) \<Longrightarrow> result_accepted K cr \<Longrightarrow> linked_write K ''verification'' (mName (vrMeta cr)) ConditionTrue rs base new \<Longrightarrow>
     verification_write K run True es base new"
  "result_read run es (Inr cr) \<Longrightarrow> result_reports_failure K cr \<Longrightarrow> escalating_write K (mName (vrMeta cr)) base new \<Longrightarrow>
     verification_write K run True es base new"
  "result_read run es x \<Longrightarrow> \<forall>cr. x = Inr cr \<longrightarrow> \<not> result_accepted K cr \<and> \<not> result_reports_failure K cr \<Longrightarrow>
     cond_write K AgenticRunConditionVerified ConditionFalse base new \<Longrightarrow> verification_write K run True es base new"
  unfolding verification_write_def by blast+

definition verification_event :: "kube \<Rightarrow> AgenticRun \<Rightarrow> bool \<Rightarrow> nat \<Rightarrow> history \<Rightarrow> event \<Rightarrow> bool" where
  "verification_event K run ended n h e = patch_is (verification_write K run ended (drop n h)) e"

lemma verification_event_later:
  assumes "emits (patch_is W) m" and "\<And>base new es. W base new \<Longrightarrow> verification_write K run ended (drop n (h @ es)) base new"
    and "\<And>x es. Q x (h @ es)"
  shows "wp (verification_event K run ended n) m Q h"
proof (rule wp_later, rule emits_wp [OF assms(1)])
  show "(\<exists>es. h' = h @ es) \<longrightarrow> verification_event K run ended n h' e" if "patch_is W e" for h' e
    using that assms(2) by (cases e) (auto simp: verification_event_def)
qed (rule assms(3))

lemma verified_type: "stepConditionType ''verification'' = AgenticRunConditionVerified"
  by (simp add: stepConditionType_def)

lemma complete_verification_wp:
  assumes n: "n \<le> length h" and current: "EvGetRun (run_key run) (Inr current) \<in> set (drop n h)" "run_uid current = run_uid run"
    and Q: "\<And>x es. Q x (h @ es)"
  shows "wp (verification_event (rKube r) run True n) (complete_succeeded r current ''verification'' AgenticRunConditionVerified) Q h"
proof -
  let ?read = "EvGetResult \<lparr>kName = resultCRName (mName (rMeta current)) ''verification'' (nextResultIndex current ''verification''),
    kNamespace = rNamespace r\<rparr>"
  let ?P = "verification_event (rKube r) run True n"
  have rd: "result_read run (drop n ((h @ [?read (map_sum id VerificationResultObject x)]) @ es)) x" for x es
    unfolding result_read_def using n current by (intro exI [of _ current] exI conjI) auto
  have accept: "wp ?P (patchStepResult r current ''verification'' AgenticRunConditionVerified (mName (vrMeta cr)) obj ConditionTrue rs msg) Q'
      (h @ [?read (Inr (VerificationResultObject cr))])"
    if "result_accepted (rKube r) cr" "\<And>y es. Q' y (h @ es)" for cr obj rs msg Q'
    using that(2) verification_writeI(1) [OF rd [of "Inr cr", unfolded map_sum.simps] that(1)]
    by (intro verification_event_later [OF patchStepResult_emits [where step = "''verification''", unfolded verified_type]]) simp_all
  have escalate: "wp ?P (patchVerificationFailedEscalating r current (mName (vrMeta cr)) obj rs) Q' (h @ [?read (Inr (VerificationResultObject cr))])"
    if "result_reports_failure (rKube r) cr" "\<And>y es. Q' y (h @ es)" for cr obj rs Q'
    using that(2) verification_writeI(2) [OF rd [of "Inr cr", unfolded map_sum.simps] that(1)]
    by (intro verification_event_later [OF patchVerificationFailedEscalating_emits]) simp_all
  have broken: "wp ?P (patchStepCondition r current AgenticRunConditionVerified ConditionFalse rs msg) Q' (h @ [?read (map_sum id VerificationResultObject x)])"
    if "\<forall>cr. x = Inr cr \<longrightarrow> \<not> result_accepted (rKube r) cr \<and> \<not> result_reports_failure (rKube r) cr" "\<And>y es. Q' y (h @ es)" for x rs msg Q'
    using that(2) verification_writeI(3) [OF rd that(1)]
    by (intro verification_event_later [OF patchStepCondition_emits]) simp_all
  show ?thesis
    unfolding complete_succeeded_def validateResultCR_def fetchResultCRByStep_def
    by (intro wp_bindI wp_ifI wp_requests2 wp_returnI wp_case_prod wp_case_option wp_letI conjI)
      (auto simp: verification_event_def Q intro!: accept escalate broken wp_bindI wp_returnI dest!: judge_verification)
qed

context reconciler
begin

lemma completeStep_verification_wp:
  "wp (verification_event (rKube r) run (msg = '''' \<and> pod_succeeded pod) (length h))
     (completeStep r run pod ''verification'' AgenticRunConditionVerified msg rs) (\<lambda>_ _. True) h"
  (is "wp ?P _ _ _")
proof -
  have calm: "?P h' e" if "patch_is (\<lambda>_ _. False) e" for h' e
    using that by (cases e) (simp_all add: verification_event_def)
  have finish: "wp ?P (finish_step r run' ''verification'' ct obj) (\<lambda>_ _. True) h'" for run' ct obj h'
  proof (rule emits_wp [where P = "patch_is (\<lambda>_ _. False)"])
    have "emits (patch_is (\<lambda>_ _. False)) (agent_call (rAgent r) (CallReleaseSandbox x ''verification''))" for x
      by (rule emitsI, rule release_call_wp) (auto intro: patch_is_release)
    then show "emits (patch_is (\<lambda>_ _. False)) (finish_step r run' ''verification'' ct obj)"
      unfolding finish_step_def releaseSandbox_def
      by (intro emits_bind emits_case_sum emits_if emits_return readRunnableRun_emits emits_audit) simp_all
  qed (simp_all add: calm)
  have broken: "wp (verification_event (rKube r) run False (length h)) (patchStepCondition r run' AgenticRunConditionVerified ConditionFalse rs' msg') Q h'"
    if "\<And>x es'. Q x (h' @ es')" for run' rs' msg' Q h'
    using that by (intro verification_event_later [OF patchStepCondition_emits]) (auto simp: verification_write_def)
  have recorded: "wp ?P (record_completion r current pod ''verification'' AgenticRunConditionVerified msg rs) Q h'"
    if "runnable_at (rKube r) h (run_key run) (run_uid run) current h'" "\<And>x es. Q x (h' @ es)" for current h' Q
  proof -
    from that(1) obtain c where h': "h' = h @ [EvGetRun (run_key run) (Inr current), EvGetConfig c]" "run_uid current = run_uid run"
      by (auto simp: runnable_at_def)
    show ?thesis
    proof (cases "msg = '''' \<and> pod_succeeded pod")
      case True
      then have "record_completion r current pod ''verification'' AgenticRunConditionVerified msg rs =
          complete_succeeded r current ''verification'' AgenticRunConditionVerified"
        by (auto simp: record_completion_def pod_succeeded_def split: option.splits)
      with True complete_verification_wp [where n = "length h" and run = run and current = current and h = h' and Q = Q and r = r] that(2) h'
      show ?thesis by simp
    next
      case False
      then have eq: "(msg = '''' \<and> pod_succeeded pod) = False" by simp
      show ?thesis
        unfolding record_completion_def eq
        by (intro wp_ifI wp_bindI wp_case_option wp_returnI broken)
          (use that(2) [of _ "[]"] that(2) False in \<open>auto simp: pod_succeeded_def\<close>)
    qed
  qed
  show ?thesis
    unfolding completeStep_def
    by (intro wp_ifI wp_bindI readRunnableRun_wp wp_case_sum wp_case_prod wp_case_option wp_returnI recorded finish TrueI)
      (simp_all add: verification_event_def)
qed

end







text \<open>
  What a verification agent found is not looked at: whether a verification result is accepted depends on
  its conditions and on having checks at all, not on the outcome of any check.
\<close>

theorem failed_checks_accepted:
  assumes "cs \<noteq> []" and "ds \<noteq> []"
  shows "snd (judge_result K (Some (VerificationResultObject (cr\<lparr>vrChecks := cs\<rparr>), conds, reason))) =
     snd (judge_result K (Some (VerificationResultObject (cr\<lparr>vrChecks := ds\<rparr>), conds, reason)))"
  using assms by (simp add: judge_result_def Let_def split: option.splits)

theorem failed_checks_accepted_witness:
  "snd (judge_result (ref_server empty_world) (Some (VerificationResultObject (sample_verification CheckResultFailed),
     vrConditions (sample_verification CheckResultFailed), ''''))) = ''''"
proof -
  let ?c = "\<lambda>x. [\<lparr>vcName = ''node-ready'', vcSource = ''oc'', vcValue = ''False'', vcResult = x\<rparr>]"
  have "snd (judge_result (ref_server empty_world) (Some (VerificationResultObject (sample_verification CheckResultPassed),
     vrConditions (sample_verification CheckResultPassed), ''''))) = ''''"
    by code_simp
  then show ?thesis
    using failed_checks_accepted [of "?c CheckResultPassed" "?c CheckResultFailed" "ref_server empty_world"
        "sample_verification CheckResultPassed" "vrConditions (sample_verification CheckResultPassed)" "''''"]
    by (simp add: sample_verification_def)
qed

subsection \<open>Revisions and completions\<close>

text \<open>
  Completing the analysis consumes a pending revision. Whatever feedback was submitted while the analysis
  was running, the patch that completes it stamps the current generation, so that no revision is due afterwards.
\<close>

theorem completion_consumes_revision:
  assumes "reconciler r" and "status_conditions (rKube r)"
    and "EvStatusPatch base new res \<in>
      set (new_events (completeStep r run pod ''analysis'' AgenticRunConditionAnalyzed timeoutMsg timeoutReason) h)"
  shows "\<not> needsRevision (rKube r) new"
proof -
  have analyzed: "stepConditionType ''analysis'' = AgenticRunConditionAnalyzed"
    by (simp add: stepConditionType_def)
  have "completion_write (rKube r) ''analysis'' base new"
    using emits_new_events [OF reconciler.completeStep_emits [OF assms(1), of "''analysis''", unfolded analyzed] assms(3)] by simp
  then obtain run1 t st rs msg where "rMeta run1 = rMeta base"
    and "new = with_condition (rKube r) t run1 AgenticRunConditionAnalyzed st rs msg"
    unfolding completion_write_def cond_write_def linked_write_def analyzed by (auto dest!: link_result_ok)
  then show ?thesis
    by (simp add: needsRevision_def status_conditions.find_cond [OF assms(2)] status_conditions.with_condition_get [OF assms(2)])
qed

definition revised_run :: AgenticRun where
  "revised_run = set_conditions (sample_run\<lparr>rMeta := (rMeta sample_run)\<lparr>mGeneration := 2\<rparr>,
       rSpec := (rSpec sample_run)\<lparr>spRevisionFeedback := ''check the disk first''\<rparr>\<rparr>)
     [cond AgenticRunConditionAnalyzed ConditionUnknown ReasonRunning]"

definition complete_revised :: "event list" where
  "complete_revised = new_events (completeStep (sample_reconciler (empty_world\<lparr>wRuns := [revised_run]\<rparr>)) revised_run
     (Some (sample_pod PodFailed ''analysis'')) ''analysis'' AgenticRunConditionAnalyzed '''' '''') []"

lemma complete_revised_events:
  "map phase_change (take 6 complete_revised) =
     [None, None, None, None, None, Some (AgenticRunPhaseAnalyzing, AgenticRunPhaseFailed)]"
  by code_simp

theorem completion_consumes_revision_witness:
  "needsRevision (ref_server (empty_world\<lparr>wRuns := [revised_run]\<rparr>)) revised_run \<and>
   (\<exists>base new res. EvStatusPatch base new res \<in> set complete_revised \<and>
     \<not> needsRevision (ref_server (empty_world\<lparr>wRuns := [revised_run]\<rparr>)) new)"
proof -
  let ?W = "empty_world\<lparr>wRuns := [revised_run]\<rparr>"
  have len: "length (take 6 complete_revised) = 6"
    and "phase_change (complete_revised ! 5) = Some (AgenticRunPhaseAnalyzing, AgenticRunPhaseFailed)"
    using arg_cong [OF complete_revised_events, of length] arg_cong [OF complete_revised_events, of "\<lambda>xs. xs ! 5"] by simp_all
  then obtain base new res where e: "complete_revised ! 5 = EvStatusPatch base new res"
    by (auto simp: phase_change_Some)
  have mem: "EvStatusPatch base new res \<in> set complete_revised"
    using nth_mem [of 5 complete_revised] e len by simp
  have "needsRevision (ref_server ?W) revised_run" by code_simp
  with completion_consumes_revision [OF sample_reconciler_valid(1,2) mem [unfolded complete_revised_def]] mem
  show ?thesis unfolding sample_reconciler_valid(3) by blast
qed

text \<open>
  A late event of an execution pod reopens execution under a revision. In the history below the
  analysis is being redone, the conditions of execution are gone, and the event of the old pod makes the
  run executing again, although no new analysis has been approved.
\<close>

theorem late_execution_event:
  "map phase_change (new_events (handlePodEvent (sample_reconciler (empty_world\<lparr>wRuns := [revised_run]\<rparr>))
     (sample_pod PodRunning ''execution'')) []) =
   [None, None, None, None, None, None, Some (AgenticRunPhaseAnalyzing, AgenticRunPhaseExecuting)]"
  by code_simp

end
