(* ===== verification/RunReconciler.thy ===== *)
theory RunReconciler
  imports PodHandler
begin

text \<open>
  One reconciliation of a run: \<open>Reconcile\<close> of \<^verbatim>\<open>controller/agenticrun/reconciler.go\<close>, in the order of the
  source: deletion, finalizers, suspension, the configuration guard, terminal phases, approval and
  resolution, and the routing by phase.

  The lemmas compose those of the handlers. A reconciliation launches an agent only after it has read that
  the system is not suspended, and launches a step other than the analysis only with the approval of its stage
  that it has read; in a suspended system it launches nothing.
\<close>

section \<open>Suspension\<close>

definition readSuspensionActivation :: "Reconciler \<Rightarrow> (error + bool \<times> Time \<times> bool) op" where
  "readSuspensionActivation r =
    (if \<not> rAPIReader r then State_Monad.return (Inl (NewError ''uncached API reader is required by the run controller''))
     else do {
       g \<leftarrow> getConfig (rKube r);
       State_Monad.return (case g of
           Inl e \<Rightarrow> if IgnoreNotFound e = None then Inr (False, 0, False)
             else Inl (WrapError ''read AgenticOLSConfig through uncached API reader'' e)
         | Inr config \<Rightarrow>
             if \<not> olSuspended config then Inr (False, 0, False)
             else (case FindStatusCondition (rKube r) (olConditions config) AgenticOLSConfigConditionSuspended of
                 None \<Rightarrow> Inr (True, 0, False)
               | Some c \<Rightarrow>
                   if cStatus c = ConditionTrue \<and> cObservedGeneration c = mGeneration (olMeta config) \<and> \<not> IsZero (cLastTransitionTime c)
                   then Inr (True, cLastTransitionTime c, True) else Inr (True, 0, False)))
     })"

text \<open>The shared opening of the deletion and the suspension branch: accepted, suspended, start, current.\<close>

definition read_stop :: "Reconciler \<Rightarrow> AgenticRun \<Rightarrow> (error + bool \<times> bool \<times> Time \<times> bool) op" where
  "read_stop r run =
    (if HasAcceptedStop (rKube r) run then State_Monad.return (Inr (True, False, 0, False))
     else do {
       s \<leftarrow> readSuspensionActivation r;
       State_Monad.return (case s of
           Inl e \<Rightarrow> Inl e
         | Inr (suspended, start, currentActivation) \<Rightarrow> Inr (False, suspended, start, currentActivation))
     })"

section \<open>Deletion\<close>

definition drop_rbac_finalizer :: "Reconciler \<Rightarrow> bool \<Rightarrow> AgenticRun \<Rightarrow> (error + AgenticRun) op" where
  "drop_rbac_finalizer r lock run = do {
     p \<leftarrow> patchMeta (rKube r) lock run (RemoveFinalizer run rbacCleanupFinalizer);
     State_Monad.return (case p of
         Inl e \<Rightarrow> if IgnoreNotFound e \<noteq> None then Inl (WrapError ''remove finalizer'' e)
           else Inr (RemoveFinalizer run rbacCleanupFinalizer)
       | Inr run' \<Rightarrow> Inr run')
   }"

definition finish_deletion :: "Reconciler \<Rightarrow> AgenticRun \<Rightarrow> outcome op" where
  "finish_deletion r run =
    (if templogCleanupFinalizer \<in> set (mFinalizers (rMeta run)) then handleTemplogCleanup r run else done_ok)"

definition reconcile_deletion :: "Reconciler \<Rightarrow> AgenticRun \<Rightarrow> outcome op" where
  "reconcile_deletion r run = do {
     audit (rAudit r) (CleanupAudit (run_uid run));
     s \<leftarrow> read_stop r run;
     case s of
       Inl e \<Rightarrow> fail_with e
     | Inr (accepted, suspended, start, currentActivation) \<Rightarrow>
         if accepted \<or> suspended then
           if suspended \<and> \<not> currentActivation \<and> \<not> accepted then requeue_after suspensionRequeueAfter
           else do {
             (run1, result, err) \<leftarrow> handleSuspensionAt r run start;
             if err \<noteq> None then State_Monad.return (result, err)
             else if crRequeue result \<or> crRequeueAfter result > 0 then State_Monad.return (result, None)
             else if rbacCleanupFinalizer \<in> set (mFinalizers (rMeta run1)) then do {
               d \<leftarrow> drop_rbac_finalizer r True run1;
               case d of Inl e \<Rightarrow> fail_with e | Inr run2 \<Rightarrow> finish_deletion r run2
             }
             else finish_deletion r run1
           }
         else if rbacCleanupFinalizer \<in> set (mFinalizers (rMeta run)) then do {
           e \<leftarrow> agent_call (rAgent r) (CallReleaseSandboxes run False);
           case e of
             Some err \<Rightarrow> fail_with (WrapError ''release sandboxes during deletion'' err)
           | None \<Rightarrow> do {
               d \<leftarrow> drop_rbac_finalizer r False run;
               case d of Inl e \<Rightarrow> fail_with e | Inr run1 \<Rightarrow> finish_deletion r run1
             }
         }
         else finish_deletion r run
   }"

section \<open>Suspended runs\<close>

definition reconcile_suspension :: "Reconciler \<Rightarrow> AgenticRun \<Rightarrow> Time \<Rightarrow> outcome op" where
  "reconcile_suspension r run start = do {
     (run1, result, err) \<leftarrow> handleSuspensionAt r run start;
     if err \<noteq> None then State_Monad.return (result, err)
     else
       let phase = DerivePhase (conditions run1) in
       if isTerminal phase then
         (case rConfig r of
            None \<Rightarrow> State_Monad.return
              (if crRequeueAfter result = 0 \<and> \<not> crRequeue result then no_result\<lparr>crRequeueAfter := suspensionRequeueAfter\<rparr> else result, None)
          | Some cfg \<Rightarrow> do {
              (terminalResult, err2) \<leftarrow> handleSuspendedTerminalCleanup r run1 phase (cfTerminalTTLDays cfg);
              State_Monad.return (if err2 \<noteq> None then (terminalResult, err2)
                else (if crRequeueAfter result = 0 \<and> \<not> crRequeue result then terminalResult else result, None))
            })
       else State_Monad.return (result, None)
   }"

section \<open>Active runs\<close>

definition route_phase ::
    "Reconciler \<Rightarrow> AgenticRun \<Rightarrow> AgenticRunPhase \<Rightarrow> resolvedWorkflow \<Rightarrow> AgenticRunApproval \<Rightarrow> ApprovalPolicy option \<Rightarrow> outcome op" where
  "route_phase r run phase resolved approval policy =
    (let revision = needsRevision (rKube r) run in
     if phase = AgenticRunPhasePending \<or> phase = AgenticRunPhaseAnalyzing then
       (if revision then handleRevision r run resolved else handleAnalysis r run resolved (Some approval) policy)
     else if phase = AgenticRunPhaseProposed \<or> phase = AgenticRunPhaseExecuting then
       (if revision then handleRevision r run resolved else handleExecution r run resolved (Some approval) policy)
     else if phase = AgenticRunPhaseVerifying then handleVerification r run resolved (Some approval) policy
     else if phase = AgenticRunPhaseEscalating then
       (if revision then handleRevision r run resolved else handleEscalation r run resolved (Some approval) policy)
     else if phase = AgenticRunPhaseCompleted \<or> phase = AgenticRunPhaseFailed then
       (if (isNoActionRequired (rKube r) run \<or> AgenticRunStep_IsZero (spExecution (rSpec run))) \<and> revision
        then handleRevision r run resolved else done_ok)
     else done_ok)"

text \<open>A workflow that does not resolve fails the analysis of the run, read anew.\<close>

definition resolution_failed :: "Reconciler \<Rightarrow> AgenticRun \<Rightarrow> error \<Rightarrow> outcome op" where
  "resolution_failed r run err = do {
     g \<leftarrow> readRunnableRun (rKube r) (rAPIReader r) (run_key run) (run_uid run);
     case g of
       Inl e \<Rightarrow> if e = StopAccepted then requeue_now else fail_with e
     | Inr current \<Rightarrow> do {
         run' \<leftarrow> setCondition (rKube r) current AgenticRunConditionAnalyzed ConditionFalse reasonWorkflowFailed (err_text err);
         patchStatus (rKube r) current run';
         done_ok
       }
   }"

definition reconcile_workflow :: "Reconciler \<Rightarrow> AgenticRun \<Rightarrow> AgenticRunPhase \<Rightarrow> outcome op" where
  "reconcile_workflow r run phase = do {
     p \<leftarrow> getApprovalPolicy (rKube r);
     let policy = (case p of Inl _ \<Rightarrow> None | Inr x \<Rightarrow> x);
     a \<leftarrow> ensureAgenticRunApproval (rKube r) run policy (rNamespace r);
     case a of
       Inl e \<Rightarrow> requeue_now
     | Inr approval \<Rightarrow> do {
         w \<leftarrow> resolveAgenticRun (rKube r) run (Some approval) (rNamespace r);
         case w of
           Inl err \<Rightarrow> resolution_failed r run err
         | Inr resolved \<Rightarrow> route_phase r run phase resolved approval policy
       }
   }"

definition skip_terminal_cleanup :: "AgenticRun \<Rightarrow> AgenticRunPhase \<Rightarrow> bool" where
  "skip_terminal_cleanup run phase \<longleftrightarrow>
     lookup (mLabels (rMeta run)) terminalTTLLabel = ''true'' \<and> suDeleteAfter (rStatus run) \<noteq> None \<or>
     phase = AgenticRunPhaseFailed \<and> preserveFailedSandbox run"

definition reconcile_active :: "Reconciler \<Rightarrow> AgenticRun \<Rightarrow> outcome op" where
  "reconcile_active r run = (case rConfig r of
      None \<Rightarrow> fail_with (NewError ''operator configuration not yet available'')
    | Some cfg \<Rightarrow>
        let phase = DerivePhase (conditions run); ttl = cfTerminalTTLDays cfg;
            cleanup = (if skip_terminal_cleanup run phase then done_ok else handleTerminalCleanup r run phase ttl) in
        if phase = AgenticRunPhaseCompleted \<and>
           \<not> ((isNoActionRequired (rKube r) run \<or> AgenticRunStep_IsZero (spExecution (rSpec run))) \<and> needsRevision (rKube r) run)
        then cleanup
        else if phase = AgenticRunPhaseDenied \<or> phase = AgenticRunPhaseEscalated \<or> phase = AgenticRunPhaseEmergencyStopped
        then cleanup
        else if phase = AgenticRunPhaseFailed \<and>
           \<not> (AgenticRunStep_IsZero (spExecution (rSpec run)) \<and> needsRevision (rKube r) run)
        then (if skip_terminal_cleanup run phase then done_ok
          else do {
            (result, err) \<leftarrow> handleFailed r run;
            if err \<noteq> None then State_Monad.return (result, err) else handleTerminalCleanup r run phase ttl
          })
        else reconcile_workflow r run phase)"

section \<open>Reconcile\<close>

definition reconcile_live :: "Reconciler \<Rightarrow> AgenticRun \<Rightarrow> outcome op" where
  "reconcile_live r run = do {
     s \<leftarrow> read_stop r run;
     case s of
       Inl e \<Rightarrow> fail_with e
     | Inr (accepted, suspended, start, currentActivation) \<Rightarrow>
         if accepted \<or> suspended then
           (if suspended \<and> \<not> currentActivation \<and> \<not> accepted then requeue_after suspensionRequeueAfter
            else reconcile_suspension r run start)
         else reconcile_active r run
   }"

definition Reconcile :: "Reconciler \<Rightarrow> ObjectKey \<Rightarrow> outcome op" where
  "Reconcile r key =
    (if \<not> rAPIReader r then fail_with (NewError ''uncached API reader is required by the run controller'')
     else do {
       g \<leftarrow> getRun (rKube r) key;
       case g of
         Inl e \<Rightarrow> do {
           audit (IgnoreNotFound e = None \<and> rAudit r) (CleanupDeleted key);
           State_Monad.return (no_result, IgnoreNotFound e)
         }
       | Inr run \<Rightarrow>
           if \<not> IsZero (mDeletionTimestamp (rMeta run)) then reconcile_deletion r run
           else if rbacCleanupFinalizer \<notin> set (mFinalizers (rMeta run)) \<or> templogCleanupFinalizer \<notin> set (mFinalizers (rMeta run))
           then do {
             p \<leftarrow> patchMeta (rKube r) False run (AddFinalizer (AddFinalizer run rbacCleanupFinalizer) templogCleanupFinalizer);
             case p of
               Inl e \<Rightarrow> fail_with (WrapError ''add finalizer'' e)
             | Inr _ \<Rightarrow> do {
                 g2 \<leftarrow> getRun (rKube r) key;
                 case g2 of
                   Inl e \<Rightarrow> State_Monad.return (no_result, IgnoreNotFound e)
                 | Inr run2 \<Rightarrow> reconcile_live r run2
               }
           }
           else reconcile_live r run
     })"

text \<open>The map function behind the watches of policy and configuration.\<close>

definition fanOutToActiveRuns :: "Reconciler \<Rightarrow> ObjectKey list op" where
  "fanOutToActiveRuns r = do {
     l \<leftarrow> listRuns (rKube r) None;
     State_Monad.return (case l of
         Inl e \<Rightarrow> []
       | Inr items \<Rightarrow> map run_key
           (filter (\<lambda>p. \<not> isTerminal (DerivePhase (conditions p)) \<or> suTerminalTime (rStatus p) = None) items))
   }"

section \<open>What a reconciliation relies on before it launches\<close>

definition unsuspended :: "history \<Rightarrow> bool" where
  "unsuspended h \<longleftrightarrow> (\<exists>c. EvGetConfig c \<in> set h \<and>
     (case c of Inl e \<Rightarrow> IsNotFound e | Inr config \<Rightarrow> \<not> olSuspended config))"

text \<open>The approval of a run, found by the name of the run or created under it.\<close>

definition approval_read :: "history \<Rightarrow> AgenticRun \<Rightarrow> AgenticRunApproval \<Rightarrow> bool" where
  "approval_read h run a \<longleftrightarrow> (\<exists>key. EvGetApproval key (Inr a) \<in> set h \<and> kName key = mName (rMeta run)) \<or>
     (\<exists>b. EvCreateApproval b (Inr a) \<in> set h \<and> mName (vMeta b) = mName (rMeta run))"

lemma unsuspendedI:
  "EvGetConfig (Inl e) \<in> set h \<Longrightarrow> IsNotFound e \<Longrightarrow> unsuspended h"
  "EvGetConfig (Inr c) \<in> set h \<Longrightarrow> \<not> olSuspended c \<Longrightarrow> unsuspended h"
  unfolding unsuspended_def by force+

lemma unsuspended_mono: "unsuspended h \<Longrightarrow> set h \<subseteq> set h' \<Longrightarrow> unsuspended h'"
  by (auto simp: unsuspended_def)

lemma drop_later: "set (drop n h) \<subseteq> set (drop n (h @ es))"
  by simp

lemma drop_new: "n \<le> length h \<Longrightarrow> set es \<subseteq> set (drop n (h @ es))"
  by simp

lemma approval_read_mono: "approval_read h run a \<Longrightarrow> set h \<subseteq> set h' \<Longrightarrow> approval_read h' run a"
  by (auto simp: approval_read_def)

text \<open>
  A launch of a step with a stage of its own: the system was read as not suspended, the approval of the run
  was read or created, the policy was read, both together grant the stage, and the run was marked in progress by an accepted patch
  of a version of it that had no accepted stop.
\<close>

definition approved_launch :: "kube \<Rightarrow> nat \<Rightarrow> history \<Rightarrow> SandboxStep \<Rightarrow> string \<Rightarrow> AgenticRun \<Rightarrow> bool" where
  "approved_launch K n h stage ct run2 \<longleftrightarrow> unsuspended (drop n h) \<and>
     (\<exists>approval policy run. approval_read (drop n h) run approval \<and> policy_read (drop n h) policy \<and>
        isStageApproved (Some approval) policy stage \<and> \<not> isStageDenied (Some approval) stage \<and>
        \<not> HasAcceptedStop K run \<and> fresh_base K h run \<and> marked_in_progress K h run run2 ct)"

definition launch_gated :: "kube \<Rightarrow> nat \<Rightarrow> history \<Rightarrow> AgentCall \<Rightarrow> bool" where
  "launch_gated K n h call = (case call of
      CallAnalyze run2 step \<Rightarrow> unsuspended (drop n h) \<and> (\<exists>run. marked_in_progress K h run run2 AgenticRunConditionAnalyzed)
    | CallExecute run2 step opt \<Rightarrow> approved_launch K n h SandboxStepExecution AgenticRunConditionExecuted run2
    | CallVerify run2 step opt out \<Rightarrow> approved_launch K n h SandboxStepVerification AgenticRunConditionVerified run2
    | CallEscalate run2 step \<Rightarrow> approved_launch K n h SandboxStepEscalation AgenticRunConditionEscalated run2
    | _ \<Rightarrow> True)"

text \<open>
  The events of a reconciliation: launches are gated; a status patch is guarded, or belongs to a stop, or
  stamps a terminal deadline, or continues from the answer to the label patch of a revision.
\<close>

definition reconcile_event :: "kube \<Rightarrow> nat \<Rightarrow> history \<Rightarrow> event \<Rightarrow> bool" where
  "reconcile_event K n h e = (case e of
      EvAgent call \<Rightarrow> launch_gated K n h call
    | EvStatusPatch base new res \<Rightarrow>
        guarded_write K h e \<or> (\<exists>S. stop_event K S h e) \<or> suTerminalTime (rStatus base) = None \<and> (\<exists>t d. new = stamped base t d) \<or>
        (\<exists>lock b b'. EvMetaPatch lock b b' (Inr base) \<in> set h)
    | EvDeleteRun _ _ \<Rightarrow> False
    | _ \<Rightarrow> True)"

lemma reconcile_event_admits: "admits K (reconcile_event K n)"
proof -
  have "launch_gated K n h call" if "\<not> launches_agent call" for h call
    using that by (cases call) (simp_all add: launch_gated_def)
  then show ?thesis
    by (auto simp: admits_def reconcile_event_def split: event.splits)
qed

lemma reconcile_event_stop: "stop_event K S h e \<Longrightarrow> reconcile_event K n h e"
  using reconcile_event_admits [of K n] admits_quiet [of K "reconcile_event K n" e h]
  by (cases e) (auto simp: stop_event_def reconcile_event_def)

lemma reconcile_event_meta: "reconcile_event K n h (EvMetaPatch lock base new res)"
  by (simp add: reconcile_event_def)

section \<open>The parts\<close>

text \<open>What is read keeps its meaning in the later history.\<close>

lemma ensureAgenticRunApproval_reads:
  assumes "\<And>h e. approval_event e \<Longrightarrow> P h e" "\<And>e es. Q (Inl e) (h @ es)"
    and "\<And>a es. approval_read es run a \<Longrightarrow> Q (Inr a) (h @ es)"
  shows "wp P (ensureAgenticRunApproval K run policy namespace) Q h"
proof -
  have answer: "Q x (h @ es)" if "\<And>a. x = Inr a \<Longrightarrow> approval_read es run a" for x es
    using assms(2,3) that by (cases x) simp_all
  show ?thesis
    unfolding ensureAgenticRunApproval_def getAgenticRunApproval_def
    by (intro wp_bindI wp_requests wp_case_sum wp_ifI wp_returnI conjI assms(1))
      (auto simp: approval_read_def new_approval_def intro!: answer)
qed

lemma read_stop_wp:
  assumes "\<And>h c. P h (EvGetConfig c)" "\<And>e es. Q (Inl e) (h @ es)"
    and "\<And>accepted suspended start cur es. (\<not> accepted \<Longrightarrow> \<not> suspended \<Longrightarrow> unsuspended es \<and> \<not> HasAcceptedStop (rKube r) run) \<Longrightarrow>
      Q (Inr (accepted, suspended, start, cur)) (h @ es)"
  shows "wp P (read_stop r run) Q h"
proof -
  have "Q (Inr (True, False, 0, False)) h" "\<And>e. Q (Inl e) h"
    using assms(3) [of True False "[]"] assms(2) [of _ "[]"] by simp_all
  then show ?thesis
    unfolding read_stop_def readSuspensionActivation_def
    by (intro wp_bindI wp_requests wp_ifI wp_returnI conjI assms(1))
      (auto simp: IgnoreNotFound_def split: sum.split option.split intro!: assms(2,3) intro: unsuspendedI)
qed

lemma handleTemplogCleanup_emits:
  "(\<And>res u. P (EvDeleteLogs u res)) \<Longrightarrow> (\<And>l b n res. P (EvMetaPatch l b n res)) \<Longrightarrow> emits P (handleTemplogCleanup r run)"
  unfolding handleTemplogCleanup_def remove_templog_finalizer_def Let_def by (intro emit)

lemma drop_rbac_finalizer_emits:
  "(\<And>l b n res. P (EvMetaPatch l b n res)) \<Longrightarrow> emits P (drop_rbac_finalizer r lock run)"
  unfolding drop_rbac_finalizer_def by (intro emit)

lemma finish_deletion_emits:
  "(\<And>res u. P (EvDeleteLogs u res)) \<Longrightarrow> (\<And>l b n res. P (EvMetaPatch l b n res)) \<Longrightarrow> emits P (finish_deletion r run)"
  unfolding finish_deletion_def by (intro emit handleTemplogCleanup_emits)

lemma handleFailed_emits: "emits rbac_event (handleFailed r run)"
proof -
  have "emits rbac_event (cleanup_failed_steps r spoke run ss)" for spoke ss
    by (induction r spoke run ss rule: cleanup_failed_steps.induct) (auto intro!: emit)
  then show ?thesis
    unfolding handleFailed_def by (intro emit)
qed

text \<open>Event predicates that allow what every branch but the routing does.\<close>

definition admits_stop :: "kube \<Rightarrow> (history \<Rightarrow> event \<Rightarrow> bool) \<Rightarrow> bool" where
  "admits_stop K P \<longleftrightarrow> (\<forall>S h e. stop_event K S h e \<longrightarrow> P h e) \<and>
     (\<forall>h l b n res. P h (EvMetaPatch l b n res)) \<and>
     (\<forall>h b n res. suTerminalTime (rStatus b) = None \<longrightarrow> (\<exists>t d. n = stamped b t d) \<longrightarrow> P h (EvStatusPatch b n res))"

lemma admits_stop_simps:
  assumes "admits_stop K P"
  shows "stop_event K S h e \<Longrightarrow> P h e" and "P h (EvMetaPatch l b n res)" and "P h (EvAudit a)" and "P h (EvNow t)"
    and "P h (EvGetRun key x)" and "P h (EvGetConfig c)" and "P h (EvDeleteLogs u y)" and "release_event e \<Longrightarrow> P h e"
    and "suTerminalTime (rStatus b) = None \<Longrightarrow> P h (EvStatusPatch b (stamped b t d) res)"
proof -
  show stop: "P h e" if "stop_event K S h e" for S h e
    using assms that unfolding admits_stop_def by blast
  show "P h (EvMetaPatch l b n res)" using assms unfolding admits_stop_def by blast
  show "P h (EvAudit a)" "P h (EvNow t)" "P h (EvGetRun key x)" "P h (EvGetConfig c)" "P h (EvDeleteLogs u y)"
    by (rule stop [of "{}"], simp add: stop_event_def)+
  show "release_event e \<Longrightarrow> P h e" by (rule stop [of "{}"]) simp
  show "suTerminalTime (rStatus b) = None \<Longrightarrow> P h (EvStatusPatch b (stamped b t d) res)"
    using assms unfolding admits_stop_def by blast
qed

lemma handleTerminalRecord_wp:
  assumes "admits_stop K P" and "\<And>x es. Q x (h @ es)"
  shows "wp P (handleTerminalRecord r run phase c) Q h"
proof -
  have Q0: "Q x h" for x using assms(2) [of _ "[]"] by simp
  show ?thesis
    unfolding handleTerminalRecord_def label_terminal_def
    by (intro wp_ifI wp_bindI wp_requests wp_case_sum wp_returnI wp_audit conjI admits_stop_simps(2-7,9) [OF assms(1)])
      (simp_all add: assms(2) Q0)
qed

context reconciler
begin

lemma stop_wp:
  assumes "admits_stop (rKube r) P" and "\<And>x es. Q x (h @ es)"
  shows "wp P (handleSuspensionAt r run start) Q h"
  by (rule wp_mono_event [OF wp_mono [OF handleSuspensionAt_wp]]) (auto intro: assms(2) admits_stop_simps(1) [OF assms(1)])

lemma release_all_wp:
  assumes "admits_stop (rKube r) P" and "\<And>x es. Q x (h @ es)"
  shows "wp P (agent_call (rAgent r) (CallReleaseSandboxes run z)) Q h"
  by (rule release_call_wp)
    (auto intro: assms(2) admits_stop_simps(8) [OF assms(1)] admits_stop_simps(1) [OF assms(1), of "{}"])

lemma reconcile_suspension_wp:
  assumes "admits_stop (rKube r) P"
  shows "wp P (reconcile_suspension r run start) (\<lambda>_ _. True) h"
  unfolding reconcile_suspension_def Let_def handleSuspendedTerminalCleanup_def
  by (intro wp_bindI stop_wp [OF assms] wp_case_prod wp_ifI wp_returnI wp_case_option handleTerminalRecord_wp [OF assms] TrueI)

lemma reconcile_deletion_wp:
  assumes "admits_stop (rKube r) P"
  shows "wp P (reconcile_deletion r run) (\<lambda>_ _. True) h"
proof -
  note allowed = admits_stop_simps [OF assms]
  have finish: "wp P (finish_deletion r run) (\<lambda>_ _. True) h" for run h
    by (rule emits_wp [OF finish_deletion_emits [where P = "\<lambda>e. \<forall>h. P h e"]]) (simp_all add: allowed(2,7))
  have drop: "wp P (drop_rbac_finalizer r lock run) Q h" if "\<And>x es. Q x (h @ es)" for lock run h Q
    using that by (intro emits_wp [OF drop_rbac_finalizer_emits [where P = "\<lambda>e. \<forall>h. P h e"]]) (simp_all add: allowed(2))
  show ?thesis
    unfolding reconcile_deletion_def
    by (intro wp_bindI wp_audit read_stop_wp wp_case_sum wp_case_prod wp_case_option wp_ifI wp_returnI stop_wp [OF assms]
        release_all_wp [OF assms] drop finish TrueI allowed(3,6))
qed

end

section \<open>The workflow\<close>

lemma reconcile_event_admits_stop: "admits_stop K (reconcile_event K n)"
proof -
  have "reconcile_event K n h (EvStatusPatch b (stamped b t d) res)" if "suTerminalTime (rStatus b) = None" for h b t d res
    using that by (auto simp: reconcile_event_def)
  then show ?thesis
    unfolding admits_stop_def using reconcile_event_stop reconcile_event_meta by blast
qed

lemma admits_later: "admits K P \<Longrightarrow> admits K (\<lambda>h' e. (\<exists>es. h' = h @ es) \<longrightarrow> P h' e)"
  by (simp add: admits_def)

context reconciler
begin

lemma handleFailed_wp:
  assumes "admits K P" and "\<And>x es. Q x (h @ es)"
  shows "wp P (handleFailed r run) Q h"
  by (rule emits_wp [OF handleFailed_emits]) (auto simp: assms(2) intro: admits_quiet [OF assms(1)] quiet_events)

lemma handleTerminalCleanup_wp:
  assumes "admits_stop (rKube r) P"
  shows "wp P (handleTerminalCleanup r run phase c) (\<lambda>_ _. True) h"
  unfolding handleTerminalCleanup_def
  by (intro wp_ifI wp_bindI release_all_wp [OF assms] handleTerminalRecord_wp [OF assms] TrueI)

lemma resolution_failed_wp:
  assumes "admits (rKube r) P"
  shows "wp P (resolution_failed r run err) (\<lambda>_ _. True) h"
  unfolding resolution_failed_def
  by (intro wp_bindI readRunnableRun_wp wp_case_sum wp_ifI wp_returnI wp_setCondition wp_requests conjI TrueI)
    (auto intro!: admits_patch [OF assms] intro: admits_quiet [OF assms] dest!: runnable_fresh)

text \<open>A revision launches the analysis, from the run itself or from the answer to its label patch.\<close>

lemma revise_gated:
  assumes "unsuspended (drop n h)"
    and "fresh_base (rKube r) h run \<and> \<not> HasAcceptedStop (rKube r) run \<or> (\<exists>lock b b'. EvMetaPatch lock b b' (Inr run) \<in> set h)"
  shows "wp (reconcile_event (rKube r) n) (revise r run resolved) (\<lambda>_ _. True) h"
proof (rule wp_later, rule revise_wp [OF admits_later [OF reconcile_event_admits]])
  show "(\<exists>es. h' = h @ es) \<longrightarrow> reconcile_event (rKube r) n h' (EvAgent (CallAnalyze run2 (rwAnalysis resolved)))"
    if "marked_in_progress (rKube r) h' run run2 AgenticRunConditionAnalyzed" for h' run2
    using that unsuspended_mono [OF assms(1) drop_later] by (auto simp: reconcile_event_def launch_gated_def)
  show "(\<exists>es. h' = h @ es) \<longrightarrow> reconcile_event (rKube r) n h' (EvStatusPatch run new res)" for h' new res
    using assms(2) by (auto simp: reconcile_event_def)
qed

lemma handleRevision_wp:
  assumes "unsuspended (drop n h)" "fresh_base (rKube r) h run" "\<not> HasAcceptedStop (rKube r) run"
  shows "wp (reconcile_event (rKube r) n) (handleRevision r run resolved) (\<lambda>_ _. True) h"
  unfolding handleRevision_def
  by (intro wp_ifI wp_bindI wp_requests wp_case_sum wp_returnI revise_gated conjI TrueI)
    (auto simp: assms reconcile_event_meta intro: unsuspended_mono [OF assms(1)])

end

context reconciler
begin

lemma route_phase_wp:
  assumes un: "unsuspended (drop n h)" and ap: "approval_read (drop n h) run approval" "policy_read (drop n h) policy"
    and run: "fresh_base (rKube r) h run" "\<not> HasAcceptedStop (rKube r) run"
  shows "wp (reconcile_event (rKube r) n) (route_phase r run phase resolved approval policy) (\<lambda>_ _. True) h"
proof -
  let ?P = "\<lambda>h' e. (\<exists>es. h' = h @ es) \<longrightarrow> reconcile_event (rKube r) n h' e"
  note adm = admits_later [OF reconcile_event_admits, of _ h]
  have gate: "approved_launch (rKube r) n h' stage ct run2"
    if "isStageApproved (Some approval) policy stage" "\<not> isStageDenied (Some approval) stage"
      "marked_in_progress (rKube r) h' run run2 ct" "h' = h @ es" for h' es stage ct run2
    using that(1-3) unsuspended_mono [OF un drop_later, of es] approval_read_mono [OF ap(1) drop_later, of es]
      policy_read_mono [OF ap(2) drop_later, of es] run
    unfolding approved_launch_def that(4) by (metis fresh_base_append)
  have analysis: "wp ?P (handleAnalysis r run resolved (Some approval) policy) (\<lambda>_ _. True) h"
    using unsuspended_mono [OF un drop_later]
    by (intro handleAnalysis_wp adm run) (auto simp: reconcile_event_def launch_gated_def)
  have execution: "wp ?P (handleExecution r run resolved (Some approval) policy) (\<lambda>_ _. True) h"
    by (intro handleExecution_wp adm run) (auto simp: reconcile_event_def launch_gated_def intro: gate)
  have verification: "wp ?P (handleVerification r run resolved (Some approval) policy) (\<lambda>_ _. True) h"
    by (intro handleVerification_wp adm run) (auto simp: reconcile_event_def launch_gated_def intro: gate)
  have escalation: "wp ?P (handleEscalation r run resolved (Some approval) policy) (\<lambda>_ _. True) h"
    by (intro handleEscalation_wp adm run) (auto simp: reconcile_event_def launch_gated_def intro: gate)
  show ?thesis
    unfolding route_phase_def Let_def
    by (intro wp_ifI wp_returnI TrueI handleRevision_wp un run wp_later [OF analysis] wp_later [OF execution]
        wp_later [OF verification] wp_later [OF escalation])
qed

lemma reconcile_workflow_wp:
  assumes n: "n \<le> length h" and un: "unsuspended (drop n h)"
    and run: "fresh_base (rKube r) h run" "\<not> HasAcceptedStop (rKube r) run"
  shows "wp (reconcile_event (rKube r) n) (reconcile_workflow r run phase) (\<lambda>_ _. True) h"
proof -
  have allow: "approval_event e \<or> resolve_event e \<Longrightarrow> reconcile_event (rKube r) n h e" for h e
    using admits_quiet [OF reconcile_event_admits] quiet_events by blast
  have step: "wp (reconcile_event (rKube r) n) (resolveAgenticRun (rKube r) run (Some approval) (rNamespace r))
      (\<lambda>w. wp (reconcile_event (rKube r) n) (case w of Inl err \<Rightarrow> resolution_failed r run err
         | Inr resolved \<Rightarrow> route_phase r run phase resolved approval policy) (\<lambda>_ _. True)) (h @ es @ es')"
    if "approval_read es' run approval" "policy_read es policy" for approval policy es es'
  proof -
    have "unsuspended (drop n ((h @ es @ es') @ fs))" for fs
      using un by (rule unsuspended_mono) auto
    moreover have "approval_read (drop n ((h @ es @ es') @ fs)) run approval" for fs
      using that(1) by (rule approval_read_mono) (use n in auto)
    moreover have "policy_read (drop n ((h @ es @ es') @ fs)) policy" for fs
      using that(2) by (rule policy_read_mono) (use n in auto)
    moreover have "fresh_base (rKube r) ((h @ es @ es') @ fs) run" for fs
      using run(1) by simp
    ultimately show ?thesis
      by (intro resolveAgenticRun_wp wp_case_sum resolution_failed_wp reconcile_event_admits route_phase_wp run(2))
        (simp_all only: allow simp_thms)
  qed
  show ?thesis
    unfolding reconcile_workflow_def
    by (intro wp_bindI getApprovalPolicy_reads ensureAgenticRunApproval_reads wp_letI wp_case_sum wp_returnI TrueI)
      (auto simp: allow intro!: step)
qed

lemma reconcile_active_wp:
  assumes "n \<le> length h" "unsuspended (drop n h)" and "fresh_base (rKube r) h run" "\<not> HasAcceptedStop (rKube r) run"
  shows "wp (reconcile_event (rKube r) n) (reconcile_active r run) (\<lambda>_ _. True) h"
  unfolding reconcile_active_def Let_def
  by (intro wp_case_option wp_ifI wp_bindI wp_case_prod wp_returnI TrueI handleFailed_wp [OF reconcile_event_admits]
      handleTerminalCleanup_wp reconcile_event_admits_stop reconcile_workflow_wp assms)

lemma reconcile_live_wp:
  assumes "n \<le> length h" "fresh_base (rKube r) h run"
  shows "wp (reconcile_event (rKube r) n) (reconcile_live r run) (\<lambda>_ _. True) h"
proof -
  have later: "unsuspended (drop n h @ drop (n - length h) es)" if "unsuspended es" for es
    using that by (rule unsuspended_mono) (use assms(1) in auto)
  show ?thesis
    unfolding reconcile_live_def
    by (intro wp_bindI read_stop_wp wp_case_sum wp_case_prod wp_ifI wp_returnI TrueI reconcile_suspension_wp
        reconcile_event_admits_stop reconcile_active_wp fresh_base_append assms(2))
      (simp_all add: later trans_le_add1 [OF assms(1)] reconcile_event_def)
qed

lemma Reconcile_wp: "wp (reconcile_event (rKube r) (length h)) (Reconcile r key) (\<lambda>_ _. True) h"
  unfolding Reconcile_def
  by (intro wp_ifI wp_bindI wp_requests wp_audit wp_case_sum wp_returnI TrueI conjI reconcile_deletion_wp
      reconcile_event_admits_stop reconcile_live_wp reconcile_event_meta fresh_baseI)
    (auto intro: admits_quiet [OF reconcile_event_admits])

end

section \<open>Guarantees of a reconciliation\<close>

subsection \<open>Launches are gated\<close>

text \<open>
  C4: In one reconciliation an agent is launched only in a system that this reconciliation has read as not
  suspended, and for a run marked in progress by an accepted patch. Execution, verification and escalation
  need in addition that the version of the run that was marked had no accepted stop, and that the approval of the run's name, read or
  created by this reconciliation, together with the policy this reconciliation has read (none, if the read failed) approves and does not
  deny their stage.
\<close>

theorem launches_gated:
  assumes "reconciler r" and "i < length (new_events (Reconcile r key) h)"
    and "new_events (Reconcile r key) h ! i = EvAgent call"
  shows "launch_gated (rKube r) (length h) (h @ take i (new_events (Reconcile r key) h)) call"
  using good_nth [OF wp_new_events [OF reconciler.Reconcile_wp [OF assms(1)]] assms(2)] assms(3)
  by (simp add: reconcile_event_def)

text \<open>An approved plan: the execution is the last event of the reconciliation.\<close>

definition proposed_run :: AgenticRun where
  "proposed_run = set_conditions (finalizing sample_run) [cond AgenticRunConditionAnalyzed ConditionTrue ReasonSucceeded]"

definition approved_world :: world where
  "approved_world = empty_world\<lparr>wRuns := [proposed_run], wApprovals := [sample_approval], wAgents := [sample_agent],
     wLLMs := [sample_llm], wSecrets := [(\<lparr>kName = ''llm-creds'', kNamespace = ''openshift-lightspeed''\<rparr>, Map.empty)]\<rparr>"

definition executes :: "event \<Rightarrow> bool" where
  "executes e = (case e of EvAgent call \<Rightarrow> (case call of CallExecute _ _ _ \<Rightarrow> True | _ \<Rightarrow> False) | _ \<Rightarrow> False)"

definition reconcile_sample :: "world \<Rightarrow> event list" where
  "reconcile_sample W = new_events (Reconcile (sample_reconciler W) (run_key sample_run)) []"

lemma approved_execution: "map executes (reconcile_sample approved_world) = replicate 9 False @ [True]"
  by code_simp

theorem launches_gated_witness:
  "\<exists>i call. reconcile_sample approved_world ! i = EvAgent call \<and> launches_agent call \<and>
     launch_gated (ref_server approved_world) 0 (take i (reconcile_sample approved_world)) call"
proof -
  let ?es = "reconcile_sample approved_world"
  have len: "length ?es = 10" and "executes (?es ! 9)"
    using arg_cong [OF approved_execution, of length] arg_cong [OF approved_execution, of "\<lambda>xs. xs ! 9"]
    by (simp_all add: nth_append)
  then obtain call where call: "?es ! 9 = EvAgent call" "launches_agent call"
    by (auto simp: executes_def split: event.splits AgentCall.splits)
  with launches_gated [OF sample_reconciler_valid(1), of 9 approved_world "run_key sample_run" "[]" call] len
  show ?thesis by (auto simp: reconcile_sample_def sample_reconciler_valid(3))
qed

subsection \<open>A suspended system\<close>

definition launch_event :: "event \<Rightarrow> bool" where
  "launch_event e = (case e of EvAgent call \<Rightarrow> launches_agent call | EvSandboxCreate _ _ _ _ _ _ \<Rightarrow> True
     | EvDeleteRun _ _ \<Rightarrow> True | _ \<Rightarrow> False)"

lemma idle_admits_stop: "admits_stop K (\<lambda>h e. \<not> launch_event e)"
  by (auto simp: admits_stop_def launch_event_def stop_event_def split: event.splits)

lemma read_stop_suspended:
  assumes "\<And>h'. \<exists>c. on_get_config (rKube r) h' = Inr c \<and> olSuspended c" and "\<And>h c. P h (EvGetConfig c)"
    and "\<And>e es. Q (Inl e) (h @ es)" and "\<And>start cur es. Q (Inr (True, False, start, cur)) (h @ es)"
    and "\<And>start cur es. Q (Inr (False, True, start, cur)) (h @ es)"
  shows "wp P (read_stop r run) Q h"
proof -
  obtain c where c: "on_get_config (rKube r) h = Inr c" "olSuspended c"
    using assms(1) by blast
  have "Q (Inr (True, False, 0, False)) h" "\<And>e. Q (Inl e) h"
    using assms(4) [of _ _ "[]"] assms(3) [of _ "[]"] by simp_all
  with c show ?thesis
    unfolding read_stop_def readSuspensionActivation_def getConfig_def
    by (intro wp_bindI wp_ifI wp_returnI wp_performI)
      (auto simp: assms(2,5) split: option.split)
qed

text \<open>
  C5: In a suspended system a reconciliation launches nothing: whenever every read of the configuration
  answers that the system is suspended, no agent is launched, no sandbox created and no run deleted, whatever the
  state of the run and of the activation.
\<close>

theorem suspended_system_is_idle:
  assumes "reconciler r" and suspended: "\<And>h'. \<exists>c. on_get_config (rKube r) h' = Inr c \<and> olSuspended c"
    and "e \<in> set (new_events (Reconcile r key) h)"
  shows "\<not> launch_event e"
proof -
  note allowed = admits_stop_simps [OF idle_admits_stop [of "rKube r"]]
  have live: "wp (\<lambda>_ e. \<not> launch_event e) (reconcile_live r run) (\<lambda>_ _. True) h" for run h
    unfolding reconcile_live_def
    by (intro wp_bindI read_stop_suspended [OF suspended] wp_case_sum wp_case_prod wp_ifI wp_returnI TrueI
        reconciler.reconcile_suspension_wp [OF assms(1)] idle_admits_stop allowed(6)) simp_all
  have "wp (\<lambda>_ e. \<not> launch_event e) (Reconcile r key) (\<lambda>_ _. True) h"
    unfolding Reconcile_def
    by (intro wp_ifI wp_bindI wp_requests wp_audit wp_case_sum wp_returnI TrueI conjI live allowed(2,3,5)
        reconciler.reconcile_deletion_wp [OF assms(1)] idle_admits_stop)
  then show ?thesis using assms(3) by (rule wp_new_events_mem)
qed

text \<open>The approved plan of the previous example waits while the system is suspended: the acceptance of its stop is all that happens first.\<close>

definition suspended_config :: AgenticOLSConfig where
  "suspended_config = \<lparr>olMeta = no_meta, olSuspended = True, olConditions = [cond AgenticOLSConfigConditionSuspended ConditionTrue ''Suspended'']\<rparr>"

theorem suspended_system_is_idle_witness:
  "let es = reconcile_sample (approved_world\<lparr>wConfig := Some suspended_config\<rparr>) in
     es \<noteq> [] \<and> list_all (\<lambda>e. \<not> launch_event e) es"
proof -
  let ?W = "approved_world\<lparr>wConfig := Some suspended_config\<rparr>"
  have "\<exists>c. on_get_config (rKube (sample_reconciler ?W)) h' = Inr c \<and> olSuspended c" for h'
    by (simp add: sample_reconciler_valid(3) ref_server_answers suspended_config_def)
  moreover have "map executes (take 1 (reconcile_sample ?W)) = [False]" by code_simp
  then have "reconcile_sample ?W \<noteq> []" by auto
  ultimately show ?thesis
    using suspended_system_is_idle [OF sample_reconciler_valid(1), of ?W] by (auto simp: reconcile_sample_def list_all_iff)
qed

subsection \<open>Finalizers\<close>

text \<open>
  A run that is not being deleted gets both finalizers before anything else happens to it: when one is
  missing, the reconciliation reads the run and patches both in, ends with an error if the patch is refused,
  and continues with the run read again otherwise.
\<close>

theorem finalizers_first:
  assumes "reconciler r" and "rAPIReader r" and "on_get_run (rKube r) h key = Inr run" and "IsZero (mDeletionTimestamp (rMeta run))"
    and "\<not> {rbacCleanupFinalizer, templogCleanupFinalizer} \<subseteq> set (mFinalizers (rMeta run))"
  shows "\<exists>new res rest. new_events (Reconcile r key) h = [EvGetRun key (Inr run), EvMetaPatch False run new res] @ rest \<and>
     mFinalizers (rMeta new) = mFinalizers (rMeta run) @
       filter (\<lambda>f. f \<notin> set (mFinalizers (rMeta run))) [rbacCleanupFinalizer, templogCleanupFinalizer] \<and>
     (\<forall>e. res = Inl e \<longrightarrow> rest = [] \<and> returned (Reconcile r key) h = (no_result, Some (WrapError ''add finalizer'' e))) \<and>
     (\<forall>run'. res = Inr run' \<longrightarrow> (\<exists>x more. rest = EvGetRun key x # more))"
proof -
  let ?new = "AddFinalizer (AddFinalizer run rbacCleanupFinalizer) templogCleanupFinalizer"
  let ?h1 = "h @ [EvGetRun key (Inr run)]"
  let ?res = "on_meta_patch (rKube r) ?h1 False run ?new"
  let ?k2 = "\<lambda>g2. case g2 of Inl e \<Rightarrow> State_Monad.return (no_result, IgnoreNotFound e) | Inr run2 \<Rightarrow> reconcile_live r run2"
  let ?k1 = "\<lambda>p. case p of Inl e \<Rightarrow> fail_with (WrapError ''add finalizer'' e) | Inr (_ :: AgenticRun) \<Rightarrow> getRun (rKube r) key \<bind> ?k2"
  have again: "wp (reconcile_event (rKube r) 0) (?k2 (on_get_run (rKube r) h' key)) (\<lambda>_ _. True)
      (h' @ [EvGetRun key (on_get_run (rKube r) h' key)])" for h'
    by (cases "on_get_run (rKube r) h' key")
      (auto intro!: wp_returnI reconciler.reconcile_live_wp [OF assms(1)] fresh_baseI)
  have rest: "new_events (?k1 (Inl e)) h' = []" "returned (?k1 (Inl e)) h' = (no_result, Some (WrapError ''add finalizer'' e))"
    "\<exists>x more. new_events (?k1 (Inr run')) h' = EvGetRun key x # more" for e h' run'
    using new_events_perform(1) [where f = "\<lambda>h. on_get_run (rKube r) h key" and ev = "EvGetRun key" and k = ?k2, OF again, of h'] by (simp_all add: new_events_def returned_def getRun_def)
  have ext: "wp (reconcile_event (rKube r) 0) (?k1 ?res) (\<lambda>_ _. True) (?h1 @ [EvMetaPatch False run ?new ?res])"
    by (cases ?res) (auto intro!: wp_returnI wp_bindI wp_performI again simp: getRun_def reconcile_event_def)
  have step: "run_state (Reconcile r key) h = run_state (?k1 ?res) (?h1 @ [EvMetaPatch False run ?new ?res])"
    using assms(2-5) unfolding Reconcile_def getRun_def patchMeta_def by auto
  have events: "new_events (Reconcile r key) h = [EvGetRun key (Inr run), EvMetaPatch False run ?new ?res] @
      new_events (?k1 ?res) (?h1 @ [EvMetaPatch False run ?new ?res])"
    unfolding new_events_def [of "Reconcile r key"] step wp_history [OF ext] by simp
  have "mFinalizers (rMeta ?new) = mFinalizers (rMeta run) @
      filter (\<lambda>f. f \<notin> set (mFinalizers (rMeta run))) [rbacCleanupFinalizer, templogCleanupFinalizer]"
    by (simp add: AddFinalizer_def go_consts)
  moreover have "returned (Reconcile r key) h = returned (?k1 ?res) (?h1 @ [EvMetaPatch False run ?new ?res])"
    by (simp add: returned_def step)
  ultimately show ?thesis
    using events rest by (intro exI [of _ ?new] exI [of _ ?res] exI conjI) auto
qed

theorem finalizers_first_witness:
  "\<exists>new res rest. reconcile_sample sample_world = [EvGetRun (run_key sample_run) (Inr sample_run), EvMetaPatch False sample_run new res] @ rest \<and>
     mFinalizers (rMeta new) = [rbacCleanupFinalizer, templogCleanupFinalizer]"
proof -
  have "on_get_run (rKube (sample_reconciler sample_world)) [] (run_key sample_run) = Inr sample_run"
    by (simp add: sample_reconciler_valid(3) ref_server_answers sample_world_def empty_world_def server_defs sample_run_def no_meta_def)
  moreover have "rAPIReader (sample_reconciler sample_world)" "IsZero (mDeletionTimestamp (rMeta sample_run))"
    "mFinalizers (rMeta sample_run) = []"
    by (simp_all add: sample_reconciler_def sample_run_def no_meta_def)
  ultimately show ?thesis
    using finalizers_first [OF sample_reconciler_valid(1), of sample_world "[]" "run_key sample_run" sample_run]
    by (auto simp: reconcile_sample_def)
qed

definition writes_run :: "event \<Rightarrow> bool" where
  "writes_run e = (case e of EvStatusPatch _ _ _ \<Rightarrow> True | EvMetaPatch _ _ _ _ \<Rightarrow> True | EvDeleteRun _ _ \<Rightarrow> True | _ \<Rightarrow> False)"

lemma read_stop_active:
  assumes "rAPIReader r" and "\<not> HasAcceptedStop (rKube r) run"
    and "\<And>h'. case on_get_config (rKube r) h' of Inl e \<Rightarrow> IsNotFound e | Inr c \<Rightarrow> \<not> olSuspended c"
    and "\<And>h c. P h (EvGetConfig c)" and "\<And>c. Q (Inr (False, False, 0, False)) (h @ [EvGetConfig c])"
  shows "wp P (read_stop r run) Q h"
  using assms(1,2) assms(3) [of h]
  unfolding read_stop_def readSuspensionActivation_def getConfig_def
  by (intro wp_bindI wp_ifI wp_returnI wp_performI) (auto simp: assms(4,5) IgnoreNotFound_def split: sum.splits)

text \<open>
  C36: A run that is being deleted, has no accepted stop and is in a system that is not suspended (or has no configuration) keeps its
  finalizers until its sandboxes are released: while the release fails, the deletion reports the failure and changes nothing of the run.
\<close>

theorem deletion_waits_for_release:
  assumes "reconciler r" and "rAPIReader r" and "on_get_run (rKube r) h key = Inr run"
    and "\<not> IsZero (mDeletionTimestamp (rMeta run))" and "rbacCleanupFinalizer \<in> set (mFinalizers (rMeta run))"
    and "\<not> HasAcceptedStop (rKube r) run"
    and "\<And>h'. case on_get_config (rKube r) h' of Inl e \<Rightarrow> IsNotFound e | Inr c \<Rightarrow> \<not> olSuspended c"
    and "\<And>h'. returned (agent_call (rAgent r) (CallReleaseSandboxes run False)) h' = Some err"
  shows "returned (Reconcile r key) h = (no_result, Some (WrapError ''release sandboxes during deletion'' err)) \<and>
     (\<forall>e \<in> set (new_events (Reconcile r key) h). \<not> writes_run e)"
proof -
  let ?Q = "\<lambda>x h'. x = (no_result, Some (WrapError ''release sandboxes during deletion'' err))"
  have reads_only: "\<not> writes_run (EvAudit a)" "\<not> writes_run (EvGetConfig c)" for a c
    by (simp_all add: writes_run_def)
  have quiet: "release_event e \<Longrightarrow> \<not> writes_run e" for e
    by (auto simp: release_event_def rbac_event_def writes_run_def split: event.splits)
  have "wp (\<lambda>_ e. \<not> writes_run e) (agent_call (rAgent r) (CallReleaseSandboxes run False)) (\<lambda>_ _. True) h'" for h'
    by (rule agent_caller.release_call_wp [OF reconciler.agent [OF assms(1)]]) (auto dest: quiet simp: writes_run_def)
  then have release: "wp (\<lambda>_ e. \<not> writes_run e) (agent_call (rAgent r) (CallReleaseSandboxes run False)) (\<lambda>x h'. x = Some err) h'" for h'
    using wp_returned assms(8) by fastforce
  have "wp (\<lambda>_ e. \<not> writes_run e) (reconcile_deletion r run) ?Q h'" for h'
    unfolding reconcile_deletion_def
    by (intro wp_bindI wp_audit read_stop_active [OF assms(2,6,7)])
      (auto simp: assms(5) reads_only intro!: wp_bindI wp_mono [OF release] wp_returnI)
  then have whole: "wp (\<lambda>_ e. \<not> writes_run e) (Reconcile r key) ?Q h"
    unfolding Reconcile_def getRun_def using assms(2-4) by (auto intro!: wp_bindI wp_performI simp: writes_run_def)
  show ?thesis
    using wp_new_events_mem [OF whole] returned_wp [OF whole] by simp
qed

definition refusing_caller :: AgentCaller where
  "refusing_caller = StubAgentCaller\<lparr>acReleaseSandboxes := \<lambda>_ _. State_Monad.return (Some (NewError ''api down''))\<rparr>"

interpretation refusing: agent_caller refusing_caller K for K
  by unfold_locales (auto simp: refusing_caller_def StubAgentCaller_def intro!: wp_returnI emit)

definition deleted_run :: AgenticRun where
  "deleted_run = finalizing (sample_run\<lparr>rMeta := (rMeta sample_run)\<lparr>mDeletionTimestamp := 5\<rparr>\<rparr>)"

definition deletion_reconciler :: Reconciler where
  "deletion_reconciler = (sample_reconciler (empty_world\<lparr>wRuns := [deleted_run],
     wConfig := Some (suspended_config\<lparr>olSuspended := False\<rparr>)\<rparr>))\<lparr>rAgent := refusing_caller\<rparr>"

theorem deletion_waits_for_release_witness:
  "returned (Reconcile deletion_reconciler (run_key sample_run)) [] =
     (no_result, Some (WrapError ''release sandboxes during deletion'' (NewError ''api down'')))"
proof -
  note defs = deletion_reconciler_def sample_reconciler_def
  have "reconciler deletion_reconciler"
    by (rule reconciler.intro) (simp add: defs refusing.agent_caller_axioms)
  moreover have "on_get_run (rKube deletion_reconciler) [] (run_key sample_run) = Inr deleted_run"
    by (simp add: defs ref_server_answers empty_world_def server_defs sample_run_def deleted_run_def no_meta_def)
  moreover have "rAPIReader deletion_reconciler" "\<not> IsZero (mDeletionTimestamp (rMeta deleted_run))"
    "rbacCleanupFinalizer \<in> set (mFinalizers (rMeta deleted_run))"
    by (simp_all add: defs deleted_run_def)
  moreover have "\<not> HasAcceptedStop (rKube deletion_reconciler) deleted_run" by code_simp
  moreover have "case on_get_config (rKube deletion_reconciler) h' of Inl e \<Rightarrow> IsNotFound e | Inr c \<Rightarrow> \<not> olSuspended c" for h'
    by (simp add: defs ref_server_answers)
  moreover have "returned (agent_call (rAgent deletion_reconciler) (CallReleaseSandboxes deleted_run False)) h' = Some (NewError ''api down'')" for h'
    by (simp add: defs returned_def agent_call_def refusing_caller_def)
  ultimately show ?thesis using deletion_waits_for_release by blast
qed

subsection \<open>Terminal runs\<close>

text \<open>
  A terminal run stays at rest: when the run that is read carries its finalizers, is in a terminal phase and has no
  revision due, reconciling it launches nothing and deletes no run.
\<close>

theorem terminal_runs_rest:
  assumes "reconciler r" and "on_get_run (rKube r) h key = Inr run"
    and "{rbacCleanupFinalizer, templogCleanupFinalizer} \<subseteq> set (mFinalizers (rMeta run))"
    and "isTerminal (DerivePhase (conditions run))" and "\<not> needsRevision (rKube r) run"
    and "e \<in> set (new_events (Reconcile r key) h)"
  shows "\<not> launch_event e"
proof -
  note allowed = admits_stop_simps [OF idle_admits_stop [of "rKube r"]]
  have failed: "wp (\<lambda>_ e. \<not> launch_event e) (handleFailed r run) Q h" if "\<And>x es. Q x (h @ es)" for run Q h
    by (rule emits_wp [OF handleFailed_emits]) (use that in \<open>auto simp: launch_event_def rbac_event_def split: event.splits\<close>)
  have active: "wp (\<lambda>_ e. \<not> launch_event e) (reconcile_active r run) (\<lambda>_ _. True) h" for h
    using assms(4,5) unfolding reconcile_active_def Let_def
    by (intro wp_case_option wp_ifI wp_bindI wp_case_prod wp_returnI TrueI failed
      reconciler.handleTerminalCleanup_wp [OF assms(1)] idle_admits_stop) (auto simp: isTerminal_def split: AgenticRunPhase.splits)
  have live: "wp (\<lambda>_ e. \<not> launch_event e) (reconcile_live r run) (\<lambda>_ _. True) h" for h
    unfolding reconcile_live_def
    by (intro wp_bindI read_stop_wp wp_case_sum wp_case_prod wp_ifI wp_returnI TrueI active
        reconciler.reconcile_suspension_wp [OF assms(1)] idle_admits_stop allowed(6))
  have deletion: "wp (\<lambda>_ e. \<not> launch_event e) (reconcile_deletion r run) (\<lambda>_ _. True) h" for h
    by (rule reconciler.reconcile_deletion_wp [OF assms(1) idle_admits_stop])
  have "wp (\<lambda>_ e. \<not> launch_event e) (Reconcile r key) (\<lambda>_ _. True) h"
    unfolding Reconcile_def getRun_def using assms(2,3)
    by (auto intro!: wp_bindI wp_performI wp_returnI live deletion simp: allowed(5))
  then show ?thesis using assms(6) by (rule wp_new_events_mem)
qed

theorem terminal_runs_rest_witness:
  "reconcile_sample (empty_world\<lparr>wRuns := [terminal_run]\<rparr>) \<noteq> [] \<and>
   list_all (\<lambda>e. \<not> launch_event e) (reconcile_sample (empty_world\<lparr>wRuns := [terminal_run]\<rparr>))"
proof -
  let ?r = "sample_reconciler (empty_world\<lparr>wRuns := [terminal_run]\<rparr>)"
  have get: "on_get_run (rKube ?r) [] (run_key sample_run) = Inr terminal_run"
    by (simp add: sample_reconciler_valid(3) ref_server_answers empty_world_def server_defs sample_run_def terminal_run_def no_meta_def)
  have "isTerminal (DerivePhase (conditions terminal_run))" "\<not> needsRevision (rKube ?r) terminal_run"
    by code_simp+
  moreover have "{rbacCleanupFinalizer, templogCleanupFinalizer} \<subseteq> set (mFinalizers (rMeta terminal_run))" by (simp add: terminal_run_def)
  moreover have "map executes (take 1 (reconcile_sample (empty_world\<lparr>wRuns := [terminal_run]\<rparr>))) = [False]" by code_simp
  then have "reconcile_sample (empty_world\<lparr>wRuns := [terminal_run]\<rparr>) \<noteq> []" by auto
  ultimately show ?thesis
    using terminal_runs_rest [OF sample_reconciler_valid(1) get] by (auto simp: reconcile_sample_def list_all_iff)
qed

end
