(* ===== verification/TimeoutHandler.thy ===== *)
theory TimeoutHandler
  imports RunReconciler
begin

text \<open>
  The periodic work of the run controller: \<^verbatim>\<open>controller/agenticrun/timeout_handler.go\<close>.

  Every minute the sandboxes are listed, from the pods or from pods and sandbox claims, and each one whose step is
  still in progress is checked against its start-up and its overall deadline; finished pods whose
  completion was missed are completed again. Every hour the expired terminal runs are deleted.

  The lemmas show that the sweep deletes expired terminal runs only, that a step is failed for its time only
  after the deadline of its sandbox, and that the timeout work writes runs only through guarded reads and
  reconciliations.
\<close>

section \<open>Clocks\<close>

text \<open>\<open>time.Time.Sub\<close> saturates at the bounds of a 64-bit duration.\<close>

definition time_sub :: "Time \<Rightarrow> Time \<Rightarrow> Duration" where
  "time_sub t u = max (- (2 ^ 63)) (min (2 ^ 63 - 1) (t - u))"

text \<open>\<open>time.Duration.String\<close> for whole seconds from one minute on.\<close>

definition duration_string :: "Duration \<Rightarrow> string" where
  "duration_string d =
    (let s = d div Second; h = s div 3600; m = (s div 60) mod 60 in
     (if h > 0 then sprint_int h @ ''h'' else '''') @ sprint_int m @ ''m'' @ sprint_int (s mod 60) @ ''s'')"

definition startTimedOut :: "PodPhase \<Rightarrow> Time \<Rightarrow> Time \<Rightarrow> Duration \<Rightarrow> bool" where
  "startTimedOut phase created t timeout =
    (if phase = PodRunning \<or> phase = PodSucceeded \<or> phase = PodFailed then False
     else time_sub t created > timeout)"

definition overallTimedOut :: "Time \<Rightarrow> Time \<Rightarrow> Duration \<Rightarrow> bool" where
  "overallTimedOut startedAt t timeout \<longleftrightarrow> time_sub t startedAt > timeout"

definition mainContainerStartedAt :: "Pod option \<Rightarrow> Time" where
  "mainContainerStartedAt pod = (case pod of
      None \<Rightarrow> 0
    | Some p \<Rightarrow>
        (case find (\<lambda>s. csName s = ''agent'' \<and> csRunningStartedAt s \<noteq> None) (pContainerStatuses p) of
           Some s \<Rightarrow> the (csRunningStartedAt s)
         | None \<Rightarrow>
             (case find (\<lambda>s. csRunningStartedAt s \<noteq> None) (pContainerStatuses p) of
                Some s \<Rightarrow> the (csRunningStartedAt s)
              | None \<Rightarrow> 0)))"

section \<open>Expired runs\<close>

definition expired :: "Time \<Rightarrow> AgenticRun \<Rightarrow> bool" where
  "expired t run \<longleftrightarrow>
     (case suDeleteAfter (rStatus run) of None \<Rightarrow> False | Some d \<Rightarrow> \<not> t < d) \<and>
     isTerminal (DerivePhase (conditions run)) \<and>
     \<not> (DerivePhase (conditions run) = AgenticRunPhaseFailed \<and> preserveFailedSandbox run)"

fun sweep_runs :: "Reconciler \<Rightarrow> Time \<Rightarrow> AgenticRun list \<Rightarrow> unit op" where
  "sweep_runs r t [] = State_Monad.return ()"
| "sweep_runs r t (run # rest) =
    (if \<not> expired t run then sweep_runs r t rest
     else do {
       deleteRun (rKube r) (run_key run);
       sweep_runs r t rest
     })"

definition sweepExpiredRuns :: "Reconciler \<Rightarrow> error option op" where
  "sweepExpiredRuns r = do {
     l \<leftarrow> listRuns (rKube r) (Some (terminalTTLLabel, ''true''));
     case l of
       Inl e \<Rightarrow> State_Monad.return (Some (WrapError ''list terminal AgenticRuns'' e))
     | Inr items \<Rightarrow> do {
         t \<leftarrow> now (rKube r);
         sweep_runs r t items;
         State_Monad.return None
       }
   }"

section \<open>Listing the sandboxes\<close>

record podEntry =
  pePod :: "Pod option"
  peStep :: string
  peRunName :: string
  peRunUID :: UID
  peCreated :: Time

definition bare_entries :: "Pod list \<Rightarrow> podEntry list" where
  "bare_entries pods = List.map_filter (\<lambda>pod.
     case resolveBarePodMetadata pod of (step, runName, runUID) \<Rightarrow>
       if step = '''' \<or> runUID = '''' then None
       else Some \<lparr>pePod = Some pod, peStep = step, peRunName = runName, peRunUID = runUID,
              peCreated = mCreationTimestamp (pMeta pod)\<rparr>) pods"

definition listBarePods :: "Reconciler \<Rightarrow> podEntry list op" where
  "listBarePods r = do {
     l \<leftarrow> listPods (rKube r) RunAndStepLabels;
     State_Monad.return (case l of Inl e \<Rightarrow> [] | Inr pods \<Rightarrow> bare_entries pods)
   }"

fun claim_creation :: "kube \<Rightarrow> string \<Rightarrow> OwnerReference list \<Rightarrow> (error + Time) op" where
  "claim_creation K namespace [] = State_Monad.return (Inr 0)"
| "claim_creation K namespace (ref # rest) =
    (if oKind ref \<noteq> ''Sandbox'' then claim_creation K namespace rest
     else do {
       g \<leftarrow> getSandboxObject K SandboxKind \<lparr>kName = oName ref, kNamespace = namespace\<rparr>;
       case g of
         Inl e \<Rightarrow> State_Monad.return (Inl e)
       | Inr sb \<Rightarrow> (case claim_owner (mOwnerReferences sb) of
           None \<Rightarrow> claim_creation K namespace rest
         | Some sbRef \<Rightarrow> do {
             c \<leftarrow> getSandboxObject K SandboxClaimKind \<lparr>kName = oName sbRef, kNamespace = namespace\<rparr>;
             State_Monad.return (case c of Inl e \<Rightarrow> Inl e | Inr claim \<Rightarrow> Inr (mCreationTimestamp claim))
           })
     })"

definition sandboxClaimCreationTime :: "kube \<Rightarrow> Pod \<Rightarrow> (error + Time) op" where
  "sandboxClaimCreationTime K pod = claim_creation K (mNamespace (pMeta pod)) (mOwnerReferences (pMeta pod))"

definition seen_key :: "UID \<Rightarrow> string \<Rightarrow> string" where
  "seen_key runUID step = runUID @ [CHR 0x00] @ step"

text \<open>The entries of the pods, whether all of them were resolved, and the keys seen.\<close>

fun sandbox_entries :: "kube \<Rightarrow> Pod list \<Rightarrow> podEntry list \<Rightarrow> string list \<Rightarrow> (bool \<times> podEntry list \<times> string list) op" where
  "sandbox_entries K [] entries seen = State_Monad.return (True, entries, seen)"
| "sandbox_entries K (pod # rest) entries seen = do {
     (i, err) \<leftarrow> resolveSandboxPodMetadata K pod;
     (case i of (step, runName, runUID) \<Rightarrow>
       if err \<noteq> None then State_Monad.return (False, entries, seen)
       else if step = '''' \<or> runUID = '''' then sandbox_entries K rest entries seen
       else do {
         c \<leftarrow> sandboxClaimCreationTime K pod;
         let created = (case c of Inr t \<Rightarrow> if \<not> IsZero t then t else mCreationTimestamp (pMeta pod)
                         | Inl e \<Rightarrow> mCreationTimestamp (pMeta pod));
         sandbox_entries K rest
           (entries @ [\<lparr>pePod = Some pod, peStep = step, peRunName = runName, peRunUID = runUID, peCreated = created\<rparr>])
           (seen_key runUID step # seen)
       })
   }"

definition claim_entries :: "string list \<Rightarrow> ObjectMeta list \<Rightarrow> podEntry list" where
  "claim_entries seen claims = List.map_filter (\<lambda>claim.
     let step = lookup (mLabels claim) LabelStep; runName = lookup (mAnnotations claim) AnnotationRunName;
         runUID = lookup (mLabels claim) LabelRun in
     if step = '''' \<or> runUID = '''' \<or> seen_key runUID step \<in> set seen then None
     else Some \<lparr>pePod = None, peStep = step, peRunName = runName, peRunUID = runUID, peCreated = mCreationTimestamp claim\<rparr>) claims"

definition listSandboxPods :: "Reconciler \<Rightarrow> podEntry list op" where
  "listSandboxPods r = do {
     l \<leftarrow> listPods (rKube r) SandboxNameHash;
     case l of
       Inl e \<Rightarrow> State_Monad.return []
     | Inr pods \<Rightarrow> do {
         (complete, entries, seen) \<leftarrow> sandbox_entries (rKube r) pods [] [];
         if \<not> complete then State_Monad.return entries
         else do {
           c \<leftarrow> listClaims (rKube r);
           State_Monad.return (case c of Inl e \<Rightarrow> entries | Inr claims \<Rightarrow> entries @ claim_entries seen claims)
         }
       }
   }"

section \<open>Timeouts\<close>

text \<open>A missing approval is the zero value, which has no stages.\<close>

definition step_agent_name :: "AgenticRun \<Rightarrow> AgenticRunApproval option \<Rightarrow> string \<Rightarrow> string" where
  "step_agent_name run approval step =
    (if step = ''analysis'' then effectiveStepAgentName approval SandboxStepAnalysis (spAnalysis (rSpec run))
     else if step = ''execution'' then effectiveStepAgentName approval SandboxStepExecution (spExecution (rSpec run))
     else if step = ''verification'' then effectiveStepAgentName approval SandboxStepVerification (spVerification (rSpec run))
     else if step = ''escalation'' then
       (let override = getStageOverrideAgent approval SandboxStepEscalation in
        if override \<noteq> '''' then override
        else effectiveStepAgentName approval SandboxStepAnalysis (spAnalysis (rSpec run)))
     else '''')"

definition resolveStepAgent :: "Reconciler \<Rightarrow> AgenticRun \<Rightarrow> string \<Rightarrow> (error + Agent) op" where
  "resolveStepAgent r run step = do {
     a \<leftarrow> getApproval (rKube r) \<lparr>kName = mName (rMeta run), kNamespace = mNamespace (rMeta run)\<rparr>;
     case a of
       Inl e \<Rightarrow>
         if \<not> IsNotFound e then State_Monad.return (Inl (WrapError ''get AgenticRunApproval'' e))
         else getAgent (rKube r) (step_agent_name run None step)
     | Inr approval \<Rightarrow> getAgent (rKube r) (step_agent_name run (Some approval) step)
   }"

definition reconcileAcceptedStop :: "Reconciler \<Rightarrow> ObjectKey \<Rightarrow> error option \<Rightarrow> unit op" where
  "reconcileAcceptedStop r key err =
    (if (case err of Some e \<Rightarrow> is_stop_accepted e | None \<Rightarrow> False) then do {
       Reconcile r key;
       State_Monad.return ()
     }
     else State_Monad.return ())"

text \<open>A claim without a pod: only the start-up deadline applies.\<close>

definition claim_timeout :: "Reconciler \<Rightarrow> Time \<Rightarrow> podEntry \<Rightarrow> AgenticRun \<Rightarrow> ObjectKey \<Rightarrow> unit op" where
  "claim_timeout r t e run key =
    (if time_sub t (peCreated e) > podStartTimeout then do {
       err \<leftarrow> patchStepCondition r run (stepConditionType (peStep e)) ConditionFalse ReasonSandboxStartupTimeout
         (''sandbox did not start within '' @ duration_string podStartTimeout);
       case err of
         Some x \<Rightarrow> reconcileAcceptedStop r key (Some x)
       | None \<Rightarrow> do {
           g \<leftarrow> readRunnableRun (rKube r) (rAPIReader r) key (run_uid run);
           case g of
             Inr current \<Rightarrow> releaseSandbox r current (peStep e)
           | Inl guardErr \<Rightarrow> reconcileAcceptedStop r key (Some guardErr)
         }
     }
     else State_Monad.return ())"

text \<open>Whether a sandbox has passed one of its deadlines, as message and reason.\<close>

definition overdue :: "Agent \<Rightarrow> Pod \<Rightarrow> string \<Rightarrow> Time \<Rightarrow> Time \<Rightarrow> (string \<times> string) option" where
  "overdue agent pod step created t =
    (let agentTimeout = int64 (resolveTimeout (Some agent) step * Second);
         startedAt = mainContainerStartedAt (Some pod);
         creationDeadline = int64 (int64 (sandboxStartupTimeout + agentTimeout) + sandboxRunningGrace) in
     if overallTimedOut created t creationDeadline \<or>
        \<not> IsZero startedAt \<and> overallTimedOut startedAt t (int64 (agentTimeout + sandboxRunningGrace))
     then Some (''sandbox exceeded timeout '' @ duration_string (int64 (agentTimeout + sandboxRunningGrace)), ReasonSandboxTimeout)
     else None)"

definition pod_timeout :: "Reconciler \<Rightarrow> Time \<Rightarrow> podEntry \<Rightarrow> Pod \<Rightarrow> AgenticRun \<Rightarrow> ObjectKey \<Rightarrow> unit op" where
  "pod_timeout r t e pod run key =
    (let condType = stepConditionType (peStep e); phase = pPhase pod;
         complete = (\<lambda>message reason. do {
           err \<leftarrow> completeStep r run (Some pod) (peStep e) condType message reason;
           reconcileAcceptedStop r key err
         });
         created = (if IsZero (peCreated e) then mCreationTimestamp (pMeta pod) else peCreated e) in
     if phase = PodSucceeded \<or> phase = PodFailed then complete '''' ''''
     else if startTimedOut phase created t podStartTimeout
     then complete (''sandbox pod did not start within '' @ duration_string podStartTimeout) ReasonSandboxStartupTimeout
     else do {
       a \<leftarrow> resolveStepAgent r run (peStep e);
       case a of
         Inl err \<Rightarrow> State_Monad.return ()
       | Inr agent \<Rightarrow> (case overdue agent pod (peStep e) created t of
           None \<Rightarrow> State_Monad.return ()
         | Some (message, reason) \<Rightarrow> complete message reason)
     })"

definition handle_entry :: "Reconciler \<Rightarrow> Time \<Rightarrow> podEntry \<Rightarrow> unit op" where
  "handle_entry r t e = do {
     x \<leftarrow> runForSandboxIdentity r (peRunName e) (peRunUID e);
     case x of
       Inl err \<Rightarrow> State_Monad.return ()
     | Inr None \<Rightarrow> State_Monad.return ()
     | Inr (Some run) \<Rightarrow> do {
         g \<leftarrow> readRunnableRun (rKube r) (rAPIReader r) (run_key run) (run_uid run);
         case g of
           Inl guardErr \<Rightarrow> reconcileAcceptedStop r (run_key run) (Some guardErr)
         | Inr current \<Rightarrow>
             if \<not> isStepInProgress (rKube r) current (stepConditionType (peStep e)) then State_Monad.return ()
             else (case pePod e of
                 None \<Rightarrow> claim_timeout r t e current (run_key run)
               | Some pod \<Rightarrow> pod_timeout r t e pod current (run_key run))
       }
   }"

fun handle_entries :: "Reconciler \<Rightarrow> Time \<Rightarrow> podEntry list \<Rightarrow> unit op" where
  "handle_entries r t [] = State_Monad.return ()"
| "handle_entries r t (e # rest) = do {
     handle_entry r t e;
     handle_entries r t rest
   }"

definition handlePodTimeEvent :: "Reconciler \<Rightarrow> unit op" where
  "handlePodTimeEvent r = do {
     entries \<leftarrow> (if isSandboxClaimMode r then listSandboxPods r else listBarePods r);
     t \<leftarrow> now (rKube r);
     handle_entries r t entries
   }"

text \<open>
  The loop of the timer. It ends when the context is cancelled; the number of ticks the model follows is a
  parameter, and the result says whether the loop has ended by then.
\<close>

fun timeout_ticks :: "Reconciler \<Rightarrow> nat \<Rightarrow> nat \<Rightarrow> bool op" where
  "timeout_ticks r i 0 = State_Monad.return False"
| "timeout_ticks r i (Suc n) = do {
     cancelled \<leftarrow> contextDone (rKube r);
     if cancelled then State_Monad.return True
     else do {
       handlePodTimeEvent r;
       (if i mod 60 = 0 then do { sweepExpiredRuns r; State_Monad.return () } else State_Monad.return ());
       timeout_ticks r (Suc i) n
     }
   }"

definition runTimeoutLoop :: "Reconciler \<Rightarrow> nat \<Rightarrow> bool op" where
  "runTimeoutLoop r ticks = do {
     sweepExpiredRuns r;
     timeout_ticks r 1 ticks
   }"

section \<open>The sweep\<close>

definition deleted_keys :: "event list \<Rightarrow> ObjectKey list" where
  "deleted_keys es = List.map_filter (\<lambda>e. case e of EvDeleteRun key res \<Rightarrow> Some key | _ \<Rightarrow> None) es"

lemma deleted_keys_simps [simp]:
  "deleted_keys [] = []" "deleted_keys (EvDeleteRun key res # es) = key # deleted_keys es"
  "deleted_keys (EvListRuns s l # es) = deleted_keys es" "deleted_keys (EvNow t # es) = deleted_keys es"
  by (simp_all add: deleted_keys_def map_filter_def)

lemma sweep_runs_events:
  "\<exists>es. snd (run_state (sweep_runs r t items) h) = h @ es \<and> deleted_keys es = map run_key (filter (expired t) items) \<and>
     list_all (\<lambda>e. \<exists>key res. e = EvDeleteRun key res) es"
proof (induction items arbitrary: h)
  case (Cons run rest)
  let ?h = "h @ [EvDeleteRun (run_key run) (on_delete_run (rKube r) h (run_key run))]"
  obtain es where "snd (run_state (sweep_runs r t rest) ?h) = ?h @ es"
    and "deleted_keys es = map run_key (filter (expired t) rest)" "list_all (\<lambda>e. \<exists>key res. e = EvDeleteRun key res) es"
    using Cons by blast
  then show ?case
    using Cons [of h] by (auto simp: deleteRun_def intro!: exI)
qed simp

text \<open>
  C19: The hourly sweep requests the deletion of exactly the listed runs whose deadline has passed, that are in a terminal
  phase and that are not failed runs kept for inspection, in the order of the list and regardless of earlier failures.
\<close>

theorem sweep_deletes_expired:
  assumes "on_list_runs (rKube r) h (Some (terminalTTLLabel, ''true'')) = Inr items"
    and "on_now (rKube r) (h @ [EvListRuns (Some (terminalTTLLabel, ''true'')) (Inr items)]) = t"
  shows "deleted_keys (new_events (sweepExpiredRuns r) h) = map run_key (filter (\<lambda>run.
        (\<exists>d. suDeleteAfter (rStatus run) = Some d \<and> d \<le> t) \<and> isTerminal (DerivePhase (conditions run)) \<and>
        (DerivePhase (conditions run) = AgenticRunPhaseFailed \<longrightarrow> \<not> preserveFailedSandbox run)) items) \<and>
     returned (sweepExpiredRuns r) h = None"
proof -
  let ?h = "h @ [EvListRuns (Some (terminalTTLLabel, ''true'')) (Inr items), EvNow t]"
  obtain es where es: "snd (run_state (sweep_runs r t items) ?h) = ?h @ es" "deleted_keys es = map run_key (filter (expired t) items)"
    using sweep_runs_events by blast
  have "new_events (sweepExpiredRuns r) h = [EvListRuns (Some (terminalTTLLabel, ''true'')) (Inr items), EvNow t] @ es"
    and "returned (sweepExpiredRuns r) h = None"
    using assms es(1) by (auto simp: new_events_def returned_def sweepExpiredRuns_def listRuns_def now_def split_beta)
  moreover have "expired t = (\<lambda>run. (\<exists>d. suDeleteAfter (rStatus run) = Some d \<and> d \<le> t) \<and> isTerminal (DerivePhase (conditions run)) \<and>
        (DerivePhase (conditions run) = AgenticRunPhaseFailed \<longrightarrow> \<not> preserveFailedSandbox run))"
    by (auto simp: expired_def fun_eq_iff split: option.split)
  ultimately show ?thesis by (simp add: es(2))
qed

text \<open>Of two terminal runs the one past its deadline goes.\<close>

definition expired_run :: "string \<Rightarrow> Time \<Rightarrow> AgenticRun" where
  "expired_run name d = terminal_run\<lparr>
     rMeta := (rMeta terminal_run)\<lparr>mName := name, mLabels := [terminalTTLLabel \<mapsto> ''true'']\<rparr>,
     rStatus := (rStatus terminal_run)\<lparr>suDeleteAfter := Some d\<rparr>\<rparr>"

theorem sweep_deletes_expired_witness:
  "deleted_keys (new_events (sweepExpiredRuns (sample_reconciler (empty_world\<lparr>wRuns :=
       [expired_run ''old'' 5, expired_run ''new'' 2000000000000]\<rparr>))) []) = [\<lparr>kName = ''old'', kNamespace = ''openshift-lightspeed''\<rparr>]"
proof -
  let ?rs = "[expired_run ''old'' 5, expired_run ''new'' 2000000000000]"
  let ?r = "sample_reconciler (empty_world\<lparr>wRuns := ?rs\<rparr>)"
  have "on_list_runs (rKube ?r) [] (Some (terminalTTLLabel, ''true'')) = Inr ?rs"
    by (simp add: sample_reconciler_valid(3) ref_server_answers select_runs_def live_def expired_run_def terminal_run_def)
  moreover have "on_now (rKube ?r) ([] @ [EvListRuns (Some (terminalTTLLabel, ''true'')) (Inr ?rs)]) = 1000000000001"
    by (simp add: sample_reconciler_valid(3) ref_server_answers empty_world_def)
  moreover have "DerivePhase (conditions (expired_run n d)) = AgenticRunPhaseDenied" for n d
    unfolding expired_run_def by (simp, code_simp)
  moreover have "suDeleteAfter (rStatus (expired_run n d)) = Some d" "mName (rMeta (expired_run n d)) = n"
    "mNamespace (rMeta (expired_run n d)) = ''openshift-lightspeed''" for n d
    by (simp_all add: expired_run_def terminal_run_def sample_run_def)
  ultimately show ?thesis
    using sweep_deletes_expired [of ?r "[]" ?rs] by (simp add: isTerminal_def)
qed

section \<open>Deadlines\<close>

lemma time_sub_gt: "- (2 ^ 63) \<le> d \<Longrightarrow> d < 2 ^ 63 - 1 \<Longrightarrow> time_sub t u > d \<longleftrightarrow> t > u + d"
  by (auto simp: time_sub_def)

lemma overdue_exact:
  assumes "configured_timeout (agTimeouts agent) step < 2 ^ 31"
  shows "overdue agent pod step created t = None \<longleftrightarrow>
     t \<le> created + (resolveTimeout (Some agent) step + 360) * Second \<and>
     (mainContainerStartedAt (Some pod) \<noteq> 0 \<longrightarrow> t \<le> mainContainerStartedAt (Some pod) + (resolveTimeout (Some agent) step + 60) * Second)"
proof -
  have b: "0 < resolveTimeout (Some agent) step" "resolveTimeout (Some agent) step < 2 ^ 31"
    using assms by (auto simp: resolveTimeout_def default_limits)
  have "int64 (resolveTimeout (Some agent) step * Second) = resolveTimeout (Some agent) step * Second"
    using b by (intro int64_id) (simp_all add: Second_def)
  moreover have "int64 (int64 (sandboxStartupTimeout + resolveTimeout (Some agent) step * Second) + sandboxRunningGrace) =
      (resolveTimeout (Some agent) step + 360) * Second"
    using b int64_id [of "sandboxStartupTimeout + resolveTimeout (Some agent) step * Second"]
      int64_id [of "(resolveTimeout (Some agent) step + 360) * Second"]
    by (simp add: sandboxStartupTimeout_def sandboxRunningGrace_def Minute_def Second_def algebra_simps)
  moreover have "int64 (resolveTimeout (Some agent) step * Second + sandboxRunningGrace) = (resolveTimeout (Some agent) step + 60) * Second"
    using b int64_id [of "(resolveTimeout (Some agent) step + 60) * Second"]
    by (simp add: sandboxRunningGrace_def Minute_def Second_def algebra_simps)
  moreover have "- (2 ^ 63) \<le> (resolveTimeout (Some agent) step + 360) * Second" "(resolveTimeout (Some agent) step + 360) * Second < 2 ^ 63 - 1"
    "- (2 ^ 63) \<le> (resolveTimeout (Some agent) step + 60) * Second" "(resolveTimeout (Some agent) step + 60) * Second < 2 ^ 63 - 1"
    using b by (simp_all add: Second_def)
  ultimately show ?thesis
    by (auto simp: overdue_def Let_def overallTimedOut_def time_sub_gt not_less)
qed

text \<open>
  A sandbox within its deadlines is left alone: while a pod is running or within five minutes of its creation, and
  within budget plus six minutes of its creation and budget plus one minute of the start of its main container, for the
  budget of any agent the server may answer, the periodic check of the pod only reads the approval and the agent.
\<close>

theorem sandbox_in_time_untouched:
  assumes "pPhase pod \<noteq> PodSucceeded" and "pPhase pod \<noteq> PodFailed"
    and created: "created = (if IsZero (peCreated e) then mCreationTimestamp (pMeta pod) else peCreated e)"
    and "pPhase pod = PodRunning \<or> t \<le> created + 300 * Second"
    and "\<And>h' n a. on_get_agent (rKube r) h' n = Inr a \<Longrightarrow> configured_timeout (agTimeouts a) (peStep e) < 2 ^ 31 \<and>
      t \<le> created + (resolveTimeout (Some a) (peStep e) + 360) * Second \<and>
      (mainContainerStartedAt (Some pod) = 0 \<or> t \<le> mainContainerStartedAt (Some pod) + (resolveTimeout (Some a) (peStep e) + 60) * Second)"
    and "ev \<in> set (new_events (pod_timeout r t e pod run key) h)"
  shows "(\<exists>k x. ev = EvGetApproval k x) \<or> (\<exists>n x. ev = EvGetAgent n x)"
proof -
  let ?P = "\<lambda>_ ev. (\<exists>k x. ev = EvGetApproval k x) \<or> (\<exists>n x. ev = EvGetAgent n x)"
  have agent: "wp ?P (getAgent (rKube r) n) (\<lambda>a h. case a of Inl _ \<Rightarrow> True | Inr a \<Rightarrow> overdue a pod (peStep e) created t = None) h" for n h
    unfolding getAgent_def using assms(5) [of h n]
    by (intro wp_performI) (auto simp: overdue_exact split: sum.split)
  have resolve: "wp ?P (resolveStepAgent r run (peStep e)) (\<lambda>a h. case a of Inl _ \<Rightarrow> True | Inr a \<Rightarrow> overdue a pod (peStep e) created t = None) h" for h
    unfolding resolveStepAgent_def
    by (intro wp_bindI wp_requests(6) wp_case_sum wp_ifI wp_returnI agent conjI) auto
  have "\<not> startTimedOut (pPhase pod) created t podStartTimeout"
    using assms(4) by (auto simp: startTimedOut_def podStartTimeout_def Minute_def Second_def time_sub_def)
  then have "wp ?P (pod_timeout r t e pod run key) (\<lambda>_ _. True) h"
    using assms(1,2) unfolding pod_timeout_def Let_def created [symmetric]
    by (auto intro!: wp_bindI wp_mono [OF resolve] wp_case_sum wp_returnI)
  then show ?thesis using assms(6) by (rule wp_new_events_mem)
qed

definition running_entry :: podEntry where
  "running_entry = \<lparr>pePod = Some (sample_pod PodRunning ''analysis''), peStep = ''analysis'', peRunName = ''fix-node'', peRunUID = ''u-1'',
     peCreated = 1000000000000\<rparr>"

text \<open>The sample agent has 900 seconds for an analysis; its pod may live for 1260 seconds.\<close>

theorem sandbox_in_time_untouched_witness:
  "list_all (\<lambda>ev. (\<exists>k x. ev = EvGetApproval k x) \<or> (\<exists>n x. ev = EvGetAgent n x))
     (new_events (pod_timeout (sample_reconciler sample_world) (1000000000000 + 1260 * Second) running_entry (sample_pod PodRunning ''analysis'')
        sample_run (run_key sample_run)) [])"
proof -
  have timeout: "resolveTimeout (Some a) ''analysis'' = 900 \<and> configured_timeout (agTimeouts a) ''analysis'' < 2 ^ 31"
    if "on_get_agent (rKube (sample_reconciler sample_world)) h' n = Inr a" for h' n a
    using that by (auto simp: sample_reconciler_valid(3) ref_server_answers sample_world_def sample_agent_def resolveTimeout_def
        configured_timeout_def of_option_def split: if_splits)
  have "mainContainerStartedAt (Some (sample_pod PodRunning ''analysis'')) = 0" "pPhase (sample_pod PodRunning ''analysis'') = PodRunning"
    by (simp_all add: mainContainerStartedAt_def sample_pod_def)
  then show ?thesis
    unfolding list_all_iff
    by (intro ballI sandbox_in_time_untouched [where e = running_entry and created = 1000000000000 and t = "1000000000000 + 1260 * Second"
        and r = "sample_reconciler sample_world"])
      (auto simp: running_entry_def dest!: timeout)
qed

section \<open>The timer writes through guards\<close>

text \<open>The events of an operation, each with the part of the history the operation itself has added before it.\<close>

lemma good_split: "(\<And>fs e gs. es = fs @ e # gs \<Longrightarrow> P (h @ fs) e) \<Longrightarrow> good P h es"
proof (induction es arbitrary: h)
  case (Cons e es)
  have "good P (h @ [e]) es"
  proof (rule Cons.IH)
    show "P ((h @ [e]) @ fs) e'" if "es = fs @ e' # gs" for fs e' gs using Cons.prems [of "e # fs" e' gs] that by simp
  qed
  with Cons.prems [of "[]"] show ?case by simp
qed simp

lemma wp_self:
  assumes "wp P m Q h"
  shows "wp (\<lambda>h' e. P h' e \<and> (\<exists>fs gs. h' = h @ fs \<and> new_events m h = fs @ e # gs)) m Q h"
proof -
  have "good (\<lambda>h' e. \<exists>fs gs. h' = h @ fs \<and> new_events m h = fs @ e # gs) h (new_events m h)"
    by (rule good_split) blast
  with wp_history [OF assms] wp_new_events [OF assms] wp_result [OF assms] show ?thesis
    by (auto simp: wp_def good_conj)
qed

text \<open>
  An event of a reconciliation that the timer has started after the first \<open>n\<close> events; and an event of the timer: a patch or release of a run
  that was just checked, or an event of such a reconciliation.
\<close>

definition within_reconcile :: "Reconciler \<Rightarrow> nat \<Rightarrow> history \<Rightarrow> event \<Rightarrow> bool" where
  "within_reconcile r n h e \<longleftrightarrow> (\<exists>key h1 fs gs. n \<le> length h1 \<and> h = h1 @ fs \<and> new_events (Reconcile r key) h1 = fs @ e # gs)"

definition timer_event :: "Reconciler \<Rightarrow> nat \<Rightarrow> history \<Rightarrow> event \<Rightarrow> bool" where
  "timer_event r n h e \<longleftrightarrow> (checked_event (rKube r) (\<lambda>_. True) h e \<or> within_reconcile r n h e) \<and> (\<exists>m \<ge> n. reconcile_event (rKube r) m h e)"

lemma timer_event_admits_uid: "admits_uid (rKube r) uid (timer_event r n)"
proof -
  have calm: "timer_event r n h e" if "calm e" for h e
    using that checked_event_calm admits_quiet [OF reconcile_event_admits calm_quiet] unfolding timer_event_def by blast
  have patch: "timer_event r n h (EvStatusPatch run new res)" if "checked_now (rKube r) h run" for h run new res
    using that checked_now_fresh [OF that] admits_patch [OF reconcile_event_admits]
    unfolding timer_event_def checked_event_def by fastforce
  have release: "timer_event r n h (EvAgent (CallReleaseSandbox run step))" if "checked_now (rKube r) h run" for h run step
    using that unfolding timer_event_def checked_event_def by (auto simp: reconcile_event_def launch_gated_def)
  from calm patch release show ?thesis
    by (simp add: admits_uid_def)
qed

lemma claim_creation_emits: "emits sandbox_read (claim_creation K ns refs)"
  by (induction K ns refs rule: claim_creation.induct) (auto intro!: emit)

lemma sandbox_entries_emits: "emits sandbox_read (sandbox_entries K pods entries seen)"
  by (induction pods arbitrary: entries seen)
    (auto simp: sandboxClaimCreationTime_def intro!: emit resolveSandboxPodMetadata_emits claim_creation_emits)

lemma listings_emit: "emits calm (listSandboxPods r)" "emits calm (listBarePods r)" "emits calm (resolveStepAgent r run step)"
  unfolding listSandboxPods_def listBarePods_def resolveStepAgent_def
  by (intro emit emits_mono [OF sandbox_entries_emits]; auto dest: sandbox_read_calm intro!: emit)+

context reconciler
begin

lemma reconcileAcceptedStop_wp:
  assumes "\<exists>es. h = h0 @ es" and "\<And>x es. Q x (h @ es)"
  shows "wp (timer_event r (length h0)) (reconcileAcceptedStop r key err) Q h"
proof -
  have "wp (timer_event r (length h0)) (Reconcile r key) (\<lambda>_ _. True) h"
    by (rule wp_mono_event [OF wp_self [OF Reconcile_wp]])
      (use assms(1) in \<open>auto simp: timer_event_def within_reconcile_def intro: le_add1\<close>)
  with assms(2) [of _ "[]"] assms(2) show ?thesis
    unfolding reconcileAcceptedStop_def by (auto intro!: wp_bindI wp_returnI elim!: wp_mono)
qed

lemma claim_timeout_wp:
  assumes "\<exists>es. h = h0 @ es"
  shows "wp (timer_event r (length h0)) (claim_timeout r t e run key) (\<lambda>_ _. True) h"
  unfolding claim_timeout_def releaseSandbox_def
  by (intro wp_ifI wp_bindI step_writers_wp(1) timer_event_admits_uid wp_case_option wp_case_sum wp_returnI TrueI
      guarded_read_wp [OF timer_event_admits_uid] reconcileAcceptedStop_wp release_call_wp)
    (use assms in \<open>auto intro: admits_uid_calm [OF timer_event_admits_uid] calm_events admits_uid_checked [OF timer_event_admits_uid]\<close>)

lemma pod_timeout_wp:
  assumes "\<exists>es. h = h0 @ es"
  shows "wp (timer_event r (length h0)) (pod_timeout r t e pod run key) (\<lambda>_ _. True) h"
  unfolding pod_timeout_def Let_def
  by (intro wp_ifI wp_bindI completeStep_wp timer_event_admits_uid wp_case_option wp_case_sum wp_case_prod wp_returnI TrueI
      emits_wp [OF listings_emit(3)] reconcileAcceptedStop_wp)
    (use assms in \<open>auto intro: admits_uid_calm [OF timer_event_admits_uid]\<close>)

lemma handle_entry_wp:
  assumes "\<exists>es. h = h0 @ es"
  shows "wp (timer_event r (length h0)) (handle_entry r t e) (\<lambda>_ _. True) h"
  unfolding handle_entry_def
  by (intro wp_bindI runForSandboxIdentity_wp [OF timer_event_admits_uid refl] guarded_read_wp [OF timer_event_admits_uid]
      wp_case_sum wp_case_option wp_ifI wp_returnI TrueI reconcileAcceptedStop_wp claim_timeout_wp pod_timeout_wp)
    (use assms in auto)

lemma handle_entries_wp:
  assumes "\<exists>es. h = h0 @ es"
  shows "wp (timer_event r (length h0)) (handle_entries r t entries) (\<lambda>_ _. True) h"
  using assms
proof (induction entries arbitrary: h)
  case (Cons e rest)
  then have "wp (timer_event r (length h0)) (handle_entries r t rest) (\<lambda>_ _. True) (h @ es)" for es
    by (metis append_assoc)
  then show ?case
    by (auto intro!: wp_bindI wp_mono [OF handle_entry_wp [OF Cons.prems]])
qed (simp add: wp_returnI)

lemma handlePodTimeEvent_wp: "wp (timer_event r (length h)) (handlePodTimeEvent r) (\<lambda>_ _. True) h"
  unfolding handlePodTimeEvent_def
  by (intro wp_bindI wp_ifI emits_wp [OF listings_emit(1)] emits_wp [OF listings_emit(2)] wp_requests handle_entries_wp conjI)
    (auto intro: admits_uid_calm [OF timer_event_admits_uid])

end

text \<open>
  C20: The periodic timeout work changes a run or releases its sandbox only right after reading it: every status patch of its own is of a
  run whose last read, without an accepted stop, and a read of the configuration as not suspended were the last requests, and so is
  every release of a sandbox; it makes no other change of a run and no other call of the agent. All else happens within a reconciliation
  of some run that was started during the work, and an agent is launched there only through the gates of any reconciliation. No run is
  deleted.
\<close>

theorem timer_is_gated:
  assumes "reconciler r" and es: "es = new_events (handlePodTimeEvent r) h" and i: "i < length es"
  shows "(checked_event (rKube r) (\<lambda>_. True) (h @ take i es) (es ! i) \<or> within_reconcile r (length h) (h @ take i es) (es ! i)) \<and>
    (case es ! i of EvAgent call \<Rightarrow> \<exists>n \<ge> length h. launch_gated (rKube r) n (h @ take i es) call | EvDeleteRun _ _ \<Rightarrow> False | _ \<Rightarrow> True)"
proof -
  have "timer_event r (length h) (h @ take i es) (es ! i)"
    using good_nth [OF wp_new_events [OF reconciler.handlePodTimeEvent_wp [OF assms(1)]] i [unfolded es]] unfolding es .
  then show ?thesis
    by (cases "es ! i") (auto simp: timer_event_def reconcile_event_def)
qed

definition timeout_world :: world where
  "timeout_world = sample_world\<lparr>wNow := 1000000000000 + 1300 * Second, wPods := [sample_pod PodRunning ''analysis''],
     wRuns := [set_conditions sample_run [cond AgenticRunConditionAnalyzed ConditionUnknown ReasonRunning]]\<rparr>"

definition timeout_sample :: "event list" where
  "timeout_sample = new_events (handlePodTimeEvent (sample_reconciler timeout_world)) []"

lemma timeout_sample_events:
  "map phase_change timeout_sample = replicate 12 None @ [Some (AgenticRunPhaseAnalyzing, AgenticRunPhaseFailed)] @ replicate 5 None"
  by code_simp

text \<open>A pod that has outlived its deadline: its step fails, and the patch is guarded.\<close>

theorem timer_is_gated_witness:
  "\<exists>base new res. timeout_sample ! 12 = EvStatusPatch base new res \<and> DerivePhase (conditions new) = AgenticRunPhaseFailed \<and>
     (checked_event (ref_server timeout_world) (\<lambda>_. True) (take 12 timeout_sample) (EvStatusPatch base new res) \<or>
      within_reconcile (sample_reconciler timeout_world) 0 (take 12 timeout_sample) (EvStatusPatch base new res))"
proof -
  have len: "12 < length timeout_sample"
    and "phase_change (timeout_sample ! 12) = Some (AgenticRunPhaseAnalyzing, AgenticRunPhaseFailed)"
    using arg_cong [OF timeout_sample_events, of length] arg_cong [OF timeout_sample_events, of "\<lambda>xs. xs ! 12"]
    by (simp_all add: nth_append)
  then obtain base new res where e: "timeout_sample ! 12 = EvStatusPatch base new res" "DerivePhase (conditions new) = AgenticRunPhaseFailed"
    by (auto simp: phase_change_Some)
  with timer_is_gated [OF sample_reconciler_valid(1) timeout_sample_def len]
  show ?thesis by (auto simp: sample_reconciler_valid(3))
qed

end
