(* ===== verification/CleanupSafety.thy ===== *)
theory CleanupSafety
  imports CleanupPass
begin

text \<open>
  What the emergency clean-up pass of \<open>CleanupPass\<close> guarantees.

  A pass that reports nothing pending, failed or unverified has, as its last requests, listed every kind of resource and found nothing of the run
  left (\<open>clean_pass_leaves_nothing\<close>). Everything it deletes was read under the label of the run and is deleted by UID
  (\<open>cleanup_deletes_own_objects\<close>), and a pass for a superseded activation changes nothing (\<open>superseded_pass_is_idle\<close>).
\<close>

section \<open>Reads and writes of a pass\<close>

definition mutates :: "su_event \<Rightarrow> bool" where
  "mutates e = (case e of SuDelete _ _ _ _ _ \<Rightarrow> True | SuPatchLabels _ _ _ _ _ \<Rightarrow> True | SuPatchConfig _ _ _ \<Rightarrow> True
     | SuPatchRun _ _ _ \<Rightarrow> True | _ \<Rightarrow> False)"

lemma mutates_simps [simp]:
  "\<not> mutates (SuList k sc x)" "\<not> mutates (SuGet k key y)" "\<not> mutates (SuGetCRD n z)" "\<not> mutates (SuContextErr b z)"
  "\<not> mutates (SuGetConfig key c)" "mutates (SuDelete k obj opt p z)" "mutates (SuPatchLabels k obj u s y)"
  by (simp_all add: mutates_def)

lemma emits_su_requests [emit]:
  "(\<And>x. P (SuList kind sc x)) \<Longrightarrow> emits P (su_list m kind sc)"
  "(\<And>y. P (SuGet kind key y)) \<Longrightarrow> emits P (su_get m kind key)"
  "(\<And>c. P (SuGetConfig key c)) \<Longrightarrow> emits P (su_get_config A key)"
  "(\<And>z. P (SuContextErr b z)) \<Longrightarrow> emits P (su_context_err A b)"
  by (simp_all add: su_list_def su_get_def su_get_config_def su_context_err_def emits_perform)

lemma wp_su_requests [wp]:
  "(\<And>x. P h (SuList kind sc x) \<and> Q1 x (h @ [SuList kind sc x])) \<Longrightarrow> wp P (su_list m kind sc) Q1 h"
  "(\<And>y. P h (SuGet kind key y) \<and> Q2 y (h @ [SuGet kind key y])) \<Longrightarrow> wp P (su_get m kind key) Q2 h"
  "(\<And>z. P h (SuDelete kind obj opt p z) \<and> Q3 z (h @ [SuDelete kind obj opt p z])) \<Longrightarrow> wp P (su_delete m kind obj opt p) Q3 h"
  "(\<And>y. P h (SuPatchLabels kind obj uid st y) \<and> Q2 y (h @ [SuPatchLabels kind obj uid st y])) \<Longrightarrow>
     wp P (su_patch_labels m kind obj uid st) Q2 h"
  by (simp_all add: su_list_def su_get_def su_delete_def su_patch_labels_def wp_performI)

lemma optionalSandboxAPIAbsent_emits: "emits (\<lambda>e. \<not> mutates e) (optionalSandboxAPIAbsent m x crd rep)"
  unfolding optionalSandboxAPIAbsent_def by (intro emit emits_perform) simp_all

lemma list_optional_emits: "emits (\<lambda>e. \<not> mutates e) (list_optional m sc sc' what rep)"
  unfolding list_optional_def judge_optional_def by (intro emit optionalSandboxAPIAbsent_emits) simp_all

lemma list_kind_emits: "emits (\<lambda>e. \<not> mutates e) (list_kind m kind sc desc rep)"
  unfolding list_kind_def by (intro emit) simp_all

lemma list_access_emits: "emits (\<lambda>e. \<not> mutates e) (list_access m uid rep)"
  unfolding list_access_def Let_def by (intro emit list_kind_emits)

lemma confirm_list_emits: "emits (\<lambda>e. \<not> mutates e) (confirm_list m kind sc desc judge keep what rep)"
  unfolding confirm_list_def by (intro emit list_kind_emits)

lemma confirm_emits: "emits (\<lambda>e. \<not> mutates e) (confirmSuspensionInventory m uid rep)"
  unfolding confirmSuspensionInventory_def confirm_access_def Let_def by (intro emit list_optional_emits confirm_list_emits)

lemma check_activation_emits: "emits (\<lambda>e. \<not> mutates e) (check_activation m a)"
  unfolding check_activation_def RequireCurrentActivation_def by (intro emit) simp_all

section \<open>A clean report\<close>

definition clean :: "report \<Rightarrow> bool" where
  "clean rep \<longleftrightarrow> Confirmed (fst rep) \<and> snd rep = []"

lemma append_message_nonempty [simp]: "appendSuspensionMessage ms msg \<noteq> []"
  by (auto simp: appendSuspensionMessage_def)

lemma clean_record [simp]:
  "\<not> clean (recordSuspensionPending rep msg)" "\<not> clean (recordSuspensionFailure rep msg err)"
  "clean (recordSuspensionUnverified rep msg e) \<longleftrightarrow> e = None \<and> clean rep"
  by (auto simp: clean_def Confirmed_def recordSuspensionPending_def recordSuspensionFailure_def recordSuspensionUnverified_def
      split: option.splits)

text \<open>An object that a confirmation passes over without a word.\<close>

definition settled :: "(managed \<Rightarrow> verdict) \<Rightarrow> (managed \<Rightarrow> bool) \<Rightarrow> managed \<Rightarrow> bool" where
  "settled judge keep obj \<longleftrightarrow> judge obj = Leave \<or> judge obj = Remove \<and> keep obj"

lemma confirm_kind_clean:
  "clean (confirm_kind kind judge keep what objs rep) \<longleftrightarrow> clean rep \<and> list_all (settled judge keep) objs"
  by (induction objs arbitrary: rep) (auto simp: settled_def split: verdict.splits)

subsection \<open>What a run must not leave behind\<close>

definition access_component :: "managed \<Rightarrow> bool" where
  "access_component obj \<longleftrightarrow> label obj LabelComponent \<in> {''execution-rbac'', ''result-rbac'', ''reader-rbac''}"

definition account_component :: "managed \<Rightarrow> bool" where
  "account_component obj \<longleftrightarrow> (\<exists>step. step \<noteq> '''' \<and> label obj LabelComponent = step @ ''-sa'')"

text \<open>
  An object of the run that still does or allows work: a pod that has not ended, a claim, sandbox or warm pool, a service
  account of a step, RBAC objects of the operator's components, and credentials.
\<close>

definition remains :: "resource_kind \<Rightarrow> UID \<Rightarrow> managed \<Rightarrow> bool" where
  "remains kind uid obj \<longleftrightarrow> suspensionUIDMatches obj uid \<and>
     (case kind of
        PodR \<Rightarrow> \<not> pod_ended obj
      | ServiceAccountR \<Rightarrow> account_component obj
      | RoleR \<Rightarrow> access_component obj \<and> label obj LabelComponent \<noteq> ''reader-rbac''
      | RoleBindingR \<Rightarrow> access_component obj \<and> label obj LabelComponent \<noteq> ''reader-rbac''
      | ClusterRoleR \<Rightarrow> access_component obj
      | ClusterRoleBindingR \<Rightarrow> access_component obj
      | SecretR \<Rightarrow> label obj LabelComponent = ''sandbox-kubeconfig''
      | _ \<Rightarrow> True)"

abbreviation never :: "managed \<Rightarrow> bool" where
  "never \<equiv> \<lambda>_. False"

lemma settled_steps:
  "settled (step_verdict PodR uid what) pod_ended obj \<Longrightarrow> \<not> remains PodR uid obj"
  "kind \<in> {ClaimR, SandboxR, WarmPoolR} \<Longrightarrow> settled (step_verdict kind uid what) never obj \<Longrightarrow> \<not> remains kind uid obj"
  by (auto simp: settled_def step_verdict_def remains_def split: if_splits resource_kind.splits)

lemma settled_access:
  "settled (account_verdict uid what) never obj \<Longrightarrow> \<not> remains ServiceAccountR uid obj"
  "kind \<in> {RoleR, RoleBindingR} \<Longrightarrow> settled (role_verdict kind ns uid what out ref) never obj \<Longrightarrow> \<not> remains kind uid obj"
  "settled (cluster_role_verdict uid what found) never obj \<Longrightarrow> \<not> remains ClusterRoleR uid obj"
  "settled (cluster_binding_verdict uid ret found ref) never obj \<Longrightarrow> \<not> remains ClusterRoleBindingR uid obj"
  "settled (secret_verdict uid ret) never obj \<Longrightarrow> \<not> remains SecretR uid obj"
proof -
  show "settled (account_verdict uid what) never obj \<Longrightarrow> \<not> remains ServiceAccountR uid obj"
    by (auto simp: settled_def account_verdict_def suspensionServiceAccountStep_def remains_def account_component_def Let_def split: if_splits)
  show "kind \<in> {RoleR, RoleBindingR} \<Longrightarrow> settled (role_verdict kind ns uid what out ref) never obj \<Longrightarrow> \<not> remains kind uid obj"
    by (auto simp: settled_def role_verdict_def suspensionRBACStep_def remains_def access_component_def Let_def split: if_splits option.splits)
  show "settled (cluster_role_verdict uid what found) never obj \<Longrightarrow> \<not> remains ClusterRoleR uid obj"
    by (auto simp: settled_def cluster_role_verdict_def suspensionRBACStep_def remains_def access_component_def Let_def
        split: if_splits option.splits)
  show "settled (cluster_binding_verdict uid ret found ref) never obj \<Longrightarrow> \<not> remains ClusterRoleBindingR uid obj"
    by (auto simp: settled_def cluster_binding_verdict_def remains_def access_component_def Let_def split: if_splits)
  show "settled (secret_verdict uid ret) never obj \<Longrightarrow> \<not> remains SecretR uid obj"
    by (auto simp: settled_def secret_verdict_def remains_def Let_def split: if_splits)
qed

subsection \<open>The confirming listing\<close>

definition confirm_scope :: "SandboxManager \<Rightarrow> UID \<Rightarrow> resource_kind \<Rightarrow> scope" where
  "confirm_scope m uid kind = \<lparr>
     inNamespace = (if kind \<in> {RoleR, RoleBindingR, ClusterRoleR, ClusterRoleBindingR} then None else Some (smNamespace m)),
     withLabels = suspensionRunSelector uid\<rparr>"

definition crd_of :: "resource_kind \<Rightarrow> string" where
  "crd_of kind = (case kind of ClaimR \<Rightarrow> ''sandboxclaims.extensions.agents.x-k8s.io''
     | SandboxR \<Rightarrow> ''sandboxes.agents.x-k8s.io'' | WarmPoolR \<Rightarrow> ''sandboxwarmpools.extensions.agents.x-k8s.io'' | _ \<Rightarrow> '''')"

text \<open>
  The events show that nothing of the run remains of a kind: a list of the kind with nothing left, or, for the kinds of the sandbox API, the
  answer that its definition is not installed.
\<close>

definition shown_gone :: "SandboxManager \<Rightarrow> UID \<Rightarrow> resource_kind \<Rightarrow> su_event list \<Rightarrow> bool" where
  "shown_gone m uid kind es \<longleftrightarrow>
     (\<exists>objs. SuList kind (confirm_scope m uid kind) (Inr objs) \<in> set es \<and> (\<forall>obj \<in> set objs. \<not> remains kind uid obj)) \<or>
     kind \<in> {ClaimR, SandboxR, WarmPoolR} \<and> (\<exists>err. SuGetCRD (crd_of kind) (Some err) \<in> set es \<and> IsNotFound err)"

lemma shown_gone_append [intro]:
  "shown_gone m uid kind es \<Longrightarrow> shown_gone m uid kind (es @ fs)" "shown_gone m uid kind fs \<Longrightarrow> shown_gone m uid kind (es @ fs)"
  unfolding shown_gone_def by auto

text \<open>The state of a confirmation: a report that is still clean vouches for the kinds confirmed since \<open>n\<close>.\<close>

definition vouches :: "SandboxManager \<Rightarrow> UID \<Rightarrow> nat \<Rightarrow> resource_kind set \<Rightarrow> report \<Rightarrow> su_history \<Rightarrow> bool" where
  "vouches m uid n S rep h \<longleftrightarrow> n \<le> length h \<and> (clean rep \<longrightarrow> (\<forall>kind \<in> S. shown_gone m uid kind (drop n h)))"

lemma vouches_extend:
  assumes "vouches m uid n S rep h" and "clean rep' \<Longrightarrow> clean rep" and "clean rep' \<Longrightarrow> \<forall>kind \<in> T. shown_gone m uid kind es"
  shows "vouches m uid n (T \<union> S) rep' (h @ es)"
  using assms unfolding vouches_def by auto

lemma confirm_list_wp:
  assumes "vouches m uid n S rep h" and "sc = confirm_scope m uid kind"
    and "\<And>obj. settled judge keep obj \<Longrightarrow> \<not> remains kind uid obj"
    and "\<And>rep' es. vouches m uid n (insert kind S) rep' (h @ es) \<Longrightarrow> Q rep' (h @ es)"
  shows "wp (\<lambda>_ _. True) (confirm_list m kind sc desc judge keep what rep) Q h"
proof -
  have "vouches m uid n (insert kind S) (confirm_kind kind judge keep what (items_of x) (recordSuspensionUnverified rep desc (list_error x)))
      (h @ [SuList kind sc x])" (is "vouches m uid n _ ?rep _") for x
    using vouches_extend [OF assms(1), of ?rep "{kind}" "[SuList kind sc x]"] assms(2,3)
    by (cases x) (auto simp: confirm_kind_clean list_error_def items_of_def list_all_iff shown_gone_def)
  then show ?thesis
    unfolding confirm_list_def list_kind_def
    by (intro wp_bindI wp_su_requests conjI TrueI wp_returnI wp_case_prod) (auto intro: assms(4))
qed

text \<open>An optional list as it was judged: the list itself, or empty because its definition is not installed.\<close>

definition judged :: "string \<Rightarrow> error + managed list \<Rightarrow> error + managed list \<Rightarrow> su_event list \<Rightarrow> bool" where
  "judged crd x x' es \<longleftrightarrow> (\<exists>objs. x' = Inr objs \<and>
     (x = Inr objs \<or> objs = [] \<and> (\<exists>err. SuGetCRD crd (Some err) \<in> set es \<and> IsNotFound err)))"

lemma judge_optional_wp:
  assumes "\<And>x' rep' es. (clean rep' \<Longrightarrow> clean rep \<and> judged crd x x' es) \<Longrightarrow> Q (x', rep') (h @ es)"
  shows "wp (\<lambda>_ _. True) (judge_optional m x crd desc rep) Q h"
proof -
  have Q0: "Q (x', rep') h" if "clean rep' \<Longrightarrow> clean rep \<and> (\<exists>objs. x' = Inr objs \<and> x = Inr objs)" for x' rep'
    using assms [of rep' x' "[]"] that by (auto simp: judged_def)
  show ?thesis
    unfolding judge_optional_def optionalSandboxAPIAbsent_def Let_def
    by (intro wp_bindI wp_case_sum wp_ifI wp_returnI wp_case_prod wp_performI TrueI)
      (auto simp: list_error_def judged_def intro!: Q0 assms split: option.splits if_splits)
qed

text \<open>The optional kinds are listed together; what was found stands in the events of the listing.\<close>

definition optional_found :: "SandboxManager \<Rightarrow> UID \<Rightarrow> resource_kind \<Rightarrow> error + managed list \<Rightarrow> su_event list \<Rightarrow> bool" where
  "optional_found m uid kind x es \<longleftrightarrow> (\<exists>objs. x = Inr objs \<and>
     (SuList kind (confirm_scope m uid kind) (Inr objs) \<in> set es \<or>
      objs = [] \<and> (\<exists>err. SuGetCRD (crd_of kind) (Some err) \<in> set es \<and> IsNotFound err)))"

lemma optional_found_gone:
  assumes "kind \<in> {ClaimR, SandboxR, WarmPoolR}" and "optional_found m uid kind x es"
    and "list_all (settled (step_verdict kind uid what) never) (items_of x)"
  shows "shown_gone m uid kind es"
  using assms settled_steps(2) [OF assms(1)] unfolding optional_found_def shown_gone_def items_of_def
  by (fastforce simp: list_all_iff)

lemma judged_found:
  "judged (crd_of kind) x x' es \<Longrightarrow> SuList kind (confirm_scope m uid kind) x \<in> set fs \<Longrightarrow> set es \<subseteq> set fs \<Longrightarrow>
   optional_found m uid kind x' fs"
  unfolding judged_def optional_found_def by blast

lemma list_optional_wp:
  assumes "sc = confirm_scope m uid ClaimR"
    and "\<And>ls rep' es. (clean rep' \<Longrightarrow> clean rep \<and> optional_found m uid ClaimR (slClaims ls) es \<and>
      optional_found m uid SandboxR (slSandboxes ls) es \<and> optional_found m uid WarmPoolR (slWarmPools ls) es) \<Longrightarrow>
      Q (ls, rep') (h @ es)"
  shows "wp (\<lambda>_ _. True) (list_optional m sc sc what rep) Q h"
proof -
  have scopes: "confirm_scope m uid SandboxR = sc" "confirm_scope m uid WarmPoolR = sc" "confirm_scope m uid ClaimR = sc"
    using assms(1) by (simp_all add: confirm_scope_def)
  have crds: "crd_of ClaimR = ''sandboxclaims.extensions.agents.x-k8s.io''" "crd_of SandboxR = ''sandboxes.agents.x-k8s.io''"
    "crd_of WarmPoolR = ''sandboxwarmpools.extensions.agents.x-k8s.io''"
    by (simp_all add: crd_of_def)
  show ?thesis
    unfolding list_optional_def crds [symmetric]
    by (intro wp_bindI wp_su_requests conjI TrueI judge_optional_wp wp_case_prod wp_returnI)
      (auto simp: scopes intro!: assms(2) elim!: judged_found)
qed

lemma optional_vouches:
  assumes "vouches m uid n S rep h"
    and "clean rep' \<Longrightarrow> clean rep \<and> optional_found m uid ClaimR (slClaims ls) es \<and>
      optional_found m uid SandboxR (slSandboxes ls) es \<and> optional_found m uid WarmPoolR (slWarmPools ls) es"
  shows "vouches m uid n ({ClaimR, SandboxR, WarmPoolR} \<union> S)
     (confirm_kind WarmPoolR (step_verdict WarmPoolR uid what3) never msg3 (items_of (slWarmPools ls))
       (confirm_kind SandboxR (step_verdict SandboxR uid what2) never msg2 (items_of (slSandboxes ls))
         (confirm_kind ClaimR (step_verdict ClaimR uid what1) never msg1 (items_of (slClaims ls)) rep'))) (h @ es)"
  by (rule vouches_extend [OF assms(1)]) (use assms(2) in \<open>auto simp: confirm_kind_clean intro: optional_found_gone\<close>)

lemma confirm_access_wp:
  assumes "vouches m uid n ({ClaimR, SandboxR, WarmPoolR} \<union> {PodR}) rep h"
  shows "wp (\<lambda>_ _. True) (confirm_access m uid rep) (\<lambda>rep' h'. vouches m uid n UNIV rep' h') h"
proof -
  have UNIV: "insert SecretR (insert ClusterRoleBindingR (insert ClusterRoleR (insert RoleBindingR (insert RoleR (insert ServiceAccountR
      ({ClaimR, SandboxR, WarmPoolR} \<union> {PodR})))))) = UNIV"
    by (auto intro: resource_kind.exhaust)
  show ?thesis
    unfolding confirm_access_def Let_def
    by (intro wp_bindI, rule confirm_list_wp [OF assms], simp add: confirm_scope_def, erule settled_access,
        intro wp_bindI, rule confirm_list_wp, assumption, simp add: confirm_scope_def, erule settled_access(2) [rotated], simp,
        intro wp_bindI, rule confirm_list_wp, assumption, simp add: confirm_scope_def, erule settled_access(2) [rotated], simp,
        intro wp_bindI, rule confirm_list_wp, assumption, simp add: confirm_scope_def, erule settled_access,
        intro wp_bindI, rule confirm_list_wp, assumption, simp add: confirm_scope_def, erule settled_access,
        rule confirm_list_wp, assumption, simp add: confirm_scope_def, erule settled_access, simp only: UNIV)
qed

lemma confirm_wp:
  "wp (\<lambda>_ _. True) (confirmSuspensionInventory m uid rep) (\<lambda>rep' h'. vouches m uid (length h) UNIV rep' h') h"
proof -
  have start: "vouches m uid (length h) {} rep h" by (simp add: vouches_def)
  show ?thesis
    unfolding confirmSuspensionInventory_def Let_def
    by (intro wp_bindI, rule confirm_list_wp [OF start], simp add: confirm_scope_def, erule settled_steps,
        intro wp_bindI, rule list_optional_wp, simp add: confirm_scope_def, rule wp_case_prod,
        rule confirm_access_wp, simp only: prod.inject, erule optional_vouches, blast)
qed

section \<open>Only objects of the run are changed\<close>

definition read_before :: "resource_kind \<Rightarrow> managed \<Rightarrow> su_history \<Rightarrow> bool" where
  "read_before kind obj h \<longleftrightarrow>
     (\<exists>sc objs. SuList kind sc (Inr objs) \<in> set h \<and> obj \<in> set objs) \<or> (\<exists>key. SuGet kind key (Inr obj) \<in> set h)"

lemma read_before_append [simp]: "read_before kind obj h \<Longrightarrow> read_before kind obj (h @ es)"
  by (auto simp: read_before_def)

lemma read_before_later [simp]: "read_before kind obj (h @ es) \<Longrightarrow> read_before kind obj (h @ es @ fs)"
  by (auto simp: read_before_def)

lemma read_beforeI:
  "SuGet kind key (Inr obj) \<in> set h \<Longrightarrow> read_before kind obj h"
  "SuList kind sc (Inr objs) \<in> set h \<Longrightarrow> obj \<in> set objs \<Longrightarrow> read_before kind obj h"
  by (auto simp: read_before_def)

text \<open>The identity of the run, or of some run when the pass is for all of them.\<close>

definition own :: "UID \<Rightarrow> UID \<Rightarrow> bool" where
  "own uid u \<longleftrightarrow> u \<noteq> '''' \<and> (uid = '''' \<or> u = uid)"

lemma uid_matches_own: "suspensionUIDMatches obj uid \<longleftrightarrow> own uid (label obj LabelRun)"
  by (auto simp: suspensionUIDMatches_def own_def)

text \<open>
  A deletion is of an object that was read with the label of the run, on the precondition of the UID it was read with; a label patch is of
  an object that was read without a label of another run, and writes the label of this one.
\<close>

definition own_change :: "UID \<Rightarrow> su_history \<Rightarrow> su_event \<Rightarrow> bool" where
  "own_change uid h e = (case e of
      SuDelete kind obj opt precondition res \<Rightarrow> read_before kind obj h \<and> own uid (label obj LabelRun) \<and>
        precondition = Some (mUID (moMeta obj)) \<and> mUID (moMeta obj) \<noteq> ''''
    | SuPatchLabels kind obj u step res \<Rightarrow> read_before kind obj h \<and> mUID (moMeta obj) \<noteq> '''' \<and> own uid u \<and> label obj LabelRun \<in> {'''', u}
    | SuPatchConfig _ _ _ \<Rightarrow> False | SuPatchRun _ _ _ \<Rightarrow> False | _ \<Rightarrow> True)"

lemma own_change_simps [simp]:
  "\<not> mutates e \<Longrightarrow> own_change uid h e"
  "own_change uid h (SuDelete kind obj opt precondition res) \<longleftrightarrow> read_before kind obj h \<and> own uid (label obj LabelRun) \<and>
     precondition = Some (mUID (moMeta obj)) \<and> mUID (moMeta obj) \<noteq> ''''"
  "own_change uid h (SuPatchLabels kind obj u step res1) \<longleftrightarrow>
     read_before kind obj h \<and> mUID (moMeta obj) \<noteq> '''' \<and> own uid u \<and> label obj LabelRun \<in> {'''', u}"
  by (auto simp: own_change_def mutates_def split: su_event.splits)

subsection \<open>Single objects\<close>

lemma delete_wp:
  assumes "read_before kind obj h" "own uid (label obj LabelRun)" and "\<And>e es. Q e (h @ es)"
  shows "wp (own_change uid) (deleteWithUIDPrecondition m kind obj opt) Q h"
proof -
  have "Q e h" for e using assms(3) [of _ "[]"] by simp
  then show ?thesis
    unfolding deleteWithUIDPrecondition_def Let_def
    by (intro wp_ifI wp_bindI wp_su_requests wp_returnI conjI) (use assms in auto)
qed

lemma delete_object_wp:
  assumes "read_before kind obj h" "own uid (label obj LabelRun)" and "\<And>x es. Q x (h @ es)"
  shows "wp (own_change uid) (deleteSuspensionObject m kind obj opt rep) Q h"
  unfolding deleteSuspensionObject_def
  by (intro wp_bindI delete_wp [OF assms(1,2)] wp_returnI assms(3))

text \<open>A successful identity patch ends with a read of the object under the label.\<close>

lemma patch_identity_wp:
  assumes "own uid runUID" and "\<And>e obj' es. Q (Some e, obj') (h @ es)"
    and "\<And>obj' es. read_before kind obj' (h @ es) \<Longrightarrow> label obj' LabelRun = runUID \<Longrightarrow> label obj' LabelStep = step \<Longrightarrow>
      mUID (moMeta obj') = expectedUID \<Longrightarrow> Q (None, obj') (h @ es)"
  shows "wp (own_change uid) (patchRunIdentityLabels m kind obj expectedUID runUID step) Q h"
proof -
  have "Q (Some e, obj') h" for e obj' using assms(2) [of _ _ "[]"] by simp
  then show ?thesis
    unfolding patchRunIdentityLabels_def
    by (intro wp_ifI wp_bindI wp_su_requests wp_case_sum wp_returnI conjI)
      (auto simp: assms(1) intro!: assms(2,3) intro: read_beforeI split: sum.split)
qed

lemma remove_identified_pod_wp:
  assumes "read_before PodR pod h" "label pod LabelRun = runUID" "own uid runUID" and "\<And>x es. Q x (h @ es)"
  shows "wp (own_change uid) (remove_identified_pod m pod runUID step safe rep) Q h"
proof -
  have "Q x h" for x using assms(4) [of _ "[]"] by simp
  then show ?thesis
    unfolding remove_identified_pod_def delete_active_pod_def confirmObjectGone_def
    by (intro wp_ifI wp_bindI wp_returnI wp_case_prod wp_case_option delete_wp wp_su_requests conjI) (use assms in auto)
qed

lemma delete_pod_wp:
  assumes "own uid runUID" and "\<And>x es. Q x (h @ es)"
  shows "wp (own_change uid) (deleteSuspensionPod m name runUID step parent persist rep) Q h"
  unfolding deleteSuspensionPod_def Let_def
  by (intro wp_bindI wp_su_requests wp_case_sum wp_ifI wp_returnI wp_case_prod wp_case_option conjI patch_identity_wp [OF assms(1)]
      remove_identified_pod_wp)
    (auto simp: assms suspensionPodLabelsMatch_def intro: read_beforeI)

subsection \<open>Loops over one kind\<close>

text \<open>A judge that removes objects of the run only.\<close>

definition own_judge :: "UID \<Rightarrow> (managed \<Rightarrow> verdict) \<Rightarrow> bool" where
  "own_judge uid judge \<longleftrightarrow> (\<forall>obj. judge obj = Remove \<longrightarrow> own uid (label obj LabelRun))"

lemma own_judges:
  "own_judge uid (step_verdict kind uid what)" "own_judge uid (account_verdict uid what)"
  "own_judge uid (role_verdict kind ns uid what out ref)" "own_judge uid (cluster_role_verdict uid what found)"
  "own_judge uid (cluster_binding_verdict uid ret found ref)" "own_judge uid (secret_verdict uid ret)"
  by (auto simp: own_judge_def uid_matches_own [symmetric] step_verdict_def account_verdict_def suspensionServiceAccountStep_def
      role_verdict_def suspensionRBACStep_def cluster_role_verdict_def cluster_binding_verdict_def secret_verdict_def Let_def
      split: if_splits option.splits)

lemma remove_kind_wp:
  assumes "own_judge uid judge" and "\<And>obj. obj \<in> set objs \<Longrightarrow> read_before kind obj h" and "\<And>x es. Q x (h @ es)"
  shows "wp (own_change uid) (remove_kind m kind judge objs rep) Q h"
  using assms(2,3)
proof (induction objs arbitrary: h rep)
  case Nil
  then show ?case using Nil(2) [of _ "[]"] by (simp add: wp_returnI)
next
  case (Cons obj rest)
  have rest: "wp (own_change uid) (remove_kind m kind judge rest rep') Q (h @ es)" for rep' es
    using Cons.prems by (intro Cons.IH) auto
  have "wp (own_change uid) (remove_kind m kind judge rest rep') Q h" for rep'
    using rest [of _ "[]"] by simp
  with rest Cons.prems(1) assms(1) show ?case
    by (auto simp: own_judge_def intro!: wp_bindI wp_case_prod delete_object_wp split: verdict.split)
qed

lemma remove_pods_wp:
  assumes "\<And>x es. Q x (h @ es)"
  shows "wp (own_change uid) (remove_pods m uid objs handled rep) Q h"
  using assms
proof (induction objs arbitrary: h handled rep)
  case Nil
  then show ?case using Nil [of _ "[]"] by (simp add: wp_returnI)
next
  case (Cons pod rest)
  have rest: "wp (own_change uid) (remove_pods m uid rest handled' rep') Q (h @ es)" for handled' rep' es
    using Cons.prems by (intro Cons.IH) auto
  have "wp (own_change uid) (remove_pods m uid rest handled' rep') Q h" for handled' rep'
    using rest [of _ _ "[]"] by simp
  with rest own_judges(1) [of uid PodR] show ?case
    by (auto simp: own_judge_def intro!: wp_bindI wp_case_prod delete_pod_wp split: verdict.split)
qed

subsection \<open>The plan\<close>

text \<open>The claims of a plan were listed, have a UID and the label of the run; the identities of its sandboxes are of the run.\<close>

definition claim_ok :: "UID \<Rightarrow> managed list \<Rightarrow> claim_work \<Rightarrow> bool" where
  "claim_ok uid claims c \<longleftrightarrow> cwObject c \<in> set claims \<and> own uid (label (cwObject c) LabelRun) \<and> own uid (cwRunUID c)"

definition plan_ok :: "UID \<Rightarrow> managed list \<Rightarrow> plan \<Rightarrow> bool" where
  "plan_ok uid claims p \<longleftrightarrow> list_all (claim_ok uid claims) (plClaims p) \<and> list_all (\<lambda>w. own uid (swRunUID w)) (plSandboxes p) \<and>
     (\<forall>u i. plClaimByUID p u = Some i \<longrightarrow> i < length (plClaims p))"

lemma claim_ok_simps [simp]:
  "claim_ok uid claims (c\<lparr>cwBlocked := b\<rparr>) \<longleftrightarrow> claim_ok uid claims c"
  "claim_ok uid claims (c\<lparr>cwSandboxes := ss, cwKeys := ks\<rparr>) \<longleftrightarrow> claim_ok uid claims c"
  by (simp_all add: claim_ok_def)

lemma plan_ok_update:
  "plan_ok uid claims p \<Longrightarrow> plan_ok uid claims (p\<lparr>plClaims := (plClaims p)[i := (plClaims p ! i)\<lparr>cwBlocked := b\<rparr>]\<rparr>)"
  "plan_ok uid claims p \<Longrightarrow> plan_ok uid claims (p\<lparr>plClaims := (plClaims p)[i := (plClaims p ! i)\<lparr>cwSandboxes := ss, cwKeys := ks\<rparr>]\<rparr>)"
  "plan_ok uid claims p \<Longrightarrow> swRunUID w = swRunUID (plSandboxes p ! i) \<Longrightarrow> plan_ok uid claims (p\<lparr>plSandboxes := (plSandboxes p)[i := w]\<rparr>)"
  "plan_ok uid claims p \<Longrightarrow> plan_ok uid claims (p\<lparr>plReport := rep\<rparr>)"
  unfolding plan_ok_def by (auto intro!: list_all_update)

lemma plan_ok_block:
  assumes "plan_ok uid claims p"
  shows "plan_ok uid claims (unverified p msg err)" "plan_ok uid claims (block_claim i p)" "plan_ok uid claims (block_owner c p)"
    "plan_ok uid claims (block_sandbox i p)" "plan_ok uid claims (block_work w p)" "plan_ok uid claims (report_plan p rep)"
    "plan_ok uid claims (join_claim i j key p)" "plan_ok uid claims (join_owner i c key p)"
proof -
  have claim: "plan_ok uid claims (block_claim i q)" if "plan_ok uid claims q" for i q
    using plan_ok_update(1) [OF that] by (simp add: block_claim_def)
  have sandbox: "plan_ok uid claims (block_sandbox i p)" for i
    using claim plan_ok_update(3) [OF assms, of "(plSandboxes p ! i)\<lparr>swBlocked := True\<rparr>" i]
    by (simp add: block_sandbox_def block_owner_def split: option.split)
  have join: "plan_ok uid claims (join_claim i j key p)" for i j key
  proof -
    let ?q = "p\<lparr>plSandboxes := (plSandboxes p)[i := (plSandboxes p ! i)\<lparr>swClaim := Some j\<rparr>]\<rparr>"
    have "plan_ok uid claims ?q" by (rule plan_ok_update(3) [OF assms]) simp
    then show ?thesis
      using plan_ok_update(2) [of uid claims ?q j, where ss = "cwSandboxes (plClaims p ! j) @ [i]" and ks = "cwKeys (plClaims p ! j) @ [key]"]
      by (simp add: join_claim_def Let_def)
  qed
  show "plan_ok uid claims (unverified p msg err)" "plan_ok uid claims (report_plan p rep)"
    using plan_ok_update(4) [OF assms] by (simp_all add: unverified_def report_plan_def)
  show "plan_ok uid claims (block_claim i p)" "plan_ok uid claims (block_owner c p)" "plan_ok uid claims (block_sandbox i p)"
    "plan_ok uid claims (block_work w p)" "plan_ok uid claims (join_claim i j key p)" "plan_ok uid claims (join_owner i c key p)"
    using assms claim sandbox join by (simp_all add: block_owner_def block_work_def join_owner_def split: option.split)
qed

lemma plan_ok_place:
  assumes "plan_ok uid claims p" and "own uid runUID"
  shows "plan_ok uid claims (new_sandbox sandbox runUID step c p)" "plan_ok uid claims (place_sandbox sandbox runUID step c p)"
proof -
  show new: "plan_ok uid claims (new_sandbox sandbox runUID step c p)"
    using assms by (auto simp: new_sandbox_def plan_ok_def)
  then show "plan_ok uid claims (place_sandbox sandbox runUID step c p)"
    using assms by (auto simp: place_sandbox_def Let_def intro: plan_ok_block split: option.split)
qed

lemma plan_ok_place_pod:
  "plan_ok uid claims p \<Longrightarrow> own uid (label pod LabelRun) \<Longrightarrow> plan_ok uid claims (place_pod pod sandbox c p)"
  unfolding place_pod_def Let_def by (auto intro: plan_ok_block plan_ok_place split: option.split)

lemma owner_claim_range: "plan_ok uid claims p \<Longrightarrow> owner_claim p sandbox = Some c \<Longrightarrow> own uid (cwRunUID (plClaims p ! c))"
  by (auto simp: owner_claim_def plan_ok_def list_all_length claim_ok_def split: option.splits)

lemma plan_ok_add:
  assumes "plan_ok uid claims p"
  shows "claim \<in> set claims \<Longrightarrow> plan_ok uid claims (add_claim uid claim p)"
    and "plan_ok uid claims (add_sandbox uid ci sandbox p)" and "plan_ok uid claims (add_pod uid ci ss pod p)"
    and "plan_ok uid claims (check_claim ns x c p)"
proof -
  show "plan_ok uid claims (add_claim uid claim p)" if "claim \<in> set claims"
    using assms that
    by (auto simp: add_claim_def Let_def uid_matches_own claim_ok_def intro: plan_ok_block)
      (auto simp: plan_ok_def claim_ok_def less_SucI)
  show "plan_ok uid claims (add_sandbox uid ci sandbox p)"
    using assms owner_claim_range [OF assms]
    by (auto simp: add_sandbox_def Let_def uid_matches_own intro!: plan_ok_block plan_ok_place split: option.split sum.split)
  show "plan_ok uid claims (add_pod uid ci ss pod p)"
    using assms by (auto simp: add_pod_def Let_def uid_matches_own intro!: plan_ok_block plan_ok_place_pod split: option.split sum.split)
  show "plan_ok uid claims (check_claim ns x c p)"
    using assms by (auto simp: check_claim_def Let_def intro!: plan_ok_block split: option.split sum.split)
qed

lemma make_plan_ok: "plan_ok uid (items_of (slClaims opt)) (make_plan ns uid pods opt rep)"
proof -
  let ?ok = "plan_ok uid (items_of (slClaims opt))"
  have init: "?ok \<lparr>plReport = rep, plClaims = [], plClaimByUID = Map.empty, plSandboxes = [], plSandboxByKey = Map.empty\<rparr>"
    by (simp add: plan_ok_def)
  have claims: "?ok (fold (add_claim uid) (items_of (slClaims opt)) p)" if "?ok p" for p
    using that by (rule fold_invariant) (rule plan_ok_add(1))
  have sandboxes: "?ok (fold (add_sandbox uid ci) ss p)" if "?ok p" for ci ss p
    using that by (rule fold_invariant) (rule plan_ok_add(2))
  have added: "?ok (fold (add_pod uid ci ss) ps p)" if "?ok p" for ci ss ps p
    using that by (rule fold_invariant) (rule plan_ok_add(3))
  have checked: "?ok (fold (check_claim ns x) is p)" if "?ok p" for x "is" p
    using that by (rule fold_invariant) (rule plan_ok_add(4))
  show ?thesis
    unfolding make_plan_def Let_def
    by (cases pods; cases "slSandboxes opt") (simp_all add: init claims sandboxes added checked)
qed

subsection \<open>The whole pass\<close>

lemma plan_ok_sandbox: "plan_ok uid claims p \<Longrightarrow> i < length (plSandboxes p) \<Longrightarrow> own uid (swRunUID (plSandboxes p ! i))"
  by (auto simp: plan_ok_def list_all_length)

lemma block_lengths [simp]:
  "length (plSandboxes (block_claim i p)) = length (plSandboxes p)" "length (plSandboxes (block_owner c p)) = length (plSandboxes p)"
  "length (plSandboxes (block_sandbox i p)) = length (plSandboxes p)" "length (plSandboxes (unverified p msg err)) = length (plSandboxes p)"
  "length (plSandboxes (set_sandbox i w p)) = length (plSandboxes p)" "length (plSandboxes (report_plan p rep)) = length (plSandboxes p)"
  by (simp_all add: block_claim_def block_owner_def block_sandbox_def unverified_def set_sandbox_def report_plan_def split: option.split)

lemma plan_ok_set:
  "plan_ok uid claims p \<Longrightarrow> swRunUID w = swRunUID (plSandboxes p ! i) \<Longrightarrow> plan_ok uid claims (set_sandbox i w p)"
  unfolding set_sandbox_def by (rule plan_ok_update(3))

lemma process_sandbox_wp:
  assumes p: "plan_ok uid claims p" and i: "i < length (plSandboxes p)"
    and Q: "\<And>p' keys es. plan_ok uid claims p' \<Longrightarrow> length (plSandboxes p') = length (plSandboxes p) \<Longrightarrow> Q (p', keys) (h @ es)"
  shows "wp (own_change uid) (process_sandbox m i p) Q h"
proof -
  have own: "own uid (swRunUID (plSandboxes p ! i))" using plan_ok_sandbox [OF p i] .
  have Q0: "Q (p', keys) h" if "plan_ok uid claims p'" "length (plSandboxes p') = length (plSandboxes p)" for p' keys
    using Q [OF that, of keys "[]"] by simp
  have saved: "plan_ok uid claims (set_sandbox i w p)" "plan_ok uid claims (set_sandbox i w (set_sandbox i w' p))"
    if "swRunUID w = swRunUID (plSandboxes p ! i)" "swRunUID w' = swRunUID (plSandboxes p ! i)" for w w'
    using plan_ok_set [OF p] plan_ok_set [OF plan_ok_set [OF p that(2)], of w i] that i by (simp_all add: set_sandbox_def)
  show ?thesis
    unfolding process_sandbox_def Let_def
    by (intro wp_ifI wp_bindI patch_identity_wp [OF own] wp_case_prod wp_case_option wp_returnI delete_pod_wp [OF own] delete_object_wp)
      (auto simp: own i intro!: Q Q0 plan_ok_block saved p)
qed

lemma process_sandboxes_wp:
  assumes "plan_ok uid claims p" and "\<And>i. i \<in> set is \<Longrightarrow> i < length (plSandboxes p)"
    and "\<And>p' keys es. plan_ok uid claims p' \<Longrightarrow> Q (p', keys) (h @ es)"
  shows "wp (own_change uid) (process_sandboxes m is p) Q h"
  using assms
proof (induction "is" arbitrary: p h Q)
  case Nil
  then show ?case using Nil(3) [of p _ "[]"] by (simp add: wp_returnI)
next
  case (Cons i js)
  show ?case
    by (auto intro!: wp_bindI process_sandbox_wp [OF Cons.prems(1)] Cons.IH wp_case_prod wp_returnI simp: Cons.prems(2,3))
qed

lemma remove_claims_wp:
  assumes "list_all (claim_ok uid claims) cs" and "\<And>obj. obj \<in> set claims \<Longrightarrow> read_before ClaimR obj h" and "\<And>x es. Q x (h @ es)"
  shows "wp (own_change uid) (remove_claims m p cs rep) Q h"
  using assms
proof (induction cs arbitrary: h rep)
  case Nil
  then show ?case using Nil(3) [of _ "[]"] by (simp add: wp_returnI)
next
  case (Cons c cs)
  have rest: "wp (own_change uid) (remove_claims m p cs rep') Q (h @ es)" for rep' es
    using Cons.prems by (intro Cons.IH) auto
  have "wp (own_change uid) (remove_claims m p cs rep') Q h" for rep'
    using rest [of _ "[]"] by simp
  with rest Cons.prems(1,2) show ?case
    by (auto simp: claim_ok_def intro!: wp_bindI wp_case_prod delete_object_wp)
qed

text \<open>All objects of a list were read.\<close>

definition all_read :: "resource_kind \<Rightarrow> managed list \<Rightarrow> su_history \<Rightarrow> bool" where
  "all_read kind objs h \<longleftrightarrow> (\<forall>obj \<in> set objs. read_before kind obj h)"

lemma all_read_mono: "all_read kind objs h \<Longrightarrow> set objs' \<subseteq> set objs \<Longrightarrow> set h \<subseteq> set h' \<Longrightarrow> all_read kind objs' h'"
  unfolding all_read_def read_before_def by blast

lemma all_read_list: "SuList kind sc x \<in> set h \<Longrightarrow> all_read kind (items_of x) h"
  by (auto simp: all_read_def read_before_def items_of_def split: sum.splits)

lemma list_kind_read:
  assumes "\<And>x rep' es. all_read kind (items_of x) (h @ es) \<Longrightarrow> Q (x, rep') (h @ es)"
  shows "wp (own_change uid) (list_kind m kind sc desc rep) Q h"
  unfolding list_kind_def
  by (intro wp_bindI wp_su_requests wp_returnI conjI) (auto intro!: assms intro: all_read_list)

lemma judge_optional_read:
  assumes "\<And>x' rep' es. set (items_of x') \<subseteq> set (items_of x) \<Longrightarrow> Q (x', rep') (h @ es)"
  shows "wp (own_change uid) (judge_optional m x crd desc rep) Q h"
proof -
  have "Q (x', rep') h" if "set (items_of x') \<subseteq> set (items_of x)" for x' rep'
    using assms [OF that, of rep' "[]"] by simp
  then show ?thesis
    unfolding judge_optional_def Let_def
    by (intro wp_bindI wp_case_sum wp_ifI emits_wp [OF optionalSandboxAPIAbsent_emits] wp_case_prod wp_returnI)
      (auto simp: items_of_def intro!: assms)
qed

lemma list_optional_read:
  assumes "\<And>opt rep' es. all_read ClaimR (items_of (slClaims opt)) (h @ es) \<Longrightarrow> all_read WarmPoolR (items_of (slWarmPools opt)) (h @ es) \<Longrightarrow>
      Q (opt, rep') (h @ es)"
  shows "wp (own_change uid) (list_optional m sc sc' what rep) Q h"
proof -
  have listed: "all_read kind (items_of x') h'" if "set (items_of x') \<subseteq> set (items_of x)" "SuList kind sc x \<in> set h'" for kind sc x x' h'
    using all_read_mono [OF all_read_list [OF that(2)] that(1) subset_refl] .
  show ?thesis
    unfolding list_optional_def
    by (intro wp_bindI wp_su_requests judge_optional_read wp_case_prod wp_returnI conjI) (auto intro!: assms elim!: listed)
qed

definition access_read :: "access_lists \<Rightarrow> su_history \<Rightarrow> bool" where
  "access_read al h \<longleftrightarrow> all_read ServiceAccountR (items_of (alAccounts al)) h \<and> all_read RoleR (items_of (alRoles al)) h \<and>
     all_read RoleBindingR (items_of (alRoleBindings al)) h \<and> all_read ClusterRoleR (items_of (alClusterRoles al)) h \<and>
     all_read ClusterRoleBindingR (items_of (alClusterRoleBindings al)) h \<and> all_read SecretR (items_of (alSecrets al)) h"

lemma access_read_mono: "access_read al h \<Longrightarrow> set h \<subseteq> set h' \<Longrightarrow> access_read al h'"
  unfolding access_read_def by (auto elim: all_read_mono)

lemma list_access_read:
  assumes "\<And>al rep' es. access_read al (h @ es) \<Longrightarrow> Q (al, rep') (h @ es)"
  shows "wp (own_change uid) (list_access m uid rep) Q h"
  unfolding list_access_def Let_def
  by (intro wp_bindI list_kind_read wp_case_prod wp_returnI) (auto simp: access_read_def intro!: assms elim!: all_read_mono)

lemma remove_all_read:
  assumes "own_judge uid judge" and "all_read kind objs h'" and "set h' \<subseteq> set h" and "\<And>x es. Q x (h @ es)"
  shows "wp (own_change uid) (remove_kind m kind judge objs rep) Q h"
  using all_read_mono [OF assms(2) subset_refl assms(3)]
  by (intro remove_kind_wp [OF assms(1)] assms(4)) (simp add: all_read_def)

lemma remove_access_wp:
  assumes "access_read al h" and "\<And>x es. Q x (h @ es)"
  shows "wp (own_change uid) (remove_access m uid al rep) Q h"
proof -
  have read: "all_read ServiceAccountR (items_of (alAccounts al)) h" "all_read RoleR (items_of (alRoles al)) h"
    "all_read RoleBindingR (items_of (alRoleBindings al)) h" "all_read ClusterRoleR (items_of (alClusterRoles al)) h"
    "all_read ClusterRoleBindingR (items_of (alClusterRoleBindings al)) h" "all_read SecretR (items_of (alSecrets al)) h"
    using assms(1) by (simp_all add: access_read_def)
  show ?thesis
    unfolding remove_access_def Let_def
    by (intro wp_bindI remove_all_read [OF own_judges(2) read(1)] remove_all_read [OF own_judges(3) read(2)]
        remove_all_read [OF own_judges(3) read(3)] remove_all_read [OF own_judges(4) read(4)]
        remove_all_read [OF own_judges(5) read(5)] remove_all_read [OF own_judges(6) read(6)]) (use assms(2) in auto)
qed

text \<open>The state after a confirmation: the events since \<open>n\<close> change nothing, and a clean report vouches for all kinds.\<close>

definition confirmed_since :: "SandboxManager \<Rightarrow> UID \<Rightarrow> nat \<Rightarrow> report \<Rightarrow> su_history \<Rightarrow> bool" where
  "confirmed_since m uid n rep h \<longleftrightarrow> list_all (\<lambda>e. \<not> mutates e) (drop n h) \<and> vouches m uid n UNIV rep h"

lemma confirm_full:
  assumes "\<And>rep' es. confirmed_since m uid (length h) rep' (h @ es) \<Longrightarrow> Q rep' (h @ es)"
  shows "wp (own_change uid) (confirmSuspensionInventory m uid rep) Q h"
proof -
  have "wp (own_change uid) (confirmSuspensionInventory m uid rep) (confirmed_since m uid (length h)) h"
    using wp_mono_event [OF wp_conj [OF emits_wp_suffix [OF confirm_emits] confirm_wp], where R = "own_change uid"]
    by (auto simp: confirmed_since_def [abs_def])
  then show ?thesis by (rule wp_mono) (rule assms)
qed

lemma sandbox_order_range: "i \<in> set (sandbox_order p) \<Longrightarrow> i < length (plSandboxes p)"
  by (auto simp: sandbox_order_def)

lemma cleanup_inventory_wp:
  assumes "all_read ClaimR (items_of (slClaims opt)) h" "all_read WarmPoolR (items_of (slWarmPools opt)) h" "access_read al h"
    and Q: "\<And>rep' es n. confirmed_since m uid n rep' (h @ es) \<Longrightarrow> length h \<le> n \<Longrightarrow> Q rep' (h @ es)"
  shows "wp (own_change uid) (cleanup_inventory m uid pods opt al rep) Q h"
proof -
  have claims: "wp (own_change uid) (remove_claims m p1 (plClaims p1) rep' \<bind> confirmSuspensionInventory m uid) Q (h @ es)"
    if "plan_ok uid (items_of (slClaims opt)) p1" for p1 rep' es
  proof (intro wp_bindI remove_claims_wp)
    show "list_all (claim_ok uid (items_of (slClaims opt))) (plClaims p1)" using that by (simp add: plan_ok_def)
    show "read_before ClaimR obj (h @ es)" if "obj \<in> set (items_of (slClaims opt))" for obj
      using assms(1) that by (simp add: all_read_def)
  qed (auto intro!: confirm_full Q)
  have pools: "all_read WarmPoolR (items_of (slWarmPools opt)) (h @ es)" "access_read al (h @ es)" for es
    using all_read_mono [OF assms(2)] access_read_mono [OF assms(3)] by auto
  show ?thesis
    unfolding cleanup_inventory_def Let_def
    by (intro wp_bindI process_sandboxes_wp [OF make_plan_ok] sandbox_order_range wp_case_prod
        remove_all_read [OF own_judges(1) pools(1)] remove_pods_wp remove_access_wp [OF pools(2)])
      (auto simp: claims pools intro!: remove_access_wp)
qed

lemma check_activation_wp:
  assumes "\<And>e es. Q e (h @ es)"
  shows "wp (own_change uid) (check_activation m a) Q h"
  by (rule emits_wp [OF check_activation_emits]) (auto simp: assms)

lemma CleanupSuspension_wp:
  "wp (own_change uid) (CleanupSuspension m uid act)
     (\<lambda>(rep, e) h'. Confirmed rep \<and> e = None \<longrightarrow> (\<exists>n. length h \<le> n \<and> confirmed_since m uid n (rep, []) h')) h"
proof -
  have joined: "join_errors (snd rep) = None \<longleftrightarrow> rep = (fst rep, [])" for rep :: report
    by (cases rep) (simp add: join_errors_def)
  have unsure: "\<not> Confirmed (fst (recordSuspensionUnverified rep msg (Some err)))" for rep msg err
    by (simp add: Confirmed_def recordSuspensionUnverified_def)
  show ?thesis
    unfolding CleanupSuspension_def Let_def
    by (intro wp_bindI wp_ifI list_kind_read list_optional_read list_access_read check_activation_wp wp_case_prod wp_case_option wp_returnI
        cleanup_inventory_wp)
      (auto simp: joined unsure elim: all_read_mono access_read_mono dest: add_leD1)
qed

lemma confirmed_since_split:
  assumes "wp P m' Q h" and "length h \<le> n" and "confirmed_since m uid n rep (snd (run_state m' h))" and "clean rep"
  shows "\<exists>es1 es2. new_events m' h = es1 @ es2 \<and> list_all (\<lambda>e. \<not> mutates e) es2 \<and> (\<forall>kind. shown_gone m uid kind es2)"
proof -
  obtain es where es: "snd (run_state m' h) = h @ es" "new_events m' h = es"
    using wp_history [OF assms(1)] by blast
  show ?thesis
    using assms(2-4) es by (intro exI [of _ "take (n - length h) es"] exI [of _ "drop (n - length h) es"])
      (auto simp: confirmed_since_def vouches_def drop_append)
qed

text \<open>
  C2: A clean-up pass that returns no error and a report without pending, failed or unverified entries ends with
  a sequence of requests that change nothing and in which every kind of resource was either listed, in the scope of the run, with nothing of the
  run left, or, for the optional kinds, found to have no definition installed.
\<close>

theorem clean_pass_leaves_nothing:
  assumes "returned (CleanupSuspension m uid activation) h = (report, None)" and "Confirmed report"
  shows "\<exists>es1 es2. new_events (CleanupSuspension m uid activation) h = es1 @ es2 \<and> list_all (\<lambda>e. \<not> mutates e) es2 \<and>
    (\<forall>kind. shown_gone m uid kind es2)"
proof -
  obtain n where "length h \<le> n" "confirmed_since m uid n (report, []) (snd (run_state (CleanupSuspension m uid activation) h))"
    using wp_result [OF CleanupSuspension_wp [of uid m activation h]] assms by (auto simp: returned_def)
  then show ?thesis
    using confirmed_since_split [OF CleanupSuspension_wp] assms(2) by (auto simp: clean_def)
qed

text \<open>
  C3: Whatever a pass deletes was read before, during the same pass or earlier, with the label of the run on it (any run label, when
  the pass is for all runs), and is deleted on the precondition of the UID it was read with, which is not empty. The label of the run is
  only written on an object that was read with a UID and without a label of another run, and neither runs nor the configuration are
  changed.
\<close>

theorem cleanup_deletes_own_objects:
  assumes "i < length (new_events (CleanupSuspension m uid activation) h)"
  shows "own_change uid (h @ take i (new_events (CleanupSuspension m uid activation) h)) (new_events (CleanupSuspension m uid activation) h ! i)"
  by (rule good_nth [OF wp_new_events [OF CleanupSuspension_wp] assms])

text \<open>The activation was read as current among the events after the first \<open>n\<close>.\<close>

definition current_read :: "SandboxManager \<Rightarrow> SuspensionActivation \<Rightarrow> nat \<Rightarrow> su_history \<Rightarrow> bool" where
  "current_read m a n h \<longleftrightarrow> (\<exists>config. SuGetConfig cluster_key (Inr config) \<in> set (drop n h) \<and>
     SuspensionActivationMatches (smConditions m) config a)"

lemma current_read_append [simp]: "n \<le> length h \<Longrightarrow> current_read m a n h \<Longrightarrow> current_read m a n (h @ es)"
  by (auto simp: current_read_def)

lemma check_activation_current:
  assumes "n \<le> length h" and "\<And>es. current_read m a n (h @ es) \<Longrightarrow> Q None (h @ es)" and "\<And>e es. Q (Some e) (h @ es)"
  shows "wp (\<lambda>_ e. \<not> mutates e) (check_activation m (Some a)) Q h"
proof -
  have "Q None (h @ [SuContextErr True None, SuGetConfig cluster_key (Inr config)])"
    if "SuspensionActivationMatches (smConditions m) config a" for config
    by (rule assms(2)) (use that assms(1) in \<open>auto simp: current_read_def\<close>)
  with assms(3) show ?thesis
    unfolding check_activation_def RequireCurrentActivation_def su_context_err_def su_get_config_def
    by (auto intro!: wp_bindI wp_performI wp_case_option wp_ifI wp_returnI split: sum.split)
qed

definition guarded :: "SandboxManager \<Rightarrow> SuspensionActivation \<Rightarrow> nat \<Rightarrow> su_history \<Rightarrow> su_event \<Rightarrow> bool" where
  "guarded m a n h e \<longleftrightarrow> mutates e \<longrightarrow> current_read m a n h"

lemma guarded_reads: "\<not> mutates e \<Longrightarrow> guarded m a n h e"
  by (simp add: guarded_def)

lemma guarded_wp:
  assumes "wp P op R h" and "n \<le> length h" and "current_read m a n h"
  shows "wp (guarded m a n) op (\<lambda>_ _. True) h"
proof -
  have "wp (\<lambda>_ _. True) op (\<lambda>_ _. True) h"
    using assms(1) by (auto simp: wp_def intro: good_mono)
  then have "wp (\<lambda>h' e. (\<exists>es. h' = h @ es) \<longrightarrow> guarded m a n h' e) op (\<lambda>_ _. True) h"
    by (rule wp_mono_event) (auto simp: guarded_def assms(2,3))
  then show ?thesis by (rule wp_later)
qed

lemma guarded_reading:
  assumes "emits (\<lambda>e. \<not> mutates e) op" and "wp P op Q h"
  shows "wp (guarded m a n) op Q h"
  using assms unfolding emits_def wp_def by (metis (no_types, lifting) append_same_eq good_mono guarded_reads same_append_eq)

lemma cleanup_guarded: "wp (guarded m a (length h)) (CleanupSuspension m uid (Some a)) (\<lambda>_ _. True) h"
proof -
  have inventory: "wp (guarded m a (length h)) (cleanup_inventory m uid pods opt al rep \<bind> (\<lambda>r. State_Monad.return (f r))) (\<lambda>_ _. True) h'"
    if "all_read ClaimR (items_of (slClaims opt)) h'" "all_read WarmPoolR (items_of (slWarmPools opt)) h'" "access_read al h'"
      "length h \<le> length h'" "current_read m a (length h) h'" for pods opt al rep h' and f :: "report \<Rightarrow> SuspensionCleanup \<times> error option"
    by (intro wp_bindI wp_mono [OF guarded_wp [OF cleanup_inventory_wp [OF that(1-3), of m uid "\<lambda>_ _. True"] that(4,5)]])
      (auto intro: wp_returnI)
  have reading: "wp (guarded m a (length h)) (check_activation m (Some a)) Q h'"
    if "length h \<le> length h'" "\<And>es. current_read m a (length h) (h' @ es) \<Longrightarrow> Q None (h' @ es)" "\<And>e es. Q (Some e) (h' @ es)" for Q h'
    by (rule wp_mono_event, rule check_activation_current [of "length h"]) (auto simp: guarded_reads that)
  show ?thesis
    unfolding CleanupSuspension_def Let_def
    by (intro wp_bindI wp_ifI guarded_reading [OF list_kind_emits list_kind_read] guarded_reading [OF list_optional_emits list_optional_read]
        guarded_reading [OF list_access_emits list_access_read] reading wp_case_prod wp_returnI TrueI)
      (auto intro!: wp_returnI inventory elim: all_read_mono access_read_mono)
qed

text \<open>
  C14: A pass for an accepted generation of the global suspension deletes or patches something only after it has read, in the same
  pass, a configuration in which that very activation is current.
\<close>

theorem changes_need_current_activation:
  assumes es: "es = new_events (CleanupSuspension m uid (Some activation)) h" and "i < length es" and "mutates (es ! i)"
  shows "\<exists>j config. j < i \<and> es ! j = SuGetConfig cluster_key (Inr config) \<and> SuspensionActivationMatches (smConditions m) config activation"
proof -
  have "guarded m activation (length h) (h @ take i es) (es ! i)"
    using good_nth [OF wp_new_events [OF cleanup_guarded] assms(2) [unfolded es]] by (simp add: es)
  then obtain config where "SuGetConfig cluster_key (Inr config) \<in> set (take i es)" "SuspensionActivationMatches (smConditions m) config activation"
    using assms(3) by (auto simp: guarded_def current_read_def)
  then show ?thesis using assms(2) by (auto simp: in_set_conv_nth)
qed

section \<open>Witnesses\<close>

text \<open>An API server that holds the cluster role binding of a run until it is deleted.\<close>

definition sample_binding :: managed where
  "sample_binding = \<lparr>moMeta = no_meta\<lparr>mName := ''crb-1'', mUID := ''c-1'', mLabels := [LabelRun \<mapsto> ''u-1'', LabelComponent \<mapsto> ''execution-rbac'']\<rparr>,
     moPhase = PodRunning, moSandboxRef = Inr None\<rparr>"

definition is_delete :: "su_event \<Rightarrow> bool" where
  "is_delete e = (case e of SuDelete _ _ _ _ _ \<Rightarrow> True | _ \<Rightarrow> False)"

definition binding_api :: "AgenticOLSConfig \<Rightarrow> suspension_api" where
  "binding_api config = \<lparr>se_now = (\<lambda>_. 5000), se_context_err = (\<lambda>_ _. None), se_get_config = (\<lambda>_ _. Inr config),
     se_patch_config = (\<lambda>_ _ new. Inr new), se_list_runs = (\<lambda>_. Inr []), se_get_run = (\<lambda>_ _. Inl missing), se_patch_run = (\<lambda>_ _ new. Inr new),
     se_list = (\<lambda>h kind sc. Inr (if kind = ClusterRoleBindingR \<and> \<not> list_ex is_delete h then [sample_binding] else [])),
     se_get = (\<lambda>h _ _. Inl missing), se_get_crd = (\<lambda>_ _. None), se_delete = (\<lambda>_ _ _ _ _. None), se_patch_labels = (\<lambda>_ _ _ _ _. Inl missing)\<rparr>"

definition suspended_config :: AgenticOLSConfig where
  "suspended_config = \<lparr>olMeta = no_meta\<lparr>mName := ''cluster'', mUID := ''cfg''\<rparr>, olSuspended = True,
     olConditions = [cond AgenticOLSConfigConditionSuspended ConditionTrue ''AdminActivated'']\<rparr>"

definition sample_manager :: SandboxManager where
  "sample_manager = \<lparr>smApi = binding_api suspended_config, smConditions = ref_server empty_world, smReader = True,
     smNamespace = ''openshift-lightspeed'', smForceBareMode = Some True, smMode = Some ''bare-pod'', smIsNoMatchError = (\<lambda>_. False)\<rparr>"

definition sample_activation :: SuspensionActivation where
  "sample_activation = \<lparr>saUID = ''cfg'', saGeneration = 1, saStart = 1000\<rparr>"

lemma sample_pass_returns:
  "returned (CleanupSuspension sample_manager ''u-1'' (Some sample_activation)) [] = (\<lparr>scPending = [], scFailures = [], scUnverified = []\<rparr>, None)"
  by code_simp

lemma sample_pass_events:
  "map mutates (new_events (CleanupSuspension sample_manager ''u-1'' (Some sample_activation)) []) = replicate 12 False @ [True] @ replicate 10 False"
  by code_simp

lemma sample_pass_delete:
  "12 < length (new_events (CleanupSuspension sample_manager ''u-1'' (Some sample_activation)) [])"
  "mutates (new_events (CleanupSuspension sample_manager ''u-1'' (Some sample_activation)) [] ! 12)"
proof -
  let ?es = "new_events (CleanupSuspension sample_manager ''u-1'' (Some sample_activation)) []"
  show "12 < length ?es"
    using arg_cong [OF sample_pass_events, of length] by simp
  then show "mutates (?es ! 12)"
    using arg_cong [OF sample_pass_events, of "\<lambda>bs. bs ! 12"] by (simp add: nth_append)
qed

theorem clean_pass_leaves_nothing_witness:
  "\<exists>es1 es2. new_events (CleanupSuspension sample_manager ''u-1'' (Some sample_activation)) [] = es1 @ es2 \<and> list_all (\<lambda>e. \<not> mutates e) es2 \<and>
    shown_gone sample_manager ''u-1'' ClusterRoleBindingR es2"
  using clean_pass_leaves_nothing [OF sample_pass_returns] by (auto simp: Confirmed_def)

theorem cleanup_deletes_own_objects_witness:
  "own_change ''u-1'' (take 12 (new_events (CleanupSuspension sample_manager ''u-1'' (Some sample_activation)) []))
     (new_events (CleanupSuspension sample_manager ''u-1'' (Some sample_activation)) [] ! 12)"
  using cleanup_deletes_own_objects [OF sample_pass_delete(1)] by simp

theorem changes_need_current_activation_witness:
  "\<exists>j config. j < 12 \<and> new_events (CleanupSuspension sample_manager ''u-1'' (Some sample_activation)) [] ! j = SuGetConfig cluster_key (Inr config) \<and>
     SuspensionActivationMatches (smConditions sample_manager) config sample_activation"
  using changes_need_current_activation [OF refl sample_pass_delete] .

end
