(* ===== verification/Diagnostics.thy ===== *)
theory Diagnostics
  imports KubeApi "HOL-Library.List_Lexorder" "HOL-Library.Char_ord"
begin

text \<open>
  The text helpers of the global suspension controller, from \<^verbatim>\<open>controller/agenticolsconfig/reconciler.go\<close>:
  sorting without duplicates, and the cut of a diagnostic message to 1024 characters. Go cuts at the boundaries of runes, so
  the decoding of UTF-8 that \<^verbatim>\<open>[]rune(message)\<close> performs is modelled down to the bytes.
\<close>

section \<open>Runes\<close>

abbreviation byte :: "char \<Rightarrow> nat" where
  "byte c \<equiv> of_char c"

definition continuation :: "char \<Rightarrow> bool" where
  "continuation c \<longleftrightarrow> 128 \<le> byte c \<and> byte c \<le> 191"

text \<open>The second byte after a first byte of a three or four byte sequence: overlong forms and surrogates are excluded.\<close>

definition second_of_three :: "nat \<Rightarrow> nat \<Rightarrow> bool" where
  "second_of_three b c \<longleftrightarrow> (if b = 224 then 160 \<le> c \<and> c \<le> 191 else if b = 237 then 128 \<le> c \<and> c \<le> 159
     else 225 \<le> b \<and> b \<le> 239 \<and> 128 \<le> c \<and> c \<le> 191)"

definition second_of_four :: "nat \<Rightarrow> nat \<Rightarrow> bool" where
  "second_of_four b c \<longleftrightarrow> (if b = 240 then 144 \<le> c \<and> c \<le> 191 else if b = 244 then 128 \<le> c \<and> c \<le> 143
     else 241 \<le> b \<and> b \<le> 243 \<and> 128 \<le> c \<and> c \<le> 191)"

text \<open>The number of bytes of the valid sequence a string starts with; 0 when it starts with none.\<close>

definition valid_width :: "string \<Rightarrow> nat" where
  "valid_width s = (case s of [] \<Rightarrow> 0 | a # s1 \<Rightarrow>
     if byte a < 128 then 1
     else (case s1 of [] \<Rightarrow> 0 | b # s2 \<Rightarrow>
       if 194 \<le> byte a \<and> byte a \<le> 223 \<and> continuation b then 2
       else (case s2 of [] \<Rightarrow> 0 | c # s3 \<Rightarrow>
         if second_of_three (byte a) (byte b) \<and> continuation c then 3
         else (case s3 of [] \<Rightarrow> 0 | d # _ \<Rightarrow>
           if second_of_four (byte a) (byte b) \<and> continuation c \<and> continuation d then 4 else 0))))"

text \<open>A byte that starts no valid sequence reads as the replacement character.\<close>

definition replacement :: string where
  "replacement = [char_of (239 :: nat), char_of (191 :: nat), char_of (189 :: nat)]"

lemma valid_width_length: "valid_width s \<le> length s"
  by (auto simp: valid_width_def split: list.splits)

text \<open>\<open>[]rune(s)\<close>, each rune as the bytes \<open>string\<close> gives it.\<close>

function runes :: "string \<Rightarrow> string list" where
  "runes s = (if s = [] then [] else if valid_width s = 0 then replacement # runes (drop 1 s)
     else take (valid_width s) s # runes (drop (valid_width s) s))"
  by pat_completeness auto
termination
proof (relation "measure length")
  show "(drop (valid_width s) s, s) \<in> measure length" if "s \<noteq> []" "valid_width s \<noteq> 0" for s
    using that by simp
qed auto

declare runes.simps [simp del]

lemma runes_Nil [simp]: "runes [] = []"
  by (simp add: runes.simps)

definition is_rune :: "string \<Rightarrow> bool" where
  "is_rune r \<longleftrightarrow> r \<noteq> [] \<and> valid_width r = length r"

lemma replacement_rune: "is_rune replacement"
  by (simp add: is_rune_def replacement_def valid_width_def second_of_three_def continuation_def)

lemma valid_width_simps:
  "byte a < 128 \<Longrightarrow> valid_width (a # t) = 1"
  "194 \<le> byte a \<Longrightarrow> byte a \<le> 223 \<Longrightarrow> continuation b \<Longrightarrow> valid_width (a # b # t) = 2"
  "second_of_three (byte a) (byte b) \<Longrightarrow> continuation c \<Longrightarrow> valid_width (a # b # c # t) = 3"
  "second_of_four (byte a) (byte b) \<Longrightarrow> continuation c \<Longrightarrow> continuation d \<Longrightarrow> valid_width (a # b # c # d # t) = 4"
  by (auto simp: valid_width_def second_of_three_def second_of_four_def split: if_splits)

lemma valid_width_cases:
  assumes "valid_width s \<noteq> 0"
  obtains a t where "s = a # t" "byte a < 128"
    | a b t where "s = a # b # t" "194 \<le> byte a" "byte a \<le> 223" "continuation b"
    | a b c t where "s = a # b # c # t" "second_of_three (byte a) (byte b)" "continuation c"
    | a b c d t where "s = a # b # c # d # t" "second_of_four (byte a) (byte b)" "continuation c" "continuation d"
  using assms unfolding valid_width_def by (simp split: list.splits if_splits)

lemma valid_width_append: "valid_width s \<noteq> 0 \<Longrightarrow> valid_width (take (valid_width s) s @ t) = valid_width s"
  by (erule valid_width_cases) (simp_all add: valid_width_simps numeral_eq_Suc)

lemma valid_width_take: "valid_width s \<noteq> 0 \<Longrightarrow> is_rune (take (valid_width s) s)"
  using valid_width_append [of s "[]"] valid_width_length [of s] by (auto simp: is_rune_def)

lemma runes_append: "is_rune r \<Longrightarrow> runes (r @ t) = r # runes t"
  using valid_width_append [of r t] by (subst runes.simps) (auto simp: is_rune_def)

lemma runes_concat: "list_all is_rune rs \<Longrightarrow> runes (concat rs @ t) = rs @ runes t"
  by (induction rs) (auto simp: runes_append)

lemma runes_valid: "list_all is_rune (runes s)"
proof (induction s rule: runes.induct)
  case (1 s)
  then show ?case
    by (subst runes.simps) (auto simp: replacement_rune valid_width_take)
qed

lemma length_runes: "length (runes s) \<le> length s"
proof (induction s rule: runes.induct)
  case (1 s)
  show ?case
  proof (cases "s = [] \<or> valid_width s = 0")
    case True
    with 1(1) runes.simps [of s] show ?thesis by (cases s) auto
  next
    case False
    with 1(2) valid_width_length [of s] runes.simps [of s] show ?thesis by auto
  qed
qed

section \<open>Bounded diagnostics\<close>

definition maxDiagnosticLength :: nat where
  "maxDiagnosticLength = 1024"
definition maxDiagnosticItems :: nat where
  "maxDiagnosticItems = 6"

definition boundedDiagnostic :: "string \<Rightarrow> string" where
  "boundedDiagnostic message =
    (if length message \<le> maxDiagnosticLength then message
     else let rs = runes message in
       if length rs \<le> maxDiagnosticLength then message
       else concat (take (maxDiagnosticLength - 3) rs) @ ''...'')"

lemma runes_ascii: "list_all (\<lambda>c. byte c < 128) s \<Longrightarrow> runes s = map (\<lambda>c. [c]) s"
proof (induction s)
  case (Cons c s)
  then have "is_rune [c]" by (simp add: is_rune_def valid_width_def)
  from runes_append [OF this, of s] Cons show ?case by simp
qed simp

section \<open>Sorting without duplicates\<close>

text \<open>
  The loop of \<open>sortedUnique\<close>: \<open>i\<close> is the index of the next value to read and \<open>w\<close> the one to write. The slice is read and
  written in place.
\<close>

function unique_loop :: "string list \<Rightarrow> nat \<Rightarrow> nat \<Rightarrow> string list \<times> nat" where
  "unique_loop values i w =
    (if length values \<le> i then (values, w)
     else let value = values ! i in
       if w \<noteq> 0 \<and> values ! (w - 1) = value then unique_loop values (i + 1) w
       else unique_loop (values[w := value]) (i + 1) (w + 1))"
  by pat_completeness auto
termination by (relation "measure (\<lambda>(values, i, w). length values - i)") auto

declare unique_loop.simps [simp del]

definition sortedUnique :: "string list \<Rightarrow> string list" where
  "sortedUnique values =
    (if length values = 0 then []
     else case unique_loop (sort values) 0 0 of (written, w) \<Rightarrow> take w written)"

text \<open>After the first \<open>i\<close> values the written part holds those values without adjacent duplicates; the rest is untouched.\<close>

lemma remdups_adj_snoc: "remdups_adj (xs @ [y]) = (if xs \<noteq> [] \<and> last xs = y then remdups_adj xs else remdups_adj xs @ [y])"
  by (cases xs rule: rev_cases) (simp_all add: remdups_adj_append_two)

lemma unique_loop_remdups:
  assumes "w \<le> i" "i \<le> length orig" "length vs = length orig" "drop i vs = drop i orig" "take w vs = remdups_adj (take i orig)"
  shows "case unique_loop vs i w of (written, n) \<Rightarrow> take n written = remdups_adj orig"
  using assms
proof (induction vs i w rule: unique_loop.induct)
  case (1 vs i w)
  show ?case
  proof (cases "length vs \<le> i")
    case True
    with "1.prems" show ?thesis by (simp add: unique_loop.simps)
  next
    case False
    then have i: "i < length orig" using "1.prems"(3) by simp
    have val: "vs ! i = orig ! i"
      using "1.prems"(3,4) i by (metis hd_drop_conv_nth)
    have rest: "drop (i + 1) vs = drop (i + 1) orig"
      using arg_cong [OF "1.prems"(4), of "drop 1"] by simp
    have next_orig: "take (i + 1) orig = take i orig @ [orig ! i]" using i by (simp add: take_Suc_conv_app_nth)
    have w: "w = length (remdups_adj (take i orig))"
      using "1.prems"(1-3,5) by (metis length_take min.absorb2 order_trans)
    have last: "vs ! (w - 1) = last (take i orig)" if "w \<noteq> 0"
    proof -
      have "vs ! (w - 1) = last (take w vs)"
        using that "1.prems"(1-3) by (subst last_conv_nth) auto
      then show ?thesis using that "1.prems"(5) by (simp add: last_remdups_adj)
    qed
    have zero: "w = 0 \<longleftrightarrow> take i orig = []" using w by simp
    show ?thesis
    proof (cases "w \<noteq> 0 \<and> vs ! (w - 1) = vs ! i")
      case True
      then have "take w vs = remdups_adj (take (i + 1) orig)"
        using last zero val "1.prems"(5) unfolding next_orig remdups_adj_snoc by simp
      then show ?thesis
        using "1.IH"(1) [OF False refl True] True False rest i "1.prems" by (subst unique_loop.simps) simp
    next
      case new: False
      have "take (w + 1) (vs[w := vs ! i]) = take w vs @ [vs ! i]"
        using "1.prems"(1-3) i by (simp add: take_Suc_conv_app_nth)
      then have "take (w + 1) (vs[w := vs ! i]) = remdups_adj (take (i + 1) orig)"
        using last zero val "1.prems"(5) new unfolding next_orig remdups_adj_snoc by auto
      moreover have "drop (i + 1) (vs[w := vs ! i]) = drop (i + 1) orig"
        using rest "1.prems"(1) by simp
      ultimately show ?thesis
        using "1.IH"(2) [OF False refl new] new False i "1.prems"(1-3) by (subst unique_loop.simps) (auto simp: Let_def)
    qed
  qed
qed

lemma sorted_remdups_adj_distinct: "sorted xs \<Longrightarrow> distinct (remdups_adj xs)"
  by (induction xs rule: remdups_adj.induct) auto

lemma sortedUnique_remdups: "sortedUnique vs = remdups_adj (sort vs)"
  using unique_loop_remdups [of 0 0 "sort vs" "sort vs"] by (auto simp: sortedUnique_def split: prod.splits)

text \<open>
  \<open>sortedUnique\<close>, which sorts a slice and overwrites it in place while it reads it, returns the distinct values of
  its argument in ascending order, the sorted list of their set.
\<close>

theorem sortedUnique_sorted_set: "sortedUnique values = sorted_list_of_set (set values)"
  unfolding sortedUnique_remdups
  by (rule sorted_distinct_set_unique)
    (simp_all add: sorted_remdups_adj sorted_remdups_adj_distinct)

text \<open>
  A diagnostic message of the controller never has more than 1024 characters, counted as UTF-8 characters with every
  ill-formed byte as one, and a message within the limit is left as it is.
\<close>

theorem boundedDiagnostic_length:
  "length (runes (boundedDiagnostic message)) \<le> maxDiagnosticLength \<and>
   (length (runes message) \<le> maxDiagnosticLength \<longrightarrow> boundedDiagnostic message = message)"
proof -
  let ?kept = "take (maxDiagnosticLength - 3) (runes message)"
  have "list_all is_rune ?kept"
    using runes_valid [of message] by (auto simp: list_all_iff dest: in_set_takeD)
  then have "runes (concat ?kept @ ''...'') = ?kept @ runes ''...''" by (rule runes_concat)
  moreover have "runes ''...'' = map (\<lambda>c. [c]) ''...''" by (rule runes_ascii) simp
  ultimately have "length (runes (concat ?kept @ ''...'')) \<le> maxDiagnosticLength"
    by (simp add: maxDiagnosticLength_def)
  then show ?thesis
    using length_runes [of message] by (auto simp: boundedDiagnostic_def Let_def)
qed

theorem boundedDiagnostic_length_witness:
  "boundedDiagnostic ''cleanup pending'' = ''cleanup pending'' \<and> length (runes (boundedDiagnostic ''cleanup pending'')) \<le> maxDiagnosticLength"
  using boundedDiagnostic_length [of "''cleanup pending''"] by (simp add: maxDiagnosticLength_def runes_ascii)

end
