(* ===== verification/GlobalSuspension.thy ===== *)
theory GlobalSuspension
  imports CleanupSafety Diagnostics
begin

text \<open>
  The controller of the global suspension switch: \<^verbatim>\<open>controller/agenticolsconfig/reconciler.go\<close>.

  When an administrator suspends the system, the controller accepts the generation of the configuration as an activation with a fixed start, writes a stop
  marker on every run the activation affects, runs clean-up passes, and reports the outcome: the condition \<open>Suspended\<close> and, once everything is
  confirmed, \<open>SafeToResume\<close>. The requests are the events of \<open>CleanupPass\<close>, so that the clean-up is the very pass modelled there.
\<close>

section \<open>Constants and state\<close>

definition requeueDelay :: Duration where
  "requeueDelay = 5 * Second"
definition statusPatchAttempts :: nat where
  "statusPatchAttempts = 3"

definition reasonStopping :: string where
  [go_consts]: "reasonStopping = ''Stopping''"
definition reasonAdminActivated :: string where
  [go_consts]: "reasonAdminActivated = ''AdminActivated''"
definition reasonAdminActivatedWithErrors :: string where
  [go_consts]: "reasonAdminActivatedWithErrors = ''AdminActivatedWithErrors''"
definition reasonAdminDeactivated :: string where
  [go_consts]: "reasonAdminDeactivated = ''AdminDeactivated''"
definition reasonCleanupConfirmed :: string where
  [go_consts]: "reasonCleanupConfirmed = ''CleanupConfirmed''"
definition eventReasonSuspensionActivated :: string where
  [go_consts]: "eventReasonSuspensionActivated = ''SuspensionActivated''"
definition eventReasonSuspensionDeactivated :: string where
  [go_consts]: "eventReasonSuspensionDeactivated = ''SuspensionDeactivated''"

text \<open>
  The fields of the reconciler: whether it has a client, an event recorder and an uncached reader, its sandbox manager, the API server
  it talks to, and the condition helpers.
\<close>

record GlobalReconciler =
  grClient :: bool
  grRecorder :: bool
  grReader :: bool
  grSandbox :: "SandboxManager option"
  grApi :: suspension_api
  grConditions :: kube

definition su_now :: "suspension_api \<Rightarrow> Time sop" where
  "su_now A = perform (se_now A) SuNow"

definition su_patch_config :: "suspension_api \<Rightarrow> AgenticOLSConfig \<Rightarrow> AgenticOLSConfig \<Rightarrow> (error + AgenticOLSConfig) sop" where
  "su_patch_config A base new = perform (\<lambda>h. se_patch_config A h base new) (SuPatchConfig base new)"

definition su_list_runs :: "suspension_api \<Rightarrow> (error + AgenticRun list) sop" where
  "su_list_runs A = perform (se_list_runs A) SuListRuns"

definition su_get_run :: "suspension_api \<Rightarrow> ObjectKey \<Rightarrow> (error + AgenticRun) sop" where
  "su_get_run A key = perform (\<lambda>h. se_get_run A h key) (SuGetRun key)"

definition su_patch_run :: "suspension_api \<Rightarrow> AgenticRun \<Rightarrow> AgenticRun \<Rightarrow> (error + AgenticRun) sop" where
  "su_patch_run A base new = perform (\<lambda>h. se_patch_run A h base new) (SuPatchRun base new)"

definition su_record :: "GlobalReconciler \<Rightarrow> string \<Rightarrow> unit sop" where
  "su_record G reason = (if grRecorder G then perform (\<lambda>_. ()) (\<lambda>_. SuRecord reason) else State_Monad.return ())"

section \<open>Accepting an activation\<close>

definition suspended_condition :: "GlobalReconciler \<Rightarrow> AgenticOLSConfig \<Rightarrow> Condition option" where
  "suspended_condition G config = FindStatusCondition (grConditions G) (olConditions config) AgenticOLSConfigConditionSuspended"

definition current_activation :: "GlobalReconciler \<Rightarrow> AgenticOLSConfig \<Rightarrow> bool" where
  "current_activation G config = (case suspended_condition G config of
      Some c \<Rightarrow> cStatus c = ConditionTrue \<and> cObservedGeneration c = mGeneration (olMeta config) \<and> \<not> IsZero (cLastTransitionTime c)
    | None \<Rightarrow> False)"

text \<open>\<open>now.UTC().Truncate(time.Second)\<close> rounds down to a whole second after the zero time.\<close>

definition activationStart :: "GlobalReconciler \<Rightarrow> AgenticOLSConfig \<Rightarrow> Time \<Rightarrow> Time" where
  "activationStart G config t = (case suspended_condition G config of
      Some c \<Rightarrow>
        if cStatus c = ConditionTrue \<and> cObservedGeneration c = mGeneration (olMeta config) \<and> \<not> IsZero (cLastTransitionTime c)
        then cLastTransitionTime c else t - t mod Second
    | None \<Rightarrow> t - t mod Second)"

text \<open>
  The time that \<open>SetStatusCondition\<close> puts on the condition is overwritten at once; \<open>at\<close> stands for it.
\<close>

definition setConditionAt :: "kube \<Rightarrow> Condition list \<Rightarrow> Condition \<Rightarrow> Time \<Rightarrow> Condition list" where
  "setConditionAt K cs c at = set_transition_time (SetStatusCondition K at cs c) (cType c) at"

definition condition_of :: "string \<Rightarrow> ConditionStatus \<Rightarrow> string \<Rightarrow> string \<Rightarrow> int \<Rightarrow> Condition" where
  "condition_of t s reason message gen = \<lparr>cType = t, cStatus = s, cReason = reason, cMessage = message,
     cObservedGeneration = gen, cLastTransitionTime = 0\<rparr>"

text \<open>The conditions an acceptance writes, for a new activation and for a current one without a safety condition of its generation.\<close>

definition accepted_conditions :: "GlobalReconciler \<Rightarrow> AgenticOLSConfig \<Rightarrow> Time \<Rightarrow> Condition list" where
  "accepted_conditions G current start =
    (let K = grConditions G; gen = mGeneration (olMeta current) in
     if \<not> current_activation G current then
       setConditionAt K
         (setConditionAt K (olConditions current)
           (condition_of AgenticOLSConfigConditionSuspended ConditionTrue reasonStopping
             ''Suspension accepted; global workload and access cleanup is in progress'' gen) start)
         (condition_of AgenticOLSConfigConditionSafeToResume ConditionFalse reasonStopping
           ''Cleanup and durable run-stop acceptance are not yet confirmed'' gen) start
     else
       setConditionAt K (olConditions current)
         (condition_of AgenticOLSConfigConditionSafeToResume ConditionFalse reasonStopping
           ''Current-generation resumption safety has not been confirmed'' gen) start)"

definition needsSafetyCondition :: "GlobalReconciler \<Rightarrow> AgenticOLSConfig \<Rightarrow> bool" where
  "needsSafetyCondition G current =
    (case FindStatusCondition (grConditions G) (olConditions current) AgenticOLSConfigConditionSafeToResume of
       None \<Rightarrow> True | Some c \<Rightarrow> cObservedGeneration c \<noteq> mGeneration (olMeta current))"

text \<open>The configuration, the start, whether the activation is fresh and whether it is active; or an error.\<close>

type_synonym activation_status = "AgenticOLSConfig option \<times> Time \<times> bool \<times> bool"

fun ensure_attempts :: "GlobalReconciler \<Rightarrow> nat \<Rightarrow> ObjectKey \<Rightarrow> (error + activation_status) sop" where
  "ensure_attempts G 0 key = State_Monad.return (Inl (NewError
     ''persist current-generation suspension acceptance: status conflict retry limit reached''))"
| "ensure_attempts G (Suc n) key = do {
     g \<leftarrow> su_get_config (grApi G) key;
     case g of
       Inl e \<Rightarrow> State_Monad.return (if IsNotFound e then Inr (None, 0, False, False)
         else Inl (WrapError ''read AgenticOLSConfig through uncached API reader'' e))
     | Inr current \<Rightarrow>
         if \<not> olSuspended current then State_Monad.return (Inr (Some current, 0, False, False))
         else do {
           t \<leftarrow> su_now (grApi G);
           let start = activationStart G current t;
           if current_activation G current \<and> \<not> needsSafetyCondition G current
           then State_Monad.return (Inr (Some current, start, False, True))
           else do {
             p \<leftarrow> su_patch_config (grApi G) current (current\<lparr>olConditions := accepted_conditions G current start\<rparr>);
             case p of
               Inl e \<Rightarrow>
                 if IsConflict e then ensure_attempts G n key
                 else State_Monad.return (Inl (WrapError ''persist current-generation suspension acceptance'' e))
             | Inr updated \<Rightarrow> State_Monad.return (Inr (Some updated, start, \<not> current_activation G current, True))
           }
         }
   }"

definition ensureActivationStatus :: "GlobalReconciler \<Rightarrow> ObjectKey \<Rightarrow> (error + activation_status) sop" where
  "ensureActivationStatus G key = ensure_attempts G statusPatchAttempts key"

section \<open>Deactivation\<close>

definition resumed_conditions :: "GlobalReconciler \<Rightarrow> AgenticOLSConfig \<Rightarrow> Time \<Rightarrow> Condition list" where
  "resumed_conditions G current t = setConditionAt (grConditions G) (olConditions current)
     (condition_of AgenticOLSConfigConditionSuspended ConditionFalse reasonAdminDeactivated
       ''System resumed; agentic operations re-enabled'' (mGeneration (olMeta current))) t"

fun deactivation_attempts :: "GlobalReconciler \<Rightarrow> nat \<Rightarrow> ObjectKey \<Rightarrow> outcome sop" where
  "deactivation_attempts G 0 key =
     State_Monad.return (no_result, Some (NewError ''patch Suspended=False: status conflict retry limit reached''))"
| "deactivation_attempts G (Suc n) key = do {
     g \<leftarrow> su_get_config (grApi G) key;
     case g of
       Inl e \<Rightarrow> State_Monad.return (if IsNotFound e then (no_result, None)
         else (no_result, Some (WrapError ''read AgenticOLSConfig through uncached API reader'' e)))
     | Inr current \<Rightarrow>
         if olSuspended current then State_Monad.return (no_result\<lparr>crRequeue := True\<rparr>, None)
         else (case suspended_condition G current of
             None \<Rightarrow> State_Monad.return (no_result, None)
           | Some existing \<Rightarrow>
               let wasSuspended = (cStatus existing = ConditionTrue) in
               if \<not> wasSuspended \<and> cObservedGeneration existing = mGeneration (olMeta current)
               then State_Monad.return (no_result, None)
               else do {
                 t \<leftarrow> su_now (grApi G);
                 p \<leftarrow> su_patch_config (grApi G) current (current\<lparr>olConditions := resumed_conditions G current t\<rparr>);
                 case p of
                   Inl e \<Rightarrow>
                     if IsConflict e then deactivation_attempts G n key
                     else State_Monad.return (no_result, Some (WrapError ''patch Suspended=False'' e))
                 | Inr updated \<Rightarrow> do {
                     (if wasSuspended then su_record G eventReasonSuspensionDeactivated else State_Monad.return ());
                     State_Monad.return (no_result, None)
                   }
               })
   }"

definition handleDeactivation :: "GlobalReconciler \<Rightarrow> ObjectKey \<Rightarrow> outcome sop" where
  "handleDeactivation G key = deactivation_attempts G statusPatchAttempts key"

section \<open>Evidence\<close>

record activationEvidence =
  aeCleanup :: SuspensionCleanup
  aeCleanupErr :: "error option"
  aeRunInventoryErr :: "error option"
  aeUnsavedMarkers :: "string list"
  aePendingRunOutcomes :: "string list"
  aeUnverifiedRemote :: "string list"

definition cleanupConfirmed :: "activationEvidence \<Rightarrow> bool" where
  "cleanupConfirmed e \<longleftrightarrow> aeCleanupErr e = None \<and> Confirmed (aeCleanup e)"

definition runAcceptanceConfirmed :: "activationEvidence \<Rightarrow> bool" where
  "runAcceptanceConfirmed e \<longleftrightarrow> aeRunInventoryErr e = None \<and> length (aeUnsavedMarkers e) = 0"

definition safeToResume :: "activationEvidence \<Rightarrow> bool" where
  "safeToResume e \<longleftrightarrow> cleanupConfirmed e \<and> runAcceptanceConfirmed e \<and> length (aeUnverifiedRemote e) = 0"

definition unresolved :: "activationEvidence \<Rightarrow> bool" where
  "unresolved e \<longleftrightarrow> \<not> cleanupConfirmed e \<or> \<not> runAcceptanceConfirmed e \<or> length (aePendingRunOutcomes e) > 0 \<or>
     length (aeUnverifiedRemote e) > 0"

fun join_with :: "string \<Rightarrow> string list \<Rightarrow> string" where
  "join_with sep [] = []"
| "join_with sep [w] = w"
| "join_with sep (w # ws) = w @ sep @ join_with sep ws"

definition diagnostic_items :: "activationEvidence \<Rightarrow> string list" where
  "diagnostic_items e = sortedUnique (
     map (\<lambda>item. ''cleanup pending: '' @ item) (scPending (aeCleanup e)) @
     map (\<lambda>item. ''cleanup failed: '' @ item) (scFailures (aeCleanup e)) @
     map (\<lambda>item. ''cleanup unverified: '' @ item) (scUnverified (aeCleanup e)) @
     aeUnsavedMarkers e @ aePendingRunOutcomes e @ aeUnverifiedRemote e @
     (if aeCleanupErr e \<noteq> None then [''cleanup pass returned an error''] else []) @
     (if aeRunInventoryErr e \<noteq> None then [''run inventory unavailable''] else []))"

definition diagnostic_counts :: "activationEvidence \<Rightarrow> string" where
  "diagnostic_counts e =
     decimal (length (scPending (aeCleanup e))) @ '' cleanup pending, '' @
     decimal (length (scFailures (aeCleanup e))) @ '' cleanup failures, '' @
     decimal (length (scUnverified (aeCleanup e))) @ '' cleanup unverified, '' @
     decimal (length (aeUnsavedMarkers e)) @ '' unsaved stop markers, '' @
     decimal (length (aePendingRunOutcomes e)) @ '' run outcomes pending, '' @
     decimal (length (aeUnverifiedRemote e)) @ '' remote executions/access unverified'' @
     (if aeCleanupErr e \<noteq> None then '', cleanup pass error'' else '''') @
     (if aeRunInventoryErr e \<noteq> None then '', run inventory unavailable'' else '''')"

definition diagnostic :: "activationEvidence \<Rightarrow> string \<Rightarrow> string" where
  "diagnostic e prefix =
    (let items = diagnostic_items e;
         message = prefix @ '': '' @ diagnostic_counts e;
         selected = (if length items > maxDiagnosticItems
           then take maxDiagnosticItems items @ [decimal (length items - maxDiagnosticItems) @ '' additional unresolved items'']
           else items) in
     boundedDiagnostic (if items \<noteq> [] then message @ ''; unresolved: '' @ join_with ''; '' selected else message))"

section \<open>Affected runs\<close>

definition run_text :: "AgenticRun \<Rightarrow> string" where
  "run_text run = mNamespace (rMeta run) @ ''/'' @ mName (rMeta run)"

definition terminalRunMayBeAffected :: "AgenticRun \<Rightarrow> Time \<Rightarrow> bool" where
  "terminalRunMayBeAffected run start = (case suTerminalTime (rStatus run) of
      None \<Rightarrow> True | Some t \<Rightarrow> IsZero t \<or> \<not> t < start)"

text \<open>The phases of the controller's own \<open>isTerminal\<close>.\<close>

definition isTerminalPhase :: "AgenticRunPhase \<Rightarrow> bool" where
  "isTerminalPhase phase = (case phase of
      AgenticRunPhaseCompleted \<Rightarrow> True | AgenticRunPhaseDenied \<Rightarrow> True | AgenticRunPhaseEscalated \<Rightarrow> True
    | AgenticRunPhaseEmergencyStopped \<Rightarrow> True | AgenticRunPhaseFailed \<Rightarrow> True | _ \<Rightarrow> False)"

text \<open>The remote evidence of a run; a nil run has none.\<close>

definition remote_evidence :: "AgenticRun option \<Rightarrow> string list" where
  "remote_evidence run = (case run of None \<Rightarrow> [] | Some r \<Rightarrow> RemoteExecutionEvidence r)"

definition knownRemoteEvidence :: "AgenticRun option \<Rightarrow> string" where
  "knownRemoteEvidence run = (case run of
      None \<Rightarrow> ''''
    | Some r \<Rightarrow>
        if length (remote_evidence run) = 0 then ''''
        else boundedDiagnostic (''remote execution/access unverified for '' @ run_text r @ '' uid='' @ run_uid r @
          '' target='' @ spTargetCluster (rSpec r) @ '': '' @ join_with '', '' (sort (remote_evidence run))))"

definition global_stop :: "kube \<Rightarrow> AgenticRun \<Rightarrow> SuspensionActivation \<Rightarrow> AgenticRun" where
  "global_stop K current activation = set_conditions current (setConditionAt K (conditions current)
     (condition_of AgenticRunConditionStopping ConditionTrue reasonSystemSuspended ''Stop accepted by global system suspension''
       (mGeneration (rMeta current))) (saStart activation))"

text \<open>The run as last read, whether its marker is saved, and whether it has disappeared.\<close>

fun global_stop_attempts ::
    "GlobalReconciler \<Rightarrow> nat \<Rightarrow> AgenticRun \<Rightarrow> SuspensionActivation \<Rightarrow> (error + AgenticRun option \<times> bool \<times> bool) sop" where
  "global_stop_attempts G 0 snapshot activation = State_Monad.return (Inl (NewError ''status conflict retry limit reached''))"
| "global_stop_attempts G (Suc n) snapshot activation = do {
     g \<leftarrow> su_get_run (grApi G) (run_key snapshot);
     case g of
       Inl e \<Rightarrow> State_Monad.return (if IsNotFound e then Inr (None, False, True)
         else Inl (WrapError ''read run through uncached API reader'' e))
     | Inr current \<Rightarrow>
         if run_uid current \<noteq> run_uid snapshot then State_Monad.return (Inr (None, False, True))
         else if HasAcceptedStop (grConditions G) current then State_Monad.return (Inr (Some current, True, False))
         else do {
           a \<leftarrow> RequireCurrentActivation (grApi G) (grConditions G) (grReader G) activation;
           case a of
             Some e \<Rightarrow> State_Monad.return (Inl e)
           | None \<Rightarrow> do {
               p \<leftarrow> su_patch_run (grApi G) current (global_stop (grConditions G) current activation);
               case p of
                 Inl e \<Rightarrow>
                   if IsConflict e then global_stop_attempts G n snapshot activation
                   else State_Monad.return (Inl (WrapError ''patch stop acceptance'' e))
               | Inr updated \<Rightarrow> State_Monad.return (Inr (Some updated, True, False))
             }
         }
   }"

definition persistGlobalRunStop ::
    "GlobalReconciler \<Rightarrow> AgenticRun \<Rightarrow> SuspensionActivation \<Rightarrow> (error + AgenticRun option \<times> bool \<times> bool) sop" where
  "persistGlobalRunStop G snapshot activation = global_stop_attempts G statusPatchAttempts snapshot activation"

definition add_unsaved :: "string \<Rightarrow> activationEvidence \<Rightarrow> activationEvidence" where
  "add_unsaved message e = e\<lparr>aeUnsavedMarkers := aeUnsavedMarkers e @ [message]\<rparr>"

text \<open>What the loop over the runs records of one run after its stop marker: remote evidence and an outcome that is still pending.\<close>

definition record_run :: "GlobalReconciler \<Rightarrow> bool \<Rightarrow> AgenticRun option \<Rightarrow> bool \<Rightarrow> activationEvidence \<Rightarrow> activationEvidence" where
  "record_run G initiallyNonTerminal current markerSaved e =
    (let e1 = (if knownRemoteEvidence current \<noteq> '''' then e\<lparr>aeUnverifiedRemote := aeUnverifiedRemote e @ [knownRemoteEvidence current]\<rparr> else e) in
     case current of
       None \<Rightarrow> e1
     | Some run \<Rightarrow>
         if initiallyNonTerminal \<and> markerSaved \<and> \<not> isTerminalPhase (DerivePhase (conditions run)) \<and>
            \<not> HasFinalStopOutcome (grConditions G) run
         then e1\<lparr>aePendingRunOutcomes := aePendingRunOutcomes e1 @ [''run outcome pending: '' @ run_text run @ '' uid='' @ run_uid run]\<rparr>
         else e1)"

text \<open>One turn of the loop; \<open>None\<close> when the activation is superseded.\<close>

definition process_run :: "GlobalReconciler \<Rightarrow> SuspensionActivation \<Rightarrow> AgenticRun \<Rightarrow> activationEvidence \<Rightarrow> activationEvidence option sop" where
  "process_run G activation run e =
    (let initiallyNonTerminal = (\<not> isTerminalPhase (DerivePhase (conditions run)));
         acceptStop = (initiallyNonTerminal \<or> terminalRunMayBeAffected run (saStart activation));
         unsaved = ''stop marker not persisted for '' @ run_text run @ '' uid='' @ run_uid run in
     if \<not> acceptStop then State_Monad.return (Some (record_run G initiallyNonTerminal (Some run) False e))
     else if run_uid run = '''' then
       State_Monad.return (Some (record_run G initiallyNonTerminal (Some run) False
         (add_unsaved (''stop marker not persisted for '' @ run_text run @ '': run UID is missing'') e)))
     else do {
       x \<leftarrow> persistGlobalRunStop G run activation;
       State_Monad.return (case x of
           Inl err \<Rightarrow>
             if is_superseded err then None
             else Some (record_run G initiallyNonTerminal (Some run) False (add_unsaved unsaved e))
         | Inr (current, markerSaved, disappeared) \<Rightarrow>
             if disappeared then Some e
             else if \<not> markerSaved then Some (record_run G initiallyNonTerminal current False (add_unsaved unsaved e))
             else Some (record_run G initiallyNonTerminal current True e))
     })"

fun process_runs :: "GlobalReconciler \<Rightarrow> SuspensionActivation \<Rightarrow> AgenticRun list \<Rightarrow> activationEvidence \<Rightarrow> activationEvidence option sop" where
  "process_runs G activation [] e = State_Monad.return (Some e)"
| "process_runs G activation (run # runs) e = do {
     x \<leftarrow> process_run G activation run e;
     case x of None \<Rightarrow> State_Monad.return None | Some e1 \<Rightarrow> process_runs G activation runs e1
   }"

section \<open>The outcome of a pass\<close>

definition outcomeForEvidence :: "activationEvidence \<Rightarrow> string \<Rightarrow> bool \<Rightarrow> string \<times> string" where
  "outcomeForEvidence e currentReason deadlineReached =
    (if currentReason = reasonAdminActivatedWithErrors then
       (if unresolved e then (reasonAdminActivatedWithErrors, diagnostic e ''Suspension completed with errors'')
        else (reasonAdminActivatedWithErrors,
          ''Suspension completed with errors; current cleanup and stop-acceptance safety are confirmed''))
     else if unresolved e then
       (if deadlineReached then (reasonAdminActivatedWithErrors, diagnostic e ''Suspension completed with errors'')
        else (reasonStopping, diagnostic e ''Suspension stopping''))
     else (reasonAdminActivated, ''System suspended; cleanup and affected run outcomes are confirmed''))"

definition safety_condition :: "SuspensionActivation \<Rightarrow> activationEvidence \<Rightarrow> Condition" where
  "safety_condition activation e =
    (if safeToResume e
     then condition_of AgenticOLSConfigConditionSafeToResume ConditionTrue reasonCleanupConfirmed
       ''Observed workload/access cleanup and durable run-stop acceptance are confirmed'' (saGeneration activation)
     else condition_of AgenticOLSConfigConditionSafeToResume ConditionFalse reasonStopping
       (diagnostic e ''Resumption remains blocked'') (saGeneration activation))"

text \<open>
  The conditions of the outcome before the transition time of the safety condition is set. That time is set exactly when
  \<open>SetStatusCondition\<close> would write the clock, so the start of the activation stands for its clock.
\<close>

definition outcome_conditions ::
    "GlobalReconciler \<Rightarrow> SuspensionActivation \<Rightarrow> activationEvidence \<Rightarrow> bool \<Rightarrow> AgenticOLSConfig \<Rightarrow> string \<Rightarrow> Condition list" where
  "outcome_conditions G activation e deadlineReached current currentReason =
    (case outcomeForEvidence e currentReason deadlineReached of (reason, message) \<Rightarrow>
       SetStatusCondition (grConditions G) (saStart activation)
         (setConditionAt (grConditions G) (olConditions current)
           (condition_of AgenticOLSConfigConditionSuspended ConditionTrue reason message (saGeneration activation)) (saStart activation))
         (safety_condition activation e))"

definition safety_changes :: "GlobalReconciler \<Rightarrow> activationEvidence \<Rightarrow> SuspensionActivation \<Rightarrow> AgenticOLSConfig \<Rightarrow> bool" where
  "safety_changes G e activation base =
    (case FindStatusCondition (grConditions G) (olConditions base) AgenticOLSConfigConditionSafeToResume of
       None \<Rightarrow> True | Some c \<Rightarrow> cStatus c \<noteq> cStatus (safety_condition activation e))"

fun outcome_patches ::
    "GlobalReconciler \<Rightarrow> nat \<Rightarrow> SuspensionActivation \<Rightarrow> activationEvidence \<Rightarrow> bool \<Rightarrow> error option sop" where
  "outcome_patches G 0 activation e deadlineReached = State_Monad.return (Some (NewError
     ''patch global suspension outcome and safety: status conflict retry limit reached''))"
| "outcome_patches G (Suc n) activation e deadlineReached = do {
     g \<leftarrow> su_get_config (grApi G) cluster_key;
     case g of
       Inl err \<Rightarrow> State_Monad.return (if IsNotFound err then None
         else Some (WrapError ''read AgenticOLSConfig before outcome patch'' err))
     | Inr current \<Rightarrow>
         if \<not> SuspensionActivationMatches (grConditions G) current activation then State_Monad.return None
         else (case suspended_condition G current of
             None \<Rightarrow> State_Monad.return (Some (Panic ''nil pointer dereference''))
           | Some suspended \<Rightarrow> do {
               let cs = outcome_conditions G activation e deadlineReached current (cReason suspended);
               cs1 \<leftarrow> (if safety_changes G e activation current then do {
                   t \<leftarrow> su_now (grApi G);
                   State_Monad.return (set_transition_time cs AgenticOLSConfigConditionSafeToResume t)
                 }
                 else State_Monad.return cs);
               if olConditions current = cs1 then State_Monad.return None
               else do {
                 p \<leftarrow> su_patch_config (grApi G) current (current\<lparr>olConditions := cs1\<rparr>);
                 case p of
                   Inl err \<Rightarrow>
                     if IsConflict err then outcome_patches G n activation e deadlineReached
                     else State_Monad.return (Some (WrapError ''patch global suspension outcome and safety'' err))
                 | Inr _ \<Rightarrow> State_Monad.return None
               }
             })
   }"

definition patchActivationOutcome ::
    "GlobalReconciler \<Rightarrow> SuspensionActivation \<Rightarrow> activationEvidence \<Rightarrow> bool \<Rightarrow> error option sop" where
  "patchActivationOutcome G activation e deadlineReached = outcome_patches G statusPatchAttempts activation e deadlineReached"

section \<open>One pass of the controller\<close>

text \<open>Whether the pass runs in the initial window; the deadline itself is up to the context.\<close>

definition boundedCleanupContext :: "Time \<Rightarrow> Time \<Rightarrow> bool" where
  "boundedCleanupContext start t \<longleftrightarrow> start + SuspensionStopWindow - t > 0"

definition suspensionRequeueDelay :: "Time \<Rightarrow> Time \<Rightarrow> Duration" where
  "suspensionRequeueDelay start t =
    (let remaining = start + SuspensionStopWindow - t in
     if remaining > 0 \<and> remaining < requeueDelay then remaining else requeueDelay)"

text \<open>\<open>errors.Is(err, context.DeadlineExceeded)\<close>.\<close>

fun is_deadline_exceeded :: "error \<Rightarrow> bool" where
  "is_deadline_exceeded (ContextError s) \<longleftrightarrow> s = ''context deadline exceeded''"
| "is_deadline_exceeded (WrapError _ e) = is_deadline_exceeded e"
| "is_deadline_exceeded (JoinErrors es) = list_ex is_deadline_exceeded es"
| "is_deadline_exceeded _ = False"

definition exceeded :: "error option \<Rightarrow> bool" where
  "exceeded e = (case e of None \<Rightarrow> False | Some err \<Rightarrow> is_deadline_exceeded err)"

definition no_evidence :: activationEvidence where
  "no_evidence = \<lparr>aeCleanup = \<lparr>scPending = [], scFailures = [], scUnverified = []\<rparr>, aeCleanupErr = None, aeRunInventoryErr = None,
     aeUnsavedMarkers = [], aePendingRunOutcomes = [], aeUnverifiedRemote = []\<rparr>"

text \<open>The inventory of the runs and the stop markers; \<open>None\<close> when the activation is superseded.\<close>

definition collect_runs :: "GlobalReconciler \<Rightarrow> SuspensionActivation \<Rightarrow> activationEvidence option sop" where
  "collect_runs G activation = do {
     l \<leftarrow> su_list_runs (grApi G);
     case l of
       Inl err \<Rightarrow> State_Monad.return (Some (no_evidence\<lparr>aeRunInventoryErr := Some err\<rparr>))
     | Inr runs \<Rightarrow> do {
         a \<leftarrow> RequireCurrentActivation (grApi G) (grConditions G) (grReader G) activation;
         case a of
           Some err \<Rightarrow> State_Monad.return
             (if is_superseded err then None else Some (no_evidence\<lparr>aeRunInventoryErr := Some err\<rparr>))
         | None \<Rightarrow> process_runs G activation runs no_evidence
       }
   }"

text \<open>After the clean-up: the deadline, the outcome patch and the delay until the next pass.\<close>

definition finish_pass :: "GlobalReconciler \<Rightarrow> SuspensionActivation \<Rightarrow> bool \<Rightarrow> activationEvidence \<Rightarrow> outcome sop" where
  "finish_pass G activation initialWindowPass e = do {
     passErr \<leftarrow> su_context_err (grApi G) True;
     t \<leftarrow> su_now (grApi G);
     let deadline = saStart activation + SuspensionStopWindow;
     expired \<leftarrow> (if initialWindowPass then do {
         c \<leftarrow> su_context_err (grApi G) False;
         State_Monad.return (c = None \<and> (exceeded passErr \<or> exceeded (aeRunInventoryErr e) \<or> exceeded (aeCleanupErr e)))
       }
       else State_Monad.return False);
     let deadlineReached = (\<not> t < deadline \<or> expired);
     let t1 = (if deadlineReached \<and> t < deadline then deadline else t);
     p \<leftarrow> patchActivationOutcome G activation e deadlineReached;
     State_Monad.return (case p of
         Some err \<Rightarrow> (no_result, Some err)
       | None \<Rightarrow> (no_result\<lparr>crRequeueAfter := suspensionRequeueDelay (saStart activation) t1\<rparr>, None))
   }"

definition reconcileSuspension :: "GlobalReconciler \<Rightarrow> SandboxManager \<Rightarrow> AgenticOLSConfig \<Rightarrow> Time \<Rightarrow> outcome sop" where
  "reconcileSuspension G m config start =
    (let activation = \<lparr>saUID = mUID (olMeta config), saGeneration = mGeneration (olMeta config), saStart = start\<rparr> in
     do {
       t \<leftarrow> su_now (grApi G);
       let initialWindowPass = boundedCleanupContext start t;
       x \<leftarrow> collect_runs G activation;
       case x of
         None \<Rightarrow> State_Monad.return (no_result, None)
       | Some e \<Rightarrow> do {
           (report, cleanupErr) \<leftarrow> CleanupSuspension m '''' (Some activation);
           if (case cleanupErr of Some err \<Rightarrow> is_superseded err | None \<Rightarrow> False)
           then State_Monad.return (no_result, None)
           else finish_pass G activation initialWindowPass (e\<lparr>aeCleanup := report, aeCleanupErr := cleanupErr\<rparr>)
         }
     })"

definition Reconcile_config :: "GlobalReconciler \<Rightarrow> ObjectKey \<Rightarrow> outcome sop" where
  "Reconcile_config G key =
    (if \<not> grReader G then
       State_Monad.return (no_result, Some (NewError ''uncached API reader is required by the global suspension controller''))
     else if \<not> grClient G then
       State_Monad.return (no_result, Some (NewError ''client is required by the global suspension controller''))
     else do {
       g \<leftarrow> su_get_config (grApi G) key;
       case g of
         Inl e \<Rightarrow> State_Monad.return (no_result, IgnoreNotFound e)
       | Inr config \<Rightarrow>
           if \<not> olSuspended config then handleDeactivation G key
           else (case grSandbox G of
               None \<Rightarrow> State_Monad.return (no_result,
                 Some (NewError ''sandbox manager is required by the global suspension controller''))
             | Some m \<Rightarrow> do {
                 x \<leftarrow> ensureActivationStatus G key;
                 case x of
                   Inl e \<Rightarrow> State_Monad.return (no_result, Some e)
                 | Inr (activeConfig, start, freshActivation, active) \<Rightarrow> (case activeConfig of
                     None \<Rightarrow> State_Monad.return (no_result\<lparr>crRequeueAfter := requeueDelay\<rparr>, None)
                   | Some c \<Rightarrow>
                       if \<not> active then
                         (if \<not> olSuspended c then handleDeactivation G key
                          else State_Monad.return (no_result\<lparr>crRequeueAfter := requeueDelay\<rparr>, None))
                       else do {
                         (if freshActivation then su_record G eventReasonSuspensionActivated else State_Monad.return ());
                         reconcileSuspension G m c start
                       })
               })
     })"

end
