(* ===== verification/GlobalSafety.thy ===== *)
theory GlobalSafety
  imports GlobalSuspension
begin

text \<open>
  What the controller of the global suspension guarantees: every status it writes to the configuration and to runs, and what must have happened
  before it may call the system safe to resume.
\<close>

section \<open>Requests of the controller\<close>

lemmas global_requests = su_now_def su_patch_config_def su_list_runs_def su_get_run_def su_patch_run_def su_get_config_def su_context_err_def

text \<open>Events that leave workload, access and runs as they are.\<close>

definition quiet :: "su_event \<Rightarrow> bool" where
  "quiet e = (case e of SuDelete _ _ _ _ _ \<Rightarrow> False | SuPatchLabels _ _ _ _ _ \<Rightarrow> False | SuPatchRun _ _ _ \<Rightarrow> False | _ \<Rightarrow> True)"

lemma quiet_simps [simp]:
  "quiet (SuNow t)" "quiet (SuContextErr b x)" "quiet (SuGetConfig key c)" "quiet (SuPatchConfig base new r)" "quiet (SuRecord s)"
  "quiet (SuListRuns rs)" "quiet (SuGetRun key r1)" "\<not> mutates e \<Longrightarrow> quiet e"
  by (auto simp: quiet_def mutates_def split: su_event.splits)

section \<open>What makes the system safe to resume\<close>

text \<open>
  A listed run is accounted for: it ended before the activation, it has disappeared, or its accepted stop was read or written; and nothing of it
  may still run on another cluster.
\<close>

definition accounted :: "GlobalReconciler \<Rightarrow> SuspensionActivation \<Rightarrow> su_event list \<Rightarrow> AgenticRun \<Rightarrow> bool" where
  "accounted G a es run \<longleftrightarrow>
     isTerminal (DerivePhase (conditions run)) \<and> \<not> terminalRunMayBeAffected run (saStart a) \<and> RemoteExecutionEvidence run = [] \<or>
     (\<exists>e. SuGetRun (run_key run) (Inl e) \<in> set es \<and> IsNotFound e) \<or>
     (\<exists>other. SuGetRun (run_key run) (Inr other) \<in> set es \<and> run_uid other \<noteq> run_uid run) \<or>
     (\<exists>cur. SuGetRun (run_key run) (Inr cur) \<in> set es \<and> run_uid cur = run_uid run \<and> HasAcceptedStop (grConditions G) cur \<and>
        RemoteExecutionEvidence cur = []) \<or>
     (\<exists>base cur. SuPatchRun base (global_stop (grConditions G) base a) (Inr cur) \<in> set es \<and> run_uid base = run_uid run \<and>
        RemoteExecutionEvidence cur = [])"

definition all_runs_stopped :: "GlobalReconciler \<Rightarrow> SuspensionActivation \<Rightarrow> su_event list \<Rightarrow> bool" where
  "all_runs_stopped G a es \<longleftrightarrow> (\<exists>runs. SuListRuns (Inr runs) \<in> set es \<and> list_all (accounted G a es) runs)"

text \<open>The last listing of every kind showed nothing of any run, and nothing was changed since.\<close>

definition nothing_remains :: "SandboxManager \<Rightarrow> su_event list \<Rightarrow> bool" where
  "nothing_remains m es \<longleftrightarrow> (\<exists>es1 es2. es = es1 @ es2 \<and> list_all quiet es2 \<and> (\<forall>kind. shown_gone m '''' kind es2))"

lemma accounted_mono: "accounted G a es run \<Longrightarrow> set es \<subseteq> set fs \<Longrightarrow> accounted G a fs run"
  unfolding accounted_def by blast

lemma accounted_intros:
  "isTerminal (DerivePhase (conditions run)) \<Longrightarrow> \<not> terminalRunMayBeAffected run (saStart a) \<Longrightarrow> RemoteExecutionEvidence run = [] \<Longrightarrow>
   accounted G a es run"
  "SuGetRun (run_key run) (Inl e) \<in> set es \<Longrightarrow> IsNotFound e \<Longrightarrow> accounted G a es run"
  "SuGetRun (run_key run) (Inr other) \<in> set es \<Longrightarrow> run_uid other \<noteq> run_uid run \<Longrightarrow> accounted G a es run"
  "SuGetRun (run_key run) (Inr cur) \<in> set es \<Longrightarrow> run_uid cur = run_uid run \<Longrightarrow> HasAcceptedStop (grConditions G) cur \<Longrightarrow>
   RemoteExecutionEvidence cur = [] \<Longrightarrow> accounted G a es run"
  "SuPatchRun base (global_stop (grConditions G) base a) (Inr cur) \<in> set es \<Longrightarrow> run_uid base = run_uid run \<Longrightarrow>
   RemoteExecutionEvidence cur = [] \<Longrightarrow> accounted G a es run"
  unfolding accounted_def by blast+

lemma accounted_append: "accounted G a es run \<Longrightarrow> accounted G a (es @ fs) run" "accounted G a fs run \<Longrightarrow> accounted G a (es @ fs) run"
  by (auto elim: accounted_mono)

lemma all_runs_stopped_append: "all_runs_stopped G a es \<Longrightarrow> all_runs_stopped G a (es @ fs)"
  unfolding all_runs_stopped_def by (auto simp: list_all_iff intro: accounted_append)

lemma nothing_remains_append:
  assumes "nothing_remains m es" "list_all quiet fs"
  shows "nothing_remains m (es @ fs)"
proof -
  obtain es1 es2 where "es = es1 @ es2" "list_all quiet es2" "\<forall>kind. shown_gone m '''' kind es2"
    using assms(1) unfolding nothing_remains_def by blast
  then show ?thesis
    using assms(2) unfolding nothing_remains_def by (intro exI [of _ es1] exI [of _ "es2 @ fs"]) auto
qed

definition earned :: "GlobalReconciler \<Rightarrow> SandboxManager \<Rightarrow> SuspensionActivation \<Rightarrow> nat \<Rightarrow> su_history \<Rightarrow> bool" where
  "earned G m a n h \<longleftrightarrow> n \<le> length h \<and> all_runs_stopped G a (drop n h) \<and> nothing_remains m (drop n h)"

lemma earned_append: "earned G m a n h \<Longrightarrow> list_all quiet es \<Longrightarrow> earned G m a n (h @ es)"
  by (simp add: earned_def all_runs_stopped_append nothing_remains_append)

section \<open>Every write of the controller\<close>

definition activation_read :: "GlobalReconciler \<Rightarrow> SuspensionActivation \<Rightarrow> su_event list \<Rightarrow> bool" where
  "activation_read G a es \<longleftrightarrow> (\<exists>config. SuGetConfig cluster_key (Inr config) \<in> set es \<and> SuspensionActivationMatches (grConditions G) config a)"

lemma activation_read_append [simp]:
  "activation_read G a es \<Longrightarrow> activation_read G a (es @ fs)" "activation_read G a es \<Longrightarrow> activation_read G a (ev # es)"
  by (auto simp: activation_read_def)

text \<open>The outcome a pass writes, with the transition time of the safety condition set when its status changes.\<close>

definition outcome_write ::
    "GlobalReconciler \<Rightarrow> SuspensionActivation \<Rightarrow> activationEvidence \<Rightarrow> AgenticOLSConfig \<Rightarrow> Condition list \<Rightarrow> bool" where
  "outcome_write G a e base cs \<longleftrightarrow> SuspensionActivationMatches (grConditions G) base a \<and>
     (\<exists>suspended dl t. suspended_condition G base = Some suspended \<and>
        (let out = outcome_conditions G a e dl base (cReason suspended) in
         cs = (if safety_changes G e a base then set_transition_time out AgenticOLSConfigConditionSafeToResume t else out)))"

definition global_write :: "GlobalReconciler \<Rightarrow> nat \<Rightarrow> su_history \<Rightarrow> su_event \<Rightarrow> bool" where
  "global_write G n h ev = (case ev of
      SuPatchConfig base new res \<Rightarrow>
        (\<exists>t. olSuspended base \<and> \<not> (current_activation G base \<and> \<not> needsSafetyCondition G base) \<and>
           new = base\<lparr>olConditions := accepted_conditions G base (activationStart G base t)\<rparr>) \<or>
        (\<exists>t. \<not> olSuspended base \<and> new = base\<lparr>olConditions := resumed_conditions G base t\<rparr>) \<or>
        (\<exists>m a e cs. grSandbox G = Some m \<and> outcome_write G a e base cs \<and> new = base\<lparr>olConditions := cs\<rparr> \<and>
           (safeToResume e \<longrightarrow> earned G m a n h))
    | SuPatchRun base new res \<Rightarrow>
        (\<exists>a. \<not> HasAcceptedStop (grConditions G) base \<and> new = global_stop (grConditions G) base a \<and> activation_read G a (drop n h))
    | _ \<Rightarrow> True)"

lemma global_write_reads [simp]: "\<not> mutates ev \<Longrightarrow> global_write G n h ev"
  by (auto simp: global_write_def mutates_def split: su_event.splits)

lemma global_write_simps [simp]: "global_write G n h (SuNow t)" "global_write G n h (SuRecord s)" "global_write G n h (SuListRuns rs)"
  "global_write G n h (SuGetRun key r)" "global_write G n h (SuDelete k obj opt p z)" "global_write G n h (SuPatchLabels k obj u st y)"
  "global_write G n h (SuContextErr b x)" "global_write G n h (SuGetConfig key c)"
  by (simp_all add: global_write_def)

lemma cleanup_global_write: "own_change uid h ev \<Longrightarrow> global_write G n h ev"
  by (auto simp: own_change_def global_write_def split: su_event.splits)

subsection \<open>Acceptance and deactivation\<close>

lemma su_record_wp:
  assumes "\<And>es. Q () (h @ es)"
  shows "wp (global_write G n) (su_record G reason) Q h"
  unfolding su_record_def using assms [of "[]"] assms by (intro wp_ifI wp_perform_any wp_returnI) auto

lemma ensure_wp:
  assumes "\<And>x es. Q x (h @ es)"
  shows "wp (global_write G n) (ensure_attempts G k key) Q h"
  using assms
proof (induction k arbitrary: h)
  case 0
  then show ?case using 0 [of _ "[]"] by (simp add: wp_returnI)
next
  case (Suc k)
  show ?case
    unfolding ensure_attempts.simps global_requests Let_def
    by (intro wp_bindI wp_perform_any wp_case_sum wp_ifI wp_returnI conjI Suc.IH)
      (auto simp: Suc.prems global_write_def)
qed

lemma deactivation_wp:
  assumes "\<And>x es. Q x (h @ es)"
  shows "wp (global_write G n) (deactivation_attempts G k key) Q h"
  using assms
proof (induction k arbitrary: h)
  case 0
  then show ?case using 0 [of _ "[]"] by (simp add: wp_returnI)
next
  case (Suc k)
  show ?case
    unfolding deactivation_attempts.simps global_requests Let_def
    by (intro wp_bindI wp_perform_any wp_case_sum wp_case_option wp_ifI wp_returnI conjI Suc.IH su_record_wp)
      (auto simp: Suc.prems global_write_def)
qed

subsection \<open>Stop markers\<close>

lemma require_wp:
  assumes "\<And>h ev. \<not> mutates ev \<Longrightarrow> P h ev" and "\<And>es. activation_read G a es \<Longrightarrow> Q None (h @ es)" and "\<And>e es. Q (Some e) (h @ es)"
  shows "wp P (RequireCurrentActivation (grApi G) (grConditions G) rd a) Q h"
proof -
  have "Q None (h @ [SuContextErr True None, SuGetConfig cluster_key (Inr config)])"
    if "SuspensionActivationMatches (grConditions G) config a" for config
    by (rule assms(2)) (use that in \<open>auto simp: activation_read_def\<close>)
  with assms(1,3) show ?thesis
    unfolding RequireCurrentActivation_def global_requests
    by (auto intro!: wp_bindI wp_performI wp_case_option wp_ifI wp_returnI split: sum.split)
qed

text \<open>What a stop attempt returns, and what the events since \<open>n\<close> show for it.\<close>

definition stop_result :: "GlobalReconciler \<Rightarrow> SuspensionActivation \<Rightarrow> AgenticRun \<Rightarrow> su_event list \<Rightarrow> AgenticRun option \<times> bool \<times> bool \<Rightarrow> bool" where
  "stop_result G a run es x \<longleftrightarrow> (case x of (current, saved, disappeared) \<Rightarrow>
     (disappeared \<longrightarrow> accounted G a es run) \<and>
     (\<not> disappeared \<and> saved \<longrightarrow> (\<exists>cur. current = Some cur \<and> (RemoteExecutionEvidence cur = [] \<longrightarrow> accounted G a es run))))"

lemma global_stop_wp:
  assumes "n \<le> length h" and "\<And>e es. Q (Inl e) (h @ es)" and "\<And>x es. stop_result G a run (drop n (h @ es)) x \<Longrightarrow> Q (Inr x) (h @ es)"
  shows "wp (global_write G n) (global_stop_attempts G k run a) Q h"
  using assms
proof (induction k arbitrary: h)
  case 0
  then show ?case using 0(2) [of _ "[]"] by (simp add: wp_returnI)
next
  case (Suc k)
  have marker: "global_write G n (h @ es) (SuPatchRun cur (global_stop (grConditions G) cur a) res)"
    if "\<not> HasAcceptedStop (grConditions G) cur" "activation_read G a es" for es cur res
    using that Suc.prems(1) by (auto simp: global_write_def activation_read_def)
  have again: "wp (global_write G n) (global_stop_attempts G k run a) Q (h @ es)" for es
    using Suc.prems by (intro Suc.IH) auto
  have fact: "Q (Inr x) (h @ es)" if "stop_result G a run es x" for x es
    by (rule Suc.prems(3)) (use that Suc.prems(1) in \<open>auto simp: stop_result_def intro: accounted_append\<close>)
  have views: "IsNotFound e \<Longrightarrow> accounted G a [SuGetRun (run_key run) (Inl e)] run"
    "run_uid cur \<noteq> run_uid run \<Longrightarrow> accounted G a [SuGetRun (run_key run) (Inr cur)] run"
    "run_uid cur = run_uid run \<Longrightarrow> HasAcceptedStop (grConditions G) cur \<Longrightarrow> RemoteExecutionEvidence cur = [] \<Longrightarrow>
     accounted G a [SuGetRun (run_key run) (Inr cur)] run"
    "run_uid cur = run_uid run \<Longrightarrow> RemoteExecutionEvidence upd = [] \<Longrightarrow>
     accounted G a (ev # es @ [SuPatchRun cur (global_stop (grConditions G) cur a) (Inr upd)]) run" for e cur ev es upd
    unfolding accounted_def by auto
  show ?case
    unfolding global_stop_attempts.simps su_get_run_def su_patch_run_def
    by (intro wp_bindI wp_perform_any wp_case_sum wp_ifI wp_returnI conjI require_wp wp_case_option)
      (auto simp: Suc.prems(2) marker again stop_result_def views intro!: fact)
qed

lemma boundedDiagnostic_nonempty: "boundedDiagnostic s = [] \<longleftrightarrow> s = []"
  by (auto simp: boundedDiagnostic_def Let_def)

lemma knownRemoteEvidence_empty: "knownRemoteEvidence current = '''' \<longleftrightarrow> remote_evidence current = []"
  by (auto simp: knownRemoteEvidence_def remote_evidence_def boundedDiagnostic_nonempty split: option.splits)

text \<open>Evidence without an unsaved marker or remote access.\<close>

definition runs_ok :: "activationEvidence \<Rightarrow> bool" where
  "runs_ok e \<longleftrightarrow> aeUnsavedMarkers e = [] \<and> aeUnverifiedRemote e = []"

lemma runs_ok_record [simp]:
  "runs_ok (record_run G b current saved e) \<longleftrightarrow> runs_ok e \<and> remote_evidence current = []"
  "\<not> runs_ok (add_unsaved msg e)"
  by (auto simp: runs_ok_def record_run_def add_unsaved_def knownRemoteEvidence_empty Let_def split: option.split)

lemma inventory_error_record [simp]:
  "aeRunInventoryErr (record_run G b current saved e) = aeRunInventoryErr e" "aeRunInventoryErr (add_unsaved msg e) = aeRunInventoryErr e"
  by (auto simp: record_run_def add_unsaved_def Let_def split: option.split)

lemma isTerminalPhase_iff: "isTerminalPhase = isTerminal"
  by (auto simp: isTerminalPhase_def isTerminal_def split: AgenticRunPhase.split)

definition loop_ok :: "GlobalReconciler \<Rightarrow> SuspensionActivation \<Rightarrow> su_event list \<Rightarrow> AgenticRun list \<Rightarrow> activationEvidence \<Rightarrow> activationEvidence \<Rightarrow> bool" where
  "loop_ok G a es runs e e' \<longleftrightarrow> aeRunInventoryErr e' = aeRunInventoryErr e \<and> (runs_ok e' \<longrightarrow> runs_ok e \<and> list_all (accounted G a es) runs)"

lemma process_run_wp:
  assumes "n \<le> length h" and "\<And>es. Q None (h @ es)" and "\<And>e' es. loop_ok G a (drop n (h @ es)) [run] e e' \<Longrightarrow> Q (Some e') (h @ es)"
  shows "wp (global_write G n) (process_run G a run e) Q h"
proof -
  have here: "Q (Some e') h" if "loop_ok G a (drop n h) [run] e e'" for e'
    using assms(3) [of "[]" e'] that by simp
  show ?thesis
    unfolding process_run_def persistGlobalRunStop_def Let_def
    by (intro wp_ifI wp_bindI global_stop_wp [OF assms(1)] wp_returnI)
      (auto simp: loop_ok_def isTerminalPhase_iff stop_result_def remote_evidence_def assms(2)
        intro!: here assms(3) intro: accounted_intros(1) split: prod.splits)
qed

lemma process_runs_wp:
  assumes "n \<le> length h" and "\<And>es. Q None (h @ es)" and "\<And>e' es. loop_ok G a (drop n (h @ es)) runs e e' \<Longrightarrow> Q (Some e') (h @ es)"
  shows "wp (global_write G n) (process_runs G a runs e) Q h"
  using assms
proof (induction runs arbitrary: h e)
  case Nil
  then show ?case using Nil(3) [of "[]" e] by (simp add: loop_ok_def wp_returnI)
next
  case (Cons run runs)
  have "Q (Some e') (h @ es @ fs)"
    if "loop_ok G a (drop n (h @ es)) [run] e e1" "loop_ok G a (drop n (h @ es @ fs)) runs e1 e'" for es fs e1 e'
    by (rule Cons.prems(3)) (use that Cons.prems(1) accounted_append(1) [of G a "drop n (h @ es)" run fs] in \<open>auto simp: loop_ok_def\<close>)
  with Cons.prems(1,2) show ?case
    unfolding process_runs.simps
    by (intro wp_bindI process_run_wp [OF Cons.prems(1)] wp_case_option wp_returnI Cons.IH) auto
qed

lemma collect_runs_wp:
  assumes "n \<le> length h" and "\<And>es. Q None (h @ es)"
    and "\<And>e es. (runs_ok e \<Longrightarrow> aeRunInventoryErr e = None \<Longrightarrow> all_runs_stopped G a (drop n (h @ es))) \<Longrightarrow> Q (Some e) (h @ es)"
  shows "wp (global_write G n) (collect_runs G a) Q h"
proof -
  have stopped: "all_runs_stopped G a (drop n (h @ SuListRuns (Inr runs) # es))"
    if "list_all (accounted G a (drop n (h @ SuListRuns (Inr runs) # es))) runs" for runs es
    using that assms(1) unfolding all_runs_stopped_def by auto
  show ?thesis
    unfolding collect_runs_def su_list_runs_def
    by (intro wp_bindI wp_perform_any wp_case_sum wp_returnI conjI require_wp wp_case_option process_runs_wp)
      (use assms(1) in \<open>auto simp: assms(2) loop_ok_def intro!: assms(3) stopped\<close>)
qed

subsection \<open>The outcome\<close>

lemma outcome_writeI:
  assumes "SuspensionActivationMatches (grConditions G) base a" and "suspended_condition G base = Some suspended"
  shows "safety_changes G e a base \<Longrightarrow>
      outcome_write G a e base (set_transition_time (outcome_conditions G a e dl base (cReason suspended)) AgenticOLSConfigConditionSafeToResume t)"
    and "\<not> safety_changes G e a base \<Longrightarrow> outcome_write G a e base (outcome_conditions G a e dl base (cReason suspended))"
  using assms by (auto simp: outcome_write_def Let_def)

lemma outcome_patches_wp:
  assumes "grSandbox G = Some m" and "safeToResume e \<Longrightarrow> earned G m a n h" and "\<And>x es. Q x (h @ es)"
  shows "wp (global_write G n) (outcome_patches G k a e dl) Q h"
  using assms(2,3)
proof (induction k arbitrary: h)
  case 0
  then show ?case using 0(2) [of _ "[]"] by (simp add: wp_returnI)
next
  case (Suc k)
  have again: "wp (global_write G n) (outcome_patches G k a e dl) Q (h @ es)" if "list_all quiet es" for es
    using Suc.prems that by (intro Suc.IH) (auto intro: earned_append)
  have change: "global_write G n (h @ es) (SuPatchConfig base (base\<lparr>olConditions := cs\<rparr>) res)"
    if "list_all quiet es" "outcome_write G a e base cs" for es base cs res
    using that assms(1) Suc.prems(1) earned_append by (fastforce simp: global_write_def)
  show ?case
    unfolding outcome_patches.simps global_requests Let_def
    by (intro wp_bindI wp_perform_any wp_case_sum wp_case_option wp_ifI wp_returnI conjI)
      (auto simp: Suc.prems(2) intro!: again change intro: outcome_writeI)
qed

lemma finish_pass_wp:
  assumes "grSandbox G = Some m" and "safeToResume e \<Longrightarrow> earned G m a n h" and "\<And>x es. Q x (h @ es)"
  shows "wp (global_write G n) (finish_pass G a window e) Q h"
proof -
  have earned: "safeToResume e \<Longrightarrow> list_all quiet es \<Longrightarrow> earned G m a n (h @ es)" for es
    using assms(2) earned_append by blast
  show ?thesis
    unfolding finish_pass_def patchActivationOutcome_def global_requests Let_def
    by (intro wp_bindI wp_perform_any wp_ifI wp_returnI conjI outcome_patches_wp [OF assms(1)]) (auto simp: assms(3) earned)
qed

lemma confirmed_nothing_remains:
  assumes "confirmed_since m '''' k (rep, []) h" and "Confirmed rep" and "n \<le> k"
  shows "nothing_remains m (drop n h)"
proof -
  have "drop n h = take (k - n) (drop n h) @ drop k h"
    using assms(3) append_take_drop_id [of "k - n" "drop n h"] by simp
  moreover have "list_all quiet (drop k h)"
    using assms(1) by (auto simp: confirmed_since_def list_all_iff)
  moreover have "\<forall>kind. shown_gone m '''' kind (drop k h)"
    using assms(1,2) by (simp add: confirmed_since_def vouches_def clean_def)
  ultimately show ?thesis unfolding nothing_remains_def by blast
qed

lemma cleanup_pass_wp:
  assumes "n \<le> length h"
    and rest: "\<And>report err es. (Confirmed report \<Longrightarrow> err = None \<Longrightarrow> nothing_remains m (drop n (h @ es))) \<Longrightarrow> Q (report, err) (h @ es)"
  shows "wp (global_write G n) (CleanupSuspension m '''' (Some a)) Q h"
proof -
  have "wp (global_write G n) (CleanupSuspension m [] (Some a))
    (\<lambda>x h'. Confirmed (fst x) \<and> snd x = None \<longrightarrow> (\<exists>k. length h \<le> k \<and> confirmed_since m [] k (fst x, []) h')) h"
    by (rule wp_mono [OF wp_mono_event [OF CleanupSuspension_wp]]) (auto elim: cleanup_global_write)
  then show ?thesis
  proof (rule wp_mono)
    fix x :: "SuspensionCleanup \<times> error option" and es
    assume x: "Confirmed (fst x) \<and> snd x = None \<longrightarrow> (\<exists>k. length h \<le> k \<and> confirmed_since m [] k (fst x, []) (h @ es))"
    show "Q x (h @ es)"
      using rest [of "fst x" "snd x" es] x confirmed_nothing_remains [of m _ "fst x" "h @ es" n] assms(1) order_trans
      unfolding prod.collapse by blast
  qed
qed

lemma reconcileSuspension_wp:
  assumes "grSandbox G = Some m" and "n \<le> length h" and "\<And>x es. Q x (h @ es)"
  shows "wp (global_write G n) (reconcileSuspension G m config start) Q h"
proof -
  have earned: "earned G m a n (h @ es @ fs)"
    if "all_runs_stopped G a (drop n (h @ es))" "nothing_remains m (drop n (h @ es @ fs))" for a es fs
    using that assms(2) all_runs_stopped_append [of G a "drop n (h @ es)" fs] by (simp add: earned_def)
  have finish: "wp (global_write G n) (finish_pass G a w (e\<lparr>aeCleanup := report, aeCleanupErr := err\<rparr>)) Q (h @ es @ fs)"
    if "runs_ok e \<Longrightarrow> aeRunInventoryErr e = None \<Longrightarrow> all_runs_stopped G a (drop n (h @ es))"
      and "Confirmed report \<Longrightarrow> err = None \<Longrightarrow> nothing_remains m (drop n (h @ es @ fs))" for a w e report err es fs
    by (rule finish_pass_wp [OF assms(1)])
      (use that assms(3) in \<open>auto simp: safeToResume_def cleanupConfirmed_def runAcceptanceConfirmed_def runs_ok_def intro!: earned\<close>)
  have pass: "wp (global_write G n) (CleanupSuspension m '''' (Some a)) (\<lambda>x. wp (global_write G n) (case x of (report, cleanupErr) \<Rightarrow>
        if case cleanupErr of None \<Rightarrow> False | Some err \<Rightarrow> is_superseded err then State_Monad.return (no_result, None)
        else finish_pass G a w (e\<lparr>aeCleanup := report, aeCleanupErr := cleanupErr\<rparr>)) Q) (h @ es)"
    if "runs_ok e \<Longrightarrow> aeRunInventoryErr e = None \<Longrightarrow> all_runs_stopped G a (drop n (h @ es))" for a w e es
    by (intro cleanup_pass_wp wp_case_prod wp_ifI wp_returnI) (use that assms(2,3) finish in auto)
  show ?thesis
    unfolding reconcileSuspension_def Let_def su_now_def
    by (intro wp_bindI wp_perform_any conjI collect_runs_wp wp_case_option wp_returnI) (use assms(2,3) pass in auto)
qed

lemma Reconcile_config_wp: "wp (global_write G (length h)) (Reconcile_config G key) (\<lambda>_ _. True) h"
  unfolding Reconcile_config_def ensureActivationStatus_def handleDeactivation_def su_get_config_def
  by (intro wp_bindI wp_perform_any wp_ifI wp_returnI wp_case_sum wp_case_option wp_case_prod conjI ensure_wp deactivation_wp su_record_wp
      reconcileSuspension_wp TrueI) auto

section \<open>The conditions after a write\<close>

lemma condition_of_simps [simp]:
  "cType (condition_of t s r msg g) = t" "cStatus (condition_of t s r msg g) = s" "cReason (condition_of t s r msg g) = r"
  "cObservedGeneration (condition_of t s r msg g) = g" "cMessage (condition_of t s r msg g) = msg"
  by (simp_all add: condition_of_def)

lemma global_stop_frame [simp]: "rMeta (global_stop K run a) = rMeta run" "rSpec (global_stop K run a) = rSpec run"
  by (simp_all add: global_stop_def)

context status_conditions
begin

lemma setConditionAt_get:
  "get_condition (setConditionAt K cs c at) t = (if t = cType c then Some (c\<lparr>cLastTransitionTime := at\<rparr>) else get_condition cs t)"
  by (simp add: setConditionAt_def set_transition_time_get set_cond_same set_cond_other)

lemma setConditionAt_type: "cType c = t \<Longrightarrow> get_condition (setConditionAt K cs c at) t = Some (c\<lparr>cLastTransitionTime := at\<rparr>)"
  by (simp add: setConditionAt_get)

lemma global_stop_get:
  "get_condition (conditions (global_stop K run a)) t =
    (if t = AgenticRunConditionStopping
     then Some \<lparr>cType = AgenticRunConditionStopping, cStatus = ConditionTrue, cReason = reasonSystemSuspended,
       cMessage = ''Stop accepted by global system suspension'', cObservedGeneration = mGeneration (rMeta run),
       cLastTransitionTime = saStart a\<rparr>
     else get_condition (conditions run) t)"
  by (simp add: global_stop_def setConditionAt_get condition_of_def)

lemma global_stop_phase: "DerivePhase (conditions (global_stop K run a)) = DerivePhase (conditions run)"
  by (rule DerivePhase_cong) (simp add: global_stop_get)

lemma global_stop_accepted: "HasAcceptedStop K (global_stop K run a)"
  by (simp add: HasAcceptedStop_def find_cond global_stop_get)

end

lemma condition_types [simp]:
  "AgenticOLSConfigConditionSafeToResume \<noteq> AgenticOLSConfigConditionSuspended"
  "AgenticOLSConfigConditionSuspended \<noteq> AgenticOLSConfigConditionSafeToResume"
  by (simp_all add: go_consts)

text \<open>The three kinds of writes to the configuration, seen through the lookup of conditions.\<close>

lemma accepted_get:
  assumes "status_conditions (grConditions G)"
  shows "get_condition (accepted_conditions G base start) AgenticOLSConfigConditionSuspended =
      (if current_activation G base then get_condition (olConditions base) AgenticOLSConfigConditionSuspended
       else Some (condition_of AgenticOLSConfigConditionSuspended ConditionTrue reasonStopping
         ''Suspension accepted; global workload and access cleanup is in progress'' (mGeneration (olMeta base)) \<lparr>cLastTransitionTime := start\<rparr>))"
    and "\<exists>c. get_condition (accepted_conditions G base start) AgenticOLSConfigConditionSafeToResume = Some c \<and> cStatus c = ConditionFalse"
    and "t \<noteq> AgenticOLSConfigConditionSuspended \<Longrightarrow> t \<noteq> AgenticOLSConfigConditionSafeToResume \<Longrightarrow>
      get_condition (accepted_conditions G base start) t = get_condition (olConditions base) t"
  by (simp_all add: accepted_conditions_def Let_def status_conditions.setConditionAt_get [OF assms])

lemma resumed_get:
  assumes "status_conditions (grConditions G)"
  shows "get_condition (resumed_conditions G base t) u =
    (if u = AgenticOLSConfigConditionSuspended then Some (condition_of AgenticOLSConfigConditionSuspended ConditionFalse reasonAdminDeactivated
       ''System resumed; agentic operations re-enabled'' (mGeneration (olMeta base)) \<lparr>cLastTransitionTime := t\<rparr>)
     else get_condition (olConditions base) u)"
  by (simp add: resumed_conditions_def status_conditions.setConditionAt_get [OF assms])

lemma safety_condition_simps [simp]:
  "cType (safety_condition a e) = AgenticOLSConfigConditionSafeToResume"
  "cStatus (safety_condition a e) = (if safeToResume e then ConditionTrue else ConditionFalse)"
  by (simp_all add: safety_condition_def)

lemma outcome_get:
  assumes K: "status_conditions (grConditions G)" and w: "outcome_write G a e base cs"
  shows "\<exists>c. get_condition cs AgenticOLSConfigConditionSafeToResume = Some c \<and> cStatus c = (if safeToResume e then ConditionTrue else ConditionFalse)"
    and "\<exists>suspended dl. get_condition (olConditions base) AgenticOLSConfigConditionSuspended = Some suspended \<and>
      get_condition cs AgenticOLSConfigConditionSuspended = Some (condition_of AgenticOLSConfigConditionSuspended ConditionTrue
        (fst (outcomeForEvidence e (cReason suspended) dl)) (snd (outcomeForEvidence e (cReason suspended) dl)) (saGeneration a)
        \<lparr>cLastTransitionTime := saStart a\<rparr>)"
    and "t \<noteq> AgenticOLSConfigConditionSuspended \<Longrightarrow> t \<noteq> AgenticOLSConfigConditionSafeToResume \<Longrightarrow> get_condition cs t = get_condition (olConditions base) t"
  using w unfolding outcome_write_def outcome_conditions_def Let_def suspended_condition_def status_conditions.find_cond [OF K]
  by (auto simp: set_transition_time_get status_conditions.set_cond_same [OF K, of _ _ "safety_condition a e", simplified]
      status_conditions.set_cond_other [OF K] status_conditions.setConditionAt_get [OF K] case_prod_beta)

section \<open>Guarantees\<close>

lemma Reconcile_config_event:
  assumes "es = new_events (Reconcile_config G key) h" and "i < length es"
  shows "global_write G (length h) (h @ take i es) (es ! i)"
  using good_nth [OF wp_new_events [OF Reconcile_config_wp] assms(2) [unfolded assms(1)]] by (simp add: assms(1))

lemma config_write_cases:
  assumes "global_write G n h (SuPatchConfig base new res)"
  obtains (accepted) t where "olSuspended base" "\<not> (current_activation G base \<and> \<not> needsSafetyCondition G base)"
        "new = base\<lparr>olConditions := accepted_conditions G base (activationStart G base t)\<rparr>"
    | (resumed) t where "\<not> olSuspended base" "new = base\<lparr>olConditions := resumed_conditions G base t\<rparr>"
    | (outcome) m a e cs where "grSandbox G = Some m" "outcome_write G a e base cs" "new = base\<lparr>olConditions := cs\<rparr>"
        "safeToResume e \<longrightarrow> earned G m a n h"
  using assms unfolding global_write_def by auto

lemma outcome_write_matches: "outcome_write G a e base cs \<Longrightarrow> SuspensionActivationMatches (grConditions G) base a"
  by (simp add: outcome_write_def)

lemma matches_suspended:
  assumes "status_conditions (grConditions G)" and "SuspensionActivationMatches (grConditions G) base a"
  shows "olSuspended base" "mGeneration (olMeta base) = saGeneration a"
    "\<exists>c. get_condition (olConditions base) AgenticOLSConfigConditionSuspended = Some c \<and> cStatus c = ConditionTrue \<and>
      cObservedGeneration c = saGeneration a \<and> cLastTransitionTime c = saStart a"
  using assms(2) unfolding SuspensionActivationMatches_def status_conditions.find_cond [OF assms(1)]
  by (auto split: if_splits option.splits)

text \<open>
  C1: When the controller writes a status in which a suspended configuration is safe to resume, then, in this same reconciliation and before
  the write, every listed run was accounted for (it ended before the activation, it is gone, or its accepted stop was read or durably written, and it leaves
  no evidence of remote execution), and the last listing of every kind of workload, access and credential showed nothing left of any run, with
  nothing changed since.
\<close>

theorem safe_to_resume_is_earned:
  assumes K: "status_conditions (grConditions G)" and es: "es = new_events (Reconcile_config G key) h" "i < length es"
    and e: "es ! i = SuPatchConfig base new res" and "olSuspended new"
    and safe: "get_condition (olConditions new) AgenticOLSConfigConditionSafeToResume = Some c" "cStatus c = ConditionTrue"
  shows "\<exists>m a. grSandbox G = Some m \<and> SuspensionActivationMatches (grConditions G) base a \<and> all_runs_stopped G a (take i es) \<and>
    nothing_remains m (take i es)"
  using Reconcile_config_event [OF es] unfolding e
proof (cases rule: config_write_cases)
  case (accepted t)
  then show ?thesis using accepted_get(2) [OF K, of base "activationStart G base t"] safe by auto
next
  case (resumed t)
  then show ?thesis using \<open>olSuspended new\<close> by simp
next
  case (outcome m a ev cs)
  then have "safeToResume ev" using outcome_get(1) [OF K outcome(2)] safe by (auto split: if_splits)
  then have "earned G m a (length h) (h @ take i es)" using outcome(4) by simp
  then show ?thesis using outcome(1) outcome_write_matches [OF outcome(2)] by (auto simp: earned_def)
qed

text \<open>
  C15: While a configuration stays suspended at a generation that was accepted, no write of the controller changes what identifies the
  activation (the start, the generation, the status of \<open>Suspended\<close>), and a suspension that ended with errors is never reported as anything
  else. No write touches the metadata, the switch, or any other condition.
\<close>

theorem activation_is_fixed:
  assumes K: "status_conditions (grConditions G)" and es: "es = new_events (Reconcile_config G key) h" "i < length es"
    and e: "es ! i = SuPatchConfig base new res"
  shows "olMeta new = olMeta base \<and> olSuspended new = olSuspended base \<and>
    (t \<noteq> AgenticOLSConfigConditionSuspended \<and> t \<noteq> AgenticOLSConfigConditionSafeToResume \<longrightarrow>
      get_condition (olConditions new) t = get_condition (olConditions base) t) \<and>
    (olSuspended base \<and> current_activation G base \<longrightarrow>
      (\<exists>c c'. get_condition (olConditions base) AgenticOLSConfigConditionSuspended = Some c \<and>
        get_condition (olConditions new) AgenticOLSConfigConditionSuspended = Some c' \<and>
        cStatus c' = ConditionTrue \<and> cObservedGeneration c' = cObservedGeneration c \<and> cLastTransitionTime c' = cLastTransitionTime c \<and>
        (cReason c = reasonAdminActivatedWithErrors \<longrightarrow> cReason c' = reasonAdminActivatedWithErrors)))"
  using Reconcile_config_event [OF es] unfolding e
proof (cases rule: config_write_cases)
  case (accepted u)
  then show ?thesis
    using accepted_get(3) [OF K]
    by (auto simp: accepted_get(1) [OF K] current_activation_def suspended_condition_def status_conditions.find_cond [OF K] split: option.splits)
next
  case (resumed u)
  then show ?thesis by (simp add: resumed_get [OF K])
next
  case (outcome m a ev cs)
  have m: "SuspensionActivationMatches (grConditions G) base a" using outcome_write_matches [OF outcome(2)] .
  show ?thesis
    using outcome_get(2,3) [OF K outcome(2)] matches_suspended(3) [OF K m] outcome(3) by (auto simp: outcomeForEvidence_def)
qed

text \<open>
  The controller reports the system as resumed only on a configuration whose switch is off, with the reason \<open>AdminDeactivated\<close> and
  the generation it read, and leaves every other condition, the safety condition included, as it was.
\<close>

theorem resumed_only_when_switched_off:
  assumes K: "status_conditions (grConditions G)" and es: "es = new_events (Reconcile_config G key) h" "i < length es"
    and e: "es ! i = SuPatchConfig base new res"
    and c: "get_condition (olConditions new) AgenticOLSConfigConditionSuspended = Some c" "cStatus c \<noteq> ConditionTrue"
  shows "\<not> olSuspended base \<and> cReason c = reasonAdminDeactivated \<and> cStatus c = ConditionFalse \<and> cObservedGeneration c = mGeneration (olMeta base) \<and>
    (t \<noteq> AgenticOLSConfigConditionSuspended \<longrightarrow> get_condition (olConditions new) t = get_condition (olConditions base) t)"
  using Reconcile_config_event [OF es] unfolding e
proof (cases rule: config_write_cases)
  case (accepted u)
  then show ?thesis
    using c by (auto simp: accepted_get(1) [OF K] current_activation_def suspended_condition_def status_conditions.find_cond [OF K]
        split: option.splits if_splits)
next
  case (resumed u)
  then show ?thesis using c by (auto simp: resumed_get [OF K])
next
  case (outcome m a ev cs)
  then show ?thesis using outcome_get(2) [OF K outcome(2)] c by auto
qed

text \<open>
  The controller writes one thing to runs: a stop marker with the start of an activation that it read as current in the same reconciliation,
  on a run that has no accepted stop yet. The marker makes the stop accepted and leaves the phase, the metadata and the specification of
  the run as they were.
\<close>

theorem stop_marker_keeps_phase:
  assumes K: "status_conditions (grConditions G)" and es: "es = new_events (Reconcile_config G key) h" "i < length es"
    and e: "es ! i = SuPatchRun base new res"
  shows "\<exists>a. activation_read G a (take i es) \<and> \<not> HasAcceptedStop (grConditions G) base \<and> HasAcceptedStop (grConditions G) new \<and>
    DerivePhase (conditions new) = DerivePhase (conditions base) \<and> rMeta new = rMeta base \<and> rSpec new = rSpec base \<and>
    map_option cLastTransitionTime (get_condition (conditions new) AgenticRunConditionStopping) = Some (saStart a)"
proof -
  obtain a where "\<not> HasAcceptedStop (grConditions G) base" "new = global_stop (grConditions G) base a" "activation_read G a (take i es)"
    using Reconcile_config_event [OF es] unfolding e by (auto simp: global_write_def)
  then show ?thesis
    by (intro exI [of _ a])
      (simp add: status_conditions.global_stop_get [OF K] status_conditions.global_stop_phase [OF K] status_conditions.global_stop_accepted [OF K])
qed

section \<open>The next pass\<close>














section \<open>A suspension from the switch to the confirmation\<close>

text \<open>An API server with one run and one cluster role binding of it, whose administrator has just suspended the system.\<close>

definition stored_config :: "AgenticOLSConfig \<Rightarrow> su_history \<Rightarrow> AgenticOLSConfig" where
  "stored_config config h = fold (\<lambda>e c. case e of SuPatchConfig _ new (Inr _) \<Rightarrow> new | _ \<Rightarrow> c) h config"

definition stored_run :: "su_history \<Rightarrow> AgenticRun" where
  "stored_run h = fold (\<lambda>e run. case e of SuPatchRun _ new (Inr _) \<Rightarrow> new | _ \<Rightarrow> run) h sample_run"

definition switch_api :: "AgenticOLSConfig \<Rightarrow> suspension_api" where
  "switch_api config = (binding_api config)\<lparr>se_now := (\<lambda>_. 5 * Second), se_get_config := (\<lambda>h _. Inr (stored_config config h)),
     se_list_runs := (\<lambda>h. Inr [stored_run h]), se_get_run := (\<lambda>h _. Inr (stored_run h))\<rparr>"

definition global_reconciler :: "AgenticOLSConfig \<Rightarrow> GlobalReconciler" where
  "global_reconciler config = \<lparr>grClient = True, grRecorder = True, grReader = True, grSandbox = Some (sample_manager\<lparr>smApi := switch_api config\<rparr>),
     grApi = switch_api config, grConditions = ref_server empty_world\<rparr>"

definition switched_on :: AgenticOLSConfig where
  "switched_on = suspended_config\<lparr>olConditions := []\<rparr>"

definition switched_off :: AgenticOLSConfig where
  "switched_off = suspended_config\<lparr>olSuspended := False\<rparr>"

abbreviation first_pass :: "su_event list" where
  "first_pass \<equiv> new_events (Reconcile_config (global_reconciler switched_on) cluster_key) []"

text \<open>
  A write to the configuration: the switch, whether the activation was current before, and the statuses of the two conditions after it. A write
  to a run is \<open>Inr\<close>.
\<close>

type_synonym config_view = "bool \<times> bool \<times> ConditionStatus option \<times> ConditionStatus option"

definition write_view :: "su_event \<Rightarrow> (config_view + unit) option" where
  "write_view e = (case e of
      SuPatchConfig base new res \<Rightarrow> Some (Inl (olSuspended new, current_activation (global_reconciler switched_on) base,
        map_option cStatus (get_condition (olConditions new) AgenticOLSConfigConditionSuspended),
        map_option cStatus (get_condition (olConditions new) AgenticOLSConfigConditionSafeToResume)))
    | SuPatchRun base new res \<Rightarrow> Some (Inr ())
    | _ \<Rightarrow> None)"

lemma write_view_config:
  "write_view e = Some (Inl (b, act, sus, safe)) \<Longrightarrow> \<exists>base new res. e = SuPatchConfig base new res \<and> olSuspended new = b \<and>
     current_activation (global_reconciler switched_on) base = act \<and>
     map_option cStatus (get_condition (olConditions new) AgenticOLSConfigConditionSuspended) = sus \<and>
     map_option cStatus (get_condition (olConditions new) AgenticOLSConfigConditionSafeToResume) = safe"
  by (auto simp: write_view_def split: su_event.splits)

lemma write_view_run: "write_view e = Some (Inr u) \<Longrightarrow> \<exists>base new res. e = SuPatchRun base new res"
  by (auto simp: write_view_def split: su_event.splits)

lemma first_pass_view:
  "map write_view first_pass = replicate 3 None @ [Some (Inl (True, False, Some ConditionTrue, Some ConditionFalse))] @ replicate 8 None @
     [Some (Inr ())] @ replicate 28 None @ [Some (Inl (True, True, Some ConditionTrue, Some ConditionTrue))]"
  by code_simp

lemma first_pass_nth:
  "length first_pass = 42" "write_view (first_pass ! 12) = Some (Inr ())"
  "write_view (first_pass ! 41) = Some (Inl (True, True, Some ConditionTrue, Some ConditionTrue))"
proof -
  show len: "length first_pass = 42"
    using arg_cong [OF first_pass_view, of length] by simp
  show "write_view (first_pass ! 12) = Some (Inr ())"
    "write_view (first_pass ! 41) = Some (Inl (True, True, Some ConditionTrue, Some ConditionTrue))"
    using arg_cong [OF first_pass_view, of "\<lambda>vs. vs ! 12"] arg_cong [OF first_pass_view, of "\<lambda>vs. vs ! 41"] len
    by (simp_all add: nth_append)
qed

abbreviation switch_off_pass :: "su_event list" where
  "switch_off_pass \<equiv> new_events (Reconcile_config (global_reconciler switched_off) cluster_key) []"

lemma switch_off_view:
  "map write_view switch_off_pass = [None, None, None, Some (Inl (False, True, Some ConditionFalse, None)), None]"
  by code_simp

lemma global_reconciler_conditions: "status_conditions (grConditions (global_reconciler config))"
  using ref_server_conds.status_conditions_axioms by (simp add: global_reconciler_def)



theorem safe_to_resume_is_earned_witness:
  "\<exists>m a. grSandbox (global_reconciler switched_on) = Some m \<and> all_runs_stopped (global_reconciler switched_on) a (take 41 first_pass) \<and>
     nothing_remains m (take 41 first_pass)"
proof -
  obtain base new res c where e: "first_pass ! 41 = SuPatchConfig base new res" "olSuspended new"
    "get_condition (olConditions new) AgenticOLSConfigConditionSafeToResume = Some c" "cStatus c = ConditionTrue"
    using write_view_config [OF first_pass_nth(3)] by auto
  from safe_to_resume_is_earned [OF global_reconciler_conditions refl _ e] show ?thesis
    by (auto simp: first_pass_nth(1))
qed

theorem activation_is_fixed_witness:
  "\<exists>base new res c c'. first_pass ! 41 = SuPatchConfig base new res \<and>
     get_condition (olConditions base) AgenticOLSConfigConditionSuspended = Some c \<and>
     get_condition (olConditions new) AgenticOLSConfigConditionSuspended = Some c' \<and> cLastTransitionTime c' = cLastTransitionTime c"
proof -
  obtain base new res where e: "first_pass ! 41 = SuPatchConfig base new res" "olSuspended new"
    and "current_activation (global_reconciler switched_on) base"
    using write_view_config [OF first_pass_nth(3)] by auto
  then show ?thesis
    using activation_is_fixed [OF global_reconciler_conditions refl _ e(1), of AgenticOLSConfigConditionSuspended] by (auto simp: first_pass_nth(1))
qed

theorem resumed_only_when_switched_off_witness:
  "\<exists>base new res. switch_off_pass ! 3 = SuPatchConfig base new res \<and> \<not> olSuspended base"
proof -
  have len: "3 < length switch_off_pass" using arg_cong [OF switch_off_view, of length] by simp
  then have v: "write_view (switch_off_pass ! 3) = Some (Inl (False, True, Some ConditionFalse, None))"
    using arg_cong [OF switch_off_view, of "\<lambda>vs. vs ! 3"] by simp
  then obtain base new res c where e: "switch_off_pass ! 3 = SuPatchConfig base new res"
    "get_condition (olConditions new) AgenticOLSConfigConditionSuspended = Some c" "cStatus c \<noteq> ConditionTrue"
    using write_view_config [OF v] by auto
  from resumed_only_when_switched_off [OF global_reconciler_conditions refl len e] e show ?thesis by auto
qed

theorem stop_marker_keeps_phase_witness:
  "\<exists>base new res. first_pass ! 12 = SuPatchRun base new res \<and> DerivePhase (conditions new) = DerivePhase (conditions base)"
proof -
  obtain base new res where e: "first_pass ! 12 = SuPatchRun base new res"
    using write_view_run [OF first_pass_nth(2)] by blast
  from stop_marker_keeps_phase [OF global_reconciler_conditions refl _ e] e show ?thesis
    by (auto simp: first_pass_nth(1))
qed

end
