(* ===== verification/ActivationMachine.thy ===== *)
theory ActivationMachine
  imports GlobalSafety
begin

text \<open>
  The life of a suspension as an abstract state machine, and the proof that every status the controller of \<open>GlobalSuspension\<close> writes is a step of it.

  The machine knows nothing of runs, inventories or messages: a system is idle, or suspended with an outcome, a start, a generation and the claim that it may be
  resumed. The refinement maps a configuration to such a state by reading its two conditions.
\<close>

section \<open>The machine\<close>

datatype outcome_kind = Stopping | Activated | WithErrors

datatype activation_state = Idle | Suspended outcome_kind Time int bool

text \<open>
  An idle system is suspended as stopping and not safe. A suspended one keeps its start and generation; its outcome moves freely
  except that errors are final; an outcome without errors that is called complete comes with the claim of safety. Switching off makes the system idle.
\<close>

inductive activation_step :: "activation_state \<Rightarrow> activation_state \<Rightarrow> bool" where
  accept: "activation_step Idle (Suspended Stopping start gen False)"
| progress: "(outcome = WithErrors \<longrightarrow> outcome' = WithErrors) \<Longrightarrow> (outcome' = Activated \<longrightarrow> safe') \<Longrightarrow>
    activation_step (Suspended outcome start gen safe) (Suspended outcome' start gen safe')"
| stay: "activation_step s s"
| switch_off: "activation_step s Idle"

inductive_cases from_suspended: "activation_step (Suspended outcome start gen safe) s"

inductive activation_steps :: "activation_state \<Rightarrow> activation_state \<Rightarrow> bool" where
  none: "activation_steps s s"
| more: "activation_steps s s' \<Longrightarrow> activation_step s' s'' \<Longrightarrow> activation_steps s s''"

text \<open>A system that is reported as suspended without errors is safe to resume.\<close>

lemma activated_is_safe: "activation_steps s s' \<Longrightarrow> s = Idle \<Longrightarrow> s' = Suspended Activated start gen safe \<Longrightarrow> safe"
proof (induction arbitrary: safe rule: activation_steps.induct)
  case (more s s' s'')
  from more.hyps(2) more.prems(2) show ?case
    by (cases rule: activation_step.cases) (use more in auto)
qed simp

text \<open>Errors are final until the system is switched off.\<close>

lemma errors_are_final:
  "activation_steps s s' \<Longrightarrow> s = Suspended WithErrors start gen safe \<Longrightarrow>
   (\<exists>safe'. s' = Suspended WithErrors start gen safe') \<or> activation_steps Idle s'"
proof (induction rule: activation_steps.induct)
  case (more s s' s'')
  then consider safe' where "s' = Suspended WithErrors start gen safe'" | "activation_steps Idle s'" by blast
  then show ?case
  proof cases
    case 1
    with more.hyps(2) show ?thesis by (auto elim!: from_suspended intro: activation_steps.none)
  next
    case 2
    with more.hyps(2) show ?thesis by (blast intro: activation_steps.more)
  qed
qed simp

section \<open>The abstraction of a configuration\<close>

definition outcome_of :: "string \<Rightarrow> outcome_kind" where
  "outcome_of reason = (if reason = reasonAdminActivatedWithErrors then WithErrors
     else if reason = reasonAdminActivated then Activated else Stopping)"

definition safe_now :: "AgenticOLSConfig \<Rightarrow> bool" where
  "safe_now config = (case get_condition (olConditions config) AgenticOLSConfigConditionSafeToResume of
     Some c \<Rightarrow> cStatus c = ConditionTrue \<and> cObservedGeneration c = mGeneration (olMeta config) | None \<Rightarrow> False)"

definition activation_of :: "AgenticOLSConfig \<Rightarrow> activation_state" where
  "activation_of config = (case get_condition (olConditions config) AgenticOLSConfigConditionSuspended of
      Some c \<Rightarrow>
        if cStatus c = ConditionTrue \<and> cObservedGeneration c = mGeneration (olMeta config) \<and> \<not> IsZero (cLastTransitionTime c)
        then Suspended (outcome_of (cReason c)) (cLastTransitionTime c) (mGeneration (olMeta config)) (safe_now config)
        else Idle
    | None \<Rightarrow> Idle)"

lemma reasons_distinct [simp]:
  "outcome_of reasonStopping = Stopping" "outcome_of reasonAdminActivated = Activated" "outcome_of reasonAdminActivatedWithErrors = WithErrors"
  by (simp_all add: outcome_of_def go_consts)

section \<open>Refinement\<close>

lemma activation_of_idle:
  assumes "status_conditions (grConditions G)"
  shows "activation_of config \<noteq> Idle \<longleftrightarrow> current_activation G config"
  by (auto simp: activation_of_def current_activation_def suspended_condition_def status_conditions.find_cond [OF assms] split: option.splits)

lemma accepted_step:
  assumes K: "status_conditions (grConditions G)" and "\<not> (current_activation G base \<and> \<not> needsSafetyCondition G base)"
  shows "activation_step (activation_of base) (activation_of (base\<lparr>olConditions := accepted_conditions G base start\<rparr>))"
proof (cases "current_activation G base")
  case True
  with assms(2) have "\<not> safe_now base"
    by (auto simp: needsSafetyCondition_def safe_now_def status_conditions.find_cond [OF K] split: option.splits)
  moreover have "\<not> safe_now (base\<lparr>olConditions := accepted_conditions G base start\<rparr>)"
    using accepted_get(2) [OF K, of base start] by (auto simp: safe_now_def)
  ultimately have "activation_of (base\<lparr>olConditions := accepted_conditions G base start\<rparr>) = activation_of base"
    using True by (simp add: activation_of_def accepted_get(1) [OF K] split: option.split)
  then show ?thesis by (simp add: stay)
next
  case False
  then have "activation_of base = Idle" using activation_of_idle [OF K] by blast
  moreover have "\<not> safe_now (base\<lparr>olConditions := accepted_conditions G base start\<rparr>)"
    using accepted_get(2) [OF K, of base start] by (auto simp: safe_now_def)
  ultimately show ?thesis
    using False by (auto simp: activation_of_def accepted_get(1) [OF K] intro: accept stay)
qed

lemma resolved_is_safe: "\<not> unresolved e \<Longrightarrow> safeToResume e"
  by (simp add: unresolved_def safeToResume_def)

lemma safety_condition_generation [simp]: "cObservedGeneration (safety_condition a e) = saGeneration a"
  by (simp add: safety_condition_def)

lemma outcome_safety_generation:
  assumes K: "status_conditions (grConditions G)" and w: "outcome_write G a e base cs"
  shows "\<exists>c. get_condition cs AgenticOLSConfigConditionSafeToResume = Some c \<and> cObservedGeneration c = saGeneration a \<and>
    cStatus c = (if safeToResume e then ConditionTrue else ConditionFalse)"
  using w unfolding outcome_write_def outcome_conditions_def Let_def
  by (auto simp: set_transition_time_get status_conditions.set_cond_same [OF K, of _ _ "safety_condition a e", simplified] case_prod_beta)

lemma outcome_reason:
  "r = reasonAdminActivatedWithErrors \<Longrightarrow> fst (outcomeForEvidence e r dl) = reasonAdminActivatedWithErrors"
  "fst (outcomeForEvidence e r dl) = reasonAdminActivated \<Longrightarrow> \<not> unresolved e"
  by (auto simp: outcomeForEvidence_def go_consts split: if_splits)

lemma outcome_step:
  assumes K: "status_conditions (grConditions G)" and w: "outcome_write G a e base cs"
  shows "activation_step (activation_of base) (activation_of (base\<lparr>olConditions := cs\<rparr>))"
proof -
  note m = matches_suspended [OF K outcome_write_matches [OF w]]
  obtain c where c: "get_condition (olConditions base) AgenticOLSConfigConditionSuspended = Some c" "cStatus c = ConditionTrue"
    "cObservedGeneration c = saGeneration a" "cLastTransitionTime c = saStart a"
    using m(3) by blast
  obtain dl where dl: "get_condition cs AgenticOLSConfigConditionSuspended = Some (condition_of AgenticOLSConfigConditionSuspended ConditionTrue
      (fst (outcomeForEvidence e (cReason c) dl)) (snd (outcomeForEvidence e (cReason c) dl)) (saGeneration a)\<lparr>cLastTransitionTime := saStart a\<rparr>)"
    using outcome_get(2) [OF K w] c(1) by auto
  let ?reason = "fst (outcomeForEvidence e (cReason c) dl)"
  have "safeToResume e \<longrightarrow> safe_now (base\<lparr>olConditions := cs\<rparr>)"
    using outcome_safety_generation [OF K w] m(2) by (auto simp: safe_now_def)
  then have "outcome_of ?reason = Activated \<longrightarrow> safe_now (base\<lparr>olConditions := cs\<rparr>)"
    using outcome_reason(2) resolved_is_safe by (auto simp: outcome_of_def split: if_splits)
  moreover have "outcome_of (cReason c) = WithErrors \<longrightarrow> outcome_of ?reason = WithErrors"
    using outcome_reason(1) by (auto simp: outcome_of_def split: if_splits)
  ultimately show ?thesis
    using c dl m(2) by (auto simp: activation_of_def intro: progress stay)
qed

text \<open>
  C16: Every status that a reconciliation writes to the configuration is a step of the abstract machine of activations: an idle system is
  accepted as stopping, a suspended one keeps its start and generation, errors are final, a suspension is reported as complete without errors only
  together with the claim that resuming is safe, and everything ends with the switch.
\<close>

theorem configuration_refines_machine:
  assumes K: "status_conditions (grConditions G)" and es: "es = new_events (Reconcile_config G key) h" "i < length es"
    and e: "es ! i = SuPatchConfig base new res"
  shows "activation_step (activation_of base) (activation_of new)"
  using Reconcile_config_event [OF es] unfolding e
proof (cases rule: config_write_cases)
  case (accepted t)
  then show ?thesis using accepted_step [OF K] by simp
next
  case (resumed t)
  have "activation_of new = Idle" unfolding resumed(2) activation_of_def by (simp add: resumed_get [OF K])
  then show ?thesis by (simp add: switch_off)
next
  case (outcome m a ev cs)
  then show ?thesis using outcome_step [OF K] by simp
qed

theorem configuration_refines_machine_witness:
  "\<exists>base new res. first_pass ! 41 = SuPatchConfig base new res \<and> activation_step (activation_of base) (activation_of new)"
proof -
  obtain base new res where e: "first_pass ! 41 = SuPatchConfig base new res"
    using write_view_config [OF first_pass_nth(3)] by blast
  from configuration_refines_machine [OF global_reconciler_conditions refl _ e] e show ?thesis
    by (auto simp: first_pass_nth(1))
qed

section \<open>Well-formed conditions\<close>

text \<open>The API server keeps conditions as a map by type; the controller keeps the types distinct.\<close>

definition wf_conditions :: "Condition list \<Rightarrow> bool" where
  "wf_conditions cs \<longleftrightarrow> distinct (map cType cs)"

lemma set_transition_time_types [simp]: "map cType (set_transition_time cs t at) = map cType cs"
  by (induction cs) auto

lemma wf_set:
  assumes "status_conditions K" and "wf_conditions cs"
  shows "wf_conditions (SetStatusCondition K t cs c)" "wf_conditions (setConditionAt K cs c t)"
  using status_conditions.set_cond_distinct [OF assms(1)] assms(2) by (simp_all add: wf_conditions_def setConditionAt_def)

lemma wf_transition [simp]: "wf_conditions (set_transition_time cs t at) \<longleftrightarrow> wf_conditions cs"
  by (simp add: wf_conditions_def)

text \<open>
  Conditions stay well-formed: a status the controller writes, to the configuration or to a run, has one condition of each type if the
  status it started from had.
\<close>

theorem conditions_stay_distinct:
  assumes K: "status_conditions (grConditions G)" and es: "es = new_events (Reconcile_config G key) h" "i < length es"
  shows "case es ! i of
      SuPatchConfig base new res \<Rightarrow> wf_conditions (olConditions base) \<longrightarrow> wf_conditions (olConditions new)
    | SuPatchRun base new res \<Rightarrow> wf_conditions (conditions base) \<longrightarrow> wf_conditions (conditions new)
    | _ \<Rightarrow> True"
proof (cases "es ! i")
  case (SuPatchConfig base new res)
  have "wf_conditions (olConditions new)" if base: "wf_conditions (olConditions base)"
    using Reconcile_config_event [OF es] unfolding SuPatchConfig
  proof (cases rule: config_write_cases)
    case (accepted t)
    then show ?thesis using wf_set [OF K] base by (auto simp: accepted_conditions_def Let_def)
  next
    case (resumed t)
    then show ?thesis using wf_set [OF K base] by (simp add: resumed_conditions_def)
  next
    case (outcome m a ev cs)
    have "wf_conditions (outcome_conditions G a ev dl base reason)" for dl reason
      using wf_set(1) [OF K wf_set(2) [OF K base]] by (simp add: outcome_conditions_def split: prod.split)
    then show ?thesis using outcome(2,3) by (auto simp: outcome_write_def Let_def)
  qed
  then show ?thesis by (simp add: SuPatchConfig)
next
  case (SuPatchRun base new res)
  then show ?thesis
    using Reconcile_config_event [OF es] wf_set(2) [OF K] by (auto simp: global_write_def global_stop_def)
qed simp_all

theorem conditions_stay_distinct_witness:
  "\<exists>base new res. first_pass ! 12 = SuPatchRun base new res \<and> (wf_conditions (conditions base) \<longrightarrow> wf_conditions (conditions new))"
proof -
  obtain base new res where e: "first_pass ! 12 = SuPatchRun base new res"
    using write_view_run [OF first_pass_nth(2)] by blast
  have "12 < length first_pass" by (simp add: first_pass_nth(1))
  from conditions_stay_distinct [OF global_reconciler_conditions refl this] e show ?thesis by auto
qed

end
