(* ===== verification/Configuration.thy ===== *)
theory Configuration
  imports Handlers
begin

text \<open>
  The operator's configuration: the parsed contents of the ConfigMap \<^verbatim>\<open>lightspeed-agentic-configuration\<close>, the cache that
  holds them (\<^verbatim>\<open>pkg/configuration/config.go\<close>) and the watcher that feeds the cache (\<^verbatim>\<open>pkg/configwatch/watcher.go\<close>).
  The record of the run controller's view is extended with the rest of the fields, so that the parsed configuration is a
  configuration of the controller. The pod types of \<^verbatim>\<open>k8s.io/api/core/v1\<close> come first, with the fields the operator reads or writes;
  what it only copies is left out.

  The lemmas show that whatever the ConfigMap holds, the retention is a positive 32-bit number of days and the sandbox
  mode is set, and that a ConfigMap that cannot be parsed leaves the cached configuration in place.
\<close>

section \<open>Pods\<close>

datatype VolumeSource =
    SecretVolume string | ConfigMapVolume string | ImageVolume string string | OtherVolume string

record Volume =
  voName :: string
  voSource :: VolumeSource

record VolumeMount =
  vmName :: string
  vmMountPath :: string
  vmSubPath :: string
  vmReadOnly :: bool

record SecretKeySelector =
  skName :: string
  skKey :: string
  skOptional :: bool

record EnvVar =
  evName :: string
  evValue :: string
  evValueFrom :: "SecretKeySelector option"

datatype EnvFromSource = EnvFromSecret string | EnvFromOther string

record Container =
  ctName :: string
  ctEnv :: "EnvVar list"
  ctEnvFrom :: "EnvFromSource list"
  ctVolumeMounts :: "VolumeMount list"
  ctTerminationMessagePolicy :: string

record PodSpec =
  psServiceAccountName :: string
  psAutomountServiceAccountToken :: "bool option"
  psRestartPolicy :: string
  psActiveDeadlineSeconds :: "int option"
  psContainers :: "Container list"
  psVolumes :: "Volume list"

section \<open>The configuration\<close>

record OTELConfig =
  otCollectorEndpoint :: string
  otAdminEndpoint :: string
  otCASecretName :: string
  otCredentialsSecret :: string

record MCPConfig =
  mcEndpoint :: string
  mcCASecretName :: string

type_synonym RHOKPConfig = MCPConfig

record TLSConfig =
  tlProfile :: string
  tlMinVersion :: string
  tlCipherSuites :: string

record FullConfig = Config +
  cfPodSpec :: "PodSpec option"
  cfTLS :: TLSConfig
  cfAdditionalCAConfigMap :: string
  cfOTEL :: OTELConfig
  cfMCP :: MCPConfig
  cfRHOKP :: RHOKPConfig
  cfToolOutputInspectionEnabled :: bool

definition DefaultTerminalTTLDays :: int where
  "DefaultTerminalTTLDays = 14"

definition KeySandboxMode :: string where [go_consts]: "KeySandboxMode = ''sandbox-mode''"
definition KeyTerminalTTLDays :: string where [go_consts]: "KeyTerminalTTLDays = ''terminal-ttl-days''"
definition KeySandboxPodSpec :: string where [go_consts]: "KeySandboxPodSpec = ''sandbox-pod-spec''"
definition KeyToolOutputInspectionEnabled :: string where
  [go_consts]: "KeyToolOutputInspectionEnabled = ''tool-output-inspection-enabled''"
definition KeyTLSProfile :: string where [go_consts]: "KeyTLSProfile = ''tls-profile''"
definition KeyTLSMinVersion :: string where [go_consts]: "KeyTLSMinVersion = ''tls-min-version''"
definition KeyTLSCipherSuites :: string where [go_consts]: "KeyTLSCipherSuites = ''tls-cipher-suites''"
definition KeyAdditionalCAConfigMap :: string where [go_consts]: "KeyAdditionalCAConfigMap = ''additional-ca-configmap''"
definition KeyOtelCollectorEndpoint :: string where [go_consts]: "KeyOtelCollectorEndpoint = ''otel-collector-endpoint''"
definition KeyOtelAdminEndpoint :: string where [go_consts]: "KeyOtelAdminEndpoint = ''otel-admin-endpoint''"
definition KeyOtelCASecret :: string where [go_consts]: "KeyOtelCASecret = ''otel-ca-secret''"
definition KeyOtelCredentialsSecret :: string where [go_consts]: "KeyOtelCredentialsSecret = ''otel-credentials-secret''"
definition KeyMCPEndpoint :: string where [go_consts]: "KeyMCPEndpoint = ''mcp-endpoint''"
definition KeyMCPCASecret :: string where [go_consts]: "KeyMCPCASecret = ''mcp-ca-secret''"
definition KeyRHOKPEndpoint :: string where [go_consts]: "KeyRHOKPEndpoint = ''rhokp-endpoint''"
definition KeyRHOKPCASecret :: string where [go_consts]: "KeyRHOKPCASecret = ''rhokp-ca-secret''"

section \<open>Parsing\<close>

text \<open>\<open>strconv.ParseBool\<close>, and \<open>strconv.ParseInt\<close> for base 10 and 32 bits.\<close>

definition parse_bool :: "string \<Rightarrow> bool option" where
  "parse_bool s =
    (if s \<in> set [''1'', ''t'', ''T'', ''TRUE'', ''true'', ''True''] then Some True
     else if s \<in> set [''0'', ''f'', ''F'', ''FALSE'', ''false'', ''False''] then Some False else None)"

definition parse_int32 :: "string \<Rightarrow> int option" where
  "parse_int32 s = (case atoi s of
      None \<Rightarrow> None
    | Some v \<Rightarrow> if - (2 ^ 31) \<le> v \<and> v < 2 ^ 31 then Some v else None)"

definition parseToolOutputInspectionEnabled :: "(string \<rightharpoonup> string) \<Rightarrow> bool" where
  "parseToolOutputInspectionEnabled data = (case data KeyToolOutputInspectionEnabled of
      None \<Rightarrow> True
    | Some raw \<Rightarrow> (case parse_bool (trim_space raw) of None \<Rightarrow> True | Some enabled \<Rightarrow> enabled))"

definition parseTerminalTTLDays :: "(string \<rightharpoonup> string) \<Rightarrow> int" where
  "parseTerminalTTLDays data = (case data KeyTerminalTTLDays of
      None \<Rightarrow> DefaultTerminalTTLDays
    | Some raw \<Rightarrow> (case parse_int32 (trim_space raw) of
        None \<Rightarrow> DefaultTerminalTTLDays
      | Some days \<Rightarrow> if days \<le> 0 then DefaultTerminalTTLDays else days))"

text \<open>The decoding of the base pod specification from JSON is that of the Kubernetes types, and so a parameter.\<close>

definition parseConfigMap :: "(string \<Rightarrow> error + PodSpec) \<Rightarrow> (string \<rightharpoonup> string) \<Rightarrow> error + FullConfig" where
  "parseConfigMap unmarshal data =
    (let mode = lookup data KeySandboxMode;
         cfg = \<lparr>cfSandboxMode = mode, cfTerminalTTLDays = parseTerminalTTLDays data, cfPodSpec = None,
           cfTLS = \<lparr>tlProfile = lookup data KeyTLSProfile, tlMinVersion = lookup data KeyTLSMinVersion,
             tlCipherSuites = lookup data KeyTLSCipherSuites\<rparr>,
           cfAdditionalCAConfigMap = lookup data KeyAdditionalCAConfigMap,
           cfOTEL = \<lparr>otCollectorEndpoint = lookup data KeyOtelCollectorEndpoint,
             otAdminEndpoint = lookup data KeyOtelAdminEndpoint, otCASecretName = lookup data KeyOtelCASecret,
             otCredentialsSecret = lookup data KeyOtelCredentialsSecret\<rparr>,
           cfMCP = \<lparr>mcEndpoint = lookup data KeyMCPEndpoint, mcCASecretName = lookup data KeyMCPCASecret\<rparr>,
           cfRHOKP = \<lparr>mcEndpoint = lookup data KeyRHOKPEndpoint, mcCASecretName = lookup data KeyRHOKPCASecret\<rparr>,
           cfToolOutputInspectionEnabled = parseToolOutputInspectionEnabled data\<rparr>;
         podSpecJSON = lookup data KeySandboxPodSpec in
     case (if podSpecJSON = '''' then Inr None else map_sum id Some (unmarshal podSpecJSON)) of
       Inl e \<Rightarrow> Inl (WrapError ''parse sandbox-pod-spec from ConfigMap'' e)
     | Inr podSpec \<Rightarrow>
         Inr (cfg\<lparr>cfPodSpec := podSpec, cfSandboxMode := (if mode = '''' then ''bare-pod'' else mode)\<rparr>))"

section \<open>The cache and its watcher\<close>

record Cache =
  caConfig :: "FullConfig option"
  caForceBareMode :: bool

definition Available :: "Cache \<Rightarrow> bool" where
  "Available c \<longleftrightarrow> caConfig c \<noteq> None"

definition update_cache :: "(string \<Rightarrow> error + PodSpec) \<Rightarrow> Cache \<Rightarrow> (string \<rightharpoonup> string) option \<Rightarrow> Cache \<times> error option" where
  "update_cache unmarshal c cm = (case cm of
      None \<Rightarrow> (c\<lparr>caConfig := None\<rparr>, None)
    | Some data \<Rightarrow> (case parseConfigMap unmarshal data of
        Inl e \<Rightarrow> (c, Some e)
      | Inr cfg \<Rightarrow>
          (c\<lparr>caConfig := Some (if caForceBareMode c \<and> cfSandboxMode cfg \<noteq> ''bare-pod''
             then cfg\<lparr>cfSandboxMode := ''bare-pod''\<rparr> else cfg)\<rparr>, None)))"

text \<open>The registered telemetry provider, if any, is a state of its own with its reaction to the change.\<close>

definition OnConfigMapChange ::
    "(string \<Rightarrow> error + PodSpec) \<Rightarrow> ('p \<Rightarrow> (string \<rightharpoonup> string) option \<Rightarrow> 'p \<times> error option) \<Rightarrow>
     Cache \<times> 'p option \<Rightarrow> (string \<rightharpoonup> string) option \<Rightarrow> (Cache \<times> 'p option) \<times> error option" where
  "OnConfigMapChange unmarshal reconfigureFromConfigMap cp cm = (case cp of (c, provider) \<Rightarrow>
    (case update_cache unmarshal c cm of
       (c', Some e) \<Rightarrow> ((c', provider), Some e)
     | (c', None) \<Rightarrow> (case provider of
         None \<Rightarrow> ((c', None), None)
       | Some p \<Rightarrow> (case reconfigureFromConfigMap p cm of (p', err) \<Rightarrow> ((c', Some p'), err)))))"

text \<open>
  \<open>Watcher.Reconcile\<close> with the handlers as state transformers. The answer of the server to the read is an argument; the
  handler's error is logged only.
\<close>

definition watcher_reconcile ::
    "string \<Rightarrow> (string \<rightharpoonup> ('s \<Rightarrow> (string \<rightharpoonup> string) option \<Rightarrow> 's \<times> error option)) \<Rightarrow>
     (ObjectKey \<Rightarrow> error + (string \<rightharpoonup> string)) \<Rightarrow> 's \<Rightarrow> ObjectKey \<Rightarrow> 's \<times> error option" where
  "watcher_reconcile namespace handlers get s req =
    (if kNamespace req \<noteq> namespace then (s, None)
     else (case handlers (kName req) of
        None \<Rightarrow> (s, None)
      | Some h \<Rightarrow> (case get req of
          Inl e \<Rightarrow> (case IgnoreNotFound e of
              None \<Rightarrow> (fst (h s None), None)
            | Some e' \<Rightarrow> (s, Some e))
        | Inr cm \<Rightarrow> (fst (h s (Some cm)), None))))"

text \<open>The map function of the watch: which ConfigMaps are enqueued.\<close>

definition watcher_requests :: "string \<Rightarrow> (string \<rightharpoonup> 'h) \<Rightarrow> ObjectKey \<Rightarrow> ObjectKey list" where
  "watcher_requests namespace handlers cm =
    (if kNamespace cm \<noteq> namespace then [] else if handlers (kName cm) = None then [] else [cm])"

section \<open>What the cache holds\<close>

lemma parseTerminalTTLDays_range: "1 \<le> parseTerminalTTLDays data \<and> parseTerminalTTLDays data < 2 ^ 31"
  by (auto simp: parseTerminalTTLDays_def DefaultTerminalTTLDays_def parse_int32_def split: option.splits)

definition config_ok :: "bool \<Rightarrow> FullConfig \<Rightarrow> bool" where
  "config_ok force cfg \<longleftrightarrow>
     (if force then cfSandboxMode cfg = ''bare-pod'' else cfSandboxMode cfg \<noteq> '''') \<and>
     1 \<le> cfTerminalTTLDays cfg \<and> cfTerminalTTLDays cfg < 2 ^ 31"

definition cache_ok :: "Cache \<Rightarrow> bool" where
  "cache_ok c \<longleftrightarrow> (case caConfig c of None \<Rightarrow> True | Some cfg \<Rightarrow> config_ok (caForceBareMode c) cfg)"

lemma parseConfigMap_ok:
  assumes "parseConfigMap unmarshal data = Inr cfg"
  shows "cfSandboxMode cfg \<noteq> ''''" "cfTerminalTTLDays cfg = parseTerminalTTLDays data"
  using assms by (auto simp: parseConfigMap_def Let_def split: sum.splits if_splits)

lemma update_cache_ok:
  "cache_ok c \<Longrightarrow> cache_ok (fst (update_cache unmarshal c cm))"
  "caForceBareMode (fst (update_cache unmarshal c cm)) = caForceBareMode c"
  using parseConfigMap_ok [of unmarshal] parseTerminalTTLDays_range
  by (auto simp: update_cache_def cache_ok_def config_ok_def split: option.splits sum.splits)

text \<open>A ConfigMap that cannot be parsed changes nothing.\<close>

lemma update_cache_error:
  "snd (update_cache unmarshal c cm) = Some e \<Longrightarrow> fst (update_cache unmarshal c cm) = c"
  by (auto simp: update_cache_def split: option.splits sum.splits)

lemma OnConfigMapChange_cache: "fst (fst (OnConfigMapChange unmarshal reconf cp cm)) = fst (update_cache unmarshal (fst cp) cm)"
  by (auto simp: OnConfigMapChange_def split: prod.splits option.splits)

text \<open>The cache after a sequence of watch events, each with the answer the server gives to its read.\<close>

definition watched_cache ::
    "(string \<Rightarrow> error + PodSpec) \<Rightarrow> ('p \<Rightarrow> (string \<rightharpoonup> string) option \<Rightarrow> 'p \<times> error option) \<Rightarrow> string \<Rightarrow> string \<Rightarrow>
     Cache \<times> 'p option \<Rightarrow> ((ObjectKey \<Rightarrow> error + (string \<rightharpoonup> string)) \<times> ObjectKey) list \<Rightarrow> Cache \<times> 'p option" where
  "watched_cache unmarshal reconf namespace name =
     foldl (\<lambda>s (get, req). fst (watcher_reconcile namespace [name \<mapsto> OnConfigMapChange unmarshal reconf] get s req))"

lemma watcher_reconcile_cache:
  "\<exists>cm. fst (fst (watcher_reconcile ns [name \<mapsto> OnConfigMapChange unmarshal reconf] get s req)) = fst (update_cache unmarshal (fst s) cm) \<or>
     fst (watcher_reconcile ns [name \<mapsto> OnConfigMapChange unmarshal reconf] get s req) = s"
  using OnConfigMapChange_cache [of unmarshal reconf s]
  by (auto simp: watcher_reconcile_def split: sum.splits option.splits)

text \<open>
  C34: However often the watched ConfigMap is created, changed, broken or deleted, the cached configuration, if there is one,
  has a sandbox mode (the bare-pod mode where the sandbox CRDs are missing) and keeps finished runs for at least one and at most
  2147483647 days.
\<close>
theorem cached_configuration_ok:
  "cache_ok (fst (watched_cache unmarshal reconf namespace name (\<lparr>caConfig = None, caForceBareMode = force\<rparr>, provider) events))"
proof -
  let ?ok = "\<lambda>s. cache_ok (fst s)"
  have "?ok (watched_cache unmarshal reconf namespace name s events)" if "?ok s" for s
    using that unfolding watched_cache_def
  proof (induction events arbitrary: s)
    case (Cons ev events)
    obtain get req where ev: "ev = (get, req)" by (cases ev)
    have "?ok (fst (watcher_reconcile namespace [name \<mapsto> OnConfigMapChange unmarshal reconf] get s req))"
      using watcher_reconcile_cache [of namespace name unmarshal reconf get s req] update_cache_ok(1) Cons.prems by metis
    then show ?case
      unfolding ev foldl.simps prod.case by (rule Cons.IH)
  qed simp
  then show ?thesis by (simp add: cache_ok_def)
qed

end
