(* ===== verification/JsonText.thy ===== *)
theory JsonText
  imports Diagnostics
begin

text \<open>
  The part of Go's \<^verbatim>\<open>encoding/json\<close> that the operator uses when it hands structured values to a
  sandbox: how \<^verbatim>\<open>json.Marshal\<close> writes strings, integers, arrays and objects, and the scanner that accepts and
  compacts the raw JSON text of a custom resource field. The scanner is the state machine of the library, with its stack of
  open objects and arrays.

  The lemmas follow the text of a marshalled value through the scanner. They show that marshalled strings are
  inert: no name or URL, whatever bytes it has, leaves the string literal it is written into.
\<close>

section \<open>The scanner\<close>

definition json_space :: "char \<Rightarrow> bool" where
  "json_space c \<longleftrightarrow> byte c = 32 \<or> byte c = 9 \<or> byte c = 13 \<or> byte c = 10"

datatype parse_state = ParseObjectKey | ParseObjectValue | ParseArrayValue

datatype json_state =
    BeginValue | BeginValueOrEmpty | BeginStringOrEmpty | BeginString | EndValue | EndTop
  | InString | InStringEsc | InStringEscU nat
  | Neg | Digit1 | Digit0 | Dot | Dot0 | Exp | ExpSign | Exp0
  | Literal string | JsonError

type_synonym scanner = "json_state \<times> parse_state list"

definition maxNestingDepth :: nat where
  "maxNestingDepth = 10000"

definition push_state :: "json_state \<Rightarrow> parse_state \<Rightarrow> parse_state list \<Rightarrow> scanner" where
  "push_state st p ps = (if length ps < maxNestingDepth then (st, p # ps) else (JsonError, ps))"

definition pop_state :: "parse_state list \<Rightarrow> scanner" where
  "pop_state ps = (if ps = [] then EndTop else EndValue, ps)"

text \<open>\<open>stateEndValue\<close>: what may follow a complete value depends on the innermost open object or array.\<close>

definition end_value :: "parse_state list \<Rightarrow> char \<Rightarrow> scanner" where
  "end_value ps c = (case ps of
      [] \<Rightarrow> (if json_space c then EndTop else JsonError, [])
    | p # rest \<Rightarrow>
        if json_space c then (EndValue, ps)
        else (case p of
            ParseObjectKey \<Rightarrow> if c = CHR '':'' then (BeginValue, ParseObjectValue # rest) else (JsonError, ps)
          | ParseObjectValue \<Rightarrow>
              if c = CHR '','' then (BeginString, ParseObjectKey # rest)
              else if c = CHR ''}'' then pop_state rest else (JsonError, ps)
          | ParseArrayValue \<Rightarrow>
              if c = CHR '','' then (BeginValue, ps) else if c = CHR '']'' then pop_state rest else (JsonError, ps)))"

definition begin_string :: "parse_state list \<Rightarrow> char \<Rightarrow> scanner" where
  "begin_string ps c = (if json_space c then (BeginString, ps) else if byte c = 34 then (InString, ps) else (JsonError, ps))"

definition begin_value :: "parse_state list \<Rightarrow> char \<Rightarrow> scanner" where
  "begin_value ps c =
    (if json_space c then (BeginValue, ps)
     else if c = CHR ''{'' then push_state BeginStringOrEmpty ParseObjectKey ps
     else if c = CHR ''['' then push_state BeginValueOrEmpty ParseArrayValue ps
     else if byte c = 34 then (InString, ps)
     else if c = CHR ''-'' then (Neg, ps)
     else if c = CHR ''0'' then (Digit0, ps)
     else if c = CHR ''t'' then (Literal ''rue'', ps)
     else if c = CHR ''f'' then (Literal ''alse'', ps)
     else if c = CHR ''n'' then (Literal ''ull'', ps)
     else if is_digit c then (Digit1, ps)
     else (JsonError, ps))"

definition is_hex :: "char \<Rightarrow> bool" where
  "is_hex c \<longleftrightarrow> is_digit c \<or> 97 \<le> byte c \<and> byte c \<le> 102 \<or> 65 \<le> byte c \<and> byte c \<le> 70"

definition after_integer :: "parse_state list \<Rightarrow> char \<Rightarrow> scanner" where
  "after_integer ps c = (if c = CHR ''.'' then (Dot, ps) else if c = CHR ''e'' \<or> c = CHR ''E'' then (Exp, ps) else end_value ps c)"

definition exp_sign :: "parse_state list \<Rightarrow> char \<Rightarrow> scanner" where
  "exp_sign ps c = (if is_digit c then Exp0 else JsonError, ps)"

fun json_step :: "scanner \<Rightarrow> char \<Rightarrow> scanner" where
  "json_step (BeginValue, ps) c = begin_value ps c"
| "json_step (BeginValueOrEmpty, ps) c =
     (if json_space c then (BeginValueOrEmpty, ps) else if c = CHR '']'' then end_value ps c else begin_value ps c)"
| "json_step (BeginStringOrEmpty, ps) c =
     (if json_space c then (BeginStringOrEmpty, ps)
      else if c = CHR ''}'' then end_value (ParseObjectValue # tl ps) c else begin_string ps c)"
| "json_step (BeginString, ps) c = begin_string ps c"
| "json_step (EndValue, ps) c = end_value ps c"
| "json_step (EndTop, ps) c = (if json_space c then EndTop else JsonError, ps)"
| "json_step (InString, ps) c =
     (if byte c = 34 then (EndValue, ps) else if byte c = 92 then (InStringEsc, ps)
      else if byte c < 32 then (JsonError, ps) else (InString, ps))"
| "json_step (InStringEsc, ps) c =
     (if c \<in> set (''bfnrt/'' @ [CHR 0x5C, CHR 0x22]) then (InString, ps)
      else if c = CHR ''u'' then (InStringEscU 0, ps) else (JsonError, ps))"
| "json_step (InStringEscU n, ps) c =
     (if is_hex c then (if n < 3 then InStringEscU (Suc n) else InString, ps) else (JsonError, ps))"
| "json_step (Neg, ps) c =
     (if c = CHR ''0'' then (Digit0, ps) else if is_digit c then (Digit1, ps) else (JsonError, ps))"
| "json_step (Digit1, ps) c = (if is_digit c then (Digit1, ps) else after_integer ps c)"
| "json_step (Digit0, ps) c = after_integer ps c"
| "json_step (Dot, ps) c = (if is_digit c then Dot0 else JsonError, ps)"
| "json_step (Dot0, ps) c =
     (if is_digit c then (Dot0, ps) else if c = CHR ''e'' \<or> c = CHR ''E'' then (Exp, ps) else end_value ps c)"
| "json_step (Exp, ps) c = (if c = CHR ''+'' \<or> c = CHR ''-'' then (ExpSign, ps) else exp_sign ps c)"
| "json_step (ExpSign, ps) c = exp_sign ps c"
| "json_step (Exp0, ps) c = (if is_digit c then (Exp0, ps) else end_value ps c)"
| "json_step (Literal rest, ps) c =
     (case rest of [] \<Rightarrow> (JsonError, ps) | d # ds \<Rightarrow>
        if c = d then (if ds = [] then EndValue else Literal ds, ps) else (JsonError, ps))"
| "json_step (JsonError, ps) c = (JsonError, ps)"

abbreviation json_scan :: "scanner \<Rightarrow> string \<Rightarrow> scanner" where
  "json_scan \<equiv> foldl json_step"

text \<open>The whole text is one value: after it, a space is accepted at the top level (\<open>eof\<close>).\<close>

definition json_valid :: "string \<Rightarrow> bool" where
  "json_valid s \<longleftrightarrow> fst (json_step (json_scan (BeginValue, []) s) (CHR '' '')) = EndTop"

section \<open>Strings\<close>

abbreviation backslash :: char where
  "backslash \<equiv> CHR 0x5C"

abbreviation quotation :: char where
  "quotation \<equiv> CHR 0x22"

definition hex_digit :: "nat \<Rightarrow> char" where
  "hex_digit n = (if n < 10 then char_of (48 + n) else char_of (87 + n))"

definition escape_u00 :: "char \<Rightarrow> string" where
  "escape_u00 c = [backslash, CHR ''u'', CHR ''0'', CHR ''0'', hex_digit (byte c div 16), hex_digit (byte c mod 16)]"

text \<open>One byte below 128, as \<open>appendString\<close> writes it with HTML escaping.\<close>

definition json_ascii :: "char \<Rightarrow> string" where
  "json_ascii c =
    (if c = quotation \<or> c = backslash then [backslash, c]
     else if byte c = 8 then [backslash, CHR ''b''] else if byte c = 12 then [backslash, CHR ''f'']
     else if byte c = 10 then [backslash, CHR ''n''] else if byte c = 13 then [backslash, CHR ''r'']
     else if byte c = 9 then [backslash, CHR ''t'']
     else if byte c < 32 \<or> c = CHR ''<'' \<or> c = CHR ''>'' \<or> c = CHR ''&'' then escape_u00 c
     else [c])"

text \<open>U+2028 and U+2029 are the two characters beyond ASCII that are escaped.\<close>

definition line_separator :: "string \<Rightarrow> bool" where
  "line_separator r \<longleftrightarrow> length r = 3 \<and> byte (r ! 0) = 226 \<and> byte (r ! 1) = 128 \<and> (byte (r ! 2) = 168 \<or> byte (r ! 2) = 169)"

definition json_wide :: "string \<Rightarrow> string" where
  "json_wide r = (if line_separator r then [backslash] @ ''u202'' @ [hex_digit (byte (r ! 2) mod 16)] else r)"

function json_escape :: "string \<Rightarrow> string" where
  "json_escape s =
    (if s = [] then []
     else if byte (hd s) < 128 then json_ascii (hd s) @ json_escape (tl s)
     else if valid_width s = 0 then [backslash] @ ''ufffd'' @ json_escape (tl s)
     else json_wide (take (valid_width s) s) @ json_escape (drop (valid_width s) s))"
  by pat_completeness auto
termination
proof (relation "measure length")
  show "(drop (valid_width s) s, s) \<in> measure length" if "s \<noteq> []" "valid_width s \<noteq> 0" for s
    using that by simp
qed auto

declare json_escape.simps [simp del]

definition json_string :: "string \<Rightarrow> string" where
  "json_string s = [quotation] @ json_escape s @ [quotation]"

section \<open>Integers, arrays and objects\<close>

text \<open>\<open>strconv.Itoa\<close>, and the decimal form of an integer field.\<close>

definition itoa :: "int \<Rightarrow> string" where
  "itoa n = (if n < 0 then ''-'' @ decimal (nat (- n)) else decimal (nat n))"

definition json_array :: "string list \<Rightarrow> string" where
  "json_array vs = ''['' @ join_comma vs @ '']''"

definition json_field :: "string \<times> string \<Rightarrow> string" where
  "json_field kv = json_string (fst kv) @ '':'' @ snd kv"

definition json_object :: "(string \<times> string) list \<Rightarrow> string" where
  "json_object fs = ''{'' @ join_comma (map json_field fs) @ ''}''"

section \<open>Raw values\<close>

text \<open>\<open>appendCompact\<close> with HTML escaping: white space between the tokens goes, the rest is copied.\<close>

definition compact_char :: "scanner \<Rightarrow> char \<Rightarrow> string" where
  "compact_char sc c =
    (if c = CHR ''<'' \<or> c = CHR ''>'' \<or> c = CHR ''&'' then escape_u00 c
     else if json_space c \<and> fst sc \<noteq> InString then [] else [c])"

fun json_compact :: "scanner \<Rightarrow> string \<Rightarrow> string" where
  "json_compact sc (a # b # c # s) =
    (if line_separator [a, b, c] then json_wide [a, b, c] @ json_compact (json_scan sc [a, b, c]) s
     else compact_char sc a @ json_compact (json_step sc a) (b # c # s))"
| "json_compact sc (a # s) = compact_char sc a @ json_compact (json_step sc a) s"
| "json_compact sc [] = []"

text \<open>A field of raw JSON (\<open>apiextensionsv1.JSON\<close>): no text at all is \<open>null\<close>. The text of the error stops before the position.\<close>

definition json_raw :: "string \<Rightarrow> error + string" where
  "json_raw raw =
    (let text = (if raw = [] then ''null'' else raw) in
     if json_valid text then Inr (json_compact (BeginValue, []) text)
     else Inl (NewError ''json: error calling MarshalJSON for type v1.JSON''))"

fun json_raw_fields :: "(string \<times> string) list \<Rightarrow> error + (string \<times> string) list" where
  "json_raw_fields [] = Inr []"
| "json_raw_fields ((k, raw) # rest) = (case json_raw raw of
      Inl e \<Rightarrow> Inl e
    | Inr text \<Rightarrow> (case json_raw_fields rest of Inl e \<Rightarrow> Inl e | Inr fs \<Rightarrow> Inr ((k, text) # fs)))"

text \<open>A map with raw values: the keys in increasing order.\<close>

definition json_raw_map :: "(string \<times> string) list \<Rightarrow> error + string" where
  "json_raw_map m = map_sum id json_object (json_raw_fields (sort_key fst m))"

section \<open>Marshalled text is accepted\<close>

lemma hex_digit_hex: "n < 16 \<Longrightarrow> is_hex (hex_digit n)"
  by (auto simp: is_hex_def hex_digit_def is_digit_def)

lemma hex_literals: "is_hex (CHR ''0'')" "is_hex (CHR ''2'')" "is_hex (CHR ''f'')" "is_hex (CHR ''d'')"
  by (simp_all add: is_hex_def is_digit_def)

lemma byte_less: "byte c < 256"
  using range_nat_of_char by auto

lemma byte_is: "byte c = 34 \<longleftrightarrow> c = quotation" "byte c = 92 \<longleftrightarrow> c = backslash"
  using of_char_eq_iff [where ?'a = nat, of c quotation] of_char_eq_iff [where ?'a = nat, of c backslash] by auto

lemma scan_escape_u00: "json_scan (InString, ps) (escape_u00 c) = (InString, ps)"
  using byte_less [of c] by (simp add: escape_u00_def hex_digit_hex hex_literals div_less_iff_less_mult)

lemma scan_json_ascii: "byte c < 128 \<Longrightarrow> json_scan (InString, ps) (json_ascii c) = (InString, ps)"
  using scan_escape_u00 [of ps c] by (auto simp: json_ascii_def byte_is)

lemma scan_wide_bytes: "list_all (\<lambda>c. 128 \<le> byte c) r \<Longrightarrow> json_scan (InString, ps) r = (InString, ps)"
  by (induction r) auto

lemma rune_bytes_wide:
  assumes "valid_width s \<noteq> 0" and "\<not> byte (hd s) < 128"
  shows "list_all (\<lambda>c. 128 \<le> byte c) (take (valid_width s) s)"
  using assms(1)
  by (cases rule: valid_width_cases)
    (use assms(2) in \<open>auto simp: valid_width_simps continuation_def second_of_three_def second_of_four_def numeral_eq_Suc
       split: if_splits\<close>)

lemma scan_json_wide:
  assumes "list_all (\<lambda>c. 128 \<le> byte c) r"
  shows "json_scan (InString, ps) (json_wide r) = (InString, ps)"
  using scan_wide_bytes [OF assms] by (simp add: json_wide_def hex_digit_hex hex_literals)

text \<open>Whatever a string holds, its escaped form stays inside the literal.\<close>

lemma scan_json_escape: "json_scan (InString, ps) (json_escape s) = (InString, ps)"
proof (induction s rule: json_escape.induct)
  case (1 s)
  consider "s = []" | "s \<noteq> []" "byte (hd s) < 128" | "s \<noteq> []" "\<not> byte (hd s) < 128" "valid_width s = 0"
    | "s \<noteq> []" "\<not> byte (hd s) < 128" "valid_width s \<noteq> 0" by blast
  then show ?case
  proof cases
    case 4
    with 1(3) scan_json_wide [OF rune_bytes_wide] show ?thesis by (subst json_escape.simps) simp
  qed (use 1 in \<open>subst json_escape.simps; simp add: scan_json_ascii hex_literals\<close>)+
qed

text \<open>
  A text is a value when the scanner, started where a value may begin, treats the delimiter after it as the end of a value.
  The number bounds how deep its own objects and arrays nest.
\<close>

definition json_value :: "nat \<Rightarrow> string \<Rightarrow> bool" where
  "json_value d v \<longleftrightarrow> v \<noteq> [] \<and> \<not> json_space (hd v) \<and> hd v \<noteq> CHR '']'' \<and>
     (\<forall>ps c. length ps + d \<le> maxNestingDepth \<longrightarrow> c \<in> set '',]} '' \<longrightarrow>
        json_step (json_scan (BeginValue, ps) v) c = end_value ps c)"

lemma json_value_mono: "json_value d v \<Longrightarrow> d \<le> e \<Longrightarrow> json_value e v"
  by (auto simp: json_value_def)

lemma json_value_valid: "json_value d v \<Longrightarrow> d \<le> maxNestingDepth \<Longrightarrow> json_valid v"
  by (simp add: json_value_def json_valid_def end_value_def json_space_def)

lemma json_string_value: "json_value 0 (json_string s)"
  by (simp add: json_value_def json_string_def begin_value_def scan_json_escape json_space_def)

lemma is_digit_digit: "d < 10 \<Longrightarrow> is_digit (digit d)"
  by (simp add: is_digit_def digit_def)

lemma decimal_digits: "list_all is_digit (decimal n)"
proof (induction n rule: less_induct)
  case (less n)
  then show ?case
    by (cases "n < 10") (auto simp: decimal_small decimal_large is_digit_digit)
qed

lemma decimal_first: "0 < n \<Longrightarrow> hd (decimal n) \<noteq> CHR ''0''"
proof (induction n rule: less_induct)
  case (less n)
  show ?case
  proof (cases "n < 10")
    case True
    then show ?thesis
      using less.prems by (auto simp: decimal_small digit_def dest: arg_cong [where f = "of_char :: char \<Rightarrow> nat"])
  next
    case False
    then show ?thesis using less.IH [of "n div 10"] by (simp add: decimal_large)
  qed
qed

lemma scan_digits: "list_all is_digit ds \<Longrightarrow> json_scan (Digit1, ps) ds = (Digit1, ps)"
  by (induction ds) auto

lemma digit_facts:
  assumes "is_digit c"
  shows "\<not> json_space c" "byte c \<noteq> 34" "c \<notin> set ''{[-tfn]''"
  using assms by (auto simp: is_digit_def json_space_def)

lemma scan_decimal:
  assumes "0 < n"
  shows "json_scan (BeginValue, ps) (decimal n) = (Digit1, ps)" "json_scan (Neg, ps) (decimal n) = (Digit1, ps)"
proof -
  obtain c ds where eq: "decimal n = c # ds" by (cases "decimal n") auto
  with decimal_digits [of n] decimal_first [OF assms] have c: "is_digit c" "list_all is_digit ds" "c \<noteq> CHR ''0''" by auto
  then show "json_scan (BeginValue, ps) (decimal n) = (Digit1, ps)" "json_scan (Neg, ps) (decimal n) = (Digit1, ps)"
    using digit_facts [OF c(1)] by (auto simp: eq begin_value_def scan_digits)
qed

lemma json_int_value:
  assumes "n \<noteq> 0"
  shows "json_value 0 (itoa n)"
proof -
  have delimiter: "json_step (Digit1, ps) c = end_value ps c" if "c \<in> set '',]} ''" for ps c
    using that by (auto simp: after_integer_def is_digit_def)
  have first: "is_digit (hd (decimal m))" for m
    using decimal_digits [of m] by (cases "decimal m") auto
  show ?thesis
    using assms digit_facts [OF first, of "nat n"] scan_decimal delimiter
    by (auto simp: json_value_def itoa_def begin_value_def json_space_def simp del: json_step.simps(11))
qed

lemma json_valueD:
  "json_value d v \<Longrightarrow> length ps + d \<le> maxNestingDepth \<Longrightarrow> c \<in> set '',]} '' \<Longrightarrow>
     json_step (json_scan (BeginValue, ps) v) c = end_value ps c"
  unfolding json_value_def by blast

lemma delimiters: "CHR '','' \<in> set '',]} ''" "CHR '']'' \<in> set '',]} ''" "CHR ''}'' \<in> set '',]} ''"
  by simp_all

lemma end_value_simps:
  "end_value (ParseArrayValue # ps) (CHR '','') = (BeginValue, ParseArrayValue # ps)"
  "end_value (ParseArrayValue # ps) (CHR '']'') = pop_state ps"
  "end_value (ParseObjectKey # ps) (CHR '':'') = (BeginValue, ParseObjectValue # ps)"
  "end_value (ParseObjectValue # ps) (CHR '','') = (BeginString, ParseObjectKey # ps)"
  "end_value (ParseObjectValue # ps) (CHR ''}'') = pop_state ps"
  by (simp_all add: end_value_def json_space_def)

lemma scan_elements:
  assumes "vs \<noteq> []" and "list_all (json_value d) vs" and "length ps + Suc d \<le> maxNestingDepth"
  shows "json_step (json_scan (BeginValue, ParseArrayValue # ps) (join_comma vs)) (CHR '']'') = pop_state ps"
  using assms(1,2)
proof (induction vs rule: join_comma.induct)
  case (3 w v vs)
  then have "json_step (json_scan (BeginValue, ParseArrayValue # ps) w) (CHR '','') = (BeginValue, ParseArrayValue # ps)"
    using json_valueD [of d w "ParseArrayValue # ps"] assms(3) by (simp add: delimiters end_value_simps)
  with 3 show ?case by simp
qed (use json_valueD [of d _ "ParseArrayValue # ps"] assms(3) in \<open>auto simp: end_value_simps\<close>)

lemma pop_state_ends: "c \<in> set '',]} '' \<Longrightarrow> json_step (pop_state ps) c = end_value ps c"
  by (auto simp: pop_state_def end_value_def)

lemma begin_or_empty:
  "json_value d v \<Longrightarrow> json_scan (BeginValueOrEmpty, ps) (v @ s) = json_scan (BeginValue, ps) (v @ s)"
  by (cases v) (auto simp: json_value_def)

lemma join_comma_first: "join_comma (w # ws) = w @ (if ws = [] then [] else '','' @ join_comma ws)"
  by (cases ws) auto

lemma json_array_value:
  assumes "list_all (json_value d) vs"
  shows "json_value (Suc d) (json_array vs)"
proof -
  have "json_scan (BeginValue, ps) (json_array vs) = pop_state ps" if depth: "length ps + Suc d \<le> maxNestingDepth" for ps
  proof (cases vs)
    case Nil
    then show ?thesis
      using depth by (simp add: json_array_def begin_value_def json_space_def push_state_def end_value_simps)
  next
    case (Cons w ws)
    then have w: "json_value d w" using assms by simp
    show ?thesis
      using scan_elements [OF _ assms depth] begin_or_empty [OF w] depth Cons
      by (simp add: json_array_def begin_value_def json_space_def push_state_def join_comma_first)
  qed
  then show ?thesis
    using pop_state_ends by (auto simp: json_value_def json_array_def json_space_def)
qed

lemma scan_field_name:
  "json_scan (BeginString, ParseObjectKey # ps) (json_string k @ '':'' @ s) = json_scan (BeginValue, ParseObjectValue # ps) s"
  "json_scan (BeginStringOrEmpty, ParseObjectKey # ps) (json_string k @ '':'' @ s) =
     json_scan (BeginValue, ParseObjectValue # ps) s"
  by (simp_all add: json_string_def begin_string_def scan_json_escape json_space_def end_value_simps)

lemma scan_fields:
  assumes "kvs \<noteq> []" and "list_all (json_value d \<circ> snd) kvs" and "length ps + Suc d \<le> maxNestingDepth"
  shows "json_step (json_scan (BeginString, ParseObjectKey # ps) (join_comma (map json_field kvs))) (CHR ''}'') = pop_state ps"
  using assms(1,2)
proof (induction kvs)
  case (Cons kv kvs)
  then have v: "json_value d (snd kv)" by simp
  have ends: "json_step (json_scan (BeginString, ParseObjectKey # ps) (json_field kv)) c = end_value (ParseObjectValue # ps) c"
    if "c \<in> set '',]} ''" for c
    using json_valueD [OF v _ that, of "ParseObjectValue # ps"] assms(3) scan_field_name(1) [of ps "fst kv" "snd kv"]
    by (simp add: json_field_def)
  show ?case
  proof (cases "kvs = []")
    case True
    then show ?thesis using ends [of "CHR ''}''"] by (simp add: end_value_simps)
  next
    case False
    then show ?thesis
      using ends [of "CHR '',''"] Cons by (simp add: join_comma_first end_value_simps)
  qed
qed simp

lemma json_object_value:
  assumes "list_all (json_value d \<circ> snd) kvs"
  shows "json_value (Suc d) (json_object kvs)"
proof -
  have "json_scan (BeginValue, ps) (json_object kvs) = pop_state ps" if depth: "length ps + Suc d \<le> maxNestingDepth" for ps
  proof (cases kvs)
    case Nil
    then show ?thesis
      using depth by (simp add: json_object_def begin_value_def json_space_def push_state_def end_value_simps)
  next
    case (Cons kv rest)
    have "json_scan (BeginStringOrEmpty, ParseObjectKey # ps) (join_comma (map json_field kvs)) =
        json_scan (BeginString, ParseObjectKey # ps) (join_comma (map json_field kvs))"
      using scan_field_name [of ps "fst kv" "snd kv"] by (simp add: Cons join_comma_first json_field_def)
    then show ?thesis
      using scan_fields [OF _ assms depth] depth Cons
      by (simp add: json_object_def begin_value_def json_space_def push_state_def)
  qed
  then show ?thesis
    using pop_state_ends by (auto simp: json_value_def json_object_def json_space_def)
qed

lemmas json_values = json_string_value json_int_value json_array_value json_object_value

end
