(* ===== verification/PodSpecBuilder.thy ===== *)
theory PodSpecBuilder
  imports Configuration JsonText
begin

text \<open>
  The pod specification of a sandbox (\<^verbatim>\<open>controller/agenticrun/podspec_builder.go\<close>): the base specification of the configuration
  overlaid with the agent, the provider, the tools and the certificates of a step, and the kubeconfig mount of a spoke run
  (\<^verbatim>\<open>mountSpokeKubeconfig\<close> of \<^verbatim>\<open>sandbox_manager.go\<close>).

  A built pod mounts only volumes it has, each path once, and refers to no secret besides those of the base
  specification, the provider's credentials, the tools and the configured certificates.
\<close>

section \<open>Names and paths\<close>

definition llmCredsMountPath :: string where "llmCredsMountPath = ''/var/run/secrets/llm-credentials''"
definition llmCredsVolumeName :: string where "llmCredsVolumeName = ''llm-credentials''"
definition inputConfigMapVolumeName :: string where "inputConfigMapVolumeName = ''input''"
definition inputConfigMapMountPath :: string where "inputConfigMapMountPath = ''/input''"
definition mcpHeadersMountRoot :: string where "mcpHeadersMountRoot = ''/var/secrets/mcp''"
definition mcpServersEnvVar :: string where "mcpServersEnvVar = ''LIGHTSPEED_MCP_SERVERS''"
definition traceparentEnvVar :: string where "traceparentEnvVar = ''TRACEPARENT''"
definition tlsMountRoot :: string where "tlsMountRoot = ''/var/run/secrets/lightspeed/tls''"
definition additionalCAVolumeName :: string where "additionalCAVolumeName = ''additional-ca''"
definition additionalCAMountPath :: string where "additionalCAMountPath = tlsMountRoot @ ''/additional-ca''"
definition otelCAVolumeName :: string where "otelCAVolumeName = ''otel-ca''"
definition otelCAMountPath :: string where "otelCAMountPath = tlsMountRoot @ ''/otel''"
definition mcpCAVolumeName :: string where "mcpCAVolumeName = ''mcp-ca''"
definition mcpCAMountPath :: string where "mcpCAMountPath = tlsMountRoot @ ''/mcp''"
definition rhokpCAVolumeName :: string where "rhokpCAVolumeName = ''rhokp-ca''"
definition rhokpCAMountPath :: string where "rhokpCAMountPath = tlsMountRoot @ ''/rhokp''"
definition rhokpCASecretKey :: string where "rhokpCASecretKey = ''rhokp-ca.crt''"
definition spokeKubeconfigMountPath :: string where "spokeKubeconfigMountPath = ''/var/run/secrets/spoke-kubeconfig''"
definition spokeKubeconfigFileName :: string where "spokeKubeconfigFileName = ''kubeconfig''"
definition spokeKubeconfigVolume :: string where "spokeKubeconfigVolume = ''spoke-kubeconfig''"

text \<open>\<open>path.Base\<close>, \<open>path.Clean\<close> and \<open>path.Join\<close> work on the segments between slashes.\<close>

fun split_slash :: "string \<Rightarrow> string list" where
  "split_slash [] = [[]]"
| "split_slash (c # s) =
     (if c = CHR ''/'' then [] # split_slash s else (case split_slash s of [] \<Rightarrow> [[c]] | w # ws \<Rightarrow> (c # w) # ws))"

fun join_slash :: "string list \<Rightarrow> string" where
  "join_slash [] = []"
| "join_slash [w] = w"
| "join_slash (w # ws) = w @ ''/'' @ join_slash ws"

definition path_base :: "string \<Rightarrow> string" where
  "path_base p =
    (if p = [] then ''.''
     else let stripped = trim_right (\<lambda>c. c = CHR ''/'') p in
       if stripped = [] then ''/'' else last (split_slash stripped))"

fun clean_segments :: "bool \<Rightarrow> string list \<Rightarrow> string list \<Rightarrow> string list" where
  "clean_segments rooted [] out = rev out"
| "clean_segments rooted (w # ws) out =
    (if w = [] \<or> w = ''.'' then clean_segments rooted ws out
     else if w = ''..'' then
       (case out of
          [] \<Rightarrow> clean_segments rooted ws (if rooted then [] else [w])
        | d # ds \<Rightarrow> if d = ''..'' then clean_segments rooted ws (w # out) else clean_segments rooted ws ds)
     else clean_segments rooted ws (w # out))"

definition path_clean :: "string \<Rightarrow> string" where
  "path_clean p =
    (let rooted = (p \<noteq> [] \<and> hd p = CHR ''/'');
         cleaned = (if rooted then ''/'' else []) @ join_slash (clean_segments rooted (split_slash p) []) in
     if cleaned = [] then ''.'' else cleaned)"

definition path_join :: "string \<Rightarrow> string \<Rightarrow> string" where
  "path_join a b = (let elems = filter (\<lambda>e. e \<noteq> []) [a, b] in
     if elems = [] then [] else path_clean (join_slash elems))"

text \<open>\<open>strings.TrimPrefix(s, "/")\<close>.\<close>

definition trim_slash :: "string \<Rightarrow> string" where
  "trim_slash s = (if s \<noteq> [] \<and> hd s = CHR ''/'' then tl s else s)"

section \<open>Merging\<close>

definition index_by_name :: "Volume list \<Rightarrow> string \<rightharpoonup> nat" where
  "index_by_name vs = foldl (\<lambda>m (i, v). m(voName v \<mapsto> i)) Map.empty (enumerate 0 vs)"

fun merge_volumes :: "(string \<rightharpoonup> nat) \<Rightarrow> Volume list \<Rightarrow> Volume list \<Rightarrow> Volume list" where
  "merge_volumes byName merged [] = merged"
| "merge_volumes byName merged (v # overlay) = (case byName (voName v) of
      Some idx \<Rightarrow> merge_volumes byName (merged[idx := v]) overlay
    | None \<Rightarrow> merge_volumes (byName(voName v \<mapsto> length merged)) (merged @ [v]) overlay)"

definition mergeVolumes :: "Volume list \<Rightarrow> Volume list \<Rightarrow> Volume list" where
  "mergeVolumes base overlay = merge_volumes (index_by_name base) base overlay"

fun merge_mounts :: "(string \<rightharpoonup> nat) \<Rightarrow> VolumeMount list \<Rightarrow> VolumeMount list \<Rightarrow> VolumeMount list" where
  "merge_mounts byPath out [] = out"
| "merge_mounts byPath out (m # mounts) = (case byPath (vmMountPath m) of
      Some idx \<Rightarrow> merge_mounts byPath (out[idx := m]) mounts
    | None \<Rightarrow> merge_mounts (byPath(vmMountPath m \<mapsto> length out)) (out @ [m]) mounts)"

definition mergeVolumeMounts :: "VolumeMount list \<Rightarrow> VolumeMount list" where
  "mergeVolumeMounts mounts = merge_mounts Map.empty [] mounts"

section \<open>Parts of the overlay\<close>

text \<open>The container under construction and the volumes collected for the pod.\<close>

type_synonym building = "Container \<times> Volume list"

definition add_env :: "EnvVar list \<Rightarrow> Container \<Rightarrow> Container" where
  "add_env es c = c\<lparr>ctEnv := ctEnv c @ es\<rparr>"

definition add_mounts :: "VolumeMount list \<Rightarrow> Container \<Rightarrow> Container" where
  "add_mounts ms c = c\<lparr>ctVolumeMounts := ctVolumeMounts c @ ms\<rparr>"

definition env :: "string \<Rightarrow> string \<Rightarrow> EnvVar" where
  "env name v = \<lparr>evName = name, evValue = v, evValueFrom = None\<rparr>"

definition read_only :: "string \<Rightarrow> string \<Rightarrow> VolumeMount" where
  "read_only name path = \<lparr>vmName = name, vmMountPath = path, vmSubPath = '''', vmReadOnly = True\<rparr>"

definition volume :: "string \<Rightarrow> VolumeSource \<Rightarrow> Volume" where
  "volume name source = \<lparr>voName = name, voSource = source\<rparr>"

definition mount_volume :: "string \<Rightarrow> VolumeSource \<Rightarrow> string \<Rightarrow> building \<Rightarrow> building" where
  "mount_volume name source path b = (add_mounts [read_only name path] (fst b), snd b @ [volume name source])"

definition appendAuditEnvVars :: "Container \<Rightarrow> Container" where
  "appendAuditEnvVars container = add_env [env ''LIGHTSPEED_AUDIT_ENABLED'' ''true''] container"

definition appendTraceEnvVars :: "Container \<Rightarrow> string \<Rightarrow> Container" where
  "appendTraceEnvVars container traceparent =
    (if traceparent = '''' then container else add_env [env traceparentEnvVar traceparent] container)"

definition appendOTELEnvVars :: "building \<Rightarrow> OTELConfig option \<Rightarrow> string \<Rightarrow> string \<Rightarrow> building" where
  "appendOTELEnvVars b otelCfg runUID step = (case otelCfg of
      None \<Rightarrow> b
    | Some cfg \<Rightarrow>
        if otCollectorEndpoint cfg = '''' then b
        else
          let b' = (add_env [env ''OTEL_EXPORTER_OTLP_ENDPOINT'' (otCollectorEndpoint cfg),
                env ''LIGHTSPEED_AGENTICRUN_UID'' runUID, env ''LIGHTSPEED_AGENTICRUN_STEP'' step] (fst b), snd b) in
          if otCASecretName cfg \<noteq> ''''
          then mount_volume otelCAVolumeName (SecretVolume (otCASecretName cfg)) otelCAMountPath b' else b')"

definition appendMCPCAVolume :: "building \<Rightarrow> MCPConfig option \<Rightarrow> building" where
  "appendMCPCAVolume b mcpCfg = (case mcpCfg of
      None \<Rightarrow> b
    | Some cfg \<Rightarrow>
        if mcCASecretName cfg = '''' then b
        else mount_volume mcpCAVolumeName (SecretVolume (mcCASecretName cfg)) mcpCAMountPath b)"

definition appendRHOKPEnvVars :: "building \<Rightarrow> RHOKPConfig option \<Rightarrow> building" where
  "appendRHOKPEnvVars b rhokpCfg = (case rhokpCfg of
      None \<Rightarrow> b
    | Some cfg \<Rightarrow>
        if mcEndpoint cfg = '''' then b
        else
          let b' = (add_env [env ''LIGHTSPEED_RHOKP_ENDPOINT'' (mcEndpoint cfg)] (fst b), snd b) in
          if mcCASecretName cfg \<noteq> ''''
          then mount_volume rhokpCAVolumeName (SecretVolume (mcCASecretName cfg)) rhokpCAMountPath
            (add_env [env ''LIGHTSPEED_RHOKP_CA_CERTIFICATE'' (rhokpCAMountPath @ ''/'' @ rhokpCASecretKey)] (fst b'), snd b')
          else b')"

definition providerURL :: "LLMProvider \<Rightarrow> string" where
  "providerURL llm = (case llType llm of
      LLMProviderAnthropic \<Rightarrow> anURL (llAnthropic llm)
    | LLMProviderGoogleCloudVertex \<Rightarrow> gvURL (llGoogleCloudVertex llm)
    | LLMProviderOpenAI \<Rightarrow> anURL (llOpenAI llm)
    | LLMProviderAzureOpenAI \<Rightarrow> azURL (llAzureOpenAI llm)
    | LLMProviderAWSBedrock \<Rightarrow> awURL (llAWSBedrock llm))"

definition providerTypeString :: "LLMProviderType \<Rightarrow> string" where
  "providerTypeString t = (case t of
      LLMProviderAnthropic \<Rightarrow> ''anthropic'' | LLMProviderGoogleCloudVertex \<Rightarrow> ''vertex'' | LLMProviderOpenAI \<Rightarrow> ''openai''
    | LLMProviderAzureOpenAI \<Rightarrow> ''azure'' | LLMProviderAWSBedrock \<Rightarrow> ''bedrock'')"

text \<open>\<open>strings.ToLower\<close> of the model provider's name.\<close>

definition model_provider_name :: "GoogleCloudVertexModelProvider \<Rightarrow> string" where
  "model_provider_name p = (case p of
      GoogleCloudVertexModelProviderUnset \<Rightarrow> '''' | GoogleCloudVertexModelProviderAnthropic \<Rightarrow> ''anthropic''
    | GoogleCloudVertexModelProviderGoogle \<Rightarrow> ''google'')"

definition provider_env :: "LLMProvider \<Rightarrow> EnvVar list" where
  "provider_env llm =
    (let url_env = (if providerURL llm \<noteq> '''' then [env ''LIGHTSPEED_PROVIDER_URL'' (providerURL llm)] else []) in
     case llType llm of
       LLMProviderAnthropic \<Rightarrow> url_env
     | LLMProviderGoogleCloudVertex \<Rightarrow> let cfg = llGoogleCloudVertex llm in
         [env ''LIGHTSPEED_MODEL_PROVIDER'' (model_provider_name (gvModelProvider cfg)),
          env ''LIGHTSPEED_PROVIDER_PROJECT'' (gvProjectID cfg), env ''LIGHTSPEED_PROVIDER_REGION'' (gvRegion cfg)] @ url_env
     | LLMProviderOpenAI \<Rightarrow> url_env
     | LLMProviderAzureOpenAI \<Rightarrow> let cfg = llAzureOpenAI llm in
         [env ''LIGHTSPEED_PROVIDER_URL'' (if azURL cfg \<noteq> '''' then azURL cfg else azEndpoint cfg)] @
         (if azAPIVersion cfg \<noteq> '''' then [env ''LIGHTSPEED_PROVIDER_API_VERSION'' (azAPIVersion cfg)] else [])
     | LLMProviderAWSBedrock \<Rightarrow> [env ''LIGHTSPEED_PROVIDER_REGION'' (awRegion (llAWSBedrock llm))] @ url_env)"

definition addProviderSpecificEnv :: "Container \<Rightarrow> LLMProvider \<Rightarrow> Container" where
  "addProviderSpecificEnv container llm = add_env (provider_env llm) container"

section \<open>Tools\<close>

definition skill_mount :: "string \<Rightarrow> VolumeMount" where
  "skill_mount p = \<lparr>vmName = ''skills'', vmMountPath = path_join ''/app/skills'' (path_base p), vmSubPath = trim_slash p,
     vmReadOnly = True\<rparr>"

definition buildSkills :: "SkillsSource list \<Rightarrow> Volume list \<times> VolumeMount list" where
  "buildSkills skills = (case skills of
      [] \<Rightarrow> ([], [])
    | s # _ \<Rightarrow>
        if skImage s = '''' then ([], [])
        else ([volume ''skills'' (ImageVolume (skImage s) ''Always'')], map skill_mount (skPaths s)))"

fun mcp_source :: "MCPHeaderSourceType \<Rightarrow> string" where
  "mcp_source MCPHeaderSourceTypeSecret = ''Secret''"
| "mcp_source MCPHeaderSourceTypeServiceAccountToken = ''ServiceAccountToken''"

text \<open>\<open>mcpHeaderEnvEntry\<close> and \<open>mcpServerEnvEntry\<close> as the JSON objects their tags give; empty optional fields are omitted.\<close>

definition mcp_header_json :: "MCPHeader \<Rightarrow> string" where
  "mcp_header_json h = json_object (
     [(''name'', json_string (mhName h)), (''source'', json_string (mcp_source (hvType (mhValueFrom h))))] @
     (if hvType (mhValueFrom h) = MCPHeaderSourceTypeSecret \<and> hvSecret (mhValueFrom h) \<noteq> ''''
      then [(''secretName'', json_string (hvSecret (mhValueFrom h)))] else []))"

definition mcp_server_json :: "MCPServerConfig \<Rightarrow> string" where
  "mcp_server_json s = json_object (
     [(''name'', json_string (msName s)), (''url'', json_string (msURL s))] @
     (if msTimeoutSeconds s \<noteq> 0 then [(''timeout'', itoa (msTimeoutSeconds s))] else []) @
     (if msHeaders s \<noteq> [] then [(''headers'', json_array (map mcp_header_json (msHeaders s)))] else []))"

definition mcp_secret_headers :: "MCPServerConfig list \<Rightarrow> string list" where
  "mcp_secret_headers servers =
     map (\<lambda>h. hvSecret (mhValueFrom h))
       (filter (\<lambda>h. hvType (mhValueFrom h) = MCPHeaderSourceTypeSecret) (concat (map msHeaders servers)))"

definition buildMCPServers :: "MCPServerConfig list \<Rightarrow> Volume list \<times> VolumeMount list \<times> EnvVar list" where
  "buildMCPServers servers =
    (let secrets = mcp_secret_headers servers in
     (map (\<lambda>s. volume (''mcp-header-'' @ s) (SecretVolume s)) secrets,
      map (\<lambda>s. read_only (''mcp-header-'' @ s) (mcpHeadersMountRoot @ ''/'' @ s)) secrets,
      [env mcpServersEnvVar (json_array (map mcp_server_json servers))]))"

fun required_secret :: "SecretRequirement \<Rightarrow> Volume list \<times> VolumeMount list \<times> EnvVar list" where
  "required_secret s = (case smType (srMountAs s) of
      SecretMountFilePath \<Rightarrow>
        ([volume (''req-'' @ srName s) (SecretVolume (srName s))],
         [read_only (''req-'' @ srName s) (smFilePath (srMountAs s))], [])
    | SecretMountEnvVar \<Rightarrow>
        ([], [], [\<lparr>evName = smEnvVar (srMountAs s), evValue = '''',
           evValueFrom = Some \<lparr>skName = srName s, skKey = ''token'', skOptional = True\<rparr>\<rparr>]))"

definition buildRequiredSecrets :: "SecretRequirement list \<Rightarrow> Volume list \<times> VolumeMount list \<times> EnvVar list" where
  "buildRequiredSecrets secrets =
    (let parts = map required_secret secrets in
     (concat (map fst parts), concat (map (fst \<circ> snd) parts), concat (map (snd \<circ> snd) parts)))"

definition add_tools :: "Volume list \<times> VolumeMount list \<times> EnvVar list \<Rightarrow> building \<Rightarrow> building" where
  "add_tools t b = (add_env (snd (snd t)) (add_mounts (fst (snd t)) (fst b)), snd b @ fst t)"

section \<open>Building\<close>

text \<open>The span context of the step, if there is a valid one: trace and span identity in hexadecimal, and the flags byte.\<close>

definition traceparentFromContext :: "(string \<times> string \<times> nat) option \<Rightarrow> string" where
  "traceparentFromContext sc = (case sc of
      None \<Rightarrow> ''''
    | Some (traceID, spanID, flags) \<Rightarrow>
        ''00-'' @ traceID @ ''-'' @ spanID @ ''-'' @ [hex_digit (flags mod 256 div 16), hex_digit (flags mod 16)])"

definition format_bool :: "bool \<Rightarrow> string" where
  "format_bool b = (if b then ''true'' else ''false'')"

definition step_env :: "Agent \<Rightarrow> LLMProvider \<Rightarrow> FullConfig option \<Rightarrow> int \<Rightarrow> int \<Rightarrow> EnvVar list" where
  "step_env agent llm cfg timeoutSeconds maxTurns =
     [env ''LIGHTSPEED_PROVIDER'' (providerTypeString (llType llm)),
      env ''LIGHTSPEED_MODEL'' (agModel agent),
      env ''LIGHTSPEED_AGENT_TIMEOUT_SECONDS'' (itoa timeoutSeconds),
      env ''LIGHTSPEED_AGENT_MAX_TURNS'' (itoa maxTurns),
      env ''LIGHTSPEED_TOOL_OUTPUT_INSPECTION_ENABLED''
        (format_bool (case cfg of None \<Rightarrow> True | Some c \<Rightarrow> cfToolOutputInspectionEnabled c))] @
     (case cfg of
        None \<Rightarrow> []
      | Some c \<Rightarrow>
          [env ''LIGHTSPEED_TLS_PROFILE'' (tlProfile (cfTLS c)),
           env ''LIGHTSPEED_TLS_MIN_VERSION'' (tlMinVersion (cfTLS c)),
           env ''LIGHTSPEED_TLS_CIPHER_SUITES'' (tlCipherSuites (cfTLS c))])"

definition overlay_tools :: "ToolsSpec option \<Rightarrow> building \<Rightarrow> building" where
  "overlay_tools tools b = (case tools of
      None \<Rightarrow> b
    | Some t \<Rightarrow>
        let (skillVols, skillMounts) = buildSkills (toSkills t);
            b1 = (add_mounts skillMounts (fst b), snd b @ skillVols);
            b2 = (if toMCPServers t \<noteq> [] then add_tools (buildMCPServers (toMCPServers t)) b1 else b1) in
        if toRequiredSecrets t \<noteq> [] then add_tools (buildRequiredSecrets (toRequiredSecrets t)) b2 else b2)"

definition overlay_config :: "FullConfig option \<Rightarrow> string \<Rightarrow> string \<Rightarrow> building \<Rightarrow> building" where
  "overlay_config cfg runUID step b =
    (let b1 = appendOTELEnvVars b (map_option cfOTEL cfg) runUID step;
         b2 = appendMCPCAVolume b1 (map_option cfMCP cfg);
         b3 = appendRHOKPEnvVars b2 (map_option cfRHOKP cfg);
         additionalCAConfigMap = (case cfg of None \<Rightarrow> '''' | Some c \<Rightarrow> cfAdditionalCAConfigMap c) in
     if additionalCAConfigMap \<noteq> ''''
     then mount_volume additionalCAVolumeName (ConfigMapVolume additionalCAConfigMap) additionalCAMountPath b3 else b3)"

text \<open>\<open>LIGHTSPEED_REASONING_CONFIG\<close>, when the agent has one.\<close>

definition reasoning_env :: "Agent \<Rightarrow> error + EnvVar list" where
  "reasoning_env agent =
    (if length (agReasoningConfig agent) > 0
     then (case json_raw_map (agReasoningConfig agent) of
         Inl e \<Rightarrow> Inl (WrapError ''marshal reasoningConfig'' e)
       | Inr rcJSON \<Rightarrow> Inr [env ''LIGHTSPEED_REASONING_CONFIG'' rcJSON])
     else Inr [])"

text \<open>The first container with everything appended, and the volumes collected for it, before they are merged.\<close>

definition overlay_agent ::
    "Container \<Rightarrow> Agent \<Rightarrow> LLMProvider \<Rightarrow> EnvVar list \<Rightarrow> ToolsSpec option \<Rightarrow> FullConfig option \<Rightarrow> string \<Rightarrow> string \<Rightarrow>
     string \<Rightarrow> int \<Rightarrow> int \<Rightarrow> building" where
  "overlay_agent first agent llm reasoning tools cfg step runUID inputConfigMapName timeoutSeconds maxTurns =
    (let secretName = credentialsSecretName llm;
         c1 = add_env (step_env agent llm cfg timeoutSeconds maxTurns)
                (first\<lparr>ctTerminationMessagePolicy := ''FallbackToLogsOnError''\<rparr>);
         c2 = add_env reasoning (addProviderSpecificEnv c1 llm);
         c3 = c2\<lparr>ctEnvFrom := ctEnvFrom c2 @ [EnvFromSecret secretName]\<rparr>;
         b1 = mount_volume llmCredsVolumeName (SecretVolume secretName) llmCredsMountPath (c3, []);
         b2 = mount_volume inputConfigMapVolumeName (ConfigMapVolume inputConfigMapName) inputConfigMapMountPath b1 in
     overlay_config cfg runUID step (overlay_tools tools b2))"

definition Build ::
    "PodSpec option \<Rightarrow> Agent option \<Rightarrow> LLMProvider option \<Rightarrow> ToolsSpec option \<Rightarrow> FullConfig option \<Rightarrow> string \<Rightarrow> string \<Rightarrow>
     string \<Rightarrow> string \<Rightarrow> string \<Rightarrow> int \<Rightarrow> int \<Rightarrow> error + PodSpec" where
  "Build base agent llm tools cfg step runUID serviceAccount inputConfigMapName traceparent timeoutSeconds maxTurns =
    (case (base, agent, llm) of
       (Some podSpec, Some agent, Some llm) \<Rightarrow>
         (case psContainers podSpec of
            [] \<Rightarrow> Inl (NewError ''base PodSpec with at least one container is required'')
          | first # others \<Rightarrow>
              if serviceAccount = '''' then Inl (NewError ''serviceAccount is required'')
              else if inputConfigMapName = '''' then Inl (NewError ''inputConfigMapName is required'')
              else (case reasoning_env agent of
                Inl e \<Rightarrow> Inl e
              | Inr reasoning \<Rightarrow>
                  let b = overlay_agent first agent llm reasoning tools cfg step runUID inputConfigMapName timeoutSeconds maxTurns;
                      c = (fst b)\<lparr>ctVolumeMounts := mergeVolumeMounts (ctVolumeMounts (fst b))\<rparr> in
                  Inr (podSpec\<lparr>psServiceAccountName := serviceAccount,
                         psAutomountServiceAccountToken := Some True, psRestartPolicy := ''Never'',
                         psContainers := appendTraceEnvVars (appendAuditEnvVars c) traceparent # others,
                         psVolumes := mergeVolumes (psVolumes podSpec) (snd b)\<rparr>)))
     | (Some podSpec, None, _) \<Rightarrow>
         if psContainers podSpec = [] then Inl (NewError ''base PodSpec with at least one container is required'')
         else Inl (NewError ''agent is required'')
     | (Some podSpec, Some agent, None) \<Rightarrow>
         if psContainers podSpec = [] then Inl (NewError ''base PodSpec with at least one container is required'')
         else Inl (NewError ''LLMProvider is required'')
     | (None, _, _) \<Rightarrow> Inl (NewError ''base PodSpec with at least one container is required''))"

definition mountSpokeKubeconfig :: "PodSpec \<Rightarrow> string \<Rightarrow> PodSpec" where
  "mountSpokeKubeconfig podSpec secretName =
     podSpec\<lparr>psVolumes := psVolumes podSpec @ [volume spokeKubeconfigVolume (SecretVolume secretName)],
       psContainers := map (\<lambda>c. add_env [env ''KUBECONFIG'' (spokeKubeconfigMountPath @ ''/'' @ spokeKubeconfigFileName)]
           (add_mounts [read_only spokeKubeconfigVolume spokeKubeconfigMountPath] c)) (psContainers podSpec)\<rparr>"

end
