(* ===== verification/PodSpecSafety.thy ===== *)
theory PodSpecSafety
  imports PodSpecBuilder
begin

text \<open>
  What a built pod specification has. Volumes and mounts are merged by the same loop with different keys; the locale
  \<open>keyed_merge\<close> states the loop's equations and proves its laws once: keys stay distinct, later entries win, and nothing is
  invented.
\<close>

section \<open>The merge loop\<close>

lemma remdups_drop_earlier: "k \<in> set zs \<Longrightarrow> remdups (ys @ k # zs) = remdups (ys @ zs)"
  by (induction ys) auto

lemma remdups_rev_id: "distinct xs \<Longrightarrow> rev (remdups (rev xs)) = xs"
  by (simp add: distinct_remdups_id)

lemma filter_update:
  assumes "distinct (map key out)" and "idx < length out" and "key (out ! idx) = key x"
  shows "filter (\<lambda>y. key y = k) (out[idx := x]) = (if k = key x then [x] else filter (\<lambda>y. key y = k) out)"
  using assms
proof (induction out arbitrary: idx)
  case (Cons y ys)
  show ?case
  proof (cases idx)
    case 0
    with Cons.prems have "filter (\<lambda>z. key z = key x) ys = []" by (auto simp: filter_empty_conv image_iff)
    with 0 Cons.prems show ?thesis by auto
  next
    case (Suc n)
    with Cons.prems have "key x \<in> key ` set ys" by (metis Suc_less_eq imageI length_Cons nth_Cons_Suc nth_mem)
    with Cons.prems have "key y \<noteq> key x" by auto
    with Suc Cons.IH [of n] Cons.prems show ?thesis by auto
  qed
qed simp

lemma filter_own_key: "distinct (map key out) \<Longrightarrow> x \<in> set out \<Longrightarrow> filter (\<lambda>y. key y = key x) out = [x]"
  by (induction out) (auto simp: filter_empty_conv image_iff)

lemma last_of_own_key:
  "distinct (map key out) \<Longrightarrow> map (\<lambda>k. last (filter (\<lambda>y. key y = k) out)) (map key out) = out"
  by (auto simp: filter_own_key intro!: map_idI)

lemma last_append_shared: "last (ys @ x # zs) = last (x # zs)"
  by simp

locale keyed_merge =
  fixes key :: "'a \<Rightarrow> string"
    and merge :: "(string \<rightharpoonup> nat) \<Rightarrow> 'a list \<Rightarrow> 'a list \<Rightarrow> 'a list"
  assumes merge_Nil: "merge byKey out [] = out"
    and merge_old: "byKey (key x) = Some idx \<Longrightarrow> merge byKey out (x # xs) = merge byKey (out[idx := x]) xs"
    and merge_new: "byKey (key x) = None \<Longrightarrow> merge byKey out (x # xs) = merge (byKey(key x \<mapsto> length out)) (out @ [x]) xs"
begin

definition indexed :: "(string \<rightharpoonup> nat) \<Rightarrow> 'a list \<Rightarrow> bool" where
  "indexed byKey out \<longleftrightarrow> (\<forall>k i. byKey k = Some i \<longrightarrow> i < length out \<and> key (out ! i) = k) \<and> (\<forall>x \<in> set out. byKey (key x) \<noteq> None)"

lemma indexed_empty: "indexed Map.empty []"
  by (simp add: indexed_def)

lemma indexed_old:
  assumes "indexed byKey out" and "byKey (key x) = Some idx"
  shows "indexed byKey (out[idx := x])" "map key (out[idx := x]) = map key out" "idx < length out"
proof -
  have idx: "idx < length out" "key (out ! idx) = key x" using assms by (auto simp: indexed_def)
  then show "map key (out[idx := x]) = map key out" by (metis list_update_id map_update nth_map)
  then have "key ` set (out[idx := x]) = key ` set out" by (metis list.set_map)
  then have "\<forall>y \<in> set (out[idx := x]). \<exists>z \<in> set out. key y = key z" by (metis imageE imageI)
  moreover have "i < length out \<Longrightarrow> key (out[idx := x] ! i) = key (out ! i)" for i
    using idx by (cases "i = idx") auto
  ultimately show "indexed byKey (out[idx := x])"
    using assms(1) unfolding indexed_def by (metis length_list_update)
  show "idx < length out" by (rule idx)
qed

lemma indexed_new:
  assumes "indexed byKey out"
  shows "indexed (byKey(key x \<mapsto> length out)) (out @ [x])"
  unfolding indexed_def
proof (intro conjI allI ballI impI)
  fix k i
  assume k: "(byKey(key x \<mapsto> length out)) k = Some i"
  have "i < length out \<and> key (out ! i) = k" if "k \<noteq> key x"
    using assms k that by (simp add: indexed_def)
  then show "i < length (out @ [x])" "key ((out @ [x]) ! i) = k"
    using k by (cases "k = key x"; simp add: nth_append)+
qed (use assms in \<open>auto simp: indexed_def\<close>)

lemma indexed_None:
  assumes "indexed byKey out"
  shows "byKey k = None \<longleftrightarrow> k \<notin> key ` set out"
proof (cases "byKey k")
  case (Some i)
  then have "i < length out" "key (out ! i) = k" using assms by (auto simp: indexed_def)
  then show ?thesis using Some by force
qed (use assms in \<open>auto simp: indexed_def\<close>)

text \<open>The loop keeps the order in which the keys first appear, and for each key the last entry.\<close>

lemma merge_last_wins:
  "indexed byKey out \<Longrightarrow> distinct (map key out) \<Longrightarrow>
     merge byKey out xs =
       map (\<lambda>k. last (filter (\<lambda>y. key y = k) (out @ xs))) (rev (remdups (rev (map key (out @ xs)))))"
proof (induction xs arbitrary: byKey out)
  case Nil
  then show ?case using remdups_rev_id [of "map key out"] last_of_own_key [of key out] by (simp add: merge_Nil)
next
  case (Cons x xs)
  show ?case
  proof (cases "byKey (key x)")
    case None
    have "merge byKey out (x # xs) = merge (byKey(key x \<mapsto> length out)) (out @ [x]) xs" by (rule merge_new [of byKey x, OF None])
    also have "\<dots> = map (\<lambda>k. last (filter (\<lambda>y. key y = k) ((out @ [x]) @ xs))) (rev (remdups (rev (map key ((out @ [x]) @ xs)))))"
      using Cons.prems None indexed_None [OF Cons.prems(1)]
      by (intro Cons.IH indexed_new) auto
    finally show ?thesis by simp
  next
    case (Some idx)
    note old = indexed_old [OF Cons.prems(1) Some]
    have "key x \<in> set (map key out)" using indexed_None [OF Cons.prems(1), of "key x"] Some by auto
    then have keys: "rev (remdups (rev (map key (out @ x # xs)))) = rev (remdups (rev (map key (out[idx := x] @ xs))))"
      by (simp add: old(2) remdups_drop_earlier)
    have "key (out ! idx) = key x" using Cons.prems(1) Some by (auto simp: indexed_def)
    then have picks: "last (filter (\<lambda>y. key y = k) (out[idx := x] @ xs)) = last (filter (\<lambda>y. key y = k) (out @ x # xs))" for k
      using filter_update [OF Cons.prems(2) old(3), of x k] by (auto simp: last_append_shared)
    have "merge byKey out (x # xs) = merge byKey (out[idx := x]) xs" by (rule merge_old [of byKey x, OF Some])
    also have "\<dots> = map (\<lambda>k. last (filter (\<lambda>y. key y = k) (out[idx := x] @ xs))) (rev (remdups (rev (map key (out[idx := x] @ xs)))))"
      using Cons.prems(2) old(1,2) by (intro Cons.IH) auto
    finally show ?thesis unfolding keys picks .
  qed
qed

lemma merge_keys:
  assumes "indexed byKey out" and "distinct (map key out)"
  shows "map key (merge byKey out xs) = rev (remdups (rev (map key (out @ xs))))"
proof -
  have "key (last (filter (\<lambda>y. key y = k) (out @ xs))) = k" if "k \<in> key ` set (out @ xs)" for k
    using that last_in_set [of "filter (\<lambda>y. key y = k) (out @ xs)"] by (force simp: filter_empty_conv simp del: filter_append)
  then show ?thesis
    unfolding merge_last_wins [OF assms] by (auto simp del: filter_append intro!: map_idI)
qed

lemma merge_distinct: "indexed byKey out \<Longrightarrow> distinct (map key out) \<Longrightarrow> distinct (map key (merge byKey out xs))"
  by (simp add: merge_keys)

lemma merge_key_set:
  assumes "indexed byKey out"
  shows "key ` set (merge byKey out xs) = key ` set out \<union> key ` set xs"
  using assms
proof (induction xs arbitrary: byKey out)
  case (Cons x xs)
  show ?case
  proof (cases "byKey (key x)")
    case None
    show ?thesis
      unfolding merge_new [of byKey x, OF None] Cons.IH [OF indexed_new [OF Cons.prems]] by auto
  next
    case (Some idx)
    have "key ` set (out[idx := x]) = key ` set out" "key x \<in> key ` set out"
      using indexed_old(2) [OF Cons.prems Some] indexed_None [OF Cons.prems, of "key x"] Some by (auto simp flip: set_map)
    then show ?thesis
      unfolding merge_old [of byKey x, OF Some] Cons.IH [OF indexed_old(1) [OF Cons.prems Some]] by auto
  qed
qed (simp add: merge_Nil)

lemma merge_members:
  assumes "indexed byKey out"
  shows "set (merge byKey out xs) \<subseteq> set out \<union> set xs"
  using assms
proof (induction xs arbitrary: byKey out)
  case (Cons x xs)
  show ?case
  proof (cases "byKey (key x)")
    case None
    show ?thesis
      unfolding merge_new [of byKey x, OF None] by (rule order_trans [OF Cons.IH [OF indexed_new [OF Cons.prems, of x]]]) auto
  next
    case (Some idx)
    show ?thesis
      unfolding merge_old [of byKey x, OF Some]
      using Cons.IH [OF indexed_old(1) [OF Cons.prems Some]] set_update_subset_insert [of out idx x] by auto
  qed
qed (simp add: merge_Nil)

end


interpretation volumes: keyed_merge voName merge_volumes
  by unfold_locales (simp_all split: option.split)

interpretation mounts: keyed_merge vmMountPath merge_mounts
  by unfold_locales (simp_all split: option.split)

lemma index_by_name_snoc: "index_by_name (vs @ [v]) = (index_by_name vs)(voName v \<mapsto> length vs)"
  by (simp add: index_by_name_def enumerate_append_eq)

lemma indexed_by_name: "volumes.indexed (index_by_name vs) vs"
proof (induction vs rule: rev_induct)
  case Nil
  then show ?case by (simp add: index_by_name_def volumes.indexed_empty)
next
  case (snoc v vs)
  then show ?case unfolding index_by_name_snoc by (rule volumes.indexed_new)
qed

lemma mergeVolumes_names: "voName ` set (mergeVolumes base overlay) = voName ` set base \<union> voName ` set overlay"
  unfolding mergeVolumes_def by (rule volumes.merge_key_set [OF indexed_by_name])

lemma mergeVolumes_distinct: "distinct (map voName base) \<Longrightarrow> distinct (map voName (mergeVolumes base overlay))"
  unfolding mergeVolumes_def by (rule volumes.merge_distinct [OF indexed_by_name])

lemma mergeVolumes_members: "set (mergeVolumes base overlay) \<subseteq> set base \<union> set overlay"
  unfolding mergeVolumes_def by (rule volumes.merge_members [OF indexed_by_name])

lemma mergeVolumeMounts_members: "set (mergeVolumeMounts ms) \<subseteq> set ms"
  using mounts.merge_members [OF mounts.indexed_empty, of ms] by (simp add: mergeVolumeMounts_def)

lemma mergeVolumeMounts_distinct: "distinct (map vmMountPath (mergeVolumeMounts ms))"
  unfolding mergeVolumeMounts_def by (rule mounts.merge_distinct [OF mounts.indexed_empty]) simp

text \<open>
  C32: Merging mounts, done in one pass with an index from path to position, gives the specification: one mount for each path, in
  the order in which the paths first appear, and of several mounts at a path the last one.
\<close>
theorem mergeVolumeMounts_last_wins:
  "mergeVolumeMounts ms =
     map (\<lambda>p. last (filter (\<lambda>m. vmMountPath m = p) ms)) (rev (remdups (rev (map vmMountPath ms))))"
  unfolding mergeVolumeMounts_def using mounts.merge_last_wins [OF mounts.indexed_empty, of ms] by simp

section \<open>What is mounted\<close>

lemma building_simps [simp]:
  "ctEnv (add_env es c) = ctEnv c @ es" "ctEnvFrom (add_env es c) = ctEnvFrom c" "ctVolumeMounts (add_env es c) = ctVolumeMounts c"
  "ctEnv (add_mounts ms c) = ctEnv c" "ctEnvFrom (add_mounts ms c) = ctEnvFrom c"
  "ctVolumeMounts (add_mounts ms c) = ctVolumeMounts c @ ms"
  "voName (volume n s) = n" "voSource (volume n s) = s" "vmName (read_only n p) = n" "vmMountPath (read_only n p) = p"
  "evValueFrom (env n v) = None"
  by (simp_all add: add_env_def add_mounts_def volume_def read_only_def env_def)

text \<open>Every mount of the container names a volume of the base or one collected so far.\<close>

definition resolves :: "string set \<Rightarrow> building \<Rightarrow> bool" where
  "resolves V b \<longleftrightarrow> vmName ` set (ctVolumeMounts (fst b)) \<subseteq> V \<union> voName ` set (snd b)"

lemma resolves_env: "resolves V b \<Longrightarrow> resolves V (add_env es (fst b), snd b)"
  by (simp add: resolves_def)

lemma resolves_mount: "resolves V b \<Longrightarrow> resolves V (mount_volume n s p b)"
  by (auto simp: resolves_def mount_volume_def)

lemma resolves_tools:
  assumes "resolves V b" and "vmName ` set (fst (snd t)) \<subseteq> voName ` set (fst t)"
  shows "resolves V (add_tools t b)"
  using assms by (auto simp: resolves_def add_tools_def)

lemma buildRequiredSecrets_Cons:
  "buildRequiredSecrets (s # secrets) = (case required_secret s of (vs, ms, es) \<Rightarrow>
     (vs @ fst (buildRequiredSecrets secrets), ms @ fst (snd (buildRequiredSecrets secrets)),
      es @ snd (snd (buildRequiredSecrets secrets))))"
  by (simp add: buildRequiredSecrets_def Let_def split: prod.split)

lemma required_mounts:
  "vmName ` set (fst (snd (buildRequiredSecrets secrets))) \<subseteq> voName ` set (fst (buildRequiredSecrets secrets))"
proof (induction secrets)
  case (Cons s secrets)
  then show ?case
    unfolding buildRequiredSecrets_Cons by (cases "smType (srMountAs s)") auto
qed (simp add: buildRequiredSecrets_def)

lemma tools_mounts:
  "vmName ` set (snd (buildSkills skills)) \<subseteq> voName ` set (fst (buildSkills skills))"
  "vmName ` set (fst (snd (buildMCPServers servers))) \<subseteq> voName ` set (fst (buildMCPServers servers))"
  by (auto simp: buildSkills_def skill_mount_def buildMCPServers_def Let_def image_image split: list.splits if_splits)

lemma resolves_overlay_tools: "resolves V b \<Longrightarrow> resolves V (overlay_tools tools b)"
proof (cases tools)
  case (Some t)
  assume b: "resolves V b"
  obtain vols ms where skills: "buildSkills (toSkills t) = (vols, ms)" by (cases "buildSkills (toSkills t)")
  then have "resolves V (add_mounts ms (fst b), snd b @ vols)"
    using b tools_mounts(1) [of "toSkills t"] by (auto simp: resolves_def)
  then show ?thesis
    by (auto simp: overlay_tools_def Some skills Let_def
        intro!: resolves_tools [OF _ tools_mounts(2)] resolves_tools [OF _ required_mounts])
qed (simp add: overlay_tools_def)

lemma resolves_config_parts:
  "resolves V b \<Longrightarrow> resolves V (appendOTELEnvVars b otel uid step)"
  "resolves V b \<Longrightarrow> resolves V (appendMCPCAVolume b mcp)"
  "resolves V b \<Longrightarrow> resolves V (appendRHOKPEnvVars b rhokp)"
  by (auto simp: appendOTELEnvVars_def appendMCPCAVolume_def appendRHOKPEnvVars_def Let_def
      intro!: resolves_mount split: option.split) (simp_all add: resolves_def)

lemma resolves_overlay:
  assumes "vmName ` set (ctVolumeMounts first) \<subseteq> V"
  shows "resolves V (overlay_agent first agent llm reasoning tools cfg step uid cm timeout turns)"
  unfolding overlay_agent_def overlay_config_def Let_def addProviderSpecificEnv_def
  by (auto intro!: resolves_mount resolves_config_parts resolves_overlay_tools) (use assms in \<open>simp_all add: resolves_def\<close>)

lemma BuildE:
  assumes "Build base agent llm tools cfg step uid sa cm tp timeout turns = Inr spec"
  obtains b a l first others reasoning where
    "base = Some b" "agent = Some a" "llm = Some l" "psContainers b = first # others" "sa \<noteq> []" "cm \<noteq> []"
    "reasoning_env a = Inr reasoning"
    "spec = b\<lparr>psServiceAccountName := sa, psAutomountServiceAccountToken := Some True, psRestartPolicy := ''Never'',
       psContainers := (let ov = overlay_agent first a l reasoning tools cfg step uid cm timeout turns;
           c = (fst ov)\<lparr>ctVolumeMounts := mergeVolumeMounts (ctVolumeMounts (fst ov))\<rparr> in
         appendTraceEnvVars (appendAuditEnvVars c) tp) # others,
       psVolumes := mergeVolumes (psVolumes b) (snd (overlay_agent first a l reasoning tools cfg step uid cm timeout turns))\<rparr>"
  using assms unfolding Build_def by (auto simp: Let_def split: option.splits list.splits if_splits sum.splits)

lemma append_env_simps [simp]:
  "ctVolumeMounts (appendTraceEnvVars c tp) = ctVolumeMounts c" "ctEnvFrom (appendTraceEnvVars c tp) = ctEnvFrom c"
  "ctVolumeMounts (appendAuditEnvVars c) = ctVolumeMounts c" "ctEnvFrom (appendAuditEnvVars c) = ctEnvFrom c"
  by (simp_all add: appendTraceEnvVars_def appendAuditEnvVars_def)

text \<open>Every container of a pod mounts only volumes of the pod.\<close>

definition mounts_resolve :: "PodSpec \<Rightarrow> bool" where
  "mounts_resolve p \<longleftrightarrow>
     list_all (\<lambda>c. list_all (\<lambda>m. vmName m \<in> set (map voName (psVolumes p))) (ctVolumeMounts c)) (psContainers p)"

definition pod_wf :: "PodSpec \<Rightarrow> bool" where
  "pod_wf p \<longleftrightarrow> distinct (map voName (psVolumes p)) \<and> mounts_resolve p"

text \<open>
  C30: A pod built from a well-formed base specification (distinct volume names, every mount of every container names a volume) is
  well-formed, mounts nothing twice at one path in the agent's container, never restarts, and runs under the given service account.
\<close>
theorem built_pod_wf:
  assumes "pod_wf base" and "Build (Some base) agent llm tools cfg step uid sa cm tp timeout turns = Inr spec"
  shows "pod_wf spec \<and> distinct (map vmMountPath (ctVolumeMounts (hd (psContainers spec)))) \<and>
    length (psContainers spec) = length (psContainers base) \<and>
    psRestartPolicy spec = ''Never'' \<and> psServiceAccountName spec = sa"
  using assms(2)
proof (rule BuildE)
  fix b a l first others reasoning
  let ?ov = "overlay_agent first a l reasoning tools cfg step uid cm timeout turns"
  assume base: "Some base = Some b" and cs: "psContainers b = first # others" and
    spec: "spec = b\<lparr>psServiceAccountName := sa, psAutomountServiceAccountToken := Some True, psRestartPolicy := ''Never'',
       psContainers := (let ov = ?ov; c = (fst ov)\<lparr>ctVolumeMounts := mergeVolumeMounts (ctVolumeMounts (fst ov))\<rparr> in
         appendTraceEnvVars (appendAuditEnvVars c) tp) # others,
       psVolumes := mergeVolumes (psVolumes b) (snd ?ov)\<rparr>"
  have names: "set (map voName (psVolumes spec)) = voName ` set (psVolumes b) \<union> voName ` set (snd ?ov)"
    by (simp add: spec mergeVolumes_names)
  have first: "vmName ` set (ctVolumeMounts first) \<subseteq> voName ` set (psVolumes b)"
    and others: "list_all (\<lambda>c. list_all (\<lambda>m. vmName m \<in> voName ` set (psVolumes b)) (ctVolumeMounts c)) others"
    using assms(1) base cs by (auto simp: pod_wf_def mounts_resolve_def list_all_iff)
  have "vmName ` set (mergeVolumeMounts (ctVolumeMounts (fst ?ov))) \<subseteq> voName ` set (psVolumes b) \<union> voName ` set (snd ?ov)"
    by (rule order_trans [OF image_mono [OF mergeVolumeMounts_members] resolves_overlay [OF first, unfolded resolves_def]])
  then have "mounts_resolve spec"
    using others unfolding mounts_resolve_def names by (auto simp: spec list_all_iff Let_def)
  moreover have "distinct (map voName (psVolumes spec))"
    using assms(1) base mergeVolumes_distinct [of "psVolumes b"] by (simp add: pod_wf_def spec)
  moreover have "distinct (map vmMountPath (ctVolumeMounts (hd (psContainers spec))))"
    using mergeVolumeMounts_distinct by (simp add: spec Let_def)
  moreover have "length (psContainers spec) = length (psContainers base)" "psRestartPolicy spec = ''Never''"
    "psServiceAccountName spec = sa"
    using base cs by (simp_all add: spec)
  ultimately show ?thesis unfolding pod_wf_def by blast
qed

section \<open>Which secrets a pod sees\<close>

definition volume_secrets :: "Volume list \<Rightarrow> string list" where
  "volume_secrets vs = concat (map (\<lambda>v. case voSource v of SecretVolume s \<Rightarrow> [s] | _ \<Rightarrow> []) vs)"

definition env_secrets :: "EnvVar list \<Rightarrow> string list" where
  "env_secrets es = concat (map (\<lambda>e. case evValueFrom e of Some k \<Rightarrow> [skName k] | None \<Rightarrow> []) es)"

definition container_secrets :: "Container \<Rightarrow> string list" where
  "container_secrets c = env_secrets (ctEnv c) @ concat (map (\<lambda>e. case e of EnvFromSecret s \<Rightarrow> [s] | _ \<Rightarrow> []) (ctEnvFrom c))"

definition pod_secrets :: "PodSpec \<Rightarrow> string list" where
  "pod_secrets p = volume_secrets (psVolumes p) @ concat (map container_secrets (psContainers p))"

definition tool_secrets :: "ToolsSpec option \<Rightarrow> string list" where
  "tool_secrets tools = (case tools of None \<Rightarrow> [] | Some t \<Rightarrow> mcp_secret_headers (toMCPServers t) @ map srName (toRequiredSecrets t))"

definition ca_secrets :: "FullConfig option \<Rightarrow> string list" where
  "ca_secrets cfg = (case cfg of None \<Rightarrow> []
     | Some c \<Rightarrow> [otCASecretName (cfOTEL c), mcCASecretName (cfMCP c), mcCASecretName (cfRHOKP c)])"

definition secrets_within :: "string set \<Rightarrow> building \<Rightarrow> bool" where
  "secrets_within S b \<longleftrightarrow> set (container_secrets (fst b)) \<union> set (volume_secrets (snd b)) \<subseteq> S"

lemma secrets_append [simp]:
  "volume_secrets (vs @ ws) = volume_secrets vs @ volume_secrets ws" "volume_secrets [] = []"
  "env_secrets (es @ fs) = env_secrets es @ env_secrets fs" "env_secrets [] = []"
  by (simp_all add: volume_secrets_def env_secrets_def)

lemma secrets_singleton [simp]:
  "volume_secrets (volume n (SecretVolume s) # vs) = s # volume_secrets vs"
  "volume_secrets (volume n (ConfigMapVolume s) # vs) = volume_secrets vs"
  "volume_secrets (volume n (ImageVolume s p) # vs) = volume_secrets vs"
  "env_secrets (env n v # es) = env_secrets es"
  "env_secrets (\<lparr>evName = n, evValue = v, evValueFrom = Some k\<rparr> # es) = skName k # env_secrets es"
  by (simp_all add: volume_secrets_def env_secrets_def)

lemma container_secrets_simps [simp]:
  "set (container_secrets (add_env es c)) = set (container_secrets c) \<union> set (env_secrets es)"
  "container_secrets (add_mounts ms c) = container_secrets c"
  "container_secrets (c\<lparr>ctVolumeMounts := ms\<rparr>) = container_secrets c"
  "container_secrets (c\<lparr>ctTerminationMessagePolicy := p\<rparr>) = container_secrets c"
  "set (container_secrets (c\<lparr>ctEnvFrom := ctEnvFrom c @ [EnvFromSecret s]\<rparr>)) = insert s (set (container_secrets c))"
  by (auto simp: container_secrets_def)

lemma env_secrets_none: "list_all (\<lambda>e. evValueFrom e = None) es \<Longrightarrow> env_secrets es = []"
  by (induction es) (auto simp: env_secrets_def)

lemma plain_env [simp]:
  "env_secrets (provider_env llm) = []" "env_secrets (step_env agent llm cfg t n) = []"
  by (auto simp: provider_env_def step_env_def Let_def split: LLMProviderType.split option.split)

lemma reasoning_plain: "reasoning_env a = Inr es \<Longrightarrow> env_secrets es = []"
  by (auto simp: reasoning_env_def split: if_splits sum.splits)

lemma within_mount:
  "secrets_within S b \<Longrightarrow> s \<in> S \<Longrightarrow> secrets_within S (mount_volume n (SecretVolume s) p b)"
  "secrets_within S b \<Longrightarrow> secrets_within S (mount_volume n (ConfigMapVolume s) p b)"
  by (auto simp: secrets_within_def mount_volume_def)

lemma within_tools:
  "secrets_within S b \<Longrightarrow> set (volume_secrets (fst t)) \<union> set (env_secrets (snd (snd t))) \<subseteq> S \<Longrightarrow> secrets_within S (add_tools t b)"
  by (auto simp: secrets_within_def add_tools_def)

lemma mcp_secrets:
  "set (volume_secrets (fst (buildMCPServers servers))) = set (mcp_secret_headers servers)"
  "env_secrets (snd (snd (buildMCPServers servers))) = []"
  by (auto simp: buildMCPServers_def Let_def volume_secrets_def)

lemma required_secrets:
  "set (volume_secrets (fst (buildRequiredSecrets ss))) \<union> set (env_secrets (snd (snd (buildRequiredSecrets ss)))) = srName ` set ss"
proof (induction ss)
  case (Cons s ss)
  then show ?case
    unfolding buildRequiredSecrets_Cons by (cases "smType (srMountAs s)") auto
qed (simp add: buildRequiredSecrets_def)

lemma skills_no_secrets: "volume_secrets (fst (buildSkills skills)) = []"
  by (auto simp: buildSkills_def split: list.split)

lemma within_overlay_tools:
  assumes "secrets_within S b" and "set (tool_secrets tools) \<subseteq> S"
  shows "secrets_within S (overlay_tools tools b)"
proof (cases tools)
  case (Some t)
  obtain vols ms where skills: "buildSkills (toSkills t) = (vols, ms)" by (cases "buildSkills (toSkills t)")
  then have "secrets_within S (add_mounts ms (fst b), snd b @ vols)"
    using assms(1) skills_no_secrets [of "toSkills t"] by (simp add: secrets_within_def)
  moreover have "set (volume_secrets (fst (buildMCPServers (toMCPServers t)))) \<union>
      set (env_secrets (snd (snd (buildMCPServers (toMCPServers t))))) \<subseteq> S"
    and "set (volume_secrets (fst (buildRequiredSecrets (toRequiredSecrets t)))) \<union>
      set (env_secrets (snd (snd (buildRequiredSecrets (toRequiredSecrets t))))) \<subseteq> S"
    using assms(2) unfolding required_secrets mcp_secrets by (auto simp: tool_secrets_def Some)
  ultimately show ?thesis
    by (auto simp: overlay_tools_def Some skills Let_def intro!: within_tools)
qed (use assms in \<open>simp add: overlay_tools_def\<close>)

lemma within_config_parts:
  assumes "secrets_within S b"
  shows "otCASecretName otel \<in> S \<Longrightarrow> secrets_within S (appendOTELEnvVars b (Some otel) uid step)"
    "mcCASecretName mcp \<in> S \<Longrightarrow> secrets_within S (appendMCPCAVolume b (Some mcp))"
    "mcCASecretName mcp \<in> S \<Longrightarrow> secrets_within S (appendRHOKPEnvVars b (Some mcp))"
  using assms
  by (auto simp: appendOTELEnvVars_def appendMCPCAVolume_def appendRHOKPEnvVars_def Let_def intro!: within_mount)
    (simp_all add: secrets_within_def)

lemma within_overlay_config:
  assumes "secrets_within S b" and "set (ca_secrets cfg) \<subseteq> S"
  shows "secrets_within S (overlay_config cfg uid step b)"
proof (cases cfg)
  case None
  with assms(1) show ?thesis
    by (simp add: overlay_config_def appendOTELEnvVars_def appendMCPCAVolume_def appendRHOKPEnvVars_def)
next
  case (Some c)
  then have "secrets_within S (appendRHOKPEnvVars (appendMCPCAVolume (appendOTELEnvVars b (Some (cfOTEL c)) uid step)
      (Some (cfMCP c))) (Some (cfRHOKP c)))"
    using assms(2) by (intro within_config_parts assms(1)) (auto simp: ca_secrets_def)
  then show ?thesis by (simp add: overlay_config_def Some Let_def within_mount)
qed

lemma within_overlay_agent:
  assumes "set (container_secrets first) \<union> {credentialsSecretName llm} \<union> set (tool_secrets tools) \<union> set (ca_secrets cfg) \<subseteq> S"
    and "env_secrets reasoning = []"
  shows "secrets_within S (overlay_agent first agent llm reasoning tools cfg step uid cm timeout turns)"
  unfolding overlay_agent_def Let_def
proof (intro within_overlay_config within_overlay_tools within_mount)
  show "secrets_within S (add_env reasoning (addProviderSpecificEnv (add_env (step_env agent llm cfg timeout turns)
      (first\<lparr>ctTerminationMessagePolicy := ''FallbackToLogsOnError''\<rparr>)) llm)
      \<lparr>ctEnvFrom := ctEnvFrom (add_env reasoning (addProviderSpecificEnv (add_env (step_env agent llm cfg timeout turns)
          (first\<lparr>ctTerminationMessagePolicy := ''FallbackToLogsOnError''\<rparr>)) llm)) @
        [EnvFromSecret (credentialsSecretName llm)]\<rparr>, [])"
    using assms unfolding secrets_within_def addProviderSpecificEnv_def fst_conv snd_conv container_secrets_simps(5) by simp
qed (use assms(1) in auto)

lemma volume_secrets_mono: "set vs \<subseteq> set ws \<Longrightarrow> set (volume_secrets vs) \<subseteq> set (volume_secrets ws)"
  by (auto simp: volume_secrets_def)

lemma merged_secrets: "set (volume_secrets (mergeVolumes base vs)) \<subseteq> set (volume_secrets base) \<union> set (volume_secrets vs)"
  using volume_secrets_mono [of "mergeVolumes base vs" "base @ vs"] mergeVolumes_members [of base vs] by simp

lemma env_only_secrets [simp]:
  "set (container_secrets (appendTraceEnvVars c tp)) = set (container_secrets c)"
  "set (container_secrets (appendAuditEnvVars c)) = set (container_secrets c)"
  by (simp_all add: appendTraceEnvVars_def appendAuditEnvVars_def)

text \<open>
  C10: A built pod refers to no secret besides those of the base specification, the credentials of the agent's provider, the header and
  required secrets of the step's tools and the configured certificate authorities: neither a model name, a URL or a skill image nor
  another part of the run brings in a secret.
\<close>
theorem built_pod_secrets:
  assumes "Build (Some base) agent (Some llm) tools cfg step uid sa cm tp timeout turns = Inr spec"
  shows "set (pod_secrets spec) \<subseteq>
    set (pod_secrets base) \<union> {credentialsSecretName llm} \<union> set (tool_secrets tools) \<union> set (ca_secrets cfg)"
  using assms
proof (rule BuildE)
  fix b a l first others reasoning
  let ?ov = "overlay_agent first a l reasoning tools cfg step uid cm timeout turns"
  let ?S = "set (pod_secrets base) \<union> {credentialsSecretName llm} \<union> set (tool_secrets tools) \<union> set (ca_secrets cfg)"
  assume eqs: "Some base = Some b" "Some llm = Some l" and cs: "psContainers b = first # others" and r: "reasoning_env a = Inr reasoning" and
    spec: "spec = b\<lparr>psServiceAccountName := sa, psAutomountServiceAccountToken := Some True, psRestartPolicy := ''Never'',
       psContainers := (let ov = ?ov; c = (fst ov)\<lparr>ctVolumeMounts := mergeVolumeMounts (ctVolumeMounts (fst ov))\<rparr> in
         appendTraceEnvVars (appendAuditEnvVars c) tp) # others,
       psVolumes := mergeVolumes (psVolumes b) (snd ?ov)\<rparr>"
  have "secrets_within ?S ?ov"
    using cs eqs by (intro within_overlay_agent reasoning_plain [OF r]) (auto simp: pod_secrets_def)
  then have "set (container_secrets (fst ?ov)) \<subseteq> ?S" "set (volume_secrets (snd ?ov)) \<subseteq> ?S" by (auto simp: secrets_within_def)
  moreover have "set (pod_secrets spec) \<subseteq> set (volume_secrets (psVolumes b)) \<union> set (volume_secrets (snd ?ov)) \<union>
      set (container_secrets (fst ?ov)) \<union> set (concat (map container_secrets others))"
    using merged_secrets [of "psVolumes b" "snd ?ov"] by (auto simp: pod_secrets_def spec Let_def)
  moreover have "set (volume_secrets (psVolumes b)) \<union> set (concat (map container_secrets others)) \<subseteq> ?S"
    using eqs cs by (auto simp: pod_secrets_def)
  ultimately show ?thesis by blast
qed

section \<open>When building succeeds\<close>

text \<open>A raw value that can be marshalled; no text at all stands for \<open>null\<close>.\<close>

definition raw_valid :: "string \<Rightarrow> bool" where
  "raw_valid raw \<longleftrightarrow> json_valid (if raw = [] then ''null'' else raw)"

lemma json_raw_isl: "isl (json_raw raw) \<longleftrightarrow> \<not> raw_valid raw"
  by (simp add: json_raw_def raw_valid_def Let_def)

lemma json_raw_fields_isl: "isl (json_raw_fields m) \<longleftrightarrow> list_ex (\<lambda>kv. \<not> raw_valid (snd kv)) m"
proof (induction m rule: json_raw_fields.induct)
  case (2 k raw rest)
  then show ?case using json_raw_isl [of raw] by (auto split: sum.splits)
qed simp

lemma reasoning_env_isl: "isl (reasoning_env a) \<longleftrightarrow> \<not> list_all (\<lambda>kv. raw_valid (snd kv)) (agReasoningConfig a)"
proof -
  have "isl (json_raw_map m) \<longleftrightarrow> \<not> list_all (\<lambda>kv. raw_valid (snd kv)) m" for m
    using json_raw_fields_isl [of "sort_key fst m"]
    by (cases "json_raw_fields (sort_key fst m)") (auto simp: json_raw_map_def list_ex_iff list_all_iff)
  from this [of "agReasoningConfig a"] show ?thesis by (auto simp: reasoning_env_def split: sum.splits)
qed

text \<open>
  C31: Building fails for the listed reasons only: no base container, no agent, no provider, no service account, no input ConfigMap, or a
  reasoning parameter that is not JSON. The tools never make it fail.
\<close>
theorem build_succeeds_iff:
  "(\<exists>spec. Build base agent llm tools cfg step uid sa cm tp timeout turns = Inr spec) \<longleftrightarrow>
     (\<exists>b a l. base = Some b \<and> psContainers b \<noteq> [] \<and> agent = Some a \<and> llm = Some l \<and> sa \<noteq> [] \<and> cm \<noteq> [] \<and>
        list_all (\<lambda>kv. raw_valid (snd kv)) (agReasoningConfig a))"
    (is "?built \<longleftrightarrow> ?ready")
proof
  assume ?built
  then obtain spec where "Build base agent llm tools cfg step uid sa cm tp timeout turns = Inr spec" ..
  then show ?ready
  proof (rule BuildE)
    fix b a l first others reasoning
    assume "base = Some b" "agent = Some a" "llm = Some l" "psContainers b = first # others" "sa \<noteq> []" "cm \<noteq> []"
      "reasoning_env a = Inr reasoning"
    then show ?ready using reasoning_env_isl [of a] by simp
  qed
next
  assume ?ready
  then obtain b a l where ready: "base = Some b" "psContainers b \<noteq> []" "agent = Some a" "llm = Some l" "sa \<noteq> []" "cm \<noteq> []"
    and "list_all (\<lambda>kv. raw_valid (snd kv)) (agReasoningConfig a)" by blast
  then obtain reasoning where "reasoning_env a = Inr reasoning" using reasoning_env_isl [of a] by (cases "reasoning_env a") auto
  with ready show ?built by (simp add: Build_def Let_def split: list.split)
qed

lemma mcp_header_value: "json_value 1 (mcp_header_json h)"
  using json_object_value [of 0] by (auto simp: mcp_header_json_def json_string_value)

lemma mcp_server_value: "json_value 3 (mcp_server_json s)"
proof -
  have "json_value 2 (json_array (map mcp_header_json hs))" for hs
    using json_array_value [of 1 "map mcp_header_json hs"] mcp_header_value by (simp add: list_all_iff numeral_2_eq_2)
  then show ?thesis
    using json_object_value [of 2] json_value_mono [OF json_string_value, of 2] json_value_mono [OF json_int_value, of _ 2]
    by (auto simp: mcp_server_json_def numeral_3_eq_3 numeral_2_eq_2)
qed

text \<open>
  The MCP servers are handed to the sandbox as one well-formed JSON value, whatever bytes the names, URLs and secret names have:
  no quotation mark or backslash in them ends a string early.
\<close>
theorem mcp_servers_json:
  "\<exists>v. snd (snd (buildMCPServers servers)) = [env mcpServersEnvVar v] \<and> json_valid v"
proof -
  have "json_value 4 (json_array (map mcp_server_json servers))"
    using json_array_value [of 3 "map mcp_server_json servers"] mcp_server_value by (simp add: list_all_iff numeral_eq_Suc)
  then have "json_valid (json_array (map mcp_server_json servers))"
    by (rule json_value_valid) (simp add: maxNestingDepth_def)
  then show ?thesis unfolding buildMCPServers_def Let_def snd_conv by blast
qed

section \<open>An example\<close>

definition example_base :: PodSpec where
  "example_base = \<lparr>psServiceAccountName = ''lightspeed-agent'', psAutomountServiceAccountToken = None, psRestartPolicy = ''Always'',
     psActiveDeadlineSeconds = None,
     psContainers = [\<lparr>ctName = ''agent'', ctEnv = [], ctEnvFrom = [],
       ctVolumeMounts = [read_only ''skills'' ''/app/skills/prometheus'', read_only ''tmp'' ''/tmp''], ctTerminationMessagePolicy = ''File''\<rparr>],
     psVolumes = [volume ''skills'' (OtherVolume ''placeholder''), volume ''tmp'' (OtherVolume ''emptyDir'')]\<rparr>"

definition example_tools :: ToolsSpec where
  "example_tools = \<lparr>toSkills = [\<lparr>skImage = ''quay.io/skills:1'', skPaths = [''/skills/prometheus'']\<rparr>],
     toMCPServers = [\<lparr>msName = ''m'', msURL = ''https://m'', msTimeoutSeconds = 5,
       msHeaders = [\<lparr>mhName = ''Authorization'', mhValueFrom = \<lparr>hvType = MCPHeaderSourceTypeSecret, hvSecret = ''tok''\<rparr>\<rparr>]\<rparr>],
     toRequiredSecrets = [\<lparr>srName = ''aws'', srDescription = '''', srMountAs = \<lparr>smType = SecretMountFilePath, smEnvVar = '''', smFilePath = ''/aws''\<rparr>\<rparr>]\<rparr>"

definition example_built :: "error + PodSpec" where
  "example_built = Build (Some example_base) (Some sample_agent) (Some sample_llm) (Some example_tools) None ''analysis'' ''u1''
     ''ls-anl-u1'' ''ls-analysis-u1'' '''' 600 200"

lemma example_built_ok: "\<exists>spec. example_built = Inr spec"
proof -
  have "\<not> isl example_built" by code_simp
  then show ?thesis unfolding isl_def by (cases example_built) auto
qed

lemma built_pod_wf_witness:
  "\<exists>spec. example_built = Inr spec \<and> pod_wf spec \<and> distinct (map vmMountPath (ctVolumeMounts (hd (psContainers spec)))) \<and>
     psRestartPolicy spec = ''Never''"
proof -
  obtain spec where spec: "example_built = Inr spec" using example_built_ok by blast
  have "pod_wf example_base" by code_simp
  from built_pod_wf [OF this spec [unfolded example_built_def]] show ?thesis using spec by blast
qed

lemma built_pod_secrets_witness:
  "\<exists>spec. example_built = Inr spec \<and>
     set (pod_secrets spec) \<subseteq> set (pod_secrets example_base) \<union> {credentialsSecretName sample_llm} \<union>
       set (tool_secrets (Some example_tools)) \<union> set (ca_secrets None)"
proof -
  obtain spec where spec: "example_built = Inr spec" using example_built_ok by blast
  from built_pod_secrets [OF this [unfolded example_built_def]] spec show ?thesis by blast
qed

end
