(* ===== verification/SandboxOps.thy ===== *)
theory SandboxOps
  imports PodSpecBuilder
begin

text \<open>
  The requests of the sandbox manager. It creates, reads, patches and deletes more kinds of objects than the rest of the run
  controller, so its history has events of its own besides those of the common interface, which it shares through
  \<open>lift_op\<close>: an operation over \<open>kube\<close> runs on the part of the history it knows. The environment may answer such an operation according
  to the whole history, because the interface it is given depends on it.
\<close>

section \<open>Objects and events\<close>

text \<open>Kinds that are read, patched or deleted on the hub by name.\<close>

datatype SmKind =
    ConfigMapObj | SecretObj | PodObj | ServiceAccountObj | RoleObj | RoleBindingObj
  | SandboxClaimObj | SandboxObj | SandboxWarmPoolObj | SandboxTemplateObj

text \<open>
  Objects that are created. A template carries the metadata and the specification of its pods, a warm pool its size and template, a claim its
  pool and shutdown policy.
\<close>

datatype SmObject =
    NewServiceAccount ObjectMeta
  | NewConfigMap ObjectMeta "string \<rightharpoonup> string"
  | NewSecret ObjectMeta "string \<rightharpoonup> string"
  | NewPod ObjectMeta PodSpec
  | NewSandboxTemplate ObjectMeta string ObjectMeta PodSpec
  | NewSandboxWarmPool ObjectMeta nat string
  | NewSandboxClaim ObjectMeta string string

text \<open>The name of a claim's sandbox, as \<open>unstructured.NestedString\<close> gives it: an error, absent or present.\<close>

type_synonym claim_view = "ObjectMeta \<times> (error + string option)"

datatype sm_event =
    Base event
  | SmCreate Cluster SmObject "error + UID"
  | SmGet SmKind ObjectKey "error + ObjectMeta"
  | SmGetClaim ObjectKey "error + claim_view"
  | SmGetBinding Cluster string "error + RbacObject"
  | SmListBindings "error + RbacObject list"
  | SmUpdateSecret ObjectMeta "string \<rightharpoonup> string" "error option"
  | SmPatchOwners SmKind ObjectMeta "OwnerReference list" "error option"
  | SmDelete SmKind ObjectKey bool "error option"
  | SmToken string string "error + string"
  | SmLoadReaders "string list"
  | SmStoreReaders "string list"
  | SmNow Time
  | SmTick bool
  | SmBeginStep UID string
  | SmReceived UID
  | SmCompleteStep UID string

type_synonym sm_history = "sm_event list"
type_synonym 'a smop = "(sm_history, 'a) state"

section \<open>The environment\<close>

text \<open>\<open>clientcmdapi.Config\<close> as far as the operator fills it.\<close>

record SandboxKubeconfig =
  skcServer :: string
  skcCAData :: string
  skcTLSServerName :: string
  skcProxyURL :: string
  skcToken :: string

text \<open>
  What a template can refer to, per query. The engine (\<^verbatim>\<open>text/template\<close>), the embedded template files and the JSON form of whole
  custom resources are parameters. A template is parsed and executed under a name, which matters when the text itself defines a
  template of that name; \<open>definedTemplates\<close> are the names a text defines.
\<close>

datatype query_data =
    AnalysisQuery string bool bool
  | ExecutionQuery string
  | VerificationQuery string string
  | EscalationQuery string string string string "StepResultRef list" "StepResultRef list" "StepResultRef list"
  | RevisionQuery int string string string

record input_api =
  parseTemplate :: "string \<Rightarrow> string \<Rightarrow> error option"
  executeTemplate :: "string \<Rightarrow> string \<Rightarrow> query_data \<Rightarrow> error + string"
  definedTemplates :: "string \<Rightarrow> string list"
  readTemplateFile :: "string \<Rightarrow> error + string"
  marshalContext :: "agentContext \<Rightarrow> error + string"
  marshalResult :: "string \<Rightarrow> string \<Rightarrow> ObjectMeta \<Rightarrow> string \<Rightarrow> error + string"
  prettyOption :: "RemediationOption \<Rightarrow> error + string"
  prettyExecution :: "agentExecutionResult \<Rightarrow> error + string"
  outputSchemaForStep :: "string \<Rightarrow> AgenticRun \<Rightarrow> string"

record sm_requests =
  on_sm_create :: "sm_history \<Rightarrow> Cluster \<Rightarrow> SmObject \<Rightarrow> error + UID"
  on_sm_get :: "sm_history \<Rightarrow> SmKind \<Rightarrow> ObjectKey \<Rightarrow> error + ObjectMeta"
  on_sm_get_claim :: "sm_history \<Rightarrow> ObjectKey \<Rightarrow> error + claim_view"
  on_sm_get_binding :: "sm_history \<Rightarrow> Cluster \<Rightarrow> string \<Rightarrow> error + RbacObject"
  on_sm_list_bindings :: "sm_history \<Rightarrow> error + RbacObject list"
  on_sm_update_secret :: "sm_history \<Rightarrow> ObjectMeta \<Rightarrow> (string \<rightharpoonup> string) \<Rightarrow> error option"
  on_sm_patch_owners :: "sm_history \<Rightarrow> SmKind \<Rightarrow> ObjectMeta \<Rightarrow> OwnerReference list \<Rightarrow> error option"
  on_sm_delete :: "sm_history \<Rightarrow> SmKind \<Rightarrow> ObjectKey \<Rightarrow> bool \<Rightarrow> error option"
  on_sm_token :: "sm_history \<Rightarrow> string \<Rightarrow> string \<Rightarrow> error + string"
  on_sm_readers :: "sm_history \<Rightarrow> string list"
  on_sm_now :: "sm_history \<Rightarrow> Time"
  on_sm_tick :: "sm_history \<Rightarrow> bool"

text \<open>
  \<open>SandboxManager\<close> and its surroundings: the API behind the client and the uncached reader (the flag says whether the latter is set), the
  configuration of the cache at the time of the call, the span the audit logger starts, and the functions of other
  packages: SHA-256, the writer of kubeconfig files, the constructor of a clientset and the conversion of a pod specification to a generic object.
\<close>

record SmManager =
  smKube :: "sm_history \<Rightarrow> kube"
  smReader :: bool
  smConfig :: "FullConfig option"
  smAudit :: bool
  smNamespace :: string
  smDeletionTimeout :: Duration
  smSpan :: "(string \<times> string \<times> nat) option"
  sha256_hex :: "string \<Rightarrow> string"
  writeKubeconfig :: "SandboxKubeconfig \<Rightarrow> error + string"
  newClientset :: "RestConfig \<Rightarrow> error option"
  smUnstructured :: "PodSpec \<Rightarrow> error option"
  smInputs :: input_api
  smRequests :: sm_requests

section \<open>Operations of the common interface\<close>

definition base_events :: "sm_history \<Rightarrow> history" where
  "base_events h = concat (map (\<lambda>e. case e of Base b \<Rightarrow> [b] | _ \<Rightarrow> []) h)"

definition lift_op :: "SmManager \<Rightarrow> (kube \<Rightarrow> 'a op) \<Rightarrow> 'a smop" where
  "lift_op M f = State (\<lambda>h. let (a, g) = run_state (f (smKube M h)) (base_events h) in
     (a, h @ map Base (drop (length (base_events h)) g)))"

lemma good_base:
  "good (\<lambda>g e. P (h @ map Base (drop n g)) (Base e)) g es \<Longrightarrow> n \<le> length g \<Longrightarrow>
     good P (h @ map Base (drop n g)) (map Base es)"
proof (induction es arbitrary: g)
  case (Cons e es)
  then show ?case using Cons.IH [of "g @ [e]"] by simp
qed simp

lemma wp_lift [wp]:
  assumes "wp (\<lambda>g e. P (h @ map Base (drop (length (base_events h)) g)) (Base e)) (f (smKube M h))
    (\<lambda>a g. Q a (h @ map Base (drop (length (base_events h)) g))) (base_events h)"
  shows "wp P (lift_op M f) Q h"
proof -
  obtain es where es: "snd (run_state (f (smKube M h)) (base_events h)) = base_events h @ es"
    and "good (\<lambda>g e. P (h @ map Base (drop (length (base_events h)) g)) (Base e)) (base_events h) es"
    using assms by (auto simp: wp_def)
  then have "good P h (map Base es)" using good_base [of P h "length (base_events h)" "base_events h" es] by simp
  with es assms show ?thesis by (auto simp: wp_def lift_op_def split: prod.splits)
qed

lemma emits_lift [emit]: "(\<And>K. emits (\<lambda>e. P (Base e)) (f K)) \<Longrightarrow> emits P (lift_op M f)"
  unfolding emits_def by (intro allI wp_lift) (auto intro: wp_mono)

section \<open>Requests\<close>

definition smCreate :: "SmManager \<Rightarrow> Cluster \<Rightarrow> SmObject \<Rightarrow> (error + UID) smop" where
  "smCreate M c obj = perform (\<lambda>h. on_sm_create (smRequests M) h c obj) (SmCreate c obj)"

definition smGet :: "SmManager \<Rightarrow> SmKind \<Rightarrow> ObjectKey \<Rightarrow> (error + ObjectMeta) smop" where
  "smGet M kind key = perform (\<lambda>h. on_sm_get (smRequests M) h kind key) (SmGet kind key)"

definition smGetClaim :: "SmManager \<Rightarrow> ObjectKey \<Rightarrow> (error + claim_view) smop" where
  "smGetClaim M key = perform (\<lambda>h. on_sm_get_claim (smRequests M) h key) (SmGetClaim key)"

definition smGetBinding :: "SmManager \<Rightarrow> Cluster \<Rightarrow> string \<Rightarrow> (error + RbacObject) smop" where
  "smGetBinding M c name = perform (\<lambda>h. on_sm_get_binding (smRequests M) h c name) (SmGetBinding c name)"

definition smListBindings :: "SmManager \<Rightarrow> (error + RbacObject list) smop" where
  "smListBindings M = perform (on_sm_list_bindings (smRequests M)) SmListBindings"

definition smUpdateSecret :: "SmManager \<Rightarrow> ObjectMeta \<Rightarrow> (string \<rightharpoonup> string) \<Rightarrow> error option smop" where
  "smUpdateSecret M meta data = perform (\<lambda>h. on_sm_update_secret (smRequests M) h meta data) (SmUpdateSecret meta data)"

definition smPatchOwners :: "SmManager \<Rightarrow> SmKind \<Rightarrow> ObjectMeta \<Rightarrow> OwnerReference list \<Rightarrow> error option smop" where
  "smPatchOwners M kind base owners =
     perform (\<lambda>h. on_sm_patch_owners (smRequests M) h kind base owners) (SmPatchOwners kind base owners)"

definition smDelete :: "SmManager \<Rightarrow> SmKind \<Rightarrow> ObjectKey \<Rightarrow> bool \<Rightarrow> error option smop" where
  "smDelete M kind key zeroGrace = perform (\<lambda>h. on_sm_delete (smRequests M) h kind key zeroGrace) (SmDelete kind key zeroGrace)"

definition smToken :: "SmManager \<Rightarrow> string \<Rightarrow> string \<Rightarrow> (error + string) smop" where
  "smToken M saName ns = perform (\<lambda>h. on_sm_token (smRequests M) h saName ns) (SmToken saName ns)"

definition loadReaders :: "SmManager \<Rightarrow> string list smop" where
  "loadReaders M = perform (on_sm_readers (smRequests M)) SmLoadReaders"

definition storeReaders :: "string list \<Rightarrow> unit smop" where
  "storeReaders names = perform (\<lambda>_. ()) (\<lambda>_. SmStoreReaders names)"

definition smNow :: "SmManager \<Rightarrow> Time smop" where
  "smNow M = perform (on_sm_now (smRequests M)) SmNow"

definition smTick :: "SmManager \<Rightarrow> bool smop" where
  "smTick M = perform (on_sm_tick (smRequests M)) SmTick"

definition smLog :: "SmManager \<Rightarrow> sm_event \<Rightarrow> unit smop" where
  "smLog M e = (if smAudit M then perform (\<lambda>_. ()) (\<lambda>_. e) else State_Monad.return ())"

lemmas sm_request_defs = smCreate_def smGet_def smGetClaim_def smGetBinding_def smListBindings_def smUpdateSecret_def smPatchOwners_def
  smDelete_def smToken_def loadReaders_def storeReaders_def smNow_def smTick_def

lemma wp_sm_requests [wp]:
  "(\<And>r. P h (SmCreate c obj r) \<and> Q1 r (h @ [SmCreate c obj r])) \<Longrightarrow> wp P (smCreate M c obj) Q1 h"
  "(\<And>r. P h (SmGet k key r) \<and> Q2 r (h @ [SmGet k key r])) \<Longrightarrow> wp P (smGet M k key) Q2 h"
  "(\<And>r. P h (SmGetClaim key r) \<and> Q3 r (h @ [SmGetClaim key r])) \<Longrightarrow> wp P (smGetClaim M key) Q3 h"
  "(\<And>r. P h (SmGetBinding c n r) \<and> Q4 r (h @ [SmGetBinding c n r])) \<Longrightarrow> wp P (smGetBinding M c n) Q4 h"
  "(\<And>r. P h (SmListBindings r) \<and> Q5 r (h @ [SmListBindings r])) \<Longrightarrow> wp P (smListBindings M) Q5 h"
  "(\<And>r. P h (SmUpdateSecret m d r) \<and> Q6 r (h @ [SmUpdateSecret m d r])) \<Longrightarrow> wp P (smUpdateSecret M m d) Q6 h"
  "(\<And>r. P h (SmPatchOwners k m os r) \<and> Q6 r (h @ [SmPatchOwners k m os r])) \<Longrightarrow> wp P (smPatchOwners M k m os) Q6 h"
  "(\<And>r. P h (SmDelete k key z r) \<and> Q6 r (h @ [SmDelete k key z r])) \<Longrightarrow> wp P (smDelete M k key z) Q6 h"
  "(\<And>r. P h (SmToken n ns r) \<and> Q7 r (h @ [SmToken n ns r])) \<Longrightarrow> wp P (smToken M n ns) Q7 h"
  "(\<And>r. P h (SmLoadReaders r) \<and> Q8 r (h @ [SmLoadReaders r])) \<Longrightarrow> wp P (loadReaders M) Q8 h"
  "(P h (SmStoreReaders ns') \<and> Q9 () (h @ [SmStoreReaders ns'])) \<Longrightarrow> wp P (storeReaders ns') Q9 h"
  "(\<And>r. P h (SmNow r) \<and> Q10 r (h @ [SmNow r])) \<Longrightarrow> wp P (smNow M) Q10 h"
  "(\<And>r. P h (SmTick r) \<and> Q11 r (h @ [SmTick r])) \<Longrightarrow> wp P (smTick M) Q11 h"
  by (auto intro: wp_performI simp: sm_request_defs)

lemma wp_smLog [wp]: "P h e \<Longrightarrow> Q () (h @ [e]) \<Longrightarrow> Q () h \<Longrightarrow> wp P (smLog M e) Q h"
  by (auto simp: smLog_def intro: wp_performI wp_returnI)

lemma emits_sm_requests [emit]:
  "(\<And>r. P (SmCreate c obj r)) \<Longrightarrow> emits P (smCreate M c obj)"
  "(\<And>r. P (SmGet k key r)) \<Longrightarrow> emits P (smGet M k key)"
  "(\<And>r. P (SmGetClaim key r)) \<Longrightarrow> emits P (smGetClaim M key)"
  "(\<And>r. P (SmGetBinding c n r)) \<Longrightarrow> emits P (smGetBinding M c n)"
  "(\<And>r. P (SmListBindings r)) \<Longrightarrow> emits P (smListBindings M)"
  "(\<And>r. P (SmUpdateSecret m d r)) \<Longrightarrow> emits P (smUpdateSecret M m d)"
  "(\<And>r. P (SmPatchOwners k m os r)) \<Longrightarrow> emits P (smPatchOwners M k m os)"
  "(\<And>r. P (SmDelete k key z r)) \<Longrightarrow> emits P (smDelete M k key z)"
  "(\<And>r. P (SmToken n ns r)) \<Longrightarrow> emits P (smToken M n ns)"
  "(\<And>r. P (SmLoadReaders r)) \<Longrightarrow> emits P (loadReaders M)"
  "P (SmStoreReaders names) \<Longrightarrow> emits P (storeReaders names)"
  "(\<And>r. P (SmNow r)) \<Longrightarrow> emits P (smNow M)"
  "(\<And>r. P (SmTick r)) \<Longrightarrow> emits P (smTick M)"
  by (simp_all add: sm_request_defs emits_perform)

lemma emits_smLog [emit]: "P e \<Longrightarrow> emits P (smLog M e)"
  by (auto simp: smLog_def intro: emits_perform emits_return)

definition new_meta ::
    "string \<Rightarrow> string \<Rightarrow> (string \<rightharpoonup> string) \<Rightarrow> (string \<rightharpoonup> string) \<Rightarrow> OwnerReference list \<Rightarrow> ObjectMeta" where
  "new_meta name ns labels annotations owners =
     \<lparr>mName = name, mNamespace = ns, mUID = '''', mResourceVersion = 0, mGeneration = 0, mCreationTimestamp = 0,
      mDeletionTimestamp = 0, mLabels = labels, mAnnotations = annotations, mFinalizers = [], mOwnerReferences = owners\<rparr>"

end
