(* ===== verification/InputConfigMap.thy ===== *)
theory InputConfigMap
  imports SandboxOps
begin

text \<open>
  The input of a sandbox (\<^verbatim>\<open>controller/agenticrun/input_configmap.go\<close> and the templates of \<^verbatim>\<open>helpers.go\<close>): the prompts of the step,
  rendered from the agent's own templates or the built-in ones, the context, and the template of the result resource the
  sandbox has to create.
\<close>

section \<open>Templates\<close>

definition maxRenderedTemplateSize :: nat where
  "maxRenderedTemplateSize = 32768 * 4"

text \<open>
  The engine writes to a \<open>limitedWriter\<close>, which refuses the write that would exceed the limit. The parameter gives the whole text the
  engine writes; whatever pieces it comes in, the text passes if and only if it fits.
\<close>

definition renderTemplate :: "input_api \<Rightarrow> string \<Rightarrow> query_data \<Rightarrow> error + string" where
  "renderTemplate I tmpl data = (case parseTemplate I ''custom'' tmpl of
      Some e \<Rightarrow> Inl (WrapError ''template parse'' e)
    | None \<Rightarrow> (case executeTemplate I ''custom'' tmpl data of
        Inl e \<Rightarrow> Inl (WrapError ''template exec'' e)
      | Inr text \<Rightarrow>
          if length text > maxRenderedTemplateSize
          then Inl (WrapError ''template exec'' (NewError (''rendered template exceeds '' @ decimal maxRenderedTemplateSize @ '' bytes'')))
          else Inr text))"

definition readBuiltinTemplate :: "input_api \<Rightarrow> string \<Rightarrow> error + string" where
  "readBuiltinTemplate I name = (case readTemplateFile I name of
      Inl e \<Rightarrow> Inl (WrapError (''read built-in template '' @ name) e) | Inr content \<Rightarrow> Inr content)"

text \<open>\<open>prettyJSON\<close> of a pointer: nothing, or a value that cannot be marshalled, is an empty object.\<close>

definition pretty_json :: "('a \<Rightarrow> error + string) \<Rightarrow> 'a option \<Rightarrow> string" where
  "pretty_json marshal v = (case v of
      None \<Rightarrow> ''{}''
    | Some x \<Rightarrow> (case marshal x of Inl e \<Rightarrow> ''{}'' | Inr text \<Rightarrow> text))"

definition buildRevisionContext :: "input_api \<Rightarrow> AgenticRun \<Rightarrow> error + string" where
  "buildRevisionContext I run = (case readBuiltinTemplate I ''templates/revision_context.tmpl'' of
      Inl e \<Rightarrow> Inl e
    | Inr tmpl \<Rightarrow> renderTemplate I tmpl (RevisionQuery (mGeneration (rMeta run)) (mName (rMeta run)) (mNamespace (rMeta run))
        (spRevisionFeedback (rSpec run))))"

definition escalation_query :: "AgenticRun \<Rightarrow> string \<Rightarrow> query_data" where
  "escalation_query run resultNamespace = EscalationQuery (mName (rMeta run)) (mNamespace (rMeta run)) resultNamespace (spRequest (rSpec run))
     (ssResults (stAnalysis (steps run))) (ssResults (stExecution (steps run))) (ssResults (stVerification (steps run)))"

definition buildEscalationRequest :: "input_api \<Rightarrow> AgenticRun \<Rightarrow> string \<Rightarrow> error + string" where
  "buildEscalationRequest I run resultNamespace = (case readBuiltinTemplate I ''templates/escalation_request.tmpl'' of
      Inl e \<Rightarrow> Inl e | Inr tmpl \<Rightarrow> renderTemplate I tmpl (escalation_query run resultNamespace))"

definition analysis_query :: "AgenticRun \<Rightarrow> string \<Rightarrow> query_data" where
  "analysis_query run request =
     AnalysisQuery request (\<not> AgenticRunStep_IsZero (spExecution (rSpec run))) (\<not> AgenticRunStep_IsZero (spVerification (rSpec run)))"

definition buildAnalysisQuery :: "input_api \<Rightarrow> string \<Rightarrow> AgenticRun \<Rightarrow> error + string" where
  "buildAnalysisQuery I requestText run = (case readBuiltinTemplate I ''templates/analysis_query.tmpl'' of
      Inl e \<Rightarrow> Inl e | Inr tmpl \<Rightarrow> renderTemplate I tmpl (analysis_query run requestText))"

section \<open>Prompts\<close>

definition step_instructions :: "Agent option \<Rightarrow> string \<Rightarrow> StepInstructions option" where
  "step_instructions agent step = (case agent of
      None \<Rightarrow> None
    | Some a \<Rightarrow> (case agInstructions a of
        None \<Rightarrow> None
      | Some i \<Rightarrow>
          if step = ''analysis'' then inAnalysis i else if step = ''execution'' then inExecution i
          else if step = ''verification'' then inVerification i else if step = ''escalation'' then inEscalation i else None))"

definition resolveStepPrompts :: "input_api \<Rightarrow> Agent option \<Rightarrow> string \<Rightarrow> string \<Rightarrow> error + string \<times> string" where
  "resolveStepPrompts I agent step builtinTemplate =
    (let si = step_instructions agent step;
         systemPrompt = (case si of None \<Rightarrow> '''' | Some s \<Rightarrow> siSystemPrompt s);
         userPrompt = (case si of None \<Rightarrow> '''' | Some s \<Rightarrow> siUserPrompt s) in
     if userPrompt \<noteq> '''' then Inr (systemPrompt, userPrompt)
     else map_sum id (\<lambda>tmpl. (systemPrompt, tmpl)) (readBuiltinTemplate I builtinTemplate))"

text \<open>The analysis request, with the revision feedback appended if there is any.\<close>

definition analysis_request :: "input_api \<Rightarrow> AgenticRun \<Rightarrow> error + string" where
  "analysis_request I run =
    (if spRevisionFeedback (rSpec run) \<noteq> ''''
     then map_sum id (\<lambda>revCtx. spRequest (rSpec run) @ [char_of (10 :: nat), char_of (10 :: nat)] @ revCtx) (buildRevisionContext I run)
     else Inr (spRequest (rSpec run)))"

definition render_with :: "input_api \<Rightarrow> Agent option \<Rightarrow> string \<Rightarrow> string \<Rightarrow> (error + query_data) \<Rightarrow> error + string \<times> string" where
  "render_with I agent step builtin data = (case resolveStepPrompts I agent step builtin of
      Inl e \<Rightarrow> Inl e
    | Inr (systemPrompt, tmpl) \<Rightarrow> (case data of
        Inl e \<Rightarrow> Inl e
      | Inr d \<Rightarrow> map_sum id (\<lambda>query. (systemPrompt, query)) (renderTemplate I tmpl d)))"

definition resolvePrompts :: "input_api \<Rightarrow> Agent option \<Rightarrow> string \<Rightarrow> string \<Rightarrow> AgenticRun \<Rightarrow> agentContext \<Rightarrow> error + string \<times> string" where
  "resolvePrompts I agent step operatorNamespace run agentCtx =
    (if step = ''analysis''
     then render_with I agent step ''templates/analysis_query.tmpl'' (map_sum id (analysis_query run) (analysis_request I run))
     else if step = ''execution''
     then render_with I agent step ''templates/execution_query.tmpl''
       (Inr (ExecutionQuery (pretty_json (prettyOption I) (acApprovedOption agentCtx))))
     else if step = ''verification''
     then render_with I agent step ''templates/verification_query.tmpl''
       (Inr (VerificationQuery (pretty_json (prettyOption I) (acApprovedOption agentCtx))
         (pretty_json (prettyExecution I) (acExecutionResult agentCtx))))
     else if step = ''escalation''
     then render_with I agent step ''templates/escalation_request.tmpl'' (Inr (escalation_query run operatorNamespace))
     else Inr ('''', ''''))"

section \<open>The ConfigMap\<close>

definition result_template_kind :: "string \<rightharpoonup> string" where
  "result_template_kind = [''analysis'' \<mapsto> ''AnalysisResult'', ''execution'' \<mapsto> ''ExecutionResult'', ''verification'' \<mapsto> ''VerificationResult'',
     ''escalation'' \<mapsto> ''EscalationResult'']"

definition buildResultTemplate :: "input_api \<Rightarrow> AgenticRun \<Rightarrow> string \<Rightarrow> string \<Rightarrow> error + string" where
  "buildResultTemplate I run step namespace = (case result_template_kind step of
      None \<Rightarrow> Inl (NewError (''build result template: unknown step '' @ quote_name step))
    | Some kind \<Rightarrow>
        (case marshalResult I ''agentic.openshift.io/v1alpha1'' kind
            (new_meta (resultCRName (mName (rMeta run)) step (nextResultIndex run step)) namespace
              (resultLabels (mUID (rMeta run)) step) Map.empty [agenticRunOwnerRef run]) (mName (rMeta run)) of
           Inl e \<Rightarrow> Inl (WrapError ''marshal result template'' e)
         | Inr raw \<Rightarrow> Inr raw))"

definition inputConfigMapName :: "string \<Rightarrow> string \<Rightarrow> string" where
  "inputConfigMapName step uid = ''ls-'' @ step @ ''-'' @ uid"

definition buildInputConfigMap ::
    "input_api \<Rightarrow> string \<Rightarrow> AgenticRun \<Rightarrow> string \<Rightarrow> Agent option \<Rightarrow> string \<Rightarrow> agentContext option \<Rightarrow>
     error + ObjectMeta \<times> (string \<rightharpoonup> string)" where
  "buildInputConfigMap I operatorNamespace run step agent schema agentCtx =
    (let ctx = (case agentCtx of None \<Rightarrow> \<lparr>acPreviousAttempts = [], acApprovedOption = None, acExecutionResult = None\<rparr> | Some c \<Rightarrow> c) in
     case marshalContext I ctx of
       Inl e \<Rightarrow> Inl (WrapError ''marshal input context'' e)
     | Inr ctxJSON \<Rightarrow> (case buildResultTemplate I run step operatorNamespace of
         Inl e \<Rightarrow> Inl (WrapError ''build input ConfigMap'' e)
       | Inr tmpl \<Rightarrow> (case resolvePrompts I agent step operatorNamespace run ctx of
           Inl e \<Rightarrow> Inl (WrapError (''resolve prompts for step '' @ step) e)
         | Inr (systemPrompt, query) \<Rightarrow>
             let data = [''query'' \<mapsto> query, ''output-schema'' \<mapsto> schema, ''context'' \<mapsto> ctxJSON, ''result-template'' \<mapsto> tmpl] in
             Inr (new_meta (inputConfigMapName step (mUID (rMeta run))) operatorNamespace
                 [LabelRun \<mapsto> mUID (rMeta run), LabelStep \<mapsto> step] Map.empty [agenticRunOwnerRef run],
               (if systemPrompt \<noteq> '''' then data(''system-prompt'' \<mapsto> systemPrompt) else data)))))"

text \<open>Every rendered query respects the limit on its size.\<close>

lemma renderTemplate_bound: "renderTemplate I tmpl data = Inr text \<Longrightarrow> length text \<le> 131072"
  by (auto simp: renderTemplate_def maxRenderedTemplateSize_def split: option.splits sum.splits if_splits)

lemma map_sum_Inr_iff: "map_sum id f x = Inr y \<longleftrightarrow> (\<exists>z. x = Inr z \<and> f z = y)"
  by (cases x) auto

lemma resolvePrompts_bound:
  assumes "resolvePrompts I agent step ns run ctx = Inr (systemPrompt, query)"
  shows "length query \<le> 131072"
proof -
  have "length q \<le> 131072" if "render_with I agent step b d = Inr (s, q)" for s q b d
    using that renderTemplate_bound unfolding render_with_def by (auto simp: map_sum_Inr_iff split: sum.splits)
  then show ?thesis using assms by (auto simp: resolvePrompts_def split: if_splits)
qed

end
