(* ===== verification/AgentAdmission.thy ===== *)
theory AgentAdmission
  imports InputConfigMap
begin

text \<open>
  The validating webhook for agents (\<^verbatim>\<open>controller/agenticrun/webhooks.go\<close>). It ranges over a map of the four steps, so the order in which the
  steps are looked at is a parameter: the verdict does not depend on it, only the message can. What the webhook admits is what the
  prompts are rendered from later. The webhook parses a prompt under the name of its step, the rendering under the name \<open>custom\<close>; this makes a
  difference for a prompt that defines a template of that name (\<open>custom_definition_not_caught\<close>).
\<close>

definition maxPromptLength :: nat where
  "maxPromptLength = 32768"

datatype AgentResponse = AgentAllowed string | AgentDenied string | AgentErrored nat error

definition agent_steps :: "string list" where
  "agent_steps = [''analysis'', ''execution'', ''verification'', ''escalation'']"

definition too_long :: "string \<Rightarrow> string \<Rightarrow> string" where
  "too_long step field =
     ''spec.instructions.'' @ step @ ''.'' @ field @ '': must not exceed '' @ decimal maxPromptLength @ '' characters''"

text \<open>What is wrong with the instructions of a step, if anything.\<close>

definition prompt_issue :: "input_api \<Rightarrow> string \<Rightarrow> StepInstructions \<Rightarrow> string option" where
  "prompt_issue I step si =
    (if length (runes (siSystemPrompt si)) > maxPromptLength then Some (too_long step ''systemPrompt'')
     else if siUserPrompt si = '''' then None
     else if length (runes (siUserPrompt si)) > maxPromptLength then Some (too_long step ''userPrompt'')
     else map_option (\<lambda>e. ''spec.instructions.'' @ step @ ''.userPrompt: invalid Go template: '' @ err_text e)
       (parseTemplate I step (siUserPrompt si)))"

text \<open>The loop, which stops at the first issue.\<close>

fun check_prompts :: "input_api \<Rightarrow> Agent \<Rightarrow> string list \<Rightarrow> string option" where
  "check_prompts I agent [] = None"
| "check_prompts I agent (step # rest) = (case step_instructions (Some agent) step of
      None \<Rightarrow> check_prompts I agent rest
    | Some si \<Rightarrow> (case prompt_issue I step si of
        Some msg \<Rightarrow> Some msg
      | None \<Rightarrow> check_prompts I agent rest))"

definition AgentValidator_Handle :: "input_api \<Rightarrow> string list \<Rightarrow> error + Agent \<Rightarrow> AgentResponse" where
  "AgentValidator_Handle I order object = (case object of
      Inl e \<Rightarrow> AgentErrored 400 e
    | Inr agent \<Rightarrow>
        if agInstructions agent = None then AgentAllowed ''no instructions configured''
        else (case check_prompts I agent order of
            Some msg \<Rightarrow> AgentDenied msg
          | None \<Rightarrow> AgentAllowed ''templates valid''))"

section \<open>Admitted agents\<close>

fun is_allowed :: "AgentResponse \<Rightarrow> bool" where
  "is_allowed (AgentAllowed _) = True"
| "is_allowed _ = False"

lemma check_prompts_None:
  "check_prompts I agent order = None \<longleftrightarrow>
     list_all (\<lambda>step. case step_instructions (Some agent) step of None \<Rightarrow> True | Some si \<Rightarrow> prompt_issue I step si = None) order"
  by (induction order) (auto split: option.splits)

lemma allowed_steps:
  assumes "is_allowed (AgentValidator_Handle I order (Inr agent))" and "set order = set agent_steps"
    and "step_instructions (Some agent) step = Some si"
  shows "prompt_issue I step si = None"
proof -
  have "step \<in> set agent_steps" using assms(3)
    by (auto simp: step_instructions_def agent_steps_def split: option.splits if_splits)
  moreover have "agInstructions agent \<noteq> None" using assms(3) by (auto simp: step_instructions_def split: option.splits)
  ultimately show ?thesis
    using assms by (auto simp: AgentValidator_Handle_def check_prompts_None list_all_iff split: option.splits)
qed

text \<open>
  The verdict on an agent does not depend on the order in which the steps are visited: an agent is admitted if and only if every prompt has
  at most 32768 characters and every user prompt is a template that parses under the name of its step.
\<close>
theorem admission_verdict:
  assumes "set order = set agent_steps"
  shows "is_allowed (AgentValidator_Handle I order (Inr agent)) \<longleftrightarrow>
    list_all (\<lambda>step. case step_instructions (Some agent) step of
        None \<Rightarrow> True
      | Some si \<Rightarrow> length (runes (siSystemPrompt si)) \<le> maxPromptLength \<and> length (runes (siUserPrompt si)) \<le> maxPromptLength \<and>
          (siUserPrompt si = [] \<or> parseTemplate I step (siUserPrompt si) = None)) agent_steps"
proof -
  have issue: "prompt_issue I step si = None \<longleftrightarrow> length (runes (siSystemPrompt si)) \<le> maxPromptLength \<and>
      length (runes (siUserPrompt si)) \<le> maxPromptLength \<and> (siUserPrompt si = [] \<or> parseTemplate I step (siUserPrompt si) = None)" for step si
    by (auto simp: prompt_issue_def)
  have none: "step_instructions (Some agent) step = None" if "agInstructions agent = None" for step
    using that by (simp add: step_instructions_def)
  show ?thesis
  proof (cases "agInstructions agent = None")
    case True
    then show ?thesis by (simp add: AgentValidator_Handle_def none list_all_iff)
  next
    case False
    then have "is_allowed (AgentValidator_Handle I order (Inr agent)) \<longleftrightarrow> check_prompts I agent order = None"
      by (auto simp: AgentValidator_Handle_def split: option.splits)
    then show ?thesis unfolding check_prompts_None issue list_all_iff assms .
  qed
qed

section \<open>Prompts of admitted agents\<close>

text \<open>The template files that are compiled into the operator, and what is expected of them.\<close>

definition builtin_templates :: "string list" where
  "builtin_templates = [''templates/analysis_query.tmpl'', ''templates/execution_query.tmpl'', ''templates/verification_query.tmpl'',
     ''templates/escalation_request.tmpl'', ''templates/revision_context.tmpl'']"

definition builtins_ok :: "input_api \<Rightarrow> bool" where
  "builtins_ok I \<longleftrightarrow> list_all (\<lambda>f. case readTemplateFile I f of Inl e \<Rightarrow> False | Inr t \<Rightarrow> parseTemplate I ''custom'' t = None) builtin_templates"

text \<open>
  What \<^verbatim>\<open>text/template\<close> promises of names: a text that parses under some name also parses under any name it does not define itself.
\<close>

definition parses_under_new_names :: "input_api \<Rightarrow> bool" where
  "parses_under_new_names I \<longleftrightarrow>
     (\<forall>name name' t. parseTemplate I name t = None \<and> name' \<notin> set (definedTemplates I t) \<longrightarrow> parseTemplate I name' t = None)"

definition execution_error :: "error \<Rightarrow> bool" where
  "execution_error e \<longleftrightarrow> (\<exists>x. e = WrapError ''template exec'' x)"

lemma parses_under_new_namesD:
  "parses_under_new_names I \<Longrightarrow> parseTemplate I name t = None \<Longrightarrow> name' \<notin> set (definedTemplates I t) \<Longrightarrow> parseTemplate I name' t = None"
  unfolding parses_under_new_names_def by blast

lemma builtin_read:
  assumes "builtins_ok I" and "f \<in> set builtin_templates"
  shows "\<exists>t. readBuiltinTemplate I f = Inr t \<and> parseTemplate I ''custom'' t = None"
  using assms by (force simp: builtins_ok_def list_all_iff readBuiltinTemplate_def split: sum.splits)

lemma render_parsed: "parseTemplate I ''custom'' t = None \<Longrightarrow> renderTemplate I t d = Inl e \<Longrightarrow> execution_error e"
  by (auto simp: renderTemplate_def execution_error_def split: sum.splits if_splits)

lemma map_sum_Inl_iff: "map_sum id f x = Inl e \<longleftrightarrow> x = Inl e"
  by (cases x) auto

lemma request_error:
  assumes "builtins_ok I" and "analysis_request I run = Inl e"
  shows "execution_error e"
proof -
  obtain t where "readBuiltinTemplate I ''templates/revision_context.tmpl'' = Inr t" "parseTemplate I ''custom'' t = None"
    using builtin_read [OF assms(1), of "''templates/revision_context.tmpl''"] by (auto simp: builtin_templates_def)
  with assms(2) show ?thesis
    by (auto simp: analysis_request_def buildRevisionContext_def map_sum_Inl_iff split: if_splits dest: render_parsed)
qed

lemma render_with_error:
  assumes "builtins_ok I" and "is_allowed (AgentValidator_Handle I order (Inr agent))" and "set order = set agent_steps"
    and "f \<in> set builtin_templates" and d: "\<And>e. d = Inl e \<Longrightarrow> execution_error e"
    and "render_with I (Some agent) step f d = Inl e" and names: "parses_under_new_names I"
    and plain: "\<And>si. step_instructions (Some agent) step = Some si \<Longrightarrow> ''custom'' \<notin> set (definedTemplates I (siUserPrompt si))"
  shows "execution_error e"
proof -
  obtain t where t: "readBuiltinTemplate I f = Inr t" "parseTemplate I ''custom'' t = None" using builtin_read [OF assms(1,4)] by blast
  have "\<exists>s t'. resolveStepPrompts I (Some agent) step f = Inr (s, t') \<and> parseTemplate I ''custom'' t' = None"
  proof (cases "step_instructions (Some agent) step")
    case (Some si)
    from allowed_steps [OF assms(2,3) this] have "siUserPrompt si = [] \<or> parseTemplate I step (siUserPrompt si) = None"
      by (auto simp: prompt_issue_def split: if_splits)
    then have "siUserPrompt si = [] \<or> parseTemplate I ''custom'' (siUserPrompt si) = None"
      using parses_under_new_namesD [OF names _ plain [OF Some]] by metis
    with Some t show ?thesis by (auto simp: resolveStepPrompts_def Let_def)
  qed (use t in \<open>simp add: resolveStepPrompts_def\<close>)
  then obtain s t' where "resolveStepPrompts I (Some agent) step f = Inr (s, t')" "parseTemplate I ''custom'' t' = None" by blast
  with assms(6) d show ?thesis
    by (auto simp: render_with_def map_sum_Inl_iff split: sum.splits dest: render_parsed)
qed

text \<open>
  C33: For an agent that the webhook admits and whose user prompt for the step does not itself define a template named \<open>custom\<close>, and
  with built-in templates that parse, building the prompts of the step never fails because a template does not parse or cannot be found:
  the only error left is that the template's execution fails or its output is too large. The template engine is only relied on to
  parse, under a name the text does not define, what it parses under some name.
\<close>
theorem admitted_agents_render:
  assumes "is_allowed (AgentValidator_Handle I order (Inr agent))" and "set order = set agent_steps" and "builtins_ok I"
    and "resolvePrompts I (Some agent) step ns run ctx = Inl e" and names: "parses_under_new_names I"
    and plain: "\<And>si. step_instructions (Some agent) step = Some si \<Longrightarrow> ''custom'' \<notin> set (definedTemplates I (siUserPrompt si))"
  shows "execution_error e"
proof -
  have render: "f \<in> set builtin_templates \<longrightarrow> (\<forall>e. d = Inl e \<longrightarrow> execution_error e) \<longrightarrow>
      render_with I (Some agent) step f d = Inl e \<longrightarrow> execution_error e" for f d
    using render_with_error [OF assms(3,1,2) _ _ _ names plain] by blast
  have request: "execution_error e" if "map_sum id (analysis_query run) (analysis_request I run) = Inl e" for e
    using that request_error [OF assms(3)] by (simp add: map_sum_Inl_iff)
  consider "step = ''analysis''" | "step = ''execution''" | "step = ''verification''" | "step = ''escalation''"
    using assms(4) by (auto simp: resolvePrompts_def split: if_splits)
  then have "\<exists>f d. f \<in> set builtin_templates \<and> (\<forall>e. d = Inl e \<longrightarrow> execution_error e) \<and> resolvePrompts I (Some agent) step ns run ctx =
      render_with I (Some agent) step f d"
  proof cases
    case 1
    then show ?thesis using request
      by (intro exI [of _ "''templates/analysis_query.tmpl''"] exI [of _ "map_sum id (analysis_query run) (analysis_request I run)"])
        (simp add: resolvePrompts_def builtin_templates_def)
  qed (force simp: resolvePrompts_def builtin_templates_def)+
  with assms(4) render show ?thesis by metis
qed

section \<open>An example\<close>

text \<open>A prompt that defines a template named \<open>custom\<close> beside other text, and an engine that refuses a second definition of its own name.\<close>

definition custom_definition :: string where
  "custom_definition = ''{{define `custom`}}a{{end}}b''"

definition template_api :: input_api where
  "template_api = \<lparr>parseTemplate = (\<lambda>name t. if t = ''{{'' then Some (NewError ''unclosed action'')
       else if name = ''custom'' \<and> t = custom_definition then Some (NewError ''multiple definition of template'') else None),
     executeTemplate = (\<lambda>_ t _. if t = ''{{.Missing}}'' then Inl (NewError ''no such field'') else Inr t),
     definedTemplates = (\<lambda>t. if t = custom_definition then [''custom''] else []),
     readTemplateFile = (\<lambda>_. Inr ''{{.Request}}''), marshalContext = (\<lambda>_. Inr ''{}''), marshalResult = (\<lambda>_ _ _ _. Inr ''{}''),
     prettyOption = (\<lambda>_. Inr ''{}''), prettyExecution = (\<lambda>_. Inr ''{}''), outputSchemaForStep = (\<lambda>_ _. ''{}'')\<rparr>"

definition prompted_agent :: "string \<Rightarrow> Agent" where
  "prompted_agent prompt = sample_agent\<lparr>agInstructions := Some
     \<lparr>inAnalysis = Some \<lparr>siSystemPrompt = ''be brief'', siUserPrompt = prompt\<rparr>, inExecution = None, inVerification = None, inEscalation = None\<rparr>\<rparr>"

lemmas example_defs = template_api_def prompted_agent_def step_instructions_def agent_steps_def custom_definition_def

lemma prompted_allowed:
  "is_allowed (AgentValidator_Handle template_api agent_steps (Inr (prompted_agent ''{{.Missing}}'')))"
  by (simp add: AgentValidator_Handle_def example_defs prompt_issue_def maxPromptLength_def runes_ascii)

theorem admission_verdict_witness:
  "set (rev agent_steps) = set agent_steps \<and>
   is_allowed (AgentValidator_Handle template_api (rev agent_steps) (Inr (prompted_agent ''{{.Missing}}''))) \<and>
   \<not> is_allowed (AgentValidator_Handle template_api (rev agent_steps) (Inr (prompted_agent ''{{'')))"
proof (intro conjI)
  show same: "set (rev agent_steps) = set agent_steps" by simp
  show "is_allowed (AgentValidator_Handle template_api (rev agent_steps) (Inr (prompted_agent ''{{.Missing}}'')))"
    unfolding admission_verdict [OF same] by (simp add: example_defs maxPromptLength_def runes_ascii)
  show "\<not> is_allowed (AgentValidator_Handle template_api (rev agent_steps) (Inr (prompted_agent ''{{'')))"
    unfolding admission_verdict [OF same] by (simp add: example_defs)
qed

theorem admitted_agents_render_witness:
  "\<exists>e. resolvePrompts template_api (Some (prompted_agent ''{{.Missing}}'')) ''analysis'' ''ops'' sample_run
      \<lparr>acPreviousAttempts = [], acApprovedOption = None, acExecutionResult = None\<rparr> = Inl e \<and> execution_error e"
proof -
  let ?ctx = "\<lparr>acPreviousAttempts = [], acApprovedOption = None, acExecutionResult = None\<rparr>"
  have fails: "resolvePrompts template_api (Some (prompted_agent ''{{.Missing}}'')) ''analysis'' ''ops'' sample_run ?ctx =
      Inl (WrapError ''template exec'' (NewError ''no such field''))"
    by (simp add: resolvePrompts_def render_with_def resolveStepPrompts_def renderTemplate_def analysis_request_def sample_run_def example_defs)
  have "builtins_ok template_api"
    by (simp add: builtins_ok_def builtin_templates_def template_api_def custom_definition_def)
  moreover have "parses_under_new_names template_api"
    by (auto simp: parses_under_new_names_def template_api_def)
  moreover have "''custom'' \<notin> set (definedTemplates template_api (siUserPrompt si))"
    if "step_instructions (Some (prompted_agent ''{{.Missing}}'')) ''analysis'' = Some si" for si
    using that by (auto simp: example_defs)
  ultimately show ?thesis
    using admitted_agents_render [OF prompted_allowed refl _ fails] fails by blast
qed

text \<open>
  The restriction on the prompt is needed: an engine that keeps the promise may admit a prompt under the name of its step and refuse to
  parse it under the name \<open>custom\<close>, so that every launch of the step fails.
\<close>

theorem custom_definition_not_caught:
  "parses_under_new_names template_api \<and>
   is_allowed (AgentValidator_Handle template_api agent_steps (Inr (prompted_agent custom_definition))) \<and>
   resolvePrompts template_api (Some (prompted_agent custom_definition)) ''analysis'' ''ops'' sample_run ctx =
     Inl (WrapError ''template parse'' (NewError ''multiple definition of template''))"
proof (intro conjI)
  show "parses_under_new_names template_api"
    by (auto simp: parses_under_new_names_def template_api_def)
  show "is_allowed (AgentValidator_Handle template_api agent_steps (Inr (prompted_agent custom_definition)))"
    by (simp add: AgentValidator_Handle_def example_defs prompt_issue_def maxPromptLength_def runes_ascii)
  show "resolvePrompts template_api (Some (prompted_agent custom_definition)) ''analysis'' ''ops'' sample_run ctx =
     Inl (WrapError ''template parse'' (NewError ''multiple definition of template''))"
    by (simp add: resolvePrompts_def render_with_def resolveStepPrompts_def renderTemplate_def analysis_request_def sample_run_def example_defs)
qed

end
