(* ===== verification/ReaderBindings.thy ===== *)
theory ReaderBindings
  imports SandboxOps
begin

text \<open>
  Reader access of a sandbox's service account (\<^verbatim>\<open>controller/agenticrun/rbac.go\<close>). Cluster role bindings that name the shared
  service account are discovered once and cached for the process; each sandbox gets its own binding to the same role. The cache is a global of the
  process that other goroutines read and reset, so a load of it is an event whose answer is free.
\<close>

section \<open>Names and labels\<close>

definition defaultSandboxSA :: string where
  "defaultSandboxSA = ''lightspeed-agent''"

definition LabelSpokeCluster :: string where
  [go_consts]: "LabelSpokeCluster = ''hub.openshift.io/spoke-cluster''"
definition LabelAgenticRun :: string where
  [go_consts]: "LabelAgenticRun = ''hub.openshift.io/agentic-run''"
definition maxLabelValueLen :: nat where
  "maxLabelValueLen = 63"

definition truncateLabelValue :: "SmManager \<Rightarrow> string \<Rightarrow> string" where
  "truncateLabelValue M v =
    (if length v \<le> maxLabelValueLen then v else take (maxLabelValueLen - 8) v @ ''-'' @ take 7 (sha256_hex M v))"

definition spokeExtraLabels :: "SmManager \<Rightarrow> string \<Rightarrow> string \<Rightarrow> string \<rightharpoonup> string" where
  "spokeExtraLabels M runName targetCluster =
     [LabelSpokeCluster \<mapsto> truncateLabelValue M targetCluster, LabelAgenticRun \<mapsto> truncateLabelValue M runName]"

definition spokeLabels :: "SmManager \<Rightarrow> string \<Rightarrow> string \<Rightarrow> string \<Rightarrow> string \<Rightarrow> string \<rightharpoonup> string" where
  "spokeLabels M runUID runName targetCluster component =
     [LabelRun \<mapsto> runUID, LabelComponent \<mapsto> component] ++ spokeExtraLabels M runName targetCluster"

definition readerBindingName :: "SmManager \<Rightarrow> string \<Rightarrow> string \<Rightarrow> string \<Rightarrow> string" where
  "readerBindingName M runUID step sourceName =
     truncateK8sName (''ls-reader-'' @ stepAbbrev step @ ''-'' @ runUID @ ''-'' @ take 8 (sha256_hex M sourceName))"

section \<open>Discovery\<close>

definition is_sandbox_sa :: "string \<Rightarrow> Subject \<Rightarrow> bool" where
  "is_sandbox_sa namespace s \<longleftrightarrow> sjKind s = ''ServiceAccount'' \<and> sjName s = defaultSandboxSA \<and> sjNamespace s = namespace"

text \<open>What a watch delivers: a binding, a tombstone around one, or something else.\<close>

datatype watch_object = BindingObject RbacObject | Tombstone watch_object | OtherObject

fun readerBindingReferencesServiceAccount :: "watch_object \<Rightarrow> string \<Rightarrow> bool" where
  "readerBindingReferencesServiceAccount (BindingObject b) namespace = list_ex (is_sandbox_sa namespace) (roSubjects b)"
| "readerBindingReferencesServiceAccount (Tombstone obj) namespace = readerBindingReferencesServiceAccount obj namespace"
| "readerBindingReferencesServiceAccount OtherObject namespace = False"

definition invalidateReaderBindings :: "unit smop" where
  "invalidateReaderBindings = storeReaders []"

definition discoverReaderBindings :: "SmManager \<Rightarrow> string \<Rightarrow> (error + string list) smop" where
  "discoverReaderBindings M operatorNS = do {
     l \<leftarrow> smListBindings M;
     case l of
       Inl e \<Rightarrow> State_Monad.return (Inl (WrapError ''list ClusterRoleBindings for reader discovery'' e))
     | Inr items \<Rightarrow>
         let names = map (\<lambda>b. kName (roKey b)) (filter (\<lambda>b. list_ex (is_sandbox_sa operatorNS) (roSubjects b)) items) in
         if length names = 0 then State_Monad.return (Inl (NewError (''no ClusterRoleBinding found with subject '' @ operatorNS @
           ''/'' @ defaultSandboxSA @ '' '' @ bytes [226, 128, 148] @ '' ensure reader RBAC is configured'')))
         else do {
           storeReaders names;
           State_Monad.return (Inr names)
         }
   }"

definition resolveReaderBindings :: "SmManager \<Rightarrow> string \<Rightarrow> (error + string list) smop" where
  "resolveReaderBindings M operatorNS = do {
     names \<leftarrow> loadReaders M;
     if length names > 0 then State_Monad.return (Inr names) else discoverReaderBindings M operatorNS
   }"

section \<open>Bindings on the hub\<close>

text \<open>\<open>errReaderBindingsStale\<close> is a sentinel the caller tests for.\<close>

datatype reader_error = StaleBindings error | ReaderError error

definition reader_subject :: "string \<Rightarrow> string \<Rightarrow> Subject" where
  "reader_subject saName namespace = \<lparr>sjKind = ''ServiceAccount'', sjName = saName, sjNamespace = namespace\<rparr>"

definition reader_binding :: "SmManager \<Rightarrow> string \<Rightarrow> string \<Rightarrow> string \<Rightarrow> string \<Rightarrow> string \<Rightarrow> RbacObject \<Rightarrow> RbacObject" where
  "reader_binding M runUID step saName namespace sourceName source =
     \<lparr>roKind = ClusterRoleBindingK, roKey = \<lparr>kName = readerBindingName M runUID step sourceName, kNamespace = ''''\<rparr>,
      roLabels = [LabelRun \<mapsto> runUID, LabelStep \<mapsto> step, LabelComponent \<mapsto> ''reader-rbac''],
      roRules = [], roRoleRef = roRoleRef source, roSubjects = [reader_subject saName namespace]\<rparr>"

text \<open>\<open>cleanupCreated\<close>: the deletions' errors are only logged.\<close>

fun cleanup_created :: "SmManager \<Rightarrow> Cluster \<Rightarrow> string list \<Rightarrow> unit smop" where
  "cleanup_created M c [] = State_Monad.return ()"
| "cleanup_created M c (name # names) = do {
     lift_op M (\<lambda>K. deleteObject K c ClusterRoleBindingK \<lparr>kName = name, kNamespace = ''''\<rparr>);
     cleanup_created M c names
   }"

definition roll_back :: "SmManager \<Rightarrow> Cluster \<Rightarrow> string list \<Rightarrow> 'e \<Rightarrow> 'e option smop" where
  "roll_back M c created e = do {
     cleanup_created M c created;
     State_Monad.return (Some e)
   }"

definition owned_reader :: "string \<Rightarrow> string \<Rightarrow> RbacObject \<Rightarrow> bool" where
  "owned_reader runUID step b \<longleftrightarrow> lookup (roLabels b) LabelRun = runUID \<and> lookup (roLabels b) LabelStep = step \<and>
     lookup (roLabels b) LabelComponent = ''reader-rbac''"

definition reader_msg :: string where
  "reader_msg = ''add subject to reader ClusterRoleBinding''"

text \<open>The loop of \<open>addReaderSubjectForBindings\<close>, with the names created so far.\<close>

fun add_bindings :: "SmManager \<Rightarrow> string \<Rightarrow> string \<Rightarrow> string \<Rightarrow> string \<Rightarrow> string list \<Rightarrow> string list \<Rightarrow> reader_error option smop" where
  "add_bindings M runUID step saName ns [] created = State_Monad.return None"
| "add_bindings M runUID step saName ns (sourceName # names) created = do {
     s \<leftarrow> smGetBinding M Hub sourceName;
     case s of
       Inl e \<Rightarrow> roll_back M Hub created
         (if IsNotFound e then StaleBindings (WrapError (''cached reader bindings are stale: '' @ sourceName) e)
          else ReaderError (WrapError (reader_msg @ '' '' @ sourceName) e))
     | Inr source \<Rightarrow>
         let binding = reader_binding M runUID step saName ns sourceName source; name = kName (roKey binding) in
         do {
           r \<leftarrow> lift_op M (\<lambda>K. createRbac K Hub binding);
           case r of
             None \<Rightarrow> add_bindings M runUID step saName ns names (created @ [name])
           | Some e \<Rightarrow>
               if \<not> IsAlreadyExists e then roll_back M Hub created (ReaderError (WrapError (reader_msg @ '' '' @ name) e))
               else do {
                 x \<leftarrow> smGetBinding M Hub name;
                 case x of
                   Inl getErr \<Rightarrow> roll_back M Hub created (ReaderError (WrapError (reader_msg @ '' '' @ name @ '': get existing binding'') getErr))
                 | Inr existing \<Rightarrow>
                     if roRoleRef existing = roRoleRef binding \<and> roSubjects existing = roSubjects binding
                     then add_bindings M runUID step saName ns names created
                     else if \<not> owned_reader runUID step existing
                     then roll_back M Hub created (ReaderError (NewError (reader_msg @ '' '' @ name @ '': existing binding is not owned by this run'')))
                     else do {
                       d \<leftarrow> lift_op M (\<lambda>K. deleteIfExists K Hub ClusterRoleBindingK \<lparr>kName = name, kNamespace = ''''\<rparr>);
                       case d of
                         Some deleteErr \<Rightarrow> roll_back M Hub created (ReaderError (WrapError (reader_msg @ '' '' @ name @ '': delete stale binding'') deleteErr))
                       | None \<Rightarrow> do {
                           c \<leftarrow> lift_op M (\<lambda>K. createRbac K Hub binding);
                           case c of
                             Some createErr \<Rightarrow> roll_back M Hub created (ReaderError (WrapError (reader_msg @ '' '' @ name @ '': recreate binding'') createErr))
                           | None \<Rightarrow> add_bindings M runUID step saName ns names (created @ [name])
                         }
                     }
               }
         }
   }"

definition addReaderSubjectForBindings ::
    "SmManager \<Rightarrow> string \<Rightarrow> string \<Rightarrow> string \<Rightarrow> string \<Rightarrow> string list \<Rightarrow> reader_error option smop" where
  "addReaderSubjectForBindings M runUID step saName ns names = add_bindings M runUID step saName ns names []"

fun add_reader_attempts :: "SmManager \<Rightarrow> string \<Rightarrow> string \<Rightarrow> string \<Rightarrow> string \<Rightarrow> nat \<Rightarrow> error option smop" where
  "add_reader_attempts M runUID step saName ns 0 =
     State_Monad.return (Some (NewError (reader_msg @ '': cached reader bindings remained stale after refresh'')))"
| "add_reader_attempts M runUID step saName ns (Suc n) = do {
     r \<leftarrow> resolveReaderBindings M ns;
     case r of
       Inl e \<Rightarrow> State_Monad.return (Some (WrapError reader_msg e))
     | Inr names \<Rightarrow> do {
         err \<leftarrow> addReaderSubjectForBindings M runUID step saName ns names;
         case err of
           None \<Rightarrow> State_Monad.return None
         | Some (ReaderError e) \<Rightarrow> State_Monad.return (Some e)
         | Some (StaleBindings e) \<Rightarrow> do {
             storeReaders [];
             add_reader_attempts M runUID step saName ns n
           }
       }
   }"

definition addReaderSubject :: "SmManager \<Rightarrow> string \<Rightarrow> string \<Rightarrow> string \<Rightarrow> string \<Rightarrow> error option smop" where
  "addReaderSubject M runUID step saName namespace = add_reader_attempts M runUID step saName namespace 2"

section \<open>Bindings on a spoke\<close>

definition spoke_binding ::
    "string \<Rightarrow> string \<Rightarrow> string \<Rightarrow> string \<Rightarrow> (string \<rightharpoonup> string) \<Rightarrow> nat \<Rightarrow> RbacObject \<Rightarrow> RbacObject" where
  "spoke_binding runUID step saName spokeNS extraLabels i source =
     \<lparr>roKind = ClusterRoleBindingK, roKey = \<lparr>kName = perRunCRBName runUID step i, kNamespace = ''''\<rparr>,
      roLabels = rbacLabels runUID ''reader-rbac'' ++ extraLabels, roRules = [], roRoleRef = roRoleRef source,
      roSubjects = [reader_subject saName spokeNS]\<rparr>"

text \<open>\<open>cleanupCreatedCRBs\<close> is the same best-effort deletion as on the hub.\<close>

fun add_spoke_bindings ::
    "SmManager \<Rightarrow> Cluster \<Rightarrow> string \<Rightarrow> string \<Rightarrow> string \<Rightarrow> string \<Rightarrow> (string \<rightharpoonup> string) \<Rightarrow> (nat \<times> string) list \<Rightarrow> string list \<Rightarrow>
     error option smop" where
  "add_spoke_bindings M c runUID step saName spokeNS extraLabels [] created = State_Monad.return None"
| "add_spoke_bindings M c runUID step saName spokeNS extraLabels ((i, sourceName) # rest) created = do {
     s \<leftarrow> smGetBinding M c sourceName;
     case s of
       Inl e \<Rightarrow> roll_back M c created (WrapError (reader_msg @ '': get source '' @ sourceName) e)
     | Inr source \<Rightarrow>
         let crb = spoke_binding runUID step saName spokeNS extraLabels i source; crbName = kName (roKey crb) in
         do {
           r \<leftarrow> lift_op M (\<lambda>K. createRbac K c crb);
           case r of
             None \<Rightarrow> add_spoke_bindings M c runUID step saName spokeNS extraLabels rest (created @ [crbName])
           | Some e \<Rightarrow>
               if IsAlreadyExists e then add_spoke_bindings M c runUID step saName spokeNS extraLabels rest created
               else roll_back M c created (WrapError (''create ClusterRoleBinding '' @ crbName) e)
         }
   }"

definition addReaderSubjectOnSpoke ::
    "SmManager \<Rightarrow> Cluster \<Rightarrow> string \<Rightarrow> string \<Rightarrow> string \<Rightarrow> string \<Rightarrow> (string \<rightharpoonup> string) \<Rightarrow> error option smop" where
  "addReaderSubjectOnSpoke M c runUID step saName spokeNS extraLabels =
     add_spoke_bindings M c runUID step saName spokeNS extraLabels (enumerate 0 spokeReaderBindingNames) []"

end
