(* ===== verification/ReaderSafety.thy ===== *)
theory ReaderSafety
  imports ReaderBindings
begin

text \<open>
  What granting reader access guarantees: a sandbox's service account never gets a role that the shared account does not have, and
  no binding is deleted that the attempt has not created itself or read as its own.
\<close>

text \<open>
  A binding that is created copies the role of a binding read before and has the sandbox's account as its only subject; a deletion is of a
  binding created before for this account, or of one that was read under that name with the labels of the run and step.
\<close>

definition created_binding :: "Cluster \<Rightarrow> string \<Rightarrow> string \<Rightarrow> string \<Rightarrow> sm_history \<Rightarrow> bool" where
  "created_binding c sa ns name h \<longleftrightarrow>
     (\<exists>b. Base (EvCreateRbac c b None) \<in> set h \<and> kName (roKey b) = name \<and> roSubjects b = [reader_subject sa ns])"

definition read_own_binding :: "Cluster \<Rightarrow> string \<Rightarrow> string \<Rightarrow> string \<Rightarrow> sm_history \<Rightarrow> bool" where
  "read_own_binding c uid step name h \<longleftrightarrow>
     (\<exists>existing. SmGetBinding c name (Inr existing) \<in> set h \<and> owned_reader uid step existing)"

definition reader_step :: "Cluster \<Rightarrow> string \<Rightarrow> string \<Rightarrow> string \<Rightarrow> string \<Rightarrow> sm_history \<Rightarrow> sm_event \<Rightarrow> bool" where
  "reader_step c uid step sa ns h e \<longleftrightarrow> (case e of
      Base (EvCreateRbac c' b r) \<Rightarrow> c' = c \<and> roKind b = ClusterRoleBindingK \<and> roSubjects b = [reader_subject sa ns] \<and>
        lookup (roLabels b) LabelRun = uid \<and> lookup (roLabels b) LabelComponent = ''reader-rbac'' \<and>
        (\<exists>name source. SmGetBinding c name (Inr source) \<in> set h \<and> roRoleRef b = roRoleRef source)
    | Base (EvDelete c' kind key r) \<Rightarrow> c' = c \<and> kind = ClusterRoleBindingK \<and>
        (created_binding c sa ns (kName key) h \<or> read_own_binding c uid step (kName key) h)
    | SmCreate _ _ _ \<Rightarrow> False
    | SmDelete _ _ _ _ \<Rightarrow> False
    | _ \<Rightarrow> True)"

lemma reader_step_simps [simp]:
  "reader_step c uid step sa ns h (SmGetBinding c' n r)" "reader_step c uid step sa ns h (SmListBindings r1)"
  "reader_step c uid step sa ns h (SmLoadReaders ns1)" "reader_step c uid step sa ns h (SmStoreReaders ns1)"
  by (simp_all add: reader_step_def)

lemma created_append: "created_binding c sa ns name h \<Longrightarrow> created_binding c sa ns name (h @ es)"
  by (auto simp: created_binding_def)

text \<open>The histories an attempt goes through: everything it has recorded as created was created.\<close>

definition all_created :: "Cluster \<Rightarrow> string \<Rightarrow> string \<Rightarrow> string list \<Rightarrow> sm_history \<Rightarrow> bool" where
  "all_created c sa ns names h \<longleftrightarrow> list_all (\<lambda>name. created_binding c sa ns name h) names"

lemma all_created_simps [simp]:
  "all_created c sa ns [] h"
  "all_created c sa ns (n # names) h \<longleftrightarrow> created_binding c sa ns n h \<and> all_created c sa ns names h"
  "all_created c sa ns (xs @ ys) h \<longleftrightarrow> all_created c sa ns xs h \<and> all_created c sa ns ys h"
  by (simp_all add: all_created_def)

lemma all_created_append: "all_created c sa ns names h \<Longrightarrow> all_created c sa ns names (h @ es)"
  by (auto simp: all_created_def created_append list_all_iff)

lemma cleanup_created_wp:
  "all_created c sa ns names h \<Longrightarrow> wp (reader_step c uid step sa ns) (cleanup_created M c names) (\<lambda>_ _. True) h"
proof (induction names arbitrary: h)
  case (Cons name names)
  have "reader_step c uid step sa ns (h @ es) (Base (EvDelete c ClusterRoleBindingK \<lparr>kName = name, kNamespace = []\<rparr> r))" for es r
    using Cons.prems by (simp add: reader_step_def created_append)
  from this [of "[]"] Cons show ?case
    by (auto intro!: wp simp: all_created_append)
qed (auto intro: wp)

lemma roll_back_wp [wp]:
  "all_created c sa ns names h \<Longrightarrow> wp (reader_step c uid step sa ns) (roll_back M c names e) (\<lambda>_ _. True) h"
  unfolding roll_back_def by (intro wp wp_mono [OF cleanup_created_wp]) (simp_all add: wp_returnI)

lemma create_step:
  "SmGetBinding Hub name (Inr source) \<in> set h \<Longrightarrow>
     reader_step Hub uid step sa ns h (Base (EvCreateRbac Hub (reader_binding M uid step sa ns name source) r))"
  by (auto simp: reader_step_def reader_binding_def lookup_def go_consts)

lemma spoke_create_step:
  assumes "SmGetBinding c name (Inr source) \<in> set h" and "extra LabelRun = None" "extra LabelComponent = None"
  shows "reader_step c uid step sa ns h (Base (EvCreateRbac c (spoke_binding uid step sa ns extra i source) r))"
  using assms by (auto simp: reader_step_def spoke_binding_def rbacLabels_def lookup_def map_add_def go_consts)

lemma after_create:
  "Base (EvCreateRbac Hub (reader_binding M uid step sa ns name source) None) \<in> set h \<Longrightarrow>
     created_binding Hub sa ns (kName (roKey (reader_binding M uid step sa ns name source))) h"
  "Base (EvCreateRbac c (spoke_binding uid step sa ns extra i source) None) \<in> set h \<Longrightarrow>
     created_binding c sa ns (kName (roKey (spoke_binding uid step sa ns extra i source))) h"
  by (auto simp: created_binding_def reader_binding_def spoke_binding_def)

lemma delete_step:
  "SmGetBinding Hub name (Inr existing) \<in> set h \<Longrightarrow> owned_reader uid step existing \<Longrightarrow>
     reader_step Hub uid step sa ns h (Base (EvDelete Hub ClusterRoleBindingK \<lparr>kName = name, kNamespace = []\<rparr> r))"
  by (auto simp: reader_step_def read_own_binding_def)

lemma add_bindings_wp:
  "all_created Hub sa ns created h \<Longrightarrow> wp (reader_step Hub uid step sa ns) (add_bindings M uid step sa ns names created) (\<lambda>_ _. True) h"
proof (induction names arbitrary: created h)
  case (Cons sourceName names)
  show ?case
    unfolding add_bindings.simps Let_def deleteIfExists_def
    by (intro wp conjI Cons.IH; (simp add: Cons.prems create_step after_create all_created_append)?; (rule delete_step; simp)?)
qed (auto intro: wp)

lemma add_spoke_bindings_wp:
  assumes "extra LabelRun = None" "extra LabelComponent = None"
  shows "all_created c sa ns created h \<Longrightarrow>
    wp (reader_step c uid step sa ns) (add_spoke_bindings M c uid step sa ns extra names created) (\<lambda>_ _. True) h"
proof (induction names arbitrary: created h)
  case (Cons n names)
  obtain i sourceName where n: "n = (i, sourceName)" by (cases n)
  show ?case
    unfolding n add_spoke_bindings.simps Let_def
    by (intro wp conjI Cons.IH; (simp add: Cons.prems after_create all_created_append)?; (rule spoke_create_step [where name = sourceName]; simp add: assms)?)
qed (auto intro: wp)

lemma resolve_wp:
  "wp (reader_step c uid step sa ns) (resolveReaderBindings M ns') (\<lambda>_ _. True) h"
  unfolding resolveReaderBindings_def discoverReaderBindings_def Let_def by (intro wp conjI; simp)

lemma add_reader_attempts_wp:
  "wp (reader_step Hub uid step sa ns) (add_reader_attempts M uid step sa ns n) (\<lambda>_ _. True) h"
proof (induction n arbitrary: h)
  case (Suc n)
  have retry: "wp (reader_step Hub uid step sa ns) (case err of
        None \<Rightarrow> State_Monad.return None
      | Some (StaleBindings e) \<Rightarrow> storeReaders [] \<bind> (\<lambda>_. add_reader_attempts M uid step sa ns n)
      | Some (ReaderError e) \<Rightarrow> State_Monad.return (Some e)) (\<lambda>_ _. True) g" for err g
    by (auto intro!: wp Suc split: option.split reader_error.split)
  show ?case
    unfolding add_reader_attempts.simps addReaderSubjectForBindings_def
    by (intro wp wp_mono [OF resolve_wp] wp_mono [OF add_bindings_wp] retry; simp)
qed (auto intro: wp)

text \<open>
  C9: Granting reader access to a sandbox's service account on the hub only creates cluster role bindings whose single subject is that
  account, labelled with the run, whose role is the role of a binding that was read before; and it deletes a cluster
  role binding only if it was created before for this account, or was read under that name as a reader binding of the same run and step.
  This covers the second attempt with rediscovered bindings and every roll-back.
\<close>
theorem reader_bindings_safe:
  "good (reader_step Hub uid step sa ns) h (new_events (addReaderSubject M uid step sa ns) h)"
  unfolding addReaderSubject_def by (rule wp_new_events [OF add_reader_attempts_wp])

text \<open>
  The same on a spoke cluster, with the labels that tie the binding to the hub's run; every request goes to that cluster.
\<close>
theorem spoke_reader_bindings_safe:
  "good (reader_step c uid step sa ns) h
     (new_events (addReaderSubjectOnSpoke M c uid step sa ns (spokeExtraLabels M runName target)) h)"
  unfolding addReaderSubjectOnSpoke_def
  by (rule wp_new_events [OF add_spoke_bindings_wp]) (simp_all add: spokeExtraLabels_def go_consts)

end
