(* ===== verification/SandboxManager.thy ===== *)
theory SandboxManager
  imports ReaderBindings InputConfigMap
begin

text \<open>
  The sandbox manager (\<^verbatim>\<open>controller/agenticrun/sandbox_manager.go\<close>): how a sandbox comes into being, with its service account, access,
  input and pod or claim, and how it is taken down again; and the owner updates of \<^verbatim>\<open>rbac.go\<close> and the sandbox kubeconfig of
  \<^verbatim>\<open>spoke.go\<close>. Waiting for a terminating pod is a loop with an iteration bound; \<open>None\<close> stands for not having returned within it.
\<close>

section \<open>Access\<close>

definition requireRunnableRun :: "SmManager \<Rightarrow> AgenticRun \<Rightarrow> (error + AgenticRun) smop" where
  "requireRunnableRun M run =
    (if \<not> smReader M then State_Monad.return (Inl (NewError ''uncached API reader is required before sandbox creation''))
     else lift_op M (\<lambda>K. readRunnableRun K True (run_key run) (run_uid run)))"

definition requestSpokeToken :: "SmManager \<Rightarrow> RestConfig \<Rightarrow> string \<Rightarrow> string \<Rightarrow> (error + string) smop" where
  "requestSpokeToken M cfg saName spokeNS = (case newClientset M cfg of
      Some e \<Rightarrow> State_Monad.return (Inl (WrapError ''request spoke SA token: create clientset'' e))
    | None \<Rightarrow> do {
        r \<leftarrow> smToken M saName spokeNS;
        State_Monad.return (case r of
          Inl e \<Rightarrow> Inl (WrapError (''request spoke SA token '' @ spokeNS @ ''/'' @ saName) e) | Inr token \<Rightarrow> Inr token)
      })"

definition ensure_spoke_sa :: "SmManager \<Rightarrow> AgenticRun \<Rightarrow> string \<Rightarrow> string \<Rightarrow> SpokeAccess \<Rightarrow> (error + string) smop" where
  "ensure_spoke_sa M run saName step spoke = do {
     r \<leftarrow> smCreate M (saCluster spoke) (NewServiceAccount (new_meta saName (saNamespace spoke)
       (spokeLabels M (run_uid run) (mName (rMeta run)) (spTargetCluster (rSpec run)) (step @ ''-sa'')) Map.empty []));
     let failed = (case r of Inl e \<Rightarrow> if IsAlreadyExists e then None else Some e | Inr _ \<Rightarrow> None); created = (\<not> isl r) in
     case failed of
       Some e \<Rightarrow> State_Monad.return (Inl (WrapError (''create sandbox SA '' @ saName) e))
     | None \<Rightarrow> do {
         err \<leftarrow> addReaderSubjectOnSpoke M (saCluster spoke) (run_uid run) step saName (saNamespace spoke)
           (spokeExtraLabels M (mName (rMeta run)) (spTargetCluster (rSpec run)));
         case err of
           Some e \<Rightarrow> do {
             (if created then lift_op M (\<lambda>K. deleteObject K (saCluster spoke) ServiceAccountK \<lparr>kName = saName, kNamespace = saNamespace spoke\<rparr>)
              else State_Monad.return None);
             State_Monad.return (Inl e)
           }
         | None \<Rightarrow> requestSpokeToken M (saConfig spoke) saName (saNamespace spoke)
       }
   }"

definition ensure_hub_sa :: "SmManager \<Rightarrow> AgenticRun \<Rightarrow> string \<Rightarrow> string \<Rightarrow> (error + string) smop" where
  "ensure_hub_sa M run saName step = do {
     r \<leftarrow> smCreate M Hub (NewServiceAccount (new_meta saName (smNamespace M) (rbacLabels (run_uid run) (step @ ''-sa'')) Map.empty []));
     let failed = (case r of Inl e \<Rightarrow> if IsAlreadyExists e then None else Some e | Inr _ \<Rightarrow> None); created = (\<not> isl r) in
     case failed of
       Some e \<Rightarrow> State_Monad.return (Inl (WrapError (''create sandbox SA '' @ saName) e))
     | None \<Rightarrow> do {
         err \<leftarrow> addReaderSubject M (run_uid run) step saName (smNamespace M);
         case err of
           Some e \<Rightarrow> do {
             (if created then lift_op M (\<lambda>K. deleteObject K Hub ServiceAccountK \<lparr>kName = saName, kNamespace = smNamespace M\<rparr>)
              else State_Monad.return None);
             State_Monad.return (Inl e)
           }
         | None \<Rightarrow> State_Monad.return (Inr '''')
       }
   }"

definition ensureSA :: "SmManager \<Rightarrow> AgenticRun \<Rightarrow> string \<Rightarrow> string \<Rightarrow> SpokeAccess option \<Rightarrow> (error + string) smop" where
  "ensureSA M run saName step spoke = (case spoke of
      Some s \<Rightarrow> ensure_spoke_sa M run saName step s
    | None \<Rightarrow> ensure_hub_sa M run saName step)"

definition buildSandboxKubeconfig :: "SmManager \<Rightarrow> SpokeAccess \<Rightarrow> string \<Rightarrow> error + string" where
  "buildSandboxKubeconfig M spoke token =
    (case writeKubeconfig M \<lparr>skcServer = rcHost (saConfig spoke), skcCAData = rcCAData (saConfig spoke),
        skcTLSServerName = rcServerName (saConfig spoke), skcProxyURL = saProxyURL spoke, skcToken = token\<rparr> of
       Inl e \<Rightarrow> Inl (WrapError ''build sandbox kubeconfig'' e) | Inr data \<Rightarrow> Inr data)"

text \<open>The owner reference of the secret has neither the controller nor the blocking flag.\<close>

definition kubeconfig_owner :: "AgenticRun \<Rightarrow> OwnerReference" where
  "kubeconfig_owner run = (agenticRunOwnerRef run)\<lparr>oController := False\<rparr>"

definition ensureSandboxKubeconfig :: "SmManager \<Rightarrow> AgenticRun \<Rightarrow> string \<Rightarrow> SpokeAccess \<Rightarrow> string \<Rightarrow> error option smop" where
  "ensureSandboxKubeconfig M run step spoke token = (case buildSandboxKubeconfig M spoke token of
      Inl e \<Rightarrow> State_Monad.return (Some e)
    | Inr kubeconfigData \<Rightarrow>
        let name = sandboxKubeconfigSecretName (run_uid run) step; data = [spokeKubeconfigFileName \<mapsto> kubeconfigData] in
        do {
          r \<leftarrow> smCreate M Hub (NewSecret (new_meta name (smNamespace M) (rbacLabels (run_uid run) ''sandbox-kubeconfig'') Map.empty
            [kubeconfig_owner run]) data);
          case r of
            Inr _ \<Rightarrow> State_Monad.return None
          | Inl e \<Rightarrow>
              if \<not> IsAlreadyExists e then State_Monad.return (Some (WrapError (''create sandbox kubeconfig Secret '' @ name) e))
              else do {
                g \<leftarrow> smGet M SecretObj \<lparr>kName = name, kNamespace = smNamespace M\<rparr>;
                case g of
                  Inl ge \<Rightarrow> State_Monad.return (Some (WrapError (''get existing sandbox kubeconfig Secret '' @ name) ge))
                | Inr existing \<Rightarrow>
                    if lookup (mLabels existing) LabelRun \<noteq> run_uid run
                    then State_Monad.return (Some (NewError (''sandbox kubeconfig Secret '' @ name @ '' belongs to a different run (label '' @
                      lookup (mLabels existing) LabelRun @ '' != '' @ run_uid run @ '')'')))
                    else do {
                      u \<leftarrow> smUpdateSecret M existing data;
                      State_Monad.return (map_option (WrapError (''update sandbox kubeconfig Secret '' @ name)) u)
                    }
              }
        })"

section \<open>Owners\<close>

text \<open>Read an object and patch its owner references.\<close>

definition set_owner ::
    "SmManager \<Rightarrow> SmKind \<Rightarrow> string \<Rightarrow> (OwnerReference list \<Rightarrow> OwnerReference list) \<Rightarrow> string \<Rightarrow> string \<Rightarrow> error option smop" where
  "set_owner M kind name owners getMsg setMsg = do {
     g \<leftarrow> smGet M kind \<lparr>kName = name, kNamespace = smNamespace M\<rparr>;
     case g of
       Inl e \<Rightarrow> State_Monad.return (Some (WrapError getMsg e))
     | Inr meta \<Rightarrow> do {
         r \<leftarrow> smPatchOwners M kind meta (owners (mOwnerReferences meta));
         State_Monad.return (map_option (WrapError setMsg) r)
       }
   }"

definition setInputConfigMapOwner :: "SmManager \<Rightarrow> string \<Rightarrow> OwnerReference \<Rightarrow> error option smop" where
  "setInputConfigMapOwner M cmName owner =
     set_owner M ConfigMapObj cmName (\<lambda>_. [owner]) ''get input ConfigMap'' ''set owner on input ConfigMap''"

definition setSAOwner :: "SmManager \<Rightarrow> string \<Rightarrow> OwnerReference \<Rightarrow> error option smop" where
  "setSAOwner M saName owner =
     set_owner M ServiceAccountObj saName (\<lambda>_. [owner]) (''get sandbox SA '' @ saName) (''set owner on sandbox SA '' @ saName)"

text \<open>One operation after another, as long as none fails.\<close>

definition sm_then :: "error option smop \<Rightarrow> error option smop \<Rightarrow> error option smop" where
  "sm_then first rest = do {
     r \<leftarrow> first;
     case r of Some e \<Rightarrow> State_Monad.return (Some e) | None \<Rightarrow> rest
   }"

definition setResultRBACOwner :: "SmManager \<Rightarrow> string \<Rightarrow> string \<Rightarrow> OwnerReference \<Rightarrow> error option smop" where
  "setResultRBACOwner M runUID step owner =
    (let roleName = resultRoleName runUID step in
     sm_then
       (set_owner M RoleObj roleName (\<lambda>os. os @ [owner]) (''get result Role '' @ roleName) (''set owner on result Role '' @ roleName))
       (set_owner M RoleBindingObj roleName (\<lambda>os. os @ [owner]) (''get result RoleBinding '' @ roleName)
         (''set owner on result RoleBinding '' @ roleName)))"

section \<open>Undoing a failed creation\<close>

text \<open>The errors of the deletions are only logged.\<close>

definition cleanup_kubeconfig :: "SmManager \<Rightarrow> AgenticRun \<Rightarrow> string \<Rightarrow> unit smop" where
  "cleanup_kubeconfig M run step =
    (let key = \<lparr>kName = sandboxKubeconfigSecretName (run_uid run) step, kNamespace = smNamespace M\<rparr> in
     do {
       g \<leftarrow> smGet M SecretObj key;
       case g of
         Inl _ \<Rightarrow> State_Monad.return ()
       | Inr existing \<Rightarrow>
           if lookup (mLabels existing) LabelRun = run_uid run then do {
             smDelete M SecretObj key False;
             State_Monad.return ()
           } else State_Monad.return ()
     })"

definition cleanupOnCreateFailure :: "SmManager \<Rightarrow> AgenticRun \<Rightarrow> string \<Rightarrow> string \<Rightarrow> SpokeAccess option \<Rightarrow> unit smop" where
  "cleanupOnCreateFailure M run step serviceAccount spoke =
    (let roleKey = \<lparr>kName = resultRoleName (run_uid run) step, kNamespace = smNamespace M\<rparr> in
     do {
       smDelete M ConfigMapObj \<lparr>kName = inputConfigMapName step (run_uid run), kNamespace = smNamespace M\<rparr> False;
       lift_op M (\<lambda>K. deleteObject K Hub RoleK roleKey);
       lift_op M (\<lambda>K. deleteObject K Hub RoleBindingK roleKey);
       (if spoke \<noteq> None then cleanup_kubeconfig M run step else State_Monad.return ());
       (if serviceAccount \<noteq> '''' then do {
          lift_op M (\<lambda>K. cleanupStepRBAC K spoke (smNamespace M) run step);
          State_Monad.return ()
        } else State_Monad.return ())
     })"

section \<open>The workload\<close>

definition createInputConfigMap :: "SmManager \<Rightarrow> ObjectMeta \<times> (string \<rightharpoonup> string) \<Rightarrow> error option smop" where
  "createInputConfigMap M cm = do {
     r \<leftarrow> smCreate M Hub (NewConfigMap (fst cm) (snd cm));
     State_Monad.return (case r of
       Inl e \<Rightarrow> if IsAlreadyExists e then None else Some (WrapError (''create input ConfigMap '' @ quote_name (mName (fst cm))) e)
     | Inr _ \<Rightarrow> None)
   }"

definition sandboxDeletionTimeout :: Duration where
  "sandboxDeletionTimeout = 2 * Minute"

text \<open>
  One iteration polls the pod, looks at the clock, and waits for the next tick or the end of the context. The limit that the source appends to
  the message of a timeout is left out.
\<close>

fun wait_deletion :: "SmManager \<Rightarrow> ObjectKey \<Rightarrow> Time \<Rightarrow> nat \<Rightarrow> error option option smop" where
  "wait_deletion M key deadline 0 = State_Monad.return None"
| "wait_deletion M key deadline (Suc n) = do {
     g \<leftarrow> smGet M PodObj key;
     case g of
       Inl e \<Rightarrow> State_Monad.return (Some (if IsNotFound e then None else Some (WrapError (''get pod '' @ quote_name (kName key)) e)))
     | Inr pod \<Rightarrow> do {
         t \<leftarrow> smNow M;
         if t > deadline
         then State_Monad.return (Some (Some (NewError (''timeout waiting for pod '' @ quote_name (kName key) @ '' to be deleted''))))
         else do {
           cancelled \<leftarrow> smTick M;
           if cancelled then State_Monad.return (Some (Some (ContextError ''context canceled'')))
           else wait_deletion M key deadline n
         }
       }
   }"

definition waitForPodDeletion :: "SmManager \<Rightarrow> nat \<Rightarrow> ObjectKey \<Rightarrow> error option option smop" where
  "waitForPodDeletion M fuel key =
    (let timeout = (if smDeletionTimeout M = 0 then sandboxDeletionTimeout else smDeletionTimeout M) in
     do {
       t \<leftarrow> smNow M;
       wait_deletion M key (t + timeout) fuel
     })"

definition workload_labels :: "AgenticRun \<Rightarrow> string \<Rightarrow> string \<rightharpoonup> string" where
  "workload_labels run step = [LabelRun \<mapsto> run_uid run, LabelStep \<mapsto> step]"

definition workload_owner :: "AgenticRun \<Rightarrow> OwnerReference" where
  "workload_owner run = (agenticRunOwnerRef run)\<lparr>oBlockOwnerDeletion := True\<rparr>"

definition bare_pod :: "SmManager \<Rightarrow> AgenticRun \<Rightarrow> string \<Rightarrow> string \<Rightarrow> PodSpec \<Rightarrow> SmObject" where
  "bare_pod M run podName step podSpec =
     NewPod (new_meta podName (smNamespace M) (workload_labels run step) [AnnotationRunName \<mapsto> mName (rMeta run)] [workload_owner run]) podSpec"

text \<open>Create the workload behind a fresh read of the run.\<close>

definition create_guarded :: "SmManager \<Rightarrow> AgenticRun \<Rightarrow> SmObject \<Rightarrow> (error + (error + UID)) smop" where
  "create_guarded M run obj = do {
     r \<leftarrow> requireRunnableRun M run;
     case r of
       Inl e \<Rightarrow> State_Monad.return (Inl e)
     | Inr _ \<Rightarrow> do {
         c \<leftarrow> smCreate M Hub obj;
         State_Monad.return (Inr c)
       }
   }"

text \<open>The second attempt, after a terminating pod of the same name has gone.\<close>

definition recreate_pod :: "SmManager \<Rightarrow> AgenticRun \<Rightarrow> string \<Rightarrow> string \<Rightarrow> PodSpec \<Rightarrow> (error + string \<times> UID) smop" where
  "recreate_pod M run podName step podSpec = do {
     c \<leftarrow> create_guarded M run (bare_pod M run podName step podSpec);
     case c of
       Inl e \<Rightarrow> State_Monad.return (Inl e)
     | Inr (Inr uid) \<Rightarrow> State_Monad.return (Inr (podName, uid))
     | Inr (Inl e) \<Rightarrow>
         if IsAlreadyExists e then do {
           g \<leftarrow> smGet M PodObj \<lparr>kName = podName, kNamespace = smNamespace M\<rparr>;
           State_Monad.return (case g of
             Inl ge \<Rightarrow> Inl (WrapError (''get existing pod '' @ quote_name podName) ge)
           | Inr existing \<Rightarrow> Inr (podName, mUID existing))
         } else State_Monad.return (Inl (WrapError (''create pod for '' @ step) e))
   }"

definition createBarePod ::
    "SmManager \<Rightarrow> nat \<Rightarrow> AgenticRun \<Rightarrow> string \<Rightarrow> string \<Rightarrow> PodSpec \<Rightarrow> (error + string \<times> UID) option smop" where
  "createBarePod M fuel run podName step podSpec =
    (let key = \<lparr>kName = podName, kNamespace = smNamespace M\<rparr> in
     do {
       c \<leftarrow> create_guarded M run (bare_pod M run podName step podSpec);
       case c of
         Inl e \<Rightarrow> State_Monad.return (Some (Inl e))
       | Inr (Inr uid) \<Rightarrow> State_Monad.return (Some (Inr (podName, uid)))
       | Inr (Inl e) \<Rightarrow>
           if \<not> IsAlreadyExists e then State_Monad.return (Some (Inl (WrapError (''create pod for '' @ step) e)))
           else do {
             g \<leftarrow> smGet M PodObj key;
             case g of
               Inl ge \<Rightarrow> State_Monad.return (Some (Inl (WrapError (''get existing pod '' @ quote_name podName) ge)))
             | Inr existing \<Rightarrow>
                 if IsZero (mDeletionTimestamp existing) then State_Monad.return (Some (Inr (podName, mUID existing)))
                 else do {
                   w \<leftarrow> waitForPodDeletion M fuel key;
                   case w of
                     None \<Rightarrow> State_Monad.return None
                   | Some (Some we) \<Rightarrow> State_Monad.return (Some (Inl (WrapError (''wait for terminating pod '' @ quote_name podName) we)))
                   | Some None \<Rightarrow> do {
                       r \<leftarrow> recreate_pod M run podName step podSpec;
                       State_Monad.return (Some r)
                     }
                 }
           }
     })"

text \<open>\<open>Create\<close> of an object that may already be there.\<close>

definition ensure_object :: "SmManager \<Rightarrow> SmObject \<Rightarrow> string \<Rightarrow> error option smop" where
  "ensure_object M obj msg = do {
     r \<leftarrow> smCreate M Hub obj;
     State_Monad.return (case r of Inl e \<Rightarrow> if IsAlreadyExists e then None else Some (WrapError msg e) | Inr _ \<Rightarrow> None)
   }"

definition sandbox_template :: "SmManager \<Rightarrow> AgenticRun \<Rightarrow> string \<Rightarrow> string \<Rightarrow> PodSpec \<Rightarrow> SmObject" where
  "sandbox_template M run name step podSpec =
     NewSandboxTemplate (new_meta name (smNamespace M) (workload_labels run step) Map.empty [workload_owner run]) ''Unmanaged''
       (new_meta '''' '''' (workload_labels run step) [AnnotationRunName \<mapsto> mName (rMeta run)] []) podSpec"

definition sandbox_pool :: "SmManager \<Rightarrow> AgenticRun \<Rightarrow> string \<Rightarrow> string \<Rightarrow> SmObject" where
  "sandbox_pool M run name step =
     NewSandboxWarmPool (new_meta name (smNamespace M) (workload_labels run step) Map.empty [workload_owner run]) 0 name"

definition sandbox_claim :: "SmManager \<Rightarrow> AgenticRun \<Rightarrow> string \<Rightarrow> string \<Rightarrow> SmObject" where
  "sandbox_claim M run name step =
     NewSandboxClaim (new_meta name (smNamespace M) (workload_labels run step) [AnnotationRunName \<mapsto> mName (rMeta run)]
       [workload_owner run]) name ''Delete''"

definition createSandboxClaim ::
    "SmManager \<Rightarrow> AgenticRun \<Rightarrow> string \<Rightarrow> string \<Rightarrow> PodSpec \<Rightarrow> (error + string \<times> UID) smop" where
  "createSandboxClaim M run name step podSpec = (case smUnstructured M podSpec of
      Some e \<Rightarrow> State_Monad.return (Inl (WrapError ''convert PodSpec to unstructured'' e))
    | None \<Rightarrow> do {
        t \<leftarrow> sm_then (ensure_object M (sandbox_template M run name step podSpec) ''ensure agent template'')
          (ensure_object M (sandbox_pool M run name step) (''create SandboxWarmPool for '' @ step));
        case t of
          Some e \<Rightarrow> State_Monad.return (Inl e)
        | None \<Rightarrow> do {
            c \<leftarrow> create_guarded M run (sandbox_claim M run name step);
            case c of
              Inl e \<Rightarrow> State_Monad.return (Inl e)
            | Inr (Inr uid) \<Rightarrow> State_Monad.return (Inr (name, uid))
            | Inr (Inl e) \<Rightarrow>
                if IsAlreadyExists e then do {
                  g \<leftarrow> smGet M SandboxClaimObj \<lparr>kName = name, kNamespace = smNamespace M\<rparr>;
                  State_Monad.return (case g of
                    Inl ge \<Rightarrow> Inl (WrapError (''get existing SandboxClaim '' @ quote_name name) ge)
                  | Inr existing \<Rightarrow> Inr (name, mUID existing))
                } else State_Monad.return (Inl (WrapError (''failed to create SandboxClaim for '' @ step) e))
          }
      })"

section \<open>Creating a sandbox\<close>

text \<open>How the creation after the service account ends: failed before the workload existed, or with a workload.\<close>

datatype creation = CreateFailed error | WorkloadCreated string "error option"

definition owner_of :: "bool \<Rightarrow> string \<Rightarrow> UID \<Rightarrow> OwnerReference" where
  "owner_of claimMode name uid =
     \<lparr>oAPIVersion = (if claimMode then ''extensions.agents.x-k8s.io/v1beta1'' else ''v1''),
      oKind = (if claimMode then ''SandboxClaim'' else ''Pod''), oName = name, oUID = uid, oController = False, oBlockOwnerDeletion = False\<rparr>"

definition set_owners :: "SmManager \<Rightarrow> AgenticRun \<Rightarrow> string \<Rightarrow> string \<Rightarrow> SpokeAccess option \<Rightarrow> OwnerReference \<Rightarrow> error option smop" where
  "set_owners M run step serviceAccount spoke owner =
     sm_then (setInputConfigMapOwner M (inputConfigMapName step (run_uid run)) owner)
      (sm_then (setResultRBACOwner M (run_uid run) step owner)
        (if spoke = None then setSAOwner M serviceAccount owner else State_Monad.return None))"

definition create_workload ::
    "SmManager \<Rightarrow> nat \<Rightarrow> FullConfig \<Rightarrow> AgenticRun \<Rightarrow> string \<Rightarrow> string \<Rightarrow> SpokeAccess option \<Rightarrow> PodSpec \<Rightarrow> creation option smop" where
  "create_workload M fuel cfg run step serviceAccount spoke podSpec =
    (let name = ''ls-'' @ step @ ''-'' @ run_uid run; claimMode = (cfSandboxMode cfg = sandboxModeSandboxClaim) in
     do {
       w \<leftarrow> (if claimMode then do {
               r \<leftarrow> createSandboxClaim M run name step podSpec;
               State_Monad.return (Some r)
             } else createBarePod M fuel run name step podSpec);
       case w of
         None \<Rightarrow> State_Monad.return None
       | Some (Inl e) \<Rightarrow> State_Monad.return (Some (CreateFailed e))
       | Some (Inr (wname, uid)) \<Rightarrow> do {
           err \<leftarrow> set_owners M run step serviceAccount spoke (owner_of claimMode wname uid);
           State_Monad.return (Some (WorkloadCreated wname err))
         }
     })"

text \<open>From the input ConfigMap to the pod specification, then the workload.\<close>

definition create_inputs ::
    "SmManager \<Rightarrow> nat \<Rightarrow> FullConfig \<Rightarrow> AgenticRun \<Rightarrow> string \<Rightarrow> Agent option \<Rightarrow> LLMProvider option \<Rightarrow> ToolsSpec option \<Rightarrow> Duration \<Rightarrow>
     agentContext option \<Rightarrow> string \<Rightarrow> SpokeAccess option \<Rightarrow> creation option smop" where
  "create_inputs M fuel cfg run step agent llm tools deadline agentCtx serviceAccount spoke =
    (let podServiceAccount = (if spoke \<noteq> None then ''default'' else serviceAccount) in
     case buildInputConfigMap (smInputs M) (smNamespace M) run step agent (outputSchemaForStep (smInputs M) step run) agentCtx of
       Inl e \<Rightarrow> State_Monad.return (Some (CreateFailed e))
     | Inr inputCM \<Rightarrow> do {
         r \<leftarrow> sm_then (createInputConfigMap M inputCM)
           (lift_op M (\<lambda>K. ensureResultRBAC K run step podServiceAccount (smNamespace M)));
         case r of
           Some e \<Rightarrow> State_Monad.return (Some (CreateFailed e))
         | None \<Rightarrow>
             (case Build (cfPodSpec cfg) agent llm tools (Some cfg) step (run_uid run) podServiceAccount (mName (fst inputCM))
                 (traceparentFromContext (smSpan M)) (resolveTimeout agent step) (resolveMaxTurns agent) of
                Inl e \<Rightarrow> State_Monad.return (Some (CreateFailed (WrapError ''build pod spec'' e)))
              | Inr built \<Rightarrow>
                  let mounted = (if spoke \<noteq> None then mountSpokeKubeconfig built (sandboxKubeconfigSecretName (run_uid run) step) else built);
                      podSpec = (if deadline > 0 then mounted\<lparr>psActiveDeadlineSeconds := Some (deadline div Second)\<rparr> else mounted) in
                  create_workload M fuel cfg run step serviceAccount spoke podSpec)
       })"

text \<open>
  Execution access from the approved option, and the annotation that remembers its namespaces. The run is returned as well: the
  clean-up after a failure works on the object these calls have changed.
\<close>

definition grant_execution ::
    "SmManager \<Rightarrow> AgenticRun \<Rightarrow> string \<Rightarrow> agentContext option \<Rightarrow> SpokeAccess option \<Rightarrow> (AgenticRun \<times> error option) smop" where
  "grant_execution M run step agentCtx spoke =
    (case (if step = ''execution'' then Option.bind agentCtx acApprovedOption else None) of
       None \<Rightarrow> State_Monad.return (run, None)
     | Some opt \<Rightarrow>
         let rbac = opRBAC opt in
         if length (rbNamespaceScoped rbac) > 0 \<or> length (rbClusterScoped rbac) > 0
         then
           let (rbacCluster, rbacNS, extraLabels) = (case spoke of
                 None \<Rightarrow> (Hub, smNamespace M, Map.empty)
               | Some s \<Rightarrow> (saCluster s, saNamespace s, spokeExtraLabels M (mName (rMeta run)) (spTargetCluster (rSpec run)))) in
           do {
             (run', err) \<leftarrow> lift_op M (\<lambda>K. ensureExecutionRBAC K rbacCluster run (Some rbac) rbacNS extraLabels);
             case err of
               Some e \<Rightarrow> State_Monad.return (run', Some e)
             | None \<Rightarrow> do {
                 p \<leftarrow> lift_op M (\<lambda>K. patchMeta K False run run');
                 State_Monad.return (case p of
                   Inl e \<Rightarrow> (run', Some (WrapError ''persist RBAC annotation'' e)) | Inr run'' \<Rightarrow> (run'', None))
               }
           }
         else State_Monad.return (run, None))"

definition create_dependencies ::
    "SmManager \<Rightarrow> nat \<Rightarrow> FullConfig \<Rightarrow> AgenticRun \<Rightarrow> string \<Rightarrow> Agent option \<Rightarrow> LLMProvider option \<Rightarrow> ToolsSpec option \<Rightarrow> Duration \<Rightarrow>
     agentContext option \<Rightarrow> string \<Rightarrow> SpokeAccess option \<Rightarrow> (AgenticRun \<times> creation option) smop" where
  "create_dependencies M fuel cfg run step agent llm tools deadline agentCtx serviceAccount spoke = do {
     sa \<leftarrow> ensureSA M run serviceAccount step spoke;
     case sa of
       Inl e \<Rightarrow> State_Monad.return (run, Some (CreateFailed e))
     | Inr token \<Rightarrow> do {
         kc \<leftarrow> (case spoke of Some s \<Rightarrow> ensureSandboxKubeconfig M run step s token | None \<Rightarrow> State_Monad.return None);
         case kc of
           Some e \<Rightarrow> State_Monad.return (run, Some (CreateFailed e))
         | None \<Rightarrow> do {
             (run', err) \<leftarrow> grant_execution M run step agentCtx spoke;
             case err of
               Some e \<Rightarrow> State_Monad.return (run', Some (CreateFailed e))
             | None \<Rightarrow> do {
                 c \<leftarrow> create_inputs M fuel cfg run' step agent llm tools deadline agentCtx serviceAccount spoke;
                 State_Monad.return (run', c)
               }
           }
       }
   }"

definition create_with_cleanup ::
    "SmManager \<Rightarrow> nat \<Rightarrow> FullConfig \<Rightarrow> AgenticRun \<Rightarrow> string \<Rightarrow> Agent option \<Rightarrow> LLMProvider option \<Rightarrow> ToolsSpec option \<Rightarrow> Duration \<Rightarrow>
     agentContext option \<Rightarrow> (string \<times> error option) option smop" where
  "create_with_cleanup M fuel cfg run step agent llm tools deadline agentCtx = do {
     s \<leftarrow> lift_op M (\<lambda>K. spokeAccessForRun K run (smNamespace M));
     case s of
       Inl e \<Rightarrow> State_Monad.return (Some ('''', Some e))
     | Inr spoke \<Rightarrow>
         let serviceAccount = sandboxSAName run step in
         do {
           (run', c) \<leftarrow> create_dependencies M fuel cfg run step agent llm tools deadline agentCtx serviceAccount spoke;
           case c of
             None \<Rightarrow> State_Monad.return None
           | Some (WorkloadCreated name err) \<Rightarrow> State_Monad.return (Some (name, err))
           | Some (CreateFailed e) \<Rightarrow> do {
               cleanupOnCreateFailure M run' step serviceAccount spoke;
               State_Monad.return (Some ('''', Some e))
             }
         }
   }"

definition Create ::
    "SmManager \<Rightarrow> nat \<Rightarrow> AgenticRun \<Rightarrow> string \<Rightarrow> Agent option \<Rightarrow> LLMProvider option \<Rightarrow> ToolsSpec option \<Rightarrow> Duration \<Rightarrow>
     agentContext option \<Rightarrow> (string \<times> error option) option smop" where
  "Create M fuel run step agent llm tools deadline agentCtx = (case smConfig M of
      None \<Rightarrow> State_Monad.return (Some ('''', Some (NewError ''create sandbox: configuration not available'')))
    | Some cfg \<Rightarrow> do {
        r \<leftarrow> requireRunnableRun M run;
        case r of
          Inl e \<Rightarrow> State_Monad.return (Some ('''', Some e))
        | Inr current \<Rightarrow> do {
            smLog M (SmBeginStep (run_uid current) step);
            (if step = ''analysis'' then smLog M (SmReceived (run_uid current)) else State_Monad.return ());
            out \<leftarrow> create_with_cleanup M fuel cfg current step agent llm tools deadline agentCtx;
            (case out of
               Some (_, Some e) \<Rightarrow> smLog M (SmCompleteStep (run_uid current) step)
             | _ \<Rightarrow> State_Monad.return ());
            State_Monad.return out
          }
      })"

section \<open>Releasing a sandbox\<close>

text \<open>\<open>client.IgnoreNotFound\<close> of a deletion, with a message.\<close>

definition delete_ignoring :: "SmManager \<Rightarrow> SmKind \<Rightarrow> ObjectKey \<Rightarrow> bool \<Rightarrow> string \<Rightarrow> error option smop" where
  "delete_ignoring M kind key zeroGrace msg = do {
     r \<leftarrow> smDelete M kind key zeroGrace;
     State_Monad.return (case r of Some e \<Rightarrow> if IsNotFound e then None else Some (WrapError msg e) | None \<Rightarrow> None)
   }"

definition releaseBarePod :: "SmManager \<Rightarrow> string \<Rightarrow> bool \<Rightarrow> error option smop" where
  "releaseBarePod M podName zeroGrace =
     delete_ignoring M PodObj \<lparr>kName = podName, kNamespace = smNamespace M\<rparr> zeroGrace (''delete pod '' @ quote_name podName)"

text \<open>\<open>metav1.IsControlledBy\<close>: the controller reference of the object has the owner's UID.\<close>

definition IsControlledBy :: "ObjectMeta \<Rightarrow> ObjectMeta \<Rightarrow> bool" where
  "IsControlledBy obj owner \<longleftrightarrow> (case filter oController (mOwnerReferences obj) of [] \<Rightarrow> False | ref # _ \<Rightarrow> oUID ref = mUID owner)"

definition backing_pod_name :: "ObjectMeta \<Rightarrow> string" where
  "backing_pod_name sandbox =
    (let podName = lookup (mAnnotations sandbox) sandboxPodNameAnnotation in if podName = '''' then mName sandbox else podName)"

definition release_backing_pod :: "SmManager \<Rightarrow> string \<Rightarrow> string \<Rightarrow> ObjectMeta \<Rightarrow> error option smop" where
  "release_backing_pod M claimName sandboxName sandbox =
    (let podName = backing_pod_name sandbox in
     do {
       p \<leftarrow> smGet M PodObj \<lparr>kName = podName, kNamespace = smNamespace M\<rparr>;
       case p of
         Inl e \<Rightarrow> State_Monad.return (if IsNotFound e then None
           else Some (WrapError (''get backing Pod '' @ quote_name podName @ '' for Sandbox '' @ quote_name sandboxName) e))
       | Inr pod \<Rightarrow>
           if \<not> IsControlledBy pod sandbox then State_Monad.return None
           else delete_ignoring M PodObj (meta_key pod) True
             (''delete backing Pod '' @ quote_name podName @ '' for SandboxClaim '' @ quote_name claimName)
     })"

definition releaseSandboxClaimPod :: "SmManager \<Rightarrow> string \<Rightarrow> error option smop" where
  "releaseSandboxClaimPod M claimName = do {
     g \<leftarrow> smGetClaim M \<lparr>kName = claimName, kNamespace = smNamespace M\<rparr>;
     case g of
       Inl e \<Rightarrow> State_Monad.return (if IsNotFound e then None
         else Some (WrapError (''get SandboxClaim '' @ quote_name claimName @ '' for backing Pod deletion'') e))
     | Inr (claim, sandboxField) \<Rightarrow>
         (case sandboxField of
            Inl e \<Rightarrow> State_Monad.return (Some (WrapError (''get backing Sandbox name from SandboxClaim '' @ quote_name claimName) e))
          | Inr None \<Rightarrow> State_Monad.return None
          | Inr (Some sandboxName) \<Rightarrow>
              if sandboxName = '''' then State_Monad.return None
              else do {
                s \<leftarrow> smGet M SandboxObj \<lparr>kName = sandboxName, kNamespace = smNamespace M\<rparr>;
                case s of
                  Inl e \<Rightarrow> State_Monad.return (if IsNotFound e then None
                    else Some (WrapError (''get backing Sandbox '' @ quote_name sandboxName @ '' for SandboxClaim '' @ quote_name claimName) e))
                | Inr sandbox \<Rightarrow>
                    if \<not> IsControlledBy sandbox claim then State_Monad.return None
                    else release_backing_pod M claimName sandboxName sandbox
              })
   }"

definition releaseSandboxClaim :: "SmManager \<Rightarrow> string \<Rightarrow> error option smop" where
  "releaseSandboxClaim M claimName =
    (let key = \<lparr>kName = claimName, kNamespace = smNamespace M\<rparr> in
     sm_then (delete_ignoring M SandboxClaimObj key False (''failed to delete SandboxClaim '' @ quote_name claimName))
      (sm_then (delete_ignoring M SandboxWarmPoolObj key False (''delete SandboxWarmPool '' @ quote_name claimName))
        (delete_ignoring M SandboxTemplateObj key False (''delete SandboxTemplate '' @ quote_name claimName))))"

text \<open>All of the parts happen; the first error is kept.\<close>

fun release_all :: "error option smop list \<Rightarrow> error option \<Rightarrow> error option smop" where
  "release_all [] firstErr = State_Monad.return firstErr"
| "release_all (op # ops) firstErr = do {
     r \<leftarrow> op;
     release_all ops (if firstErr = None then r else firstErr)
   }"

definition release_kubeconfig :: "SmManager \<Rightarrow> AgenticRun \<Rightarrow> string \<Rightarrow> error option smop" where
  "release_kubeconfig M run step = do {
     r \<leftarrow> smDelete M SecretObj \<lparr>kName = sandboxKubeconfigSecretName (run_uid run) step, kNamespace = smNamespace M\<rparr> False;
     State_Monad.return (case r of Some e \<Rightarrow> if IsNotFound e then None else Some e | None \<Rightarrow> None)
   }"

definition Release :: "SmManager \<Rightarrow> AgenticRun \<Rightarrow> string \<Rightarrow> SpokeAccess option \<Rightarrow> bool \<Rightarrow> error option smop" where
  "Release M run step spoke zeroGrace = do {
     smLog M (SmCompleteStep (run_uid run) step);
     let claimName = sandboxClaimName run step;
         claimMode = (case smConfig M of None \<Rightarrow> False | Some cfg \<Rightarrow> cfSandboxMode cfg = sandboxModeSandboxClaim) in
     if claimName = '''' then State_Monad.return None
     else release_all
       ((if \<not> claimMode \<or> \<not> zeroGrace then [releaseBarePod M claimName zeroGrace] else []) @
        (if claimMode \<and> zeroGrace then [releaseSandboxClaimPod M claimName] else []) @
        (if claimMode then [releaseSandboxClaim M claimName] else []) @
        [lift_op M (\<lambda>K. cleanupStepRBAC K spoke (smNamespace M) run step)] @
        (if spTargetCluster (rSpec run) \<noteq> '''' then [release_kubeconfig M run step] else [])) None
   }"

end
