(* ===== verification/SandboxSafety.thy ===== *)
theory SandboxSafety
  imports SandboxManager
begin

text \<open>
  What the sandbox manager guarantees: a pod or claim is only created for a run that was just read as runnable, a creation that fails
  before that leaves nothing behind that it did not try to remove, and the release of a sandbox under suspension deletes a
  pod only along the chain of ownership from the claim.
\<close>

section \<open>Workloads are created for runnable runs only\<close>

fun workload :: "SmObject \<Rightarrow> bool" where
  "workload (NewPod _ _) = True"
| "workload (NewSandboxClaim _ _ _) = True"
| "workload _ = False"

fun object_meta :: "SmObject \<Rightarrow> ObjectMeta" where
  "object_meta (NewServiceAccount m) = m"
| "object_meta (NewConfigMap m _) = m"
| "object_meta (NewSecret m _) = m"
| "object_meta (NewPod m _) = m"
| "object_meta (NewSandboxTemplate m _ _ _) = m"
| "object_meta (NewSandboxWarmPool m _ _) = m"
| "object_meta (NewSandboxClaim m _ _) = m"

text \<open>Labelled with a run and controlled by it.\<close>

definition belongs_to :: "UID \<Rightarrow> ObjectMeta \<Rightarrow> bool" where
  "belongs_to uid m \<longleftrightarrow> lookup (mLabels m) LabelRun = uid \<and> map oUID (mOwnerReferences m) = [uid] \<and> list_all oController (mOwnerReferences m)"

definition not_suspended :: "error + AgenticOLSConfig \<Rightarrow> bool" where
  "not_suspended ans \<longleftrightarrow> (case ans of Inl e \<Rightarrow> IsNotFound e | Inr config \<Rightarrow> \<not> olSuspended config)"

definition read_runnable :: "SmManager \<Rightarrow> UID \<Rightarrow> sm_history \<Rightarrow> bool" where
  "read_runnable M uid h \<longleftrightarrow>
     (\<exists>h0 key current ans. h = h0 @ [Base (EvGetRun key (Inr current)), Base (EvGetConfig ans)] \<and>
        mUID (rMeta current) = uid \<and> \<not> HasAcceptedStop (smKube M h0) current \<and> not_suspended ans)"

definition workload_guarded :: "SmManager \<Rightarrow> sm_history \<Rightarrow> sm_event \<Rightarrow> bool" where
  "workload_guarded M h e \<longleftrightarrow> (case e of
      SmCreate c obj r \<Rightarrow> if workload obj
        then c = Hub \<and> (\<exists>uid. belongs_to uid (object_meta obj) \<and> read_runnable M uid h) else True
    | _ \<Rightarrow> True)"

definition no_workload :: "sm_event \<Rightarrow> bool" where
  "no_workload e \<longleftrightarrow> (case e of SmCreate c obj r \<Rightarrow> \<not> workload obj | _ \<Rightarrow> True)"

lemma no_workload_simps [simp]:
  "no_workload (Base b)" "no_workload (SmCreate c obj r) \<longleftrightarrow> \<not> workload obj" "no_workload (SmGet k key r2)" "no_workload (SmGetClaim key r3)"
  "no_workload (SmGetBinding c n r4)" "no_workload (SmListBindings r5)" "no_workload (SmUpdateSecret m d r6)" "no_workload (SmPatchOwners k m os r6)"
  "no_workload (SmDelete k key z r6)" "no_workload (SmToken n ns r7)" "no_workload (SmLoadReaders ns2)" "no_workload (SmStoreReaders ns2)"
  "no_workload (SmNow t)" "no_workload (SmTick b2)" "no_workload (SmBeginStep u s)" "no_workload (SmReceived u)" "no_workload (SmCompleteStep u s)"
  by (simp_all add: no_workload_def)

lemma no_workload_guarded: "no_workload e \<Longrightarrow> workload_guarded M h e"
  by (auto simp: no_workload_def workload_guarded_def split: sm_event.splits)

lemma requireRunnable_wp:
  assumes "\<And>h b. P h (Base b)"
    and "\<And>e es. Q (Inl e) (h @ es)"
    and "\<And>current ans. mUID (rMeta current) = run_uid run \<Longrightarrow> \<not> HasAcceptedStop (smKube M h) current \<Longrightarrow> not_suspended ans \<Longrightarrow>
       Q (Inr current) (h @ [Base (EvGetRun (run_key run) (Inr current)), Base (EvGetConfig ans)])"
  shows "wp P (requireRunnableRun M run) Q h"
  unfolding requireRunnableRun_def
proof (intro wp_ifI wp_returnI wp_lift readRunnableRun_wp)
  fix current h'
  assume "runnable_at (smKube M h) (base_events h) (run_key run) (run_uid run) current h'"
  then obtain ans where "h' = base_events h @ [EvGetRun (run_key run) (Inr current), EvGetConfig ans]"
    "mUID (rMeta current) = run_uid run" "\<not> HasAcceptedStop (smKube M h) current" "not_suspended ans"
    by (auto simp: runnable_at_def not_suspended_def)
  then show "Q (Inr current) (h @ map Base (drop (length (base_events h)) h'))" using assms(3) by simp
qed (use assms(1,2) assms(2) [of _ "[]"] in auto)

lemma requireRunnable_emits [emit]: "(\<And>b. P (Base b)) \<Longrightarrow> emits P (requireRunnableRun M run)"
  by (rule emitsI) (auto intro: requireRunnable_wp)

text \<open>Operations of the common interface that append ordinary events only.\<close>

lemma ensureResultRBAC_emits [emit]: "emits rbac_event (ensureResultRBAC K run step sa ns)"
  unfolding ensureResultRBAC_def by (intro emit rbac_event_simps)

lemma ensureExecution_emits [emit]: "emits rbac_event (ensureExecutionRBAC K c run (Some rbac) ns extra)"
  by (rule emits_mono [OF ensureExecutionRBAC_emits]) auto

lemma lift_rbac_emits [emit]:
  "(\<And>b. P (Base b)) \<Longrightarrow> emits P (lift_op M (\<lambda>K. cleanupStepRBAC K spoke ns run step))"
  "(\<And>b. P (Base b)) \<Longrightarrow> emits P (lift_op M (\<lambda>K. spokeAccessForRun K run ns))"
  "(\<And>b. P (Base b)) \<Longrightarrow> emits P (lift_op M (\<lambda>K. ensureResultRBAC K run step sa ns))"
  "(\<And>b. P (Base b)) \<Longrightarrow> emits P (lift_op M (\<lambda>K. ensureExecutionRBAC K c run (Some rbac) ns extra))"
  by (rule emits_lift, rule emits_mono [where P = rbac_event], rule emit, simp)+

lemma no_workload_readers [emit]:
  "emits no_workload (cleanup_created M c names)" "emits no_workload (roll_back M c names e)"
  "emits no_workload (discoverReaderBindings M ns)" "emits no_workload (resolveReaderBindings M ns)"
proof -
  show created: "emits no_workload (cleanup_created M c names)" for c names
    by (induction names) (auto intro!: emit)
  then show "emits no_workload (roll_back M c names e)"
    unfolding roll_back_def by (intro emit)
  show discover: "emits no_workload (discoverReaderBindings M ns)" for ns
    unfolding discoverReaderBindings_def by (intro emit) simp_all
  then show "emits no_workload (resolveReaderBindings M ns)"
    unfolding resolveReaderBindings_def by (intro emit) simp_all
qed

lemma no_workload_add_bindings [emit]: "emits no_workload (add_bindings M uid step sa ns names created)"
proof (induction names arbitrary: created)
  case (Cons n names)
  then show ?case unfolding add_bindings.simps by (intro emit) simp_all
qed (auto intro: emit)

lemma no_workload_add_reader [emit]: "emits no_workload (add_reader_attempts M uid step sa ns n)"
proof (induction n)
  case (Suc n)
  then show ?case
    unfolding add_reader_attempts.simps addReaderSubjectForBindings_def
    by (auto intro!: emit split: reader_error.split)
qed (auto intro: emit)

lemma no_workload_spoke_bindings [emit]: "emits no_workload (add_spoke_bindings M c uid step sa ns extra names created)"
proof (induction names arbitrary: created)
  case (Cons n names)
  obtain i source where "n = (i, source)" by (cases n)
  with Cons show ?case by (simp only: add_spoke_bindings.simps) (intro emit; simp)
qed (auto intro: emit)

lemma emits_sm_then [emit]: "emits P m \<Longrightarrow> emits P n \<Longrightarrow> emits P (sm_then m n)"
  unfolding sm_then_def by (intro emit)

lemma no_workload_access [emit]:
  "emits no_workload (requestSpokeToken M cfg sa ns)" "emits no_workload (ensureSA M run sa step spoke)"
  "emits no_workload (ensureSandboxKubeconfig M run step s token)"
  unfolding requestSpokeToken_def ensureSA_def ensure_spoke_sa_def ensure_hub_sa_def addReaderSubject_def addReaderSubjectOnSpoke_def
    ensureSandboxKubeconfig_def
  by (auto intro!: emit split: option.split sum.split)

lemma no_workload_owners [emit]:
  "emits no_workload (set_owner M kind name f g s)" "emits no_workload (set_owners M run step sa spoke owner)"
  unfolding set_owners_def setInputConfigMapOwner_def setResultRBACOwner_def setSAOwner_def set_owner_def Let_def
  by (auto intro!: emit)

lemma no_workload_cleanup [emit]:
  "emits no_workload (cleanup_kubeconfig M run step)" "emits no_workload (cleanupOnCreateFailure M run step sa spoke)"
  unfolding cleanupOnCreateFailure_def cleanup_kubeconfig_def Let_def by (auto intro!: emit)

lemma no_workload_wait [emit]: "emits no_workload (waitForPodDeletion M fuel key)"
proof -
  have "emits no_workload (wait_deletion M key deadline fuel)" for deadline
    by (induction fuel) (auto intro!: emit)
  then show ?thesis unfolding waitForPodDeletion_def Let_def by (intro emit) simp_all
qed

lemma no_workload_inputs [emit]: "emits no_workload (createInputConfigMap M cm)"
  "\<not> workload obj \<Longrightarrow> emits no_workload (ensure_object M obj msg)"
  unfolding createInputConfigMap_def ensure_object_def by (auto intro!: emit)

lemma no_workload_grant [emit]: "emits no_workload (grant_execution M run step ctx spoke)"
  unfolding grant_execution_def Let_def by (auto intro!: emit split: option.split)

text \<open>Operations without workloads are guarded, and so is the creation of a workload that belongs to the run.\<close>

definition always_guarded :: "SmManager \<Rightarrow> 'a smop \<Rightarrow> bool" where
  "always_guarded M m \<longleftrightarrow> (\<forall>h. wp (workload_guarded M) m (\<lambda>_ _. True) h)"

named_theorems grd \<open>introduction rules for guarded operations\<close>

lemma guarded_quiet: "emits no_workload m \<Longrightarrow> always_guarded M m"
  unfolding always_guarded_def by (intro allI, erule emits_wp) (simp_all add: no_workload_guarded)

lemma guarded_bind [grd]: "always_guarded M m \<Longrightarrow> (\<And>x. always_guarded M (f x)) \<Longrightarrow> always_guarded M (m \<bind> f)"
  unfolding always_guarded_def by (intro allI wp_bindI) (auto intro: wp_mono)

lemma guarded_rules [grd]:
  "always_guarded M (State_Monad.return x)"
  "(b \<Longrightarrow> always_guarded M m) \<Longrightarrow> (\<not> b \<Longrightarrow> always_guarded M n) \<Longrightarrow> always_guarded M (if b then m else n)"
  "(y = None \<Longrightarrow> always_guarded M m) \<Longrightarrow> (\<And>z. y = Some z \<Longrightarrow> always_guarded M (f z)) \<Longrightarrow> always_guarded M (case y of None \<Rightarrow> m | Some z \<Rightarrow> f z)"
  "(\<And>e. s = Inl e \<Longrightarrow> always_guarded M (g e)) \<Longrightarrow> (\<And>z. s = Inr z \<Longrightarrow> always_guarded M (k z)) \<Longrightarrow> always_guarded M (case s of Inl e \<Rightarrow> g e | Inr z \<Rightarrow> k z)"
  "(\<And>u v. p = (u, v) \<Longrightarrow> always_guarded M (l u v)) \<Longrightarrow> always_guarded M (case p of (u, v) \<Rightarrow> l u v)"
  "(\<And>e. c = CreateFailed e \<Longrightarrow> always_guarded M (cf e)) \<Longrightarrow> (\<And>nm er. c = WorkloadCreated nm er \<Longrightarrow> always_guarded M (wc nm er)) \<Longrightarrow>
     always_guarded M (case c of CreateFailed e \<Rightarrow> cf e | WorkloadCreated nm er \<Rightarrow> wc nm er)"
  by (simp_all add: always_guarded_def wp_def split: option.split sum.split prod.split creation.split)

lemma create_guarded_wp:
  assumes "belongs_to (run_uid run) (object_meta obj)"
  shows "always_guarded M (create_guarded M run obj)"
  unfolding always_guarded_def create_guarded_def
proof (intro allI wp_bindI requireRunnable_wp)
  fix h current ans
  assume "mUID (rMeta current) = run_uid run" "\<not> HasAcceptedStop (smKube M h) current" "not_suspended ans"
  then have "workload_guarded M (h @ [Base (EvGetRun (run_key run) (Inr current)), Base (EvGetConfig ans)]) (SmCreate Hub obj r)" for r
    using assms by (auto simp: workload_guarded_def read_runnable_def)
  then show "wp (workload_guarded M)
      (case Inr current of Inl e \<Rightarrow> State_Monad.return (Inl e)
       | Inr _ \<Rightarrow> smCreate M Hub obj \<bind> (\<lambda>c. State_Monad.return (Inr c)))
      (\<lambda>_ _. True) (h @ [Base (EvGetRun (run_key run) (Inr current)), Base (EvGetConfig ans)])"
    by (auto intro!: wp)
qed (auto intro!: wp simp: workload_guarded_def)

lemma workload_belongs:
  "belongs_to (run_uid run) (object_meta (bare_pod M run name step spec))"
  "belongs_to (run_uid run) (object_meta (sandbox_claim M run name step))"
  by (simp_all add: belongs_to_def bare_pod_def sandbox_claim_def new_meta_def workload_labels_def workload_owner_def agenticRunOwnerRef_def
      lookup_def go_consts)

lemma guarded_requests [grd]:
  "always_guarded M (waitForPodDeletion M fuel key)" "always_guarded M (smGet M k key)" "always_guarded M (set_owners M run step sa spoke owner)"
  "always_guarded M (ensureSA M run sa step spoke)" "always_guarded M (ensureSandboxKubeconfig M run step s token)"
  "always_guarded M (grant_execution M run step ctx spoke)" "always_guarded M (cleanupOnCreateFailure M run step sa spoke)"
  "always_guarded M (requireRunnableRun M run)" "no_workload e \<Longrightarrow> always_guarded M (smLog M e)"
  "always_guarded M (lift_op M (\<lambda>K. spokeAccessForRun K run ns))"
  "always_guarded M (sm_then (createInputConfigMap M cm) (lift_op M (\<lambda>K. ensureResultRBAC K run step sa ns)))"
  by (rule guarded_quiet, intro emit; simp)+

lemma guarded_bare_pod [grd]: "always_guarded M (createBarePod M fuel run name step spec)"
  unfolding createBarePod_def recreate_pod_def Let_def by (intro grd create_guarded_wp workload_belongs)

lemma guarded_claim [grd]: "always_guarded M (createSandboxClaim M run name step spec)"
proof -
  have "always_guarded M (sm_then (ensure_object M (sandbox_template M run name step spec) m) (ensure_object M (sandbox_pool M run name step) m'))" for m m'
    by (rule guarded_quiet, intro emit) (simp_all add: sandbox_template_def sandbox_pool_def)
  then show ?thesis
    unfolding createSandboxClaim_def by (intro grd create_guarded_wp workload_belongs)
qed

lemma guarded_workload [grd]: "always_guarded M (create_workload M fuel cfg run step sa spoke spec)"
  unfolding create_workload_def Let_def by (intro grd)

lemma guarded_inputs [grd]: "always_guarded M (create_inputs M fuel cfg run step agent llm tools deadline ctx sa spoke)"
  unfolding create_inputs_def Let_def by (intro grd)

lemma guarded_dependencies [grd]: "always_guarded M (create_dependencies M fuel cfg run step agent llm tools deadline ctx sa spoke)"
  unfolding create_dependencies_def by (intro grd)

lemma guarded_create: "always_guarded M (Create M fuel run step agent llm tools deadline ctx)"
proof -
  have "always_guarded M (create_with_cleanup M fuel cfg current step agent llm tools deadline ctx)" for cfg current
    unfolding create_with_cleanup_def Let_def by (intro grd)
  then show ?thesis
    unfolding Create_def by (intro grd no_workload_simps)
qed

text \<open>
  C6: Creating a sandbox creates a pod or a claim only directly after a read of the run from the API server, followed by a read of the
  configuration: the run has no accepted stop, the system is not suspended, and the object carries the label of that very run and is
  controlled by it alone. This holds for the second attempt after waiting for a terminating pod as well.
\<close>
theorem workload_for_runnable_run:
  "good (workload_guarded M) h (new_events (Create M fuel run step agent llm tools deadline ctx) h)"
  using guarded_create unfolding always_guarded_def by (blast intro: wp_new_events)

section \<open>Release under suspension follows ownership\<close>

definition owned_pod_delete :: "string \<Rightarrow> sm_history \<Rightarrow> sm_event \<Rightarrow> bool" where
  "owned_pod_delete claimName h e \<longleftrightarrow> (case e of
      SmDelete kind key zeroGrace r \<Rightarrow> if kind = PodObj
        then (\<exists>h0 claimKey claim sandboxName sandboxKey sandbox podKey pod.
          h = h0 @ [SmGetClaim claimKey (Inr (claim, Inr (Some sandboxName))), SmGet SandboxObj sandboxKey (Inr sandbox),
                    SmGet PodObj podKey (Inr pod)] \<and>
          kName claimKey = claimName \<and> kName sandboxKey = sandboxName \<and> kName podKey = backing_pod_name sandbox \<and>
          IsControlledBy sandbox claim \<and> IsControlledBy pod sandbox \<and> key = meta_key pod)
        else True
    | _ \<Rightarrow> True)"

definition no_pod_delete :: "sm_event \<Rightarrow> bool" where
  "no_pod_delete e \<longleftrightarrow> (case e of SmDelete kind key zeroGrace r \<Rightarrow> kind \<noteq> PodObj | _ \<Rightarrow> True)"

lemma no_pod_delete_owned: "no_pod_delete e \<Longrightarrow> owned_pod_delete claimName h e"
  by (auto simp: no_pod_delete_def owned_pod_delete_def split: sm_event.splits)

lemma no_pod_delete_simps [simp]:
  "no_pod_delete (Base b)" "no_pod_delete (SmDelete k key z r) \<longleftrightarrow> k \<noteq> PodObj" "no_pod_delete (SmCompleteStep u s)"
  by (simp_all add: no_pod_delete_def)

lemma release_parts_wp:
  assumes "\<And>op h. op \<in> set ops \<Longrightarrow> wp P op (\<lambda>_ _. True) h"
  shows "wp P (release_all ops e) (\<lambda>_ _. True) h"
  using assms
proof (induction ops arbitrary: e h)
  case (Cons op ops)
  show ?case
    unfolding release_all.simps by (rule wp_bindI, rule wp_mono [OF Cons.prems]) (use Cons in auto)
qed (simp add: wp_def)

lemma releaseSandboxClaimPod_wp: "wp (owned_pod_delete claimName) (releaseSandboxClaimPod M claimName) (\<lambda>_ _. True) h"
  unfolding releaseSandboxClaimPod_def release_backing_pod_def delete_ignoring_def Let_def
  by (intro wp conjI; (simp add: owned_pod_delete_def)?)

text \<open>
  C8: In claim mode, releasing a sandbox under suspension (with zero grace) deletes a pod only directly after reading the claim, the sandbox
  that the claim's status names, which is controlled by the claim, and the pod that belongs to that sandbox, which is
  controlled by the sandbox: a pod of the same name that belongs to someone else is left alone.
\<close>
theorem release_follows_ownership:
  assumes "smConfig M = Some cfg" and "cfSandboxMode cfg = sandboxModeSandboxClaim"
  shows "good (owned_pod_delete (sandboxClaimName run step)) h (new_events (Release M run step spoke True) h)"
proof -
  let ?ok = "\<lambda>m. \<forall>h. wp (owned_pod_delete (sandboxClaimName run step)) m (\<lambda>_ _. True) h"
  have plain: "?ok m" if "emits no_pod_delete m" for m :: "error option smop"
    using that by (intro allI) (erule emits_wp, simp_all add: no_pod_delete_owned)
  have "emits no_pod_delete (releaseSandboxClaim M name)" "emits no_pod_delete (release_kubeconfig M run step)"
    "emits no_pod_delete (lift_op M (\<lambda>K. cleanupStepRBAC K spoke ns run step))" for name ns
    unfolding releaseSandboxClaim_def delete_ignoring_def release_kubeconfig_def Let_def by (intro emit; simp)+
  then have parts: "?ok (releaseSandboxClaim M name)" "?ok (release_kubeconfig M run step)"
    "?ok (lift_op M (\<lambda>K. cleanupStepRBAC K spoke ns run step))" for name ns
    by (auto intro!: plain)
  have "wp (owned_pod_delete (sandboxClaimName run step)) (Release M run step spoke True) (\<lambda>_ _. True) h"
    unfolding Release_def Let_def
    by (intro wp release_parts_wp)
      (use assms parts releaseSandboxClaimPod_wp in \<open>auto simp: owned_pod_delete_def split: if_splits\<close>)
  then show ?thesis by (rule wp_new_events)
qed

section \<open>Waiting for a pod to disappear\<close>

definition ticks :: "sm_event list \<Rightarrow> nat" where
  "ticks es = length (filter (\<lambda>e. case e of SmTick cancelled \<Rightarrow> \<not> cancelled | _ \<Rightarrow> False) es)"

lemma ticks_simps [simp]: "ticks [] = 0" "ticks (es @ fs) = ticks es + ticks fs" "ticks [SmTick False] = 1"
  "ticks [SmGet k key r] = 0" "ticks [SmNow t] = 0"
  by (simp_all add: ticks_def)

text \<open>The ticker fires every two seconds, so the clock is at least that much further after each tick.\<close>

definition ticker_law :: "SmManager \<Rightarrow> bool" where
  "ticker_law M \<longleftrightarrow> (\<forall>h es. on_sm_now (smRequests M) (h @ es) \<ge> on_sm_now (smRequests M) h + 2 * Second * int (ticks es))"

lemma wait_deletion_returns:
  assumes law: "ticker_law M" and start: "on_sm_now (smRequests M) h0 = t0"
  shows "deadline = t0 + timeout \<Longrightarrow> 2 * Second * int (ticks es + n) > timeout \<Longrightarrow>
    returned (wait_deletion M key deadline (Suc n)) (h0 @ es) \<noteq> None"
proof (induction n arbitrary: es)
  case 0
  show ?case
  proof (cases "on_sm_get (smRequests M) (h0 @ es) PodObj key")
    case (Inr pod)
    have "on_sm_now (smRequests M) (h0 @ es @ [SmGet PodObj key (Inr pod)]) \<ge> t0 + 2 * Second * int (ticks es)"
      using law start unfolding ticker_law_def by (metis (no_types, lifting) add.right_neutral ticks_simps(2,4))
    with 0 Inr show ?thesis by (simp add: returned_def smGet_def smNow_def)
  qed (simp add: returned_def smGet_def)
next
  case (Suc n)
  show ?case
  proof (cases "on_sm_get (smRequests M) (h0 @ es) PodObj key")
    case (Inr pod)
    let ?h = "es @ [SmGet PodObj key (Inr pod), SmNow (on_sm_now (smRequests M) (h0 @ es @ [SmGet PodObj key (Inr pod)])), SmTick False]"
    have "ticks ?h = Suc (ticks es)" by (simp add: ticks_def)
    then have "returned (wait_deletion M key deadline (Suc n)) (h0 @ ?h) \<noteq> None"
      using Suc.prems by (intro Suc.IH) auto
    then show ?thesis
      unfolding wait_deletion.simps(2) [of _ _ _ "Suc n"] by (auto simp: returned_def smGet_def smNow_def smTick_def Inr simp del: wait_deletion.simps)
  qed (simp add: returned_def smGet_def)
qed

text \<open>
  Waiting for a terminating pod ends: with the default limit of two minutes and a ticker that fires every two seconds, the loop returns
  within 62 polls, whatever the API server answers.
\<close>
theorem waiting_ends:
  assumes "ticker_law M" and "smDeletionTimeout M = 0"
  shows "\<exists>r. returned (waitForPodDeletion M 62 key) h = Some r"
proof -
  let ?t = "on_sm_now (smRequests M) h"
  have "returned (wait_deletion M key (?t + 2 * Minute) (Suc 61)) (h @ [SmNow ?t]) \<noteq> None"
    by (rule wait_deletion_returns [OF assms(1) refl refl]) (simp add: Second_def Minute_def)
  then have "returned (waitForPodDeletion M (Suc 61) key) h \<noteq> None"
    using assms(2) by (simp add: waitForPodDeletion_def returned_def smNow_def sandboxDeletionTimeout_def del: wait_deletion.simps)
  then show ?thesis by simp
qed

section \<open>A creation that fails is undone\<close>

text \<open>An operation that surely performs an event of some kind.\<close>

definition performs :: "('e \<Rightarrow> bool) \<Rightarrow> ('e list, 'a) state \<Rightarrow> bool" where
  performs_iff: "performs P m \<longleftrightarrow> (\<forall>h. \<exists>es. snd (run_state m h) = h @ es \<and> list_ex P es)"

lemma performs_first: "performs P m \<Longrightarrow> (\<And>x. emits (\<lambda>_. True) (f x)) \<Longrightarrow> performs P (m \<bind> f)"
  unfolding performs_iff emits_iff
proof (intro allI)
  fix h
  assume m: "\<forall>h. \<exists>es. snd (run_state m h) = h @ es \<and> list_ex P es"
    and f: "\<And>x. \<forall>h. \<exists>es. snd (run_state (f x) h) = h @ es \<and> list_all (\<lambda>_. True) es"
  obtain es where es: "snd (run_state m h) = h @ es" "list_ex P es" using m by blast
  obtain fs where "snd (run_state (f (fst (run_state m h))) (h @ es)) = (h @ es) @ fs" using f by blast
  with es show "\<exists>es. snd (run_state (m \<bind> f) h) = h @ es \<and> list_ex P es"
    by (intro exI [of _ "es @ fs"]) (auto simp: case_prod_beta)
qed

lemma performs_rest: "emits (\<lambda>_. True) m \<Longrightarrow> (\<And>x. performs P (f x)) \<Longrightarrow> performs P (m \<bind> f)"
  unfolding performs_iff emits_iff
proof (intro allI)
  fix h
  assume m: "\<forall>h. \<exists>es. snd (run_state m h) = h @ es \<and> list_all (\<lambda>_. True) es"
    and f: "\<And>x. \<forall>h. \<exists>es. snd (run_state (f x) h) = h @ es \<and> list_ex P es"
  obtain es where es: "snd (run_state m h) = h @ es" using m by blast
  obtain fs where "snd (run_state (f (fst (run_state m h))) (h @ es)) = (h @ es) @ fs" "list_ex P fs" using f by blast
  with es show "\<exists>es. snd (run_state (m \<bind> f) h) = h @ es \<and> list_ex P es"
    by (intro exI [of _ "es @ fs"]) (auto simp: case_prod_beta)
qed

lemma performs_perform: "(\<And>r. P (ev r)) \<Longrightarrow> performs P (perform f ev)"
  by (simp add: performs_iff)

lemma performs_lift:
  assumes "\<And>K. performs (\<lambda>e. P (Base e)) (f K)"
  shows "performs P (lift_op M f)"
  unfolding performs_iff
proof
  fix h
  obtain es where "snd (run_state (f (smKube M h)) (base_events h)) = base_events h @ es" "list_ex (\<lambda>e. P (Base e)) es"
    using assms unfolding performs_iff by blast
  then show "\<exists>es. snd (run_state (lift_op M f) h) = h @ es \<and> list_ex P es"
    by (intro exI [of _ "map Base es"]) (auto simp: lift_op_def list_ex_iff case_prod_beta)
qed

text \<open>The clean-up of a step deletes the service account, unless the run's cluster cannot be reached.\<close>

definition deletes :: "Cluster \<Rightarrow> Kind \<Rightarrow> ObjectKey \<Rightarrow> event \<Rightarrow> bool" where
  "deletes c kind key e \<longleftrightarrow> (\<exists>r. e = EvDelete c kind key r)"

definition step_cluster :: "SpokeAccess option \<Rightarrow> string \<Rightarrow> Cluster \<times> string" where
  "step_cluster spoke hubNS = (case spoke of None \<Rightarrow> (Hub, hubNS) | Some s \<Rightarrow> (saCluster s, saNamespace s))"

lemma any_emits: "emits rbac_event m \<Longrightarrow> emits (\<lambda>_. True) m"
  by (rule emits_mono) simp_all

lemma cleanupStepRBAC_deletes_sa:
  assumes "spTargetCluster (rSpec run) = '''' \<or> spoke \<noteq> None"
  shows "performs (deletes (fst (step_cluster spoke hubNS)) ServiceAccountK
      \<lparr>kName = sandboxSAName run step, kNamespace = snd (step_cluster spoke hubNS)\<rparr>) (cleanupStepRBAC K spoke hubNS run step)"
proof -
  have sa: "performs (deletes c ServiceAccountK key) (deleteIfExists K c ServiceAccountK key)" for c key
    unfolding deleteIfExists_def deleteObject_def
    by (intro performs_first performs_perform emit) (simp add: deletes_def)
  obtain c ns where eq: "step_cluster spoke hubNS = (c, ns)" by (cases "step_cluster spoke hubNS")
  have reachable: "\<not> (spTargetCluster (rSpec run) \<noteq> [] \<and> spoke = None)" using assms by auto
  show ?thesis
    unfolding cleanupStepRBAC_def if_not_P [OF reachable] step_cluster_def [symmetric] eq Let_def prod.case fst_conv snd_conv
    by (intro performs_rest performs_first sa any_emits emit; simp)
qed

definition base_creates :: "event \<Rightarrow> bool" where
  "base_creates b \<longleftrightarrow> (case b of EvCreateRbac _ _ _ \<Rightarrow> True | _ \<Rightarrow> False)"

text \<open>Requests that create an object, successful or not.\<close>

definition creates :: "sm_event \<Rightarrow> bool" where
  "creates e \<longleftrightarrow> (case e of SmCreate _ _ _ \<Rightarrow> True | Base b \<Rightarrow> base_creates b | _ \<Rightarrow> False)"

lemma base_creates_simps [simp]:
  "\<not> base_creates (EvDelete c k key r)" "\<not> base_creates (EvListBindings c u st r2)" "\<not> base_creates (EvGetSecret key r3)"
  "\<not> base_creates (EvNewClient cfg r4)" "\<not> base_creates (EvGetRun key r5)" "\<not> base_creates (EvGetConfig r6)"
  "base_creates (EvCreateRbac c obj r7)"
  by (simp_all add: base_creates_def)

lemma creates_simps [simp]:
  "creates (SmCreate c obj r)" "creates (Base b) \<longleftrightarrow> base_creates b" "\<not> creates (SmGet k key r2)" "\<not> creates (SmDelete k key z r3)"
  "\<not> creates (SmCompleteStep u s)" "\<not> creates (SmBeginStep u s)" "\<not> creates (SmReceived u)"
  by (simp_all add: creates_def)

lemma cleanup_namespaces_no_create [emit]: "emits (\<lambda>b. \<not> base_creates b) (cleanup_namespaces K c roleName nss)"
  by (induction nss) (simp_all only: cleanup_namespaces.simps, (intro emit base_creates_simps; assumption)+)

lemma cleanup_no_create [emit]:
  "emits (\<lambda>b. \<not> base_creates b) (cleanupExecutionRBAC K c run)"
  "emits (\<lambda>b. \<not> base_creates b) (removeReaderSubjectOnSpoke K c uid step)"
  "emits (\<lambda>b. \<not> base_creates b) (removeReaderSubject K c uid step)"
  unfolding cleanupExecutionRBAC_def removeReaderSubjectOnSpoke_def removeReaderSubject_def by (auto intro!: emit delete_all_emits)

lemma access_no_create [emit]:
  "emits (\<lambda>b. \<not> base_creates b) (cleanupStepRBAC K spoke ns run step)"
  "emits (\<lambda>b. \<not> base_creates b) (spokeAccessForRun K run ns)"
  "emits (\<lambda>b. \<not> base_creates b) (readRunnableRun K reader key uid)"
  unfolding cleanupStepRBAC_def spokeAccessForRun_def readRunnableRun_def by (intro emit base_creates_simps)+

lemma lifted_no_create [emit]:
  "emits (\<lambda>e. \<not> creates e) (lift_op M (\<lambda>K. cleanupStepRBAC K spoke ns run step))"
  "emits (\<lambda>e. \<not> creates e) (lift_op M (\<lambda>K. spokeAccessForRun K run ns))"
  "emits (\<lambda>e. \<not> creates e) (requireRunnableRun M run)"
  unfolding requireRunnableRun_def by (auto intro!: emits_lift access_no_create emits_if emits_return)

text \<open>The deletions of a clean-up: the input, the result access and the service account of the step.\<close>

definition cleaned :: "SmManager \<Rightarrow> UID \<Rightarrow> string \<Rightarrow> sm_event list \<Rightarrow> bool" where
  "cleaned M uid step es \<longleftrightarrow>
     list_ex (\<lambda>e. \<exists>r. e = SmDelete ConfigMapObj \<lparr>kName = ''ls-'' @ step @ ''-'' @ uid, kNamespace = smNamespace M\<rparr> False r) es \<and>
     list_ex (\<lambda>e. \<exists>r. e = Base (EvDelete Hub RoleK \<lparr>kName = ''ls-result-'' @ step @ ''-'' @ uid, kNamespace = smNamespace M\<rparr> r)) es \<and>
     list_ex (\<lambda>e. \<exists>r. e = Base (EvDelete Hub RoleBindingK \<lparr>kName = ''ls-result-'' @ step @ ''-'' @ uid, kNamespace = smNamespace M\<rparr> r)) es \<and>
     list_ex (\<lambda>e. \<exists>c ns r. e = Base (EvDelete c ServiceAccountK \<lparr>kName = ''ls-'' @ stepAbbrev step @ ''-'' @ uid, kNamespace = ns\<rparr> r)) es"

lemma cleaned_append: "cleaned M uid step es \<Longrightarrow> cleaned M uid step (es @ fs)"
  by (auto simp: cleaned_def)

lemma any_cleanup [emit]:
  "emits (\<lambda>e. \<not> creates e) (cleanup_kubeconfig M run step)" "emits (\<lambda>e. \<not> creates e) (cleanupOnCreateFailure M run step sa spoke)"
  unfolding cleanupOnCreateFailure_def cleanup_kubeconfig_def Let_def by (auto intro!: emit)

lemma cleanupOnCreateFailure_cleans:
  assumes "spTargetCluster (rSpec run) = '''' \<or> spoke \<noteq> None"
  shows "\<exists>es. snd (run_state (cleanupOnCreateFailure M run step (sandboxSAName run step) spoke) h) = h @ es \<and>
    list_all (\<lambda>e. \<not> creates e) es \<and> cleaned M (run_uid run) step es"
proof -
  let ?m = "cleanupOnCreateFailure M run step (sandboxSAName run step) spoke"
  have any: "emits (\<lambda>_. True) m" if "emits (\<lambda>e. \<not> creates e) m" for m :: "unit smop"
    using that by (rule emits_mono) simp
  have sa: "performs (\<lambda>e. \<exists>c ns r. e = Base (EvDelete c ServiceAccountK \<lparr>kName = sandboxSAName run step, kNamespace = ns\<rparr> r))
      (lift_op M (\<lambda>K. cleanupStepRBAC K spoke (smNamespace M) run step))"
    by (rule performs_lift) (use cleanupStepRBAC_deletes_sa [OF assms] in \<open>fastforce simp: performs_iff list_ex_iff deletes_def\<close>)
  have "performs (\<lambda>e. \<exists>r. e = SmDelete ConfigMapObj \<lparr>kName = inputConfigMapName step (run_uid run), kNamespace = smNamespace M\<rparr> False r) ?m"
    unfolding cleanupOnCreateFailure_def Let_def smDelete_def
    by (intro performs_first performs_perform emit any any_cleanup) auto
  moreover have "performs (\<lambda>e. \<exists>r. e = Base (EvDelete Hub RoleK \<lparr>kName = resultRoleName (run_uid run) step, kNamespace = smNamespace M\<rparr> r)) ?m"
    unfolding cleanupOnCreateFailure_def Let_def deleteObject_def
    by (rule performs_rest, (intro emit; simp), rule performs_first, rule performs_lift, rule performs_perform)
      (auto intro!: emit any any_cleanup emits_perform)
  moreover have "performs (\<lambda>e. \<exists>r. e = Base (EvDelete Hub RoleBindingK \<lparr>kName = resultRoleName (run_uid run) step, kNamespace = smNamespace M\<rparr> r)) ?m"
    unfolding cleanupOnCreateFailure_def Let_def deleteObject_def
    by (rule performs_rest, (intro emit; simp), rule performs_rest, (intro emit emits_perform; simp), rule performs_first, rule performs_lift,
        rule performs_perform) (auto intro!: emit any any_cleanup emits_perform)
  moreover have "performs (\<lambda>e. \<exists>c ns r. e = Base (EvDelete c ServiceAccountK \<lparr>kName = sandboxSAName run step, kNamespace = ns\<rparr> r)) ?m"
    unfolding cleanupOnCreateFailure_def Let_def
    using sa by (intro performs_rest) (auto intro!: emit any any_cleanup performs_first simp: sandboxSAName_def)
  moreover have "emits (\<lambda>e. \<not> creates e) ?m" by (rule any_cleanup)
  ultimately show ?thesis
    unfolding performs_iff emits_iff cleaned_def sandboxSAName_def inputConfigMapName_def resultRoleName_def
    by (metis (no_types, lifting) same_append_eq)
qed

text \<open>Results of operations, whatever events they append.\<close>

definition results_in :: "('e list, 'a) state \<Rightarrow> ('a \<Rightarrow> bool) \<Rightarrow> bool" where
  "results_in m R \<longleftrightarrow> (\<forall>h. wp (\<lambda>_ _. True) m (\<lambda>x _. R x) h)"

named_theorems res \<open>introduction rules for results\<close>

lemma results_any: "emits (\<lambda>_. True) m \<Longrightarrow> (\<And>x. R x) \<Longrightarrow> results_in m R"
  unfolding results_in_def by (intro allI, erule emits_wp) simp_all

lemma results_bind: "results_in m S \<Longrightarrow> (\<And>x. S x \<Longrightarrow> results_in (f x) R) \<Longrightarrow> results_in (m \<bind> f) R"
  unfolding results_in_def by (intro allI wp_bindI) (auto intro: wp_mono)

lemma results_bind_any [res]: "emits (\<lambda>_. True) m \<Longrightarrow> (\<And>x. results_in (f x) R) \<Longrightarrow> results_in (m \<bind> f) R"
  by (rule results_bind [where S = "\<lambda>_. True"]) (auto intro: results_any)

lemma results_rules [res]:
  "R x \<Longrightarrow> results_in (State_Monad.return x) R"
  "(b \<Longrightarrow> results_in m R) \<Longrightarrow> (\<not> b \<Longrightarrow> results_in n R) \<Longrightarrow> results_in (if b then m else n) R"
  "(y = None \<Longrightarrow> results_in m R) \<Longrightarrow> (\<And>z. y = Some z \<Longrightarrow> results_in (f z) R) \<Longrightarrow> results_in (case y of None \<Rightarrow> m | Some z \<Rightarrow> f z) R"
  "(\<And>e. s = Inl e \<Longrightarrow> results_in (g e) R) \<Longrightarrow> (\<And>z. s = Inr z \<Longrightarrow> results_in (k z) R) \<Longrightarrow> results_in (case s of Inl e \<Rightarrow> g e | Inr z \<Rightarrow> k z) R"
  "(\<And>u v. p = (u, v) \<Longrightarrow> results_in (l u v) R) \<Longrightarrow> results_in (case p of (u, v) \<Rightarrow> l u v) R"
  by (simp_all add: results_in_def wp_def split: option.split sum.split prod.split)

lemma no_workload_any: "emits no_workload m \<Longrightarrow> emits (\<lambda>_. True) m"
  by (rule emits_mono) simp_all

lemma create_guarded_any: "emits (\<lambda>_. True) (create_guarded M run obj)"
  unfolding create_guarded_def by (intro emit; simp)

text \<open>A workload is reported under the name that was asked for.\<close>

lemma recreate_pod_name: "results_in (recreate_pod M run name step spec) (\<lambda>r. \<forall>n uid. r = Inr (n, uid) \<longrightarrow> n = name)"
  unfolding recreate_pod_def
  by (intro res create_guarded_any emits_sm_requests(2)) (auto split: sum.splits)

lemma createBarePod_name: "results_in (createBarePod M fuel run name step spec) (\<lambda>w. \<forall>n uid. w = Some (Inr (n, uid)) \<longrightarrow> n = name)"
  unfolding createBarePod_def Let_def
  by (intro res create_guarded_any no_workload_any [OF no_workload_wait] emits_sm_requests(2) results_bind [OF recreate_pod_name]) auto

lemma createSandboxClaim_name: "results_in (createSandboxClaim M run name step spec) (\<lambda>r. \<forall>n uid. r = Inr (n, uid) \<longrightarrow> n = name)"
proof -
  have "emits (\<lambda>_. True) (sm_then (ensure_object M o1 m) (ensure_object M o2 m'))" for o1 o2 m m'
    unfolding ensure_object_def by (intro emit; simp)
  then show ?thesis
    unfolding createSandboxClaim_def
    by (intro res create_guarded_any emits_sm_requests(2)) (auto split: sum.splits)
qed

lemma create_workload_name:
  "results_in (create_workload M fuel cfg run step sa spoke spec) (\<lambda>c. \<forall>n e. c = Some (WorkloadCreated n e) \<longrightarrow> n \<noteq> [])"
  unfolding create_workload_def Let_def
proof (rule results_bind [where S = "\<lambda>w. \<forall>n uid. w = Some (Inr (n, uid)) \<longrightarrow> n = ''ls-'' @ step @ ''-'' @ run_uid run"])
  let ?name = "''ls-'' @ step @ ''-'' @ run_uid run"
  show "results_in (if cfSandboxMode cfg = sandboxModeSandboxClaim
      then createSandboxClaim M run ?name step spec \<bind> (\<lambda>r. State_Monad.return (Some r))
      else createBarePod M fuel run ?name step spec) (\<lambda>w. \<forall>n uid. w = Some (Inr (n, uid)) \<longrightarrow> n = ?name)"
    by (intro res results_bind [OF createSandboxClaim_name] createBarePod_name) auto
qed (intro res no_workload_any [OF no_workload_owners(2)]; auto)

lemma create_inputs_name:
  "results_in (create_inputs M fuel cfg run step agent llm tools deadline ctx sa spoke)
     (\<lambda>c. \<forall>n e. c = Some (WorkloadCreated n e) \<longrightarrow> n \<noteq> [])"
proof -
  have "emits (\<lambda>_. True) (sm_then (createInputConfigMap M cm) (lift_op M (\<lambda>K. ensureResultRBAC K run step psa ns)))" for cm psa ns
    unfolding createInputConfigMap_def by (intro emit; simp)
  then show ?thesis
    unfolding create_inputs_def Let_def by (intro res create_workload_name) auto
qed

text \<open>The API server changes neither the UID of a run nor its target cluster, which is immutable, when its annotations are patched.\<close>

definition patch_law :: "SmManager \<Rightarrow> bool" where
  "patch_law M \<longleftrightarrow> (\<forall>h g base new r. on_meta_patch (smKube M h) g False base new = Inr r \<longrightarrow>
     run_uid r = run_uid new \<and> spTargetCluster (rSpec r) = spTargetCluster (rSpec new))"

definition same_run :: "AgenticRun \<Rightarrow> AgenticRun \<Rightarrow> bool" where
  "same_run a b \<longleftrightarrow> run_uid a = run_uid b \<and> spTargetCluster (rSpec a) = spTargetCluster (rSpec b)"

lemma ensureExecution_same_run:
  "results_in (lift_op M (\<lambda>K. ensureExecutionRBAC K c run (Some rbac) ns extra)) (\<lambda>(run', _). same_run run run')"
proof -
  have "wp (\<lambda>_ _. True) (ensureExecutionRBAC K c run (Some rbac) ns extra) (\<lambda>x _. same_run run (fst x)) g" for K g
    unfolding ensureExecutionRBAC_def option.case Let_def
    by (rule wp_bindI, rule emits_wp [where P = "\<lambda>_. True"], (intro emit ensure_namespaces_emits; simp), simp)
      (auto intro!: wp_returnI simp: same_run_def)
  then show ?thesis unfolding results_in_def by (intro allI wp_lift) (simp add: case_prod_beta)
qed

lemma patch_same_run:
  assumes "patch_law M" and "same_run run run'"
  shows "results_in (lift_op M (\<lambda>K. patchMeta K False run run')) (\<lambda>p. \<forall>r. p = Inr r \<longrightarrow> same_run run r)"
  using assms unfolding results_in_def patchMeta_def patch_law_def same_run_def
  by (intro allI wp_lift wp_performI) auto

lemma grant_same_run:
  assumes "patch_law M"
  shows "results_in (grant_execution M run step ctx spoke) (\<lambda>(run', _). same_run run run')"
proof -
  have "results_in (lift_op M (\<lambda>K. ensureExecutionRBAC K c run (Some rbac) ns extra) \<bind>
      (\<lambda>(run', err). case err of
          Some e \<Rightarrow> State_Monad.return (run', Some e)
        | None \<Rightarrow> lift_op M (\<lambda>K. patchMeta K False run run') \<bind> (\<lambda>p. State_Monad.return (case p of
            Inl e \<Rightarrow> (run', Some (WrapError ''persist RBAC annotation'' e)) | Inr run'' \<Rightarrow> (run'', None)))))
      (\<lambda>(run', _). same_run run run')" for c rbac ns extra
    by (rule results_bind [OF ensureExecution_same_run])
      (auto intro!: res results_bind [OF patch_same_run [OF assms]] split: sum.splits)
  moreover have "same_run run run" by (simp add: same_run_def)
  ultimately show ?thesis
    unfolding grant_execution_def Let_def by (auto intro!: res split: option.split)
qed

lemma dependencies_result:
  assumes "patch_law M"
  shows "results_in (create_dependencies M fuel cfg run step agent llm tools deadline ctx sa spoke)
    (\<lambda>(run', c). same_run run run' \<and> (\<forall>n e. c = Some (WorkloadCreated n e) \<longrightarrow> n \<noteq> []))"
proof -
  have "same_run run run" by (simp add: same_run_def)
  then show ?thesis
    unfolding create_dependencies_def
    by (intro res no_workload_any [OF no_workload_access(2)] no_workload_any [OF no_workload_access(3)] results_bind [OF grant_same_run [OF assms]]
        results_bind [OF create_inputs_name] emit) (auto intro!: res results_bind [OF create_inputs_name] split: option.split)
qed


text \<open>Events of a failed creation: whatever was created is followed by the clean-up, after which nothing is created any more.\<close>

definition undone :: "SmManager \<Rightarrow> UID \<Rightarrow> string \<Rightarrow> sm_event list \<Rightarrow> bool" where
  "undone M uid step es \<longleftrightarrow> (\<exists>as bs. es = as @ bs \<and> list_all (\<lambda>e. \<not> creates e) bs \<and>
     (list_all (\<lambda>e. \<not> creates e) as \<or> cleaned M uid step bs))"

lemma undone_plain: "list_all (\<lambda>e. \<not> creates e) es \<Longrightarrow> undone M uid step es"
  unfolding undone_def by (intro exI [of _ "[]"] exI [of _ es]) simp

lemma undone_before: "list_all (\<lambda>e. \<not> creates e) es \<Longrightarrow> undone M uid step fs \<Longrightarrow> undone M uid step (es @ fs)"
  unfolding undone_def by (metis append.assoc list_all_append)

lemma undone_after: "undone M uid step es \<Longrightarrow> list_all (\<lambda>e. \<not> creates e) fs \<Longrightarrow> undone M uid step (es @ fs)"
  unfolding undone_def by (metis append.assoc list_all_append cleaned_append)

lemma results_with_events:
  assumes "emits P m" and "results_in m R"
    and "\<And>x es. R x \<Longrightarrow> list_all P es \<Longrightarrow> Q x (h @ es)"
  shows "wp (\<lambda>_ _. True) m Q h"
  using assms unfolding emits_iff results_in_def wp_def by metis

lemma good_any: "good (\<lambda>_ _. True) h es"
  by (induction es arbitrary: h) auto

lemma results_emits: "results_in m R \<Longrightarrow> emits (\<lambda>_. True) m"
  unfolding results_in_def emits_def by (blast intro: wp_mono)

lemma spoke_found:
  "results_in (lift_op M (\<lambda>K. spokeAccessForRun K run ns)) (\<lambda>x. \<forall>s. x = Inr s \<longrightarrow> spTargetCluster (rSpec run) = [] \<or> s \<noteq> None)"
proof -
  have "wp (\<lambda>_ _. True) (spokeAccessForRun K run ns) (\<lambda>x _. \<forall>s. x = Inr s \<longrightarrow> spTargetCluster (rSpec run) = [] \<or> s \<noteq> None) g" for K g
    unfolding spokeAccessForRun_def Let_def by (intro wp conjI TrueI) auto
  then show ?thesis unfolding results_in_def by (intro allI wp_lift) simp
qed


lemma create_with_cleanup_undone:
  assumes "patch_law M"
  shows "wp (\<lambda>_ _. True) (create_with_cleanup M fuel cfg run step agent llm tools deadline ctx)
    (\<lambda>out h'. \<exists>es. h' = h @ es \<and> ((\<exists>e. out = Some ([], Some e)) \<longrightarrow> undone M (run_uid run) step es)) h"
  unfolding create_with_cleanup_def Let_def
proof (rule wp_bindI, rule results_with_events [OF lifted_no_create(2) spoke_found])
  fix x :: "error + SpokeAccess option" and es
  assume x: "\<forall>s. x = Inr s \<longrightarrow> spTargetCluster (rSpec run) = [] \<or> s \<noteq> None" and es: "list_all (\<lambda>e. \<not> creates e) es"
  let ?post = "\<lambda>out h'. \<exists>es. h' = h @ es \<and> ((\<exists>e. out = Some ([], Some e)) \<longrightarrow> undone M (run_uid run) step es)"
  show "wp (\<lambda>_ _. True) (case x of Inl e \<Rightarrow> State_Monad.return (Some ([], Some e))
      | Inr spoke \<Rightarrow> create_dependencies M fuel cfg run step agent llm tools deadline ctx (sandboxSAName run step) spoke \<bind>
          (\<lambda>(run', c). case c of
              None \<Rightarrow> State_Monad.return None
            | Some (CreateFailed e) \<Rightarrow> cleanupOnCreateFailure M run' step (sandboxSAName run step) spoke \<bind>
                (\<lambda>_. State_Monad.return (Some ([], Some e)))
            | Some (WorkloadCreated name err) \<Rightarrow> State_Monad.return (Some (name, err)))) ?post (h @ es)"
  proof (cases x)
    case (Inl e)
    with es show ?thesis by (auto intro!: wp_returnI undone_plain)
  next
    case (Inr spoke)
    have undo: "wp (\<lambda>_ _. True) (cleanupOnCreateFailure M run' step (sandboxSAName run step) spoke \<bind>
        (\<lambda>_. State_Monad.return (Some ([], Some e)))) ?post (h @ es @ fs)" if "same_run run run'" for run' e fs
    proof -
      from that x Inr have "spTargetCluster (rSpec run') = [] \<or> spoke \<noteq> None" "run_uid run' = run_uid run"
        "sandboxSAName run' step = sandboxSAName run step"
        by (auto simp: same_run_def sandboxSAName_def)
      with cleanupOnCreateFailure_cleans [of run' spoke M step "h @ es @ fs"]
      obtain gs where "snd (run_state (cleanupOnCreateFailure M run' step (sandboxSAName run step) spoke) (h @ es @ fs)) = (h @ es @ fs) @ gs"
        "list_all (\<lambda>e. \<not> creates e) gs" "cleaned M (run_uid run) step gs" by auto
      moreover from this have "undone M (run_uid run) step (es @ fs @ gs)"
        unfolding undone_def by (intro exI [of _ "es @ fs"] exI [of _ gs]) simp
      ultimately show ?thesis
        by (auto simp: wp_def good_any case_prod_beta)
    qed
    have any: "emits (\<lambda>_. True) (create_dependencies M fuel cfg run step agent llm tools deadline ctx (sandboxSAName run step) spoke)"
      by (rule results_emits [OF dependencies_result [OF assms]])
    show ?thesis
      unfolding Inr sum.case
      by (rule wp_bindI, rule results_with_events [OF any dependencies_result [OF assms]])
        (auto simp: append_assoc intro!: wp_returnI undo split: option.split creation.split)
  qed
qed

lemma runnable_uid: "results_in (requireRunnableRun M run) (\<lambda>x. \<forall>current. x = Inr current \<longrightarrow> run_uid current = run_uid run)"
  unfolding results_in_def by (intro allI requireRunnable_wp) auto

lemma creation_logged:
  assumes law: "patch_law M" and uid: "run_uid current = run_uid run"
    and g: "\<exists>es. g = h @ es \<and> list_all (\<lambda>e. \<not> creates e) es"
  shows "wp (\<lambda>_ _. True) (create_with_cleanup M fuel cfg current step agent llm tools deadline ctx) (\<lambda>out.
    wp (\<lambda>_ _. True) ((case out of Some (_, Some e) \<Rightarrow> smLog M (SmCompleteStep (run_uid current) step) | _ \<Rightarrow> State_Monad.return ()) \<bind>
      (\<lambda>_. State_Monad.return out)) (\<lambda>out h'. \<exists>es. h' = h @ es \<and> ((\<exists>e. out = Some ([], Some e)) \<longrightarrow> undone M (run_uid run) step es))) g"
proof (rule wp_mono [OF create_with_cleanup_undone [OF law]])
  fix out h'
  assume "\<exists>fs. h' = g @ fs \<and> ((\<exists>e. out = Some ([], Some e)) \<longrightarrow> undone M (run_uid current) step fs)"
  then obtain fs where "h' = g @ fs" "(\<exists>e. out = Some ([], Some e)) \<longrightarrow> undone M (run_uid current) step fs" by (elim exE conjE)
  moreover obtain es where "g = h @ es" "list_all (\<lambda>e. \<not> creates e) es" using g by (elim exE conjE)
  ultimately have "h' = h @ es @ fs" "(\<exists>e. out = Some ([], Some e)) \<longrightarrow> undone M (run_uid run) step (es @ fs)"
    using uid by (simp_all add: undone_before)
  then show "wp (\<lambda>_ _. True) ((case out of Some (_, Some e) \<Rightarrow> smLog M (SmCompleteStep (run_uid current) step)
      | _ \<Rightarrow> State_Monad.return ()) \<bind> (\<lambda>_. State_Monad.return out)) (\<lambda>out h'. \<exists>es. h' = h @ es \<and> ((\<exists>e. out = Some ([], Some e)) \<longrightarrow> undone M (run_uid run) step es)) h'"
    by (intro wp_bindI wp_smLog wp) (auto dest: undone_after [where fs = "[SmCompleteStep (run_uid current) step]"])
qed

lemma Create_undone:
  assumes "patch_law M"
  shows "wp (\<lambda>_ _. True) (Create M fuel run step agent llm tools deadline ctx)
    (\<lambda>out h'. \<exists>es. h' = h @ es \<and> ((\<exists>e. out = Some ([], Some e)) \<longrightarrow> undone M (run_uid run) step es)) h"
proof (cases "smConfig M")
  case (Some cfg)
  show ?thesis
    unfolding Create_def Some option.case
  proof (rule wp_bindI, rule results_with_events [OF lifted_no_create(3) runnable_uid])
    fix x :: "error + AgenticRun" and es
    assume "\<forall>current. x = Inr current \<longrightarrow> run_uid current = run_uid run" "list_all (\<lambda>e. \<not> creates e) es"
    then show "wp (\<lambda>_ _. True) (case x of Inl e \<Rightarrow> State_Monad.return (Some ([], Some e))
        | Inr current \<Rightarrow> smLog M (SmBeginStep (run_uid current) step) \<bind> (\<lambda>_.
            (if step = ''analysis'' then smLog M (SmReceived (run_uid current)) else State_Monad.return ()) \<bind> (\<lambda>_.
            create_with_cleanup M fuel cfg current step agent llm tools deadline ctx \<bind> (\<lambda>out.
            (case out of Some (_, Some e) \<Rightarrow> smLog M (SmCompleteStep (run_uid current) step) | _ \<Rightarrow> State_Monad.return ()) \<bind> (\<lambda>_.
            State_Monad.return out))))) (\<lambda>out h'. \<exists>es. h' = h @ es \<and> ((\<exists>e. out = Some ([], Some e)) \<longrightarrow> undone M (run_uid run) step es)) (h @ es)"
      by (intro wp_case_sum wp_bindI wp_smLog wp_ifI wp_returnI creation_logged [OF assms]) (simp_all add: undone_plain)
  qed
qed (simp add: Create_def wp_returnI undone_plain)

text \<open>
  C7: When creating a sandbox fails without a workload (the empty name with an error), then either it created nothing at all, or after the
  last creation it deleted the step's input ConfigMap, result role and role binding, and service account, each by its exact name and whatever
  the earlier deletions answered. The hypothesis states what the API server guarantees of a metadata patch.
\<close>
theorem failed_creation_cleaned_up:
  assumes "patch_law M" and "returned (Create M fuel run step agent llm tools deadline ctx) h = Some ([], Some e)"
  shows "undone M (run_uid run) step (new_events (Create M fuel run step agent llm tools deadline ctx) h)"
  using Create_undone [OF assms(1), of fuel run step agent llm tools deadline ctx h] assms(2)
  by (auto simp: wp_def returned_def new_events_def)

section \<open>An example\<close>

text \<open>
  A manager on an API server that knows one run and on which the reader bindings cannot be listed. A claim, its sandbox and the pod behind it
  exist and own one another; the clock advances with the ticks.
\<close>

definition example_inputs :: input_api where
  "example_inputs = \<lparr>parseTemplate = (\<lambda>_ _. None), executeTemplate = (\<lambda>_ _ _. Inr ''query''), definedTemplates = (\<lambda>_. []),
     readTemplateFile = (\<lambda>_. Inr ''template''),
     marshalContext = (\<lambda>_. Inr ''{}''), marshalResult = (\<lambda>_ _ _ _. Inr ''{}''), prettyOption = (\<lambda>_. Inr ''{}''),
     prettyExecution = (\<lambda>_. Inr ''{}''), outputSchemaForStep = (\<lambda>_ _. ''{}'')\<rparr>"

definition owned :: "string \<Rightarrow> UID \<Rightarrow> ObjectMeta" where
  "owned name owner = (new_meta name ''openshift-lightspeed'' Map.empty Map.empty
     [(agenticRunOwnerRef sample_run)\<lparr>oUID := owner\<rparr>])\<lparr>mUID := name @ ''-uid''\<rparr>"

definition example_requests :: sm_requests where
  "example_requests = \<lparr>
     on_sm_create = (\<lambda>_ _ _. Inr ''new''),
     on_sm_get = (\<lambda>_ kind key. Inr (if kind = SandboxObj then owned (kName key) ''claim-uid'' else owned (kName key) ''box-uid'')),
     on_sm_get_claim = (\<lambda>_ key. Inr (owned ''claim'' ''u-1'', Inr (Some ''box''))),
     on_sm_get_binding = (\<lambda>_ _ _. Inl missing), on_sm_list_bindings = (\<lambda>_. Inl (NewError ''forbidden'')),
     on_sm_update_secret = (\<lambda>_ _ _. None), on_sm_patch_owners = (\<lambda>_ _ _ _. None), on_sm_delete = (\<lambda>_ _ _ _. None),
     on_sm_token = (\<lambda>_ _ _. Inr ''token''), on_sm_readers = (\<lambda>_. []), on_sm_now = (\<lambda>h. 2 * Second * int (ticks h)),
     on_sm_tick = (\<lambda>_. False)\<rparr>"

definition example_config :: "string \<Rightarrow> FullConfig" where
  "example_config mode = \<lparr>cfSandboxMode = mode, cfTerminalTTLDays = 14,
     cfPodSpec = Some \<lparr>psServiceAccountName = [], psAutomountServiceAccountToken = None, psRestartPolicy = [], psActiveDeadlineSeconds = None,
       psContainers = [\<lparr>ctName = ''agent'', ctEnv = [], ctEnvFrom = [], ctVolumeMounts = [], ctTerminationMessagePolicy = []\<rparr>], psVolumes = []\<rparr>,
     cfTLS = \<lparr>tlProfile = [], tlMinVersion = [], tlCipherSuites = []\<rparr>, cfAdditionalCAConfigMap = [],
     cfOTEL = \<lparr>otCollectorEndpoint = [], otAdminEndpoint = [], otCASecretName = [], otCredentialsSecret = []\<rparr>,
     cfMCP = \<lparr>mcEndpoint = [], mcCASecretName = []\<rparr>, cfRHOKP = \<lparr>mcEndpoint = [], mcCASecretName = []\<rparr>,
     cfToolOutputInspectionEnabled = False\<rparr>"

definition example_manager :: "string \<Rightarrow> SmManager" where
  "example_manager mode = \<lparr>
     smKube = (\<lambda>_. (ref_server empty_world)\<lparr>on_get_run := (\<lambda>_ _. Inr sample_run), on_meta_patch := (\<lambda>_ _ _ new. Inr new)\<rparr>),
     smReader = True, smConfig = Some (example_config mode), smAudit = True, smNamespace = ''openshift-lightspeed'',
     smDeletionTimeout = 0, smSpan = None, sha256_hex = (\<lambda>s. s), writeKubeconfig = (\<lambda>_. Inr ''yaml''), newClientset = (\<lambda>_. None),
     smUnstructured = (\<lambda>_. None), smInputs = example_inputs, smRequests = example_requests\<rparr>"

lemma example_laws: "patch_law (example_manager mode)" "ticker_law (example_manager mode)"
  by (auto simp: patch_law_def ticker_law_def example_manager_def example_requests_def distrib_left)

definition example_creation :: "(string \<times> error option) option smop" where
  "example_creation = Create (example_manager ''bare-pod'') 62 sample_run ''analysis'' (Some sample_agent) (Some sample_llm) None 0 None"

definition failed_without_workload :: "(string \<times> error option) option \<Rightarrow> bool" where
  "failed_without_workload out \<longleftrightarrow> (case out of Some (name, Some e) \<Rightarrow> name = [] | _ \<Rightarrow> False)"

lemma example_fails: "failed_without_workload (returned example_creation [])"
  by code_simp

lemma example_creates: "list_ex creates (new_events example_creation [])"
  by code_simp

theorem failed_creation_cleaned_up_witness:
  "patch_law (example_manager ''bare-pod'') \<and> list_ex creates (new_events example_creation []) \<and>
   undone (example_manager ''bare-pod'') ''u-1'' ''analysis'' (new_events example_creation [])"
proof -
  obtain e where e: "returned example_creation [] = Some ([], Some e)"
    using example_fails by (auto simp: failed_without_workload_def split: option.splits prod.splits)
  have "run_uid sample_run = ''u-1''" by (simp add: sample_run_def)
  then show ?thesis
    using failed_creation_cleaned_up [OF example_laws(1) e [unfolded example_creation_def]] example_laws(1) example_creates
    by (simp add: example_creation_def)
qed


theorem waiting_ends_witness:
  "\<exists>r. returned (waitForPodDeletion (example_manager ''bare-pod'') 62 \<lparr>kName = ''ls-analysis-u-1'', kNamespace = ''openshift-lightspeed''\<rparr>) [] = Some r"
  by (rule waiting_ends [OF example_laws(2)]) (simp add: example_manager_def)

definition deletes_pod :: "sm_event \<Rightarrow> bool" where
  "deletes_pod e \<longleftrightarrow> (case e of SmDelete kind key zeroGrace r \<Rightarrow> kind = PodObj \<and> zeroGrace | _ \<Rightarrow> False)"

lemma example_release: "list_ex deletes_pod (new_events (Release (example_manager ''sandbox-claim'') claimed_run ''verification'' None True) [])"
  by code_simp

theorem release_follows_ownership_witness:
  "list_ex deletes_pod (new_events (Release (example_manager ''sandbox-claim'') claimed_run ''verification'' None True) []) \<and>
   good (owned_pod_delete (sandboxClaimName claimed_run ''verification'')) []
     (new_events (Release (example_manager ''sandbox-claim'') claimed_run ''verification'' None True) [])"
proof
  show "good (owned_pod_delete (sandboxClaimName claimed_run ''verification'')) []
     (new_events (Release (example_manager ''sandbox-claim'') claimed_run ''verification'' None True) [])"
    by (rule release_follows_ownership [where cfg = "example_config ''sandbox-claim''"])
      (simp_all add: example_manager_def example_config_def sandboxModeSandboxClaim_def)
qed (rule example_release)

end
