(* ===== verification/CliOps.thy ===== *)
theory CliOps
  imports Approval Diagnostics
begin

text \<open>
  The helpers of the command line client (\<^verbatim>\<open>cli/run/helpers.go\<close>, \<^verbatim>\<open>cli/system/helpers.go\<close>) and its surroundings: the
  kubeconfig, the API server, the log store, the terminal and the clock. As for the controllers, an operation runs over the history of all
  requests and answers; what is written to the terminal is part of that history.
\<close>

section \<open>Texts\<close>

text \<open>
  \<open>strings.ToLower\<close> as far as comparisons with ASCII words need it: besides the ASCII letters, two letters have an ASCII lower case, the
  capital I with a dot and the Kelvin sign.
\<close>

fun go_lower :: "string \<Rightarrow> string" where
  "go_lower [] = []"
| "go_lower [a] = [to_lower a]"
| "go_lower [a, b] = (if byte a = 196 \<and> byte b = 176 then ''i'' else [to_lower a, to_lower b])"
| "go_lower (a # b # c # s) =
    (if byte a = 196 \<and> byte b = 176 then CHR ''i'' # go_lower (c # s)
     else if byte a = 226 \<and> byte b = 132 \<and> byte c = 170 then CHR ''k'' # go_lower s
     else to_lower a # go_lower (b # c # s))"

text \<open>\<open>strings.Join\<close>, and \<open>%d\<close> of a signed integer.\<close>

fun join_with :: "string \<Rightarrow> string list \<Rightarrow> string" where
  "join_with sep [] = ''''"
| "join_with sep [s] = s"
| "join_with sep (s # t # rest) = s @ sep @ join_with sep (t # rest)"

definition decimal_int :: "int \<Rightarrow> string" where
  "decimal_int i = (if i < 0 then ''-'' @ decimal (nat (- i)) else decimal (nat i))"

definition newline :: string where
  "newline = [char_of (10 :: nat)]"

definition tab :: string where
  "tab = [char_of (9 :: nat)]"

definition Hour :: Duration where
  "Hour = 60 * Minute"

definition phase_text :: "AgenticRunPhase \<Rightarrow> string" where
  "phase_text phase = (case phase of
      AgenticRunPhasePending \<Rightarrow> ''Pending'' | AgenticRunPhaseAnalyzing \<Rightarrow> ''Analyzing'' | AgenticRunPhaseProposed \<Rightarrow> ''Proposed''
    | AgenticRunPhaseExecuting \<Rightarrow> ''Executing'' | AgenticRunPhaseVerifying \<Rightarrow> ''Verifying'' | AgenticRunPhaseCompleted \<Rightarrow> ''Completed''
    | AgenticRunPhaseFailed \<Rightarrow> ''Failed'' | AgenticRunPhaseDenied \<Rightarrow> ''Denied'' | AgenticRunPhaseEscalating \<Rightarrow> ''Escalating''
    | AgenticRunPhaseEscalated \<Rightarrow> ''Escalated'' | AgenticRunPhaseEmergencyStopped \<Rightarrow> ''EmergencyStopped'')"

definition status_text :: "ConditionStatus \<Rightarrow> string" where
  "status_text s = (case s of ConditionTrue \<Rightarrow> ''True'' | ConditionFalse \<Rightarrow> ''False'' | ConditionUnknown \<Rightarrow> ''Unknown'')"

definition outcome_text :: "ActionOutcome \<Rightarrow> string" where
  "outcome_text r = (case r of ActionOutcomeSucceeded \<Rightarrow> ''Succeeded'' | ActionOutcomeFailed \<Rightarrow> ''Failed'')"

definition validAgenticRunPhases :: "string list" where
  "validAgenticRunPhases = map phase_text [AgenticRunPhasePending, AgenticRunPhaseAnalyzing, AgenticRunPhaseProposed, AgenticRunPhaseExecuting,
     AgenticRunPhaseVerifying, AgenticRunPhaseCompleted, AgenticRunPhaseFailed, AgenticRunPhaseDenied, AgenticRunPhaseEscalating,
     AgenticRunPhaseEscalated, AgenticRunPhaseEmergencyStopped]"

definition validSandboxSteps :: "string list" where
  "validSandboxSteps = [''Analysis'', ''Execution'', ''Verification'']"

definition IsTerminalPhase :: "AgenticRunPhase \<Rightarrow> bool" where
  "IsTerminalPhase phase = (case phase of
      AgenticRunPhaseCompleted \<Rightarrow> True | AgenticRunPhaseFailed \<Rightarrow> True | AgenticRunPhaseEscalated \<Rightarrow> True
    | AgenticRunPhaseDenied \<Rightarrow> True | AgenticRunPhaseEmergencyStopped \<Rightarrow> True | _ \<Rightarrow> False)"

text \<open>Terminal colours: the control sequence of a code.\<close>

definition color :: "string \<Rightarrow> string" where
  "color code = char_of (27 :: nat) # ''['' @ code @ ''m''"

definition ColorReset :: string where "ColorReset = color ''0''"
definition ColorRed :: string where "ColorRed = color ''31''"
definition ColorGreen :: string where "ColorGreen = color ''32''"
definition ColorYellow :: string where "ColorYellow = color ''33''"
definition ColorMagenta :: string where "ColorMagenta = color ''35''"

definition PhaseColor :: "AgenticRunPhase \<Rightarrow> string" where
  "PhaseColor phase = (case phase of
      AgenticRunPhaseCompleted \<Rightarrow> ColorGreen | AgenticRunPhaseFailed \<Rightarrow> ColorRed | AgenticRunPhaseDenied \<Rightarrow> ColorRed
    | AgenticRunPhaseAnalyzing \<Rightarrow> ColorYellow | AgenticRunPhaseExecuting \<Rightarrow> ColorYellow | AgenticRunPhaseVerifying \<Rightarrow> ColorYellow
    | AgenticRunPhaseEscalated \<Rightarrow> ColorMagenta | AgenticRunPhaseEmergencyStopped \<Rightarrow> ColorMagenta | _ \<Rightarrow> ColorReset)"

definition ColoredPhase :: "AgenticRunPhase \<Rightarrow> string" where
  "ColoredPhase phase = PhaseColor phase @ phase_text phase @ ColorReset"

definition IsValidPhase :: "string \<Rightarrow> bool" where
  "IsValidPhase phase \<longleftrightarrow> list_ex (\<lambda>p. p = phase) validAgenticRunPhases"

definition IsValidStep :: "string \<Rightarrow> bool" where
  "IsValidStep step \<longleftrightarrow> list_ex (\<lambda>s. go_lower s = go_lower step) validSandboxSteps"

definition NormalizeStep :: "string \<Rightarrow> string" where
  "NormalizeStep step = (case find (\<lambda>s. go_lower s = go_lower step) validSandboxSteps of Some s \<Rightarrow> s | None \<Rightarrow> step)"

definition ValidateOutputFormat :: "string \<Rightarrow> bool \<Rightarrow> error option" where
  "ValidateOutputFormat format allowWide =
    (let valid = [''json'', ''yaml''] @ (if allowWide then [''wide''] else []) in
     if format = '''' then None
     else if list_ex (\<lambda>v. format = v) valid then None
     else Some (NewError (''invalid output format '' @ quote_name format @ '', must be one of: '' @ join_with '', '' valid)))"

fun stepStatusFromConditions :: "Condition list \<Rightarrow> string \<Rightarrow> string" where
  "stepStatusFromConditions [] condType = ''-''"
| "stepStatusFromConditions (c # cs) condType =
    (if cType c = condType
     then (case cStatus c of ConditionTrue \<Rightarrow> ColorGreen @ ''True'' | ConditionFalse \<Rightarrow> ColorRed @ ''False'' | ConditionUnknown \<Rightarrow> ColorYellow @ ''Unknown'')
       @ ColorReset @ '' ('' @ cReason c @ '')''
     else stepStatusFromConditions cs condType)"

text \<open>The terminal phases of the client are those of the operator, and every phase of the API is a valid filter.\<close>

lemma IsTerminalPhase_isTerminal: "IsTerminalPhase phase = isTerminal phase"
  by (cases phase) (simp_all add: IsTerminalPhase_def isTerminal_def)

lemma phase_text_inject: "phase_text p = phase_text q \<Longrightarrow> p = q"
  by (cases p; cases q) (simp_all add: phase_text_def)

lemma IsValidPhase_iff: "IsValidPhase s \<longleftrightarrow> (\<exists>p. s = phase_text p)"
proof
  show "IsValidPhase s \<Longrightarrow> \<exists>p. s = phase_text p"
    by (auto simp: IsValidPhase_def validAgenticRunPhases_def)
  show "\<exists>p. s = phase_text p \<Longrightarrow> IsValidPhase s"
  proof -
    assume "\<exists>p. s = phase_text p"
    then obtain p where "s = phase_text p" ..
    then show ?thesis
      by (cases p) (simp_all add: IsValidPhase_def validAgenticRunPhases_def)
  qed
qed

section \<open>Events\<close>

text \<open>
  A page of the log store: records with identity, phase, time stamp as it is printed and body. A body is any JSON value; decoding it
  into a Go string succeeds on a JSON string and, with the empty string, on null.
\<close>

datatype log_body = JsonString string | JsonNull | OtherJson string

record storedLogRecord =
  lrID :: int
  lrPhase :: string
  lrTimestamp :: string
  lrBody :: log_body

record storedLogPage =
  lpRecords :: "storedLogRecord list"
  lpHasMore :: bool

text \<open>The objects of a watch, as untyped JSON values, and its events.\<close>

datatype uval = UString string | UMap "(string \<times> uval) list" | USlice "uval list" | UOther

datatype watch_type = WatchAdded | WatchModified | WatchDeleted | WatchBookmark | WatchError

text \<open>An event carries an object, unless it is of another kind than expected; the text is what \<open>%v\<close> prints of it.\<close>

record watch_event =
  weType :: watch_type
  weObject :: "uval option"
  weText :: string

text \<open>The kubeconfig: the current context and the namespaces of the contexts.\<close>

record rawKubeConfig =
  rcCurrentContext :: string
  rcContexts :: "string \<rightharpoonup> string"

text \<open>How the log store is reached: through the API server, in a namespace, or at an endpoint given by the user.\<close>

datatype log_source = ServiceProxy string | AdminEndpoint string

datatype cli_event =
    CliRestConfig "error option"
  | CliNewForConfig "error option"
  | CliRawConfig "error + rawKubeConfig"
  | CliGetRun ObjectKey "error + AgenticRun"
  | CliListRuns "string option" "error + AgenticRun list"
  | CliCreateRun string AgenticRunSpec "error + AgenticRun"
  | CliDeleteRun ObjectKey "error option"
  | CliWatchRun ObjectKey "error + watch_event list"
  | CliGetApproval ObjectKey "error + AgenticRunApproval"
  | CliCreateApproval AgenticRunApproval "error + AgenticRunApproval"
  | CliPatchApproval AgenticRunApproval "ApprovalStage list" "error option"
  | CliGetConfig "error + AgenticOLSConfig"
  | CliCreateConfig AgenticOLSConfig "error option"
  | CliPatchConfig AgenticOLSConfig bool "error option"
  | CliReadLine "error + string"
  | CliNow Time
  | CliFetchPage log_source string string int "error + storedLogPage"
  | CliStreamLogs ObjectKey bool "error + (string list \<times> error option)"
  | CliWrite string "error option"
  | CliOut string
  | CliErrOut string
  | CliTable "string list" "string list list"

type_synonym cli_history = "cli_event list"
type_synonym 'a cop = "(cli_history, 'a) state"

text \<open>
  The surroundings: what is answered, given the history, and functions of libraries. \<open>sort.Slice\<close> may put runs of the same age in any
  order, so the sort is a parameter too; \<open>time.ParseDuration\<close> computes fractions in floating point, and time stamps are printed in the
  calendar, so these are parameters as well.
\<close>

record cli_env =
  cliRestConfig_ans :: "cli_history \<Rightarrow> error option"
  cliNewForConfig_ans :: "cli_history \<Rightarrow> error option"
  cliRawConfig_ans :: "cli_history \<Rightarrow> error + rawKubeConfig"
  cliGetRun_ans :: "cli_history \<Rightarrow> ObjectKey \<Rightarrow> error + AgenticRun"
  cliListRuns_ans :: "cli_history \<Rightarrow> string option \<Rightarrow> error + AgenticRun list"
  cliCreateRun_ans :: "cli_history \<Rightarrow> string \<Rightarrow> AgenticRunSpec \<Rightarrow> error + AgenticRun"
  cliDeleteRun_ans :: "cli_history \<Rightarrow> ObjectKey \<Rightarrow> error option"
  cliWatchRun_ans :: "cli_history \<Rightarrow> ObjectKey \<Rightarrow> error + watch_event list"
  cliGetApproval_ans :: "cli_history \<Rightarrow> ObjectKey \<Rightarrow> error + AgenticRunApproval"
  cliCreateApproval_ans :: "cli_history \<Rightarrow> AgenticRunApproval \<Rightarrow> error + AgenticRunApproval"
  cliPatchApproval_ans :: "cli_history \<Rightarrow> AgenticRunApproval \<Rightarrow> ApprovalStage list \<Rightarrow> error option"
  cliGetConfig_ans :: "cli_history \<Rightarrow> error + AgenticOLSConfig"
  cliCreateConfig_ans :: "cli_history \<Rightarrow> AgenticOLSConfig \<Rightarrow> error option"
  cliPatchConfig_ans :: "cli_history \<Rightarrow> AgenticOLSConfig \<Rightarrow> bool \<Rightarrow> error option"
  cliReadLine_ans :: "cli_history \<Rightarrow> error + string"
  cliNow_ans :: "cli_history \<Rightarrow> Time"
  cliFetchPage_ans :: "cli_history \<Rightarrow> log_source \<Rightarrow> string \<Rightarrow> string \<Rightarrow> int \<Rightarrow> error + storedLogPage"
  cliStreamLogs_ans :: "cli_history \<Rightarrow> ObjectKey \<Rightarrow> bool \<Rightarrow> error + (string list \<times> error option)"
  cliWrite_ans :: "cli_history \<Rightarrow> string \<Rightarrow> error option"
  IsNoMatchError :: "error \<Rightarrow> bool"
  FindStatusCondition_of :: "Condition list \<Rightarrow> string \<Rightarrow> Condition option"
  human_duration :: "Duration \<Rightarrow> string"
  formatRFC3339 :: "Time \<Rightarrow> string"
  ParseDuration :: "string \<Rightarrow> error + Duration"
  sort_by_age :: "AgenticRun list \<Rightarrow> AgenticRun list"
  marshal_runs :: "string \<Rightarrow> AgenticRun list \<Rightarrow> error + string"
  marshal_run :: "string \<Rightarrow> AgenticRun \<Rightarrow> error + string"
  url_parse :: "string \<Rightarrow> (string \<times> string \<times> string) option"

definition cliRestConfig :: "cli_env \<Rightarrow> error option cop" where
  "cliRestConfig E = perform (\<lambda>h. cliRestConfig_ans E h) (CliRestConfig)"
definition cliNewForConfig :: "cli_env \<Rightarrow> error option cop" where
  "cliNewForConfig E = perform (\<lambda>h. cliNewForConfig_ans E h) (CliNewForConfig)"
definition cliRawConfig :: "cli_env \<Rightarrow> (error + rawKubeConfig) cop" where
  "cliRawConfig E = perform (\<lambda>h. cliRawConfig_ans E h) (CliRawConfig)"
definition cliGetRun :: "cli_env \<Rightarrow> ObjectKey \<Rightarrow> (error + AgenticRun) cop" where
  "cliGetRun E key = perform (\<lambda>h. cliGetRun_ans E h key) (CliGetRun key)"
definition cliListRuns :: "cli_env \<Rightarrow> string option \<Rightarrow> (error + AgenticRun list) cop" where
  "cliListRuns E ns = perform (\<lambda>h. cliListRuns_ans E h ns) (CliListRuns ns)"
definition cliCreateRun :: "cli_env \<Rightarrow> string \<Rightarrow> AgenticRunSpec \<Rightarrow> (error + AgenticRun) cop" where
  "cliCreateRun E ns spec = perform (\<lambda>h. cliCreateRun_ans E h ns spec) (CliCreateRun ns spec)"
definition cliDeleteRun :: "cli_env \<Rightarrow> ObjectKey \<Rightarrow> error option cop" where
  "cliDeleteRun E key = perform (\<lambda>h. cliDeleteRun_ans E h key) (CliDeleteRun key)"
definition cliWatchRun :: "cli_env \<Rightarrow> ObjectKey \<Rightarrow> (error + watch_event list) cop" where
  "cliWatchRun E key = perform (\<lambda>h. cliWatchRun_ans E h key) (CliWatchRun key)"
definition cliGetApproval :: "cli_env \<Rightarrow> ObjectKey \<Rightarrow> (error + AgenticRunApproval) cop" where
  "cliGetApproval E key = perform (\<lambda>h. cliGetApproval_ans E h key) (CliGetApproval key)"
definition cliCreateApproval :: "cli_env \<Rightarrow> AgenticRunApproval \<Rightarrow> (error + AgenticRunApproval) cop" where
  "cliCreateApproval E a = perform (\<lambda>h. cliCreateApproval_ans E h a) (CliCreateApproval a)"
definition cliPatchApproval :: "cli_env \<Rightarrow> AgenticRunApproval \<Rightarrow> ApprovalStage list \<Rightarrow> error option cop" where
  "cliPatchApproval E a es = perform (\<lambda>h. cliPatchApproval_ans E h a es) (CliPatchApproval a es)"
definition cliGetConfig :: "cli_env \<Rightarrow> (error + AgenticOLSConfig) cop" where
  "cliGetConfig E = perform (\<lambda>h. cliGetConfig_ans E h) (CliGetConfig)"
definition cliCreateConfig :: "cli_env \<Rightarrow> AgenticOLSConfig \<Rightarrow> error option cop" where
  "cliCreateConfig E c = perform (\<lambda>h. cliCreateConfig_ans E h c) (CliCreateConfig c)"
definition cliPatchConfig :: "cli_env \<Rightarrow> AgenticOLSConfig \<Rightarrow> bool \<Rightarrow> error option cop" where
  "cliPatchConfig E c suspended = perform (\<lambda>h. cliPatchConfig_ans E h c suspended) (CliPatchConfig c suspended)"
definition cliReadLine :: "cli_env \<Rightarrow> (error + string) cop" where
  "cliReadLine E = perform (\<lambda>h. cliReadLine_ans E h) (CliReadLine)"
definition cliNow :: "cli_env \<Rightarrow> Time cop" where
  "cliNow E = perform (\<lambda>h. cliNow_ans E h) (CliNow)"
definition cliFetchPage :: "cli_env \<Rightarrow> log_source \<Rightarrow> string \<Rightarrow> string \<Rightarrow> int \<Rightarrow> (error + storedLogPage) cop" where
  "cliFetchPage E src uid phase after = perform (\<lambda>h. cliFetchPage_ans E h src uid phase after) (CliFetchPage src uid phase after)"
definition cliStreamLogs :: "cli_env \<Rightarrow> ObjectKey \<Rightarrow> bool \<Rightarrow> (error + (string list \<times> error option)) cop" where
  "cliStreamLogs E key follow = perform (\<lambda>h. cliStreamLogs_ans E h key follow) (CliStreamLogs key follow)"
definition cliWrite :: "cli_env \<Rightarrow> string \<Rightarrow> error option cop" where
  "cliWrite E text = perform (\<lambda>h. cliWrite_ans E h text) (CliWrite text)"
definition say :: "string \<Rightarrow> unit cop" where
  "say text = perform (\<lambda>_. ()) (\<lambda>_. CliOut text)"
definition warn :: "string \<Rightarrow> unit cop" where
  "warn text = perform (\<lambda>_. ()) (\<lambda>_. CliErrOut text)"

text \<open>\<open>PrintTable\<close> hands its rows to a tab writer, which aligns the columns.\<close>

definition PrintTable :: "string list \<Rightarrow> string list list \<Rightarrow> unit cop" where
  "PrintTable headers rows = perform (\<lambda>_. ()) (\<lambda>_. CliTable headers rows)"

lemmas cli_request_defs =
  cliRestConfig_def cliNewForConfig_def cliRawConfig_def cliGetRun_def cliListRuns_def cliCreateRun_def cliDeleteRun_def cliWatchRun_def cliGetApproval_def cliCreateApproval_def cliPatchApproval_def cliGetConfig_def cliCreateConfig_def cliPatchConfig_def cliReadLine_def cliNow_def cliFetchPage_def cliStreamLogs_def cliWrite_def
  say_def warn_def PrintTable_def

lemma wp_cli_requests [wp]:
  "(\<And>r. P h (CliRestConfig r) \<and> Q1 r (h @ [CliRestConfig r])) \<Longrightarrow> wp P (cliRestConfig E) Q1 h"
  "(\<And>r. P h (CliNewForConfig r) \<and> Q1 r (h @ [CliNewForConfig r])) \<Longrightarrow> wp P (cliNewForConfig E) Q1 h"
  "(\<And>r. P h (CliRawConfig r) \<and> Q2 r (h @ [CliRawConfig r])) \<Longrightarrow> wp P (cliRawConfig E) Q2 h"
  "(\<And>r. P h (CliGetRun x0ObjectKey r) \<and> Q3 r (h @ [CliGetRun x0ObjectKey r])) \<Longrightarrow> wp P (cliGetRun E x0ObjectKey) Q3 h"
  "(\<And>r. P h (CliListRuns x0stringoption r) \<and> Q4 r (h @ [CliListRuns x0stringoption r])) \<Longrightarrow> wp P (cliListRuns E x0stringoption) Q4 h"
  "(\<And>r. P h (CliCreateRun x0string x1AgenticRunSpec r) \<and> Q3 r (h @ [CliCreateRun x0string x1AgenticRunSpec r])) \<Longrightarrow> wp P (cliCreateRun E x0string x1AgenticRunSpec) Q3 h"
  "(\<And>r. P h (CliDeleteRun x0ObjectKey r) \<and> Q1 r (h @ [CliDeleteRun x0ObjectKey r])) \<Longrightarrow> wp P (cliDeleteRun E x0ObjectKey) Q1 h"
  "(\<And>r. P h (CliWatchRun x0ObjectKey r) \<and> Q5 r (h @ [CliWatchRun x0ObjectKey r])) \<Longrightarrow> wp P (cliWatchRun E x0ObjectKey) Q5 h"
  "(\<And>r. P h (CliGetApproval x0ObjectKey r) \<and> Q6 r (h @ [CliGetApproval x0ObjectKey r])) \<Longrightarrow> wp P (cliGetApproval E x0ObjectKey) Q6 h"
  "(\<And>r. P h (CliCreateApproval x0AgenticRunApproval r) \<and> Q6 r (h @ [CliCreateApproval x0AgenticRunApproval r])) \<Longrightarrow> wp P (cliCreateApproval E x0AgenticRunApproval) Q6 h"
  "(\<And>r. P h (CliPatchApproval x0AgenticRunApproval x1ApprovalStagelist r) \<and> Q1 r (h @ [CliPatchApproval x0AgenticRunApproval x1ApprovalStagelist r])) \<Longrightarrow> wp P (cliPatchApproval E x0AgenticRunApproval x1ApprovalStagelist) Q1 h"
  "(\<And>r. P h (CliGetConfig r) \<and> Q7 r (h @ [CliGetConfig r])) \<Longrightarrow> wp P (cliGetConfig E) Q7 h"
  "(\<And>r. P h (CliCreateConfig x0AgenticOLSConfig r) \<and> Q1 r (h @ [CliCreateConfig x0AgenticOLSConfig r])) \<Longrightarrow> wp P (cliCreateConfig E x0AgenticOLSConfig) Q1 h"
  "(\<And>r. P h (CliPatchConfig x0AgenticOLSConfig x1bool r) \<and> Q1 r (h @ [CliPatchConfig x0AgenticOLSConfig x1bool r])) \<Longrightarrow> wp P (cliPatchConfig E x0AgenticOLSConfig x1bool) Q1 h"
  "(\<And>r. P h (CliReadLine r) \<and> Q8 r (h @ [CliReadLine r])) \<Longrightarrow> wp P (cliReadLine E) Q8 h"
  "(\<And>r. P h (CliNow r) \<and> Q9 r (h @ [CliNow r])) \<Longrightarrow> wp P (cliNow E) Q9 h"
  "(\<And>r. P h (CliFetchPage x0logsource x1string x2string x3int r) \<and> Q10 r (h @ [CliFetchPage x0logsource x1string x2string x3int r])) \<Longrightarrow> wp P (cliFetchPage E x0logsource x1string x2string x3int) Q10 h"
  "(\<And>r. P h (CliStreamLogs x0ObjectKey x1bool r) \<and> Q11 r (h @ [CliStreamLogs x0ObjectKey x1bool r])) \<Longrightarrow> wp P (cliStreamLogs E x0ObjectKey x1bool) Q11 h"
  "(\<And>r. P h (CliWrite x0string r) \<and> Q1 r (h @ [CliWrite x0string r])) \<Longrightarrow> wp P (cliWrite E x0string) Q1 h"
  "P h (CliOut s) \<and> Q0 () (h @ [CliOut s]) \<Longrightarrow> wp P (say s) Q0 h"
  "P h (CliErrOut s) \<and> Q0 () (h @ [CliErrOut s]) \<Longrightarrow> wp P (warn s) Q0 h"
  "P h (CliTable hs rows) \<and> Q0 () (h @ [CliTable hs rows]) \<Longrightarrow> wp P (PrintTable hs rows) Q0 h"
  by (auto intro: wp_performI simp: cli_request_defs)

lemma emits_cli_requests [emit]:
  "(\<And>r. P (CliRestConfig r)) \<Longrightarrow> emits P (cliRestConfig E)"
  "(\<And>r. P (CliNewForConfig r)) \<Longrightarrow> emits P (cliNewForConfig E)"
  "(\<And>r. P (CliRawConfig r)) \<Longrightarrow> emits P (cliRawConfig E)"
  "(\<And>r. P (CliGetRun x0ObjectKey r)) \<Longrightarrow> emits P (cliGetRun E x0ObjectKey)"
  "(\<And>r. P (CliListRuns x0stringoption r)) \<Longrightarrow> emits P (cliListRuns E x0stringoption)"
  "(\<And>r. P (CliCreateRun x0string x1AgenticRunSpec r)) \<Longrightarrow> emits P (cliCreateRun E x0string x1AgenticRunSpec)"
  "(\<And>r. P (CliDeleteRun x0ObjectKey r)) \<Longrightarrow> emits P (cliDeleteRun E x0ObjectKey)"
  "(\<And>r. P (CliWatchRun x0ObjectKey r)) \<Longrightarrow> emits P (cliWatchRun E x0ObjectKey)"
  "(\<And>r. P (CliGetApproval x0ObjectKey r)) \<Longrightarrow> emits P (cliGetApproval E x0ObjectKey)"
  "(\<And>r. P (CliCreateApproval x0AgenticRunApproval r)) \<Longrightarrow> emits P (cliCreateApproval E x0AgenticRunApproval)"
  "(\<And>r. P (CliPatchApproval x0AgenticRunApproval x1ApprovalStagelist r)) \<Longrightarrow> emits P (cliPatchApproval E x0AgenticRunApproval x1ApprovalStagelist)"
  "(\<And>r. P (CliGetConfig r)) \<Longrightarrow> emits P (cliGetConfig E)"
  "(\<And>r. P (CliCreateConfig x0AgenticOLSConfig r)) \<Longrightarrow> emits P (cliCreateConfig E x0AgenticOLSConfig)"
  "(\<And>r. P (CliPatchConfig x0AgenticOLSConfig x1bool r)) \<Longrightarrow> emits P (cliPatchConfig E x0AgenticOLSConfig x1bool)"
  "(\<And>r. P (CliReadLine r)) \<Longrightarrow> emits P (cliReadLine E)"
  "(\<And>r. P (CliNow r)) \<Longrightarrow> emits P (cliNow E)"
  "(\<And>r. P (CliFetchPage x0logsource x1string x2string x3int r)) \<Longrightarrow> emits P (cliFetchPage E x0logsource x1string x2string x3int)"
  "(\<And>r. P (CliStreamLogs x0ObjectKey x1bool r)) \<Longrightarrow> emits P (cliStreamLogs E x0ObjectKey x1bool)"
  "(\<And>r. P (CliWrite x0string r)) \<Longrightarrow> emits P (cliWrite E x0string)"
  "P (CliOut s) \<Longrightarrow> emits P (say s)"
  "P (CliErrOut s) \<Longrightarrow> emits P (warn s)"
  "P (CliTable hs rows) \<Longrightarrow> emits P (PrintTable hs rows)"
  by (simp_all add: cli_request_defs emits_perform)

definition say_line :: "string \<Rightarrow> unit cop" where
  "say_line text = say (text @ newline)"

lemma wp_say_line [wp]: "P h (CliOut (s @ newline)) \<and> Q () (h @ [CliOut (s @ newline)]) \<Longrightarrow> wp P (say_line s) Q h"
  by (simp add: say_line_def wp)

lemma emits_say_line [emit]: "P (CliOut (s @ newline)) \<Longrightarrow> emits P (say_line s)"
  by (simp add: say_line_def emit)

section \<open>Early returns\<close>

text \<open>\<open>if err != nil return err\<close>: the rest runs only if there was no error, on the value there is then.\<close>

definition checked :: "error option cop \<Rightarrow> error option cop \<Rightarrow> error option cop" where
  "checked m k = do {
     r \<leftarrow> m;
     case r of Some e \<Rightarrow> State_Monad.return (Some e) | None \<Rightarrow> k
   }"

definition with_result :: "(error \<Rightarrow> error) \<Rightarrow> (error + 'a) cop \<Rightarrow> ('a \<Rightarrow> error option cop) \<Rightarrow> error option cop" where
  "with_result wrap m k = do {
     r \<leftarrow> m;
     case r of Inl e \<Rightarrow> State_Monad.return (Some (wrap e)) | Inr x \<Rightarrow> k x
   }"

lemma wp_checked [wp]:
  "wp P m (\<lambda>r h'. case r of Some e \<Rightarrow> Q (Some e) h' | None \<Rightarrow> wp P k Q h') h \<Longrightarrow> wp P (checked m k) Q h"
  unfolding checked_def
  by (intro wp_bindI, elim wp_mono) (auto split: option.splits intro: wp)

lemma wp_with_result [wp]:
  "wp P m (\<lambda>r h'. case r of Inl e \<Rightarrow> Q (Some (wrap e)) h' | Inr x \<Rightarrow> wp P (k x) Q h') h \<Longrightarrow> wp P (with_result wrap m k) Q h"
  unfolding with_result_def
  by (intro wp_bindI, elim wp_mono) (auto split: sum.splits intro: wp)

lemma emits_checked [emit]: "emits P m \<Longrightarrow> emits P k \<Longrightarrow> emits P (checked m k)"
  unfolding checked_def by (intro emit)

lemma emits_with_result [emit]: "emits P m \<Longrightarrow> (\<And>x. emits P (k x)) \<Longrightarrow> emits P (with_result wrap m k)"
  unfolding with_result_def by (intro emit)

section \<open>Connecting\<close>

definition NewClientFromConfig :: "cli_env \<Rightarrow> error option cop" where
  "NewClientFromConfig E = do {
     r \<leftarrow> cliNewForConfig E;
     State_Monad.return (map_option (WrapError ''failed to create client'') r)
   }"

definition NewClient :: "cli_env \<Rightarrow> error option cop" where
  "NewClient E = do {
     r \<leftarrow> cliRestConfig E;
     case r of Some e \<Rightarrow> State_Monad.return (Some (WrapError ''failed to get REST config'' e)) | None \<Rightarrow> NewClientFromConfig E
   }"

definition DefaultNamespace :: string where
  "DefaultNamespace = ''openshift-lightspeed''"

text \<open>The flag, if it is given, or else the namespace of the current context, unless that is \<^verbatim>\<open>default\<close>.\<close>

definition ResolveNamespace :: "cli_env \<Rightarrow> string option \<Rightarrow> (error + string) cop" where
  "ResolveNamespace E flag =
    (if flag \<noteq> None \<and> flag \<noteq> Some '''' then State_Monad.return (Inr (the flag))
     else do {
       r \<leftarrow> cliRawConfig E;
       State_Monad.return (case r of
           Inl e \<Rightarrow> Inl (WrapError ''failed to load kubeconfig'' e)
         | Inr raw \<Rightarrow> (case rcContexts raw (rcCurrentContext raw) of
               Some ns \<Rightarrow> if ns \<noteq> '''' \<and> ns \<noteq> ''default'' then Inr ns else Inr DefaultNamespace
             | None \<Rightarrow> Inr DefaultNamespace))
     })"

text \<open>\<open>Complete\<close> of the commands on one namespace.\<close>

definition Complete_namespace :: "cli_env \<Rightarrow> string option \<Rightarrow> (string \<Rightarrow> error option cop) \<Rightarrow> error option cop" where
  "Complete_namespace E flag k = checked (NewClient E) (with_result id (ResolveNamespace E flag) k)"

text \<open>\<open>Complete\<close> of the commands that work on one namespace or, on demand, on all.\<close>

definition Complete_namespaces :: "cli_env \<Rightarrow> bool \<Rightarrow> string option \<Rightarrow> (string option \<Rightarrow> error option cop) \<Rightarrow> error option cop" where
  "Complete_namespaces E allNamespaces flag k =
     checked (NewClient E) (if allNamespaces then k None else with_result id (ResolveNamespace E flag) (\<lambda>ns. k (Some ns)))"

definition HumanDuration :: "cli_env \<Rightarrow> Time \<Rightarrow> string cop" where
  "HumanDuration E t = do {
     t1 \<leftarrow> cliNow E;
     State_Monad.return (human_duration E (t1 - t))
   }"

text \<open>Requests that connect, look around or ask, and change nothing on the cluster.\<close>

fun connecting :: "cli_event \<Rightarrow> bool" where
  "connecting (CliRestConfig r) = True"
| "connecting (CliNewForConfig r) = True"
| "connecting (CliRawConfig r) = True"
| "connecting _ = False"

lemma emits_NewClient: "emits connecting (NewClient E)"
  unfolding NewClient_def NewClientFromConfig_def by (intro emit) simp_all

lemma emits_ResolveNamespace: "emits connecting (ResolveNamespace E flag)"
  unfolding ResolveNamespace_def by (intro emit) simp_all

lemma emits_HumanDuration [emit]: "(\<And>r. P (CliNow r)) \<Longrightarrow> emits P (HumanDuration E t)"
  unfolding HumanDuration_def by (intro emit)

end
