(* ===== verification/CliView.thy ===== *)
theory CliView
  imports CliOps
begin

text \<open>
  The commands of \<^verbatim>\<open>cli/run\<close> that only look: watching a run (\<^verbatim>\<open>watch.go\<close>), listing runs (\<^verbatim>\<open>list.go\<close>) and showing one
  (\<^verbatim>\<open>get.go\<close>). The channel of a watch is the list of the events that come until it is closed.
\<close>

section \<open>Watching\<close>

text \<open>\<open>unstructured.NestedSlice\<close>: no list is found if a value on the way is missing or of another kind.\<close>

fun NestedSlice :: "uval \<Rightarrow> string list \<Rightarrow> uval list" where
  "NestedSlice (USlice vs) [] = vs"
| "NestedSlice (UMap kvs) (k # ks) = (case map_of kvs k of Some v \<Rightarrow> NestedSlice v ks | None \<Rightarrow> [])"
| "NestedSlice _ _ = []"

definition string_at :: "(string \<times> uval) list \<Rightarrow> string \<Rightarrow> string" where
  "string_at kvs k = (case map_of kvs k of Some (UString s) \<Rightarrow> s | _ \<Rightarrow> '''')"

text \<open>A status is any text; one that is neither true nor unknown counts as false wherever a phase is derived.\<close>

definition status_of :: "string \<Rightarrow> ConditionStatus" where
  "status_of s = (if s = ''True'' then ConditionTrue else if s = ''Unknown'' then ConditionUnknown else ConditionFalse)"

fun extract_condition :: "uval \<Rightarrow> Condition list" where
  "extract_condition (UMap kvs) =
     [\<lparr>cType = string_at kvs ''type'', cStatus = status_of (string_at kvs ''status''), cReason = string_at kvs ''reason'',
       cMessage = '''', cObservedGeneration = 0, cLastTransitionTime = 0\<rparr>]"
| "extract_condition _ = []"

definition extractConditions :: "uval \<Rightarrow> Condition list" where
  "extractConditions obj = concat (map extract_condition (NestedSlice obj [''status'', ''conditions'']))"

text \<open>\<open>Round(time.Second)\<close>, halves away from zero, and the text of a duration of whole seconds.\<close>

definition round_seconds :: "Duration \<Rightarrow> int" where
  "round_seconds d = (if d < 0 then - ((- d + Second div 2) div Second) else (d + Second div 2) div Second)"

definition seconds_text :: "int \<Rightarrow> string" where
  "seconds_text n =
    (let a = nat (abs n); s = decimal (a mod 60) @ ''s''; m = decimal (a div 60 mod 60) @ ''m''; h = decimal (a div 3600) @ ''h'' in
     (if n < 0 then ''-'' else '''') @ (if a \<ge> 3600 then h @ m @ s else if a \<ge> 60 then m @ s else s))"

text \<open>The loop over the events: a line for every change of the phase, until a terminal one.\<close>

fun watch_loop :: "cli_env \<Rightarrow> Time \<Rightarrow> string \<Rightarrow> watch_event list \<Rightarrow> error option cop" where
  "watch_loop E start lastPhase [] = State_Monad.return None"
| "watch_loop E start lastPhase (event # rest) =
    (if weType event = WatchError then State_Monad.return (Some (NewError (''watch error: '' @ weText event)))
     else if weType event \<noteq> WatchModified \<and> weType event \<noteq> WatchAdded then watch_loop E start lastPhase rest
     else (case weObject event of
         None \<Rightarrow> watch_loop E start lastPhase rest
       | Some obj \<Rightarrow>
           let p = DerivePhase (extractConditions obj); phase = phase_text p in
           if phase = lastPhase then watch_loop E start lastPhase rest
           else do {
             t1 \<leftarrow> cliNow E;
             say_line (ColoredPhase p @ tab @ seconds_text (round_seconds (t1 - start)));
             if IsTerminalPhase p then State_Monad.return None else watch_loop E start phase rest
           }))"

definition doWatch :: "cli_env \<Rightarrow> string \<Rightarrow> string \<Rightarrow> error option cop" where
  "doWatch E namespace name = do {
     r \<leftarrow> cliRestConfig E;
     case r of
       Some e \<Rightarrow> State_Monad.return (Some (WrapError ''failed to get REST config'' e))
     | None \<Rightarrow> do {
         d \<leftarrow> cliNewForConfig E;
         case d of
           Some e \<Rightarrow> State_Monad.return (Some (WrapError ''failed to create dynamic client'' e))
         | None \<Rightarrow>
             with_result (WrapError (''failed to watch run '' @ quote_name name)) (cliWatchRun E \<lparr>kName = name, kNamespace = namespace\<rparr>)
               (\<lambda>events. do {
                  start \<leftarrow> cliNow E;
                  say_line (''PHASE'' @ tab @ ''AGE'');
                  watch_loop E start '''' events
                })
       }
   }"

definition watch_command :: "cli_env \<Rightarrow> string option \<Rightarrow> string \<Rightarrow> error option cop" where
  "watch_command E flag name = with_result id (ResolveNamespace E flag) (\<lambda>ns. doWatch E ns name)"

section \<open>Listing\<close>

definition MarshalOutput :: "(error + string) \<Rightarrow> error option cop" where
  "MarshalOutput out = (case out of
      Inl e \<Rightarrow> State_Monad.return (Some e)
    | Inr text \<Rightarrow> do {
        say text;
        State_Monad.return None
      })"

record ListOptions =
  loAllNamespaces :: bool
  loPhase :: string
  loOutput :: string
  loFlag :: "string option"

definition list_validate :: "ListOptions \<Rightarrow> error option" where
  "list_validate lo =
    (if loPhase lo \<noteq> '''' \<and> \<not> IsValidPhase (loPhase lo)
     then Some (NewError (''invalid phase '' @ quote_name (loPhase lo) @ '', must be one of: '' @ join_with '', '' validAgenticRunPhases))
     else ValidateOutputFormat (loOutput lo) True)"

definition list_filter :: "string \<Rightarrow> AgenticRun list \<Rightarrow> AgenticRun list" where
  "list_filter phase items = filter (\<lambda>p. \<not> (phase \<noteq> '''' \<and> phase_text (DerivePhase (conditions p)) \<noteq> phase)) items"

fun list_rows :: "cli_env \<Rightarrow> bool \<Rightarrow> AgenticRun list \<Rightarrow> string list list cop" where
  "list_rows E allNamespaces [] = State_Monad.return []"
| "list_rows E allNamespaces (p # rest) = do {
     age \<leftarrow> HumanDuration E (mCreationTimestamp (rMeta p));
     rows \<leftarrow> list_rows E allNamespaces rest;
     State_Monad.return (((if allNamespaces then [mNamespace (rMeta p)] else []) @
       [mName (rMeta p), ColoredPhase (DerivePhase (conditions p)), age]) # rows)
   }"

text \<open>\<open>printTable\<close>; \<open>printWideTable\<close> prints the same columns.\<close>

definition printTable :: "cli_env \<Rightarrow> bool \<Rightarrow> AgenticRun list \<Rightarrow> unit cop" where
  "printTable E allNamespaces items = do {
     rows \<leftarrow> list_rows E allNamespaces items;
     PrintTable ((if allNamespaces then [''NAMESPACE''] else []) @ [''NAME'', ''PHASE'', ''AGE'']) rows
   }"

definition list_run :: "cli_env \<Rightarrow> ListOptions \<Rightarrow> string option \<Rightarrow> error option cop" where
  "list_run E lo ns = with_result (WrapError ''failed to list agentic runs'') (cliListRuns E ns) (\<lambda>items.
     let filtered = list_filter (loPhase lo) items in
     if loOutput lo = ''json'' \<or> loOutput lo = ''yaml'' then MarshalOutput (marshal_runs E (loOutput lo) filtered)
     else if length filtered = 0 then do {
       say_line (case ns of None \<Rightarrow> ''No agentic runs found.'' | Some n \<Rightarrow> ''No agentic runs found in namespace '' @ quote_name n @ ''.'');
       State_Monad.return None
     }
     else do {
       printTable E (loAllNamespaces lo) (sort_by_age E filtered);
       State_Monad.return None
     })"

definition list_command :: "cli_env \<Rightarrow> ListOptions \<Rightarrow> error option cop" where
  "list_command E lo = Complete_namespaces E (loAllNamespaces lo) (loFlag lo) (\<lambda>ns.
     case list_validate lo of Some e \<Rightarrow> State_Monad.return (Some e) | None \<Rightarrow> list_run E lo ns)"

section \<open>Showing a run\<close>

fun say_results :: "StepResultRef list \<Rightarrow> unit cop" where
  "say_results [] = State_Monad.return ()"
| "say_results (ref # rest) = do {
     say_line (''  Result:          '' @ rrName ref @ '' (outcome='' @ outcome_text (rrOutcome ref) @ '')'');
     say_results rest
   }"

definition say_step :: "string \<Rightarrow> string \<Rightarrow> AnalysisStepStatus \<Rightarrow> unit cop" where
  "say_step label condType step = do {
     say newline;
     say_line (label @ stepStatusFromConditions (ssConditions step) condType);
     say_results (ssResults step)
   }"

fun condition_rows :: "cli_env \<Rightarrow> Condition list \<Rightarrow> string list list cop" where
  "condition_rows E [] = State_Monad.return []"
| "condition_rows E (c # cs) = do {
     age \<leftarrow> HumanDuration E (cLastTransitionTime c);
     rows \<leftarrow> condition_rows E cs;
     State_Monad.return ([''  '' @ cType c, status_text (cStatus c), cReason c, age] # rows)
   }"

definition printDetail :: "cli_env \<Rightarrow> AgenticRun \<Rightarrow> unit cop" where
  "printDetail E p = do {
     say_line (''Name:              '' @ mName (rMeta p));
     say_line (''Namespace:         '' @ mNamespace (rMeta p));
     say_line (''Phase:             '' @ ColoredPhase (DerivePhase (conditions p)));
     age \<leftarrow> HumanDuration E (mCreationTimestamp (rMeta p));
     say_line (''Age:               '' @ age);
     say_line (''Request:           '' @ spRequest (rSpec p));
     say_step ''Analysis:          '' AgenticRunConditionAnalyzed (stAnalysis (suSteps (rStatus p)));
     say_step ''Execution:         '' AgenticRunConditionExecuted (stExecution (suSteps (rStatus p)));
     say_step ''Verification:      '' AgenticRunConditionVerified (stVerification (suSteps (rStatus p)));
     (let escalation = stEscalation (suSteps (rStatus p)) in
      if length (ssResults escalation) > 0 \<or> length (ssConditions escalation) > 0
      then say_step ''Escalation:        '' AgenticRunConditionEscalated escalation
      else State_Monad.return ());
     if length (conditions p) > 0 then do {
       say newline;
       say_line ''Conditions:'';
       rows \<leftarrow> condition_rows E (conditions p);
       PrintTable [''  TYPE'', ''STATUS'', ''REASON'', ''AGE''] rows
     } else State_Monad.return ()
   }"

definition get_run :: "cli_env \<Rightarrow> string \<Rightarrow> string \<Rightarrow> string \<Rightarrow> error option cop" where
  "get_run E name outputFmt ns = with_result (WrapError (''failed to get run '' @ quote_name name)) (cliGetRun E \<lparr>kName = name, kNamespace = ns\<rparr>) (\<lambda>p.
     if outputFmt = ''json'' \<or> outputFmt = ''yaml'' then MarshalOutput (marshal_run E outputFmt p)
     else do {
       printDetail E p;
       State_Monad.return None
     })"

definition get_command :: "cli_env \<Rightarrow> string option \<Rightarrow> string \<Rightarrow> string \<Rightarrow> error option cop" where
  "get_command E flag name outputFmt = Complete_namespace E flag (\<lambda>ns.
     case ValidateOutputFormat outputFmt False of Some e \<Rightarrow> State_Monad.return (Some e) | None \<Rightarrow> get_run E name outputFmt ns)"

end
