(* ===== verification/CliRun.thy ===== *)
theory CliRun
  imports CliView
begin

text \<open>
  The commands of \<^verbatim>\<open>cli/run\<close> that change one run: creating it (\<^verbatim>\<open>create.go\<close>), approving and denying its stages
  (\<^verbatim>\<open>approve.go\<close>, \<^verbatim>\<open>deny.go\<close>) and deleting it (\<^verbatim>\<open>delete.go\<close>). Creating the approval starts over when somebody else was
  faster, without a limit, so it takes a number of attempts; \<open>None\<close> is not having returned. A panic, which ends the client, is an error of
  its own kind.
\<close>

section \<open>Stages\<close>

datatype stage_ref = KnownStage ApprovalStageType | UnknownStage string

definition normalizeStageType :: "string \<Rightarrow> stage_ref" where
  "normalizeStageType s =
    (let l = go_lower s in
     if l = ''analysis'' then KnownStage ApprovalStageAnalysis
     else if l = ''execution'' then KnownStage ApprovalStageExecution
     else if l = ''verification'' then KnownStage ApprovalStageVerification
     else if l = ''escalation'' then KnownStage ApprovalStageEscalation
     else UnknownStage s)"

definition has_stage :: "AgenticRunApproval \<Rightarrow> ApprovalStageType \<Rightarrow> bool" where
  "has_stage approval typ \<longleftrightarrow> list_ex (\<lambda>s. gType s = typ) (vStages approval)"

text \<open>Stages a run is configured for, in the order of the workflow; escalation once the run has reached it.\<close>

definition stage_candidates :: "AgenticRun \<Rightarrow> (bool \<times> ApprovalStageType \<times> string) list" where
  "stage_candidates p =
     [(\<not> AgenticRunStep_IsZero (spAnalysis (rSpec p)), ApprovalStageAnalysis, ''analysis''),
      (\<not> AgenticRunStep_IsZero (spExecution (rSpec p)), ApprovalStageExecution, ''execution''),
      (\<not> AgenticRunStep_IsZero (spVerification (rSpec p)), ApprovalStageVerification, ''verification''),
      (DerivePhase (conditions p) = AgenticRunPhaseEscalating, ApprovalStageEscalation, ''escalation'')]"

definition pendingStages :: "AgenticRun \<Rightarrow> AgenticRunApproval \<Rightarrow> string list" where
  "pendingStages p approval =
     map (\<lambda>(_, _, name). name) (filter (\<lambda>(configured, typ, _). configured \<and> \<not> has_stage approval typ) (stage_candidates p))"

definition nextPendingStage :: "AgenticRun \<Rightarrow> AgenticRunApproval \<Rightarrow> string" where
  "nextPendingStage p approval =
    (case find (\<lambda>(configured, typ, _). configured \<and> \<not> has_stage approval typ) (stage_candidates p) of
       Some (_, _, name) \<Rightarrow> name | None \<Rightarrow> '''')"

definition find_stage :: "AgenticRunApproval \<Rightarrow> stage_ref \<Rightarrow> ApprovalStage option" where
  "find_stage approval ref = find (\<lambda>s. KnownStage (gType s) = ref) (vStages approval)"

text \<open>\<open>NewApprovalStage\<close> on the type as the client has it: it panics on a type it does not know.\<close>

definition new_stage :: "stage_ref \<Rightarrow> ApprovalDecision \<Rightarrow> string \<Rightarrow> int option \<Rightarrow> error + ApprovalStage" where
  "new_stage ref decision agent opt = (case ref of
      KnownStage typ \<Rightarrow> Inr (NewApprovalStage typ decision agent opt)
    | UnknownStage s \<Rightarrow> Inl (Panic (''NewApprovalStage: unknown ApprovalStageType '' @ s)))"

section \<open>Approving\<close>

record ApproveOptions =
  axName :: string
  axStage :: string
  axOption :: int
  axAgent :: string
  axAll :: bool
  axWait :: bool
  axFlag :: "string option"

definition approve_validate :: "ApproveOptions \<Rightarrow> error option" where
  "approve_validate ao =
    (if \<not> axAll ao \<and> axStage ao = '''' then Some (NewError ''--stage is required (analysis, execution, verification, or escalation) unless --all is set'')
     else if axStage ao \<noteq> '''' \<and> go_lower (axStage ao) \<notin> set [''analysis'', ''execution'', ''verification'', ''escalation'']
     then Some (NewError ''--stage must be analysis, execution, verification, or escalation'')
     else if axOption ao < 0 then Some (NewError ''--option must be >= 0'')
     else None)"

definition new_cli_approval :: "ApproveOptions \<Rightarrow> string \<Rightarrow> AgenticRun \<Rightarrow> AgenticRunApproval" where
  "new_cli_approval ao ns p =
     \<lparr>vMeta = \<lparr>mName = axName ao, mNamespace = ns, mUID = '''', mResourceVersion = 0, mGeneration = 0, mCreationTimestamp = 0,
        mDeletionTimestamp = 0, mLabels = Map.empty, mAnnotations = Map.empty, mFinalizers = [],
        mOwnerReferences = [\<lparr>oAPIVersion = ''agentic.openshift.io/v1alpha1'', oKind = ''AgenticRun'', oName = mName (rMeta p),
          oUID = mUID (rMeta p), oController = False, oBlockOwnerDeletion = False\<rparr>]\<rparr>,
      vApprover = \<lparr>aiUID = '''', aiUsername = '''', aiApprovedAt = ''''\<rparr>, vStages = []\<rparr>"

fun getOrCreateApproval :: "cli_env \<Rightarrow> ApproveOptions \<Rightarrow> string \<Rightarrow> AgenticRun \<Rightarrow> nat \<Rightarrow> (error + AgenticRunApproval) option cop" where
  "getOrCreateApproval E ao ns p 0 = State_Monad.return None"
| "getOrCreateApproval E ao ns p (Suc n) = do {
     g \<leftarrow> cliGetApproval E \<lparr>kName = axName ao, kNamespace = ns\<rparr>;
     case g of
       Inr approval \<Rightarrow> State_Monad.return (Some (Inr approval))
     | Inl e \<Rightarrow>
         if \<not> IsNotFound e then State_Monad.return (Some (Inl (WrapError ''failed to get AgenticRunApproval'' e)))
         else do {
           c \<leftarrow> cliCreateApproval E (new_cli_approval ao ns p);
           case c of
             Inr approval \<Rightarrow> State_Monad.return (Some (Inr approval))
           | Inl ce \<Rightarrow>
               if IsAlreadyExists ce then getOrCreateApproval E ao ns p n
               else State_Monad.return (Some (Inl (WrapError ''failed to create AgenticRunApproval'' ce)))
         }
   }"

text \<open>The entries for the stages asked for, unless one of them has been decided already.\<close>

fun approve_entries :: "ApproveOptions \<Rightarrow> AgenticRunApproval \<Rightarrow> string list \<Rightarrow> error + ApprovalStage list" where
  "approve_entries ao approval [] = Inr []"
| "approve_entries ao approval (stageName # rest) =
    (let ref = normalizeStageType stageName in
     case find_stage approval ref of
       Some s \<Rightarrow> Inl (NewError (if gDecision s = ApprovalDecisionDenied then ''stage '' @ stageName @ '' is already denied''
         else ''stage '' @ stageName @ '' is already approved''))
     | None \<Rightarrow>
         let opt = (if ref = KnownStage ApprovalStageExecution then Some (axOption ao) else None) in
         case new_stage ref ApprovalDecisionUnset (axAgent ao) opt of
           Inl e \<Rightarrow> Inl e
         | Inr entry \<Rightarrow> map_sum id (\<lambda>entries. entry # entries) (approve_entries ao approval rest))"

fun say_stages :: "string \<Rightarrow> string list \<Rightarrow> unit cop" where
  "say_stages name [] = State_Monad.return ()"
| "say_stages name (stageName # rest) = do {
     say_line (''run/'' @ name @ '' stage '' @ stageName @ '' approved'');
     say_stages name rest
   }"

definition approve_stages :: "cli_env \<Rightarrow> ApproveOptions \<Rightarrow> string \<Rightarrow> AgenticRunApproval \<Rightarrow> string list \<Rightarrow> error option cop" where
  "approve_stages E ao ns approval stages = (case approve_entries ao approval stages of
      Inl e \<Rightarrow> State_Monad.return (Some e)
    | Inr entries \<Rightarrow> do {
        r \<leftarrow> cliPatchApproval E approval entries;
        case r of
          Some e \<Rightarrow> State_Monad.return (Some (WrapError ''failed to approve stages'' e))
        | None \<Rightarrow> do {
            say_stages (axName ao) stages;
            if axWait ao then doWatch E ns (axName ao) else State_Monad.return None
          }
      })"

definition approve_run :: "cli_env \<Rightarrow> nat \<Rightarrow> ApproveOptions \<Rightarrow> string \<Rightarrow> error option option cop" where
  "approve_run E fuel ao ns = do {
     g \<leftarrow> cliGetRun E \<lparr>kName = axName ao, kNamespace = ns\<rparr>;
     case g of
       Inl e \<Rightarrow> State_Monad.return (Some (Some (WrapError (''failed to get run '' @ quote_name (axName ao)) e)))
     | Inr p \<Rightarrow> do {
         a \<leftarrow> getOrCreateApproval E ao ns p fuel;
         case a of
           None \<Rightarrow> State_Monad.return None
         | Some r \<Rightarrow> (case r of
               Inl e \<Rightarrow> State_Monad.return (Some (Some e))
             | Inr approval \<Rightarrow>
                 let stages = (if axAll ao then pendingStages p approval else [axStage ao]) in
                 if axAll ao \<and> length stages = 0 then State_Monad.return (Some (Some (NewError ''no pending stages to approve'')))
                 else do {
                   e \<leftarrow> approve_stages E ao ns approval stages;
                   State_Monad.return (Some e)
                 })
       }
   }"

text \<open>The command connects, resolves its namespace and validates its flags first.\<close>

definition approve_command :: "cli_env \<Rightarrow> nat \<Rightarrow> ApproveOptions \<Rightarrow> error option option cop" where
  "approve_command E fuel ao = do {
     c \<leftarrow> NewClient E;
     case c of
       Some e \<Rightarrow> State_Monad.return (Some (Some e))
     | None \<Rightarrow> do {
         n \<leftarrow> ResolveNamespace E (axFlag ao);
         case n of
           Inl e \<Rightarrow> State_Monad.return (Some (Some e))
         | Inr ns \<Rightarrow> (case approve_validate ao of
               Some e \<Rightarrow> State_Monad.return (Some (Some e))
             | None \<Rightarrow> approve_run E fuel ao ns)
       }
   }"

section \<open>Denying\<close>

definition deny_stage :: "cli_env \<Rightarrow> string \<Rightarrow> AgenticRunApproval \<Rightarrow> string \<Rightarrow> error option cop" where
  "deny_stage E name approval stageName =
    (let ref = normalizeStageType stageName in
     case find_stage approval ref of
       Some s \<Rightarrow> State_Monad.return (Some (NewError (''stage '' @ stageName @
         (if gDecision s = ApprovalDecisionDenied then '' is already denied'' else '' is already approved, cannot deny''))))
     | None \<Rightarrow> (case new_stage ref ApprovalDecisionDenied [] None of
           Inl e \<Rightarrow> State_Monad.return (Some e)
         | Inr entry \<Rightarrow> do {
             r \<leftarrow> cliPatchApproval E approval [entry];
             case r of
               Some e \<Rightarrow> State_Monad.return (Some (WrapError (''failed to deny stage '' @ stageName) e))
             | None \<Rightarrow> do {
                 say_line (''run/'' @ name @ '' stage '' @ stageName @ '' denied'');
                 State_Monad.return None
               }
           }))"

definition deny_run :: "cli_env \<Rightarrow> string \<Rightarrow> string \<Rightarrow> string \<Rightarrow> error option cop" where
  "deny_run E name stage ns =
     with_result (WrapError (''failed to get run '' @ quote_name name)) (cliGetRun E \<lparr>kName = name, kNamespace = ns\<rparr>) (\<lambda>p.
     with_result (WrapError (''failed to get AgenticRunApproval '' @ quote_name name)) (cliGetApproval E \<lparr>kName = name, kNamespace = ns\<rparr>) (\<lambda>approval.
       let stageName = (if stage = '''' then nextPendingStage p approval else stage) in
       if stageName = '''' then State_Monad.return (Some (NewError ''no pending stages to deny''))
       else deny_stage E name approval stageName))"

definition deny_command :: "cli_env \<Rightarrow> string option \<Rightarrow> string \<Rightarrow> string \<Rightarrow> error option cop" where
  "deny_command E flag name stage = Complete_namespace E flag (deny_run E name stage)"

section \<open>Deleting and creating\<close>

definition delete_run :: "cli_env \<Rightarrow> string \<Rightarrow> string \<Rightarrow> error option cop" where
  "delete_run E name ns = do {
     r \<leftarrow> cliDeleteRun E \<lparr>kName = name, kNamespace = ns\<rparr>;
     case r of
       Some e \<Rightarrow> State_Monad.return (Some (WrapError (''failed to delete run '' @ quote_name name) e))
     | None \<Rightarrow> do {
         say_line (''run/'' @ name @ '' deleted'');
         State_Monad.return None
       }
   }"

definition delete_command :: "cli_env \<Rightarrow> string option \<Rightarrow> string \<Rightarrow> error option cop" where
  "delete_command E flag name = Complete_namespace E flag (delete_run E name)"

definition create_validate :: "string \<Rightarrow> string \<Rightarrow> error option" where
  "create_validate request outputFmt =
    (if trim_space request = '''' then Some (NewError ''--request must not be empty'') else ValidateOutputFormat outputFmt False)"

definition create_spec :: "string \<Rightarrow> string \<Rightarrow> AgenticRunSpec" where
  "create_spec request agent =
     \<lparr>spRequest = request, spTargetCluster = '''', spAnalysisOutput = \<lparr>aoMode = AnalysisOutputModeUnset, aoSchema = None\<rparr>,
      spTools = \<lparr>toSkills = [], toMCPServers = [], toRequiredSecrets = []\<rparr>, spAnalysis = \<lparr>arAgent = agent\<rparr>,
      spExecution = \<lparr>arAgent = ''''\<rparr>, spVerification = \<lparr>arAgent = ''''\<rparr>, spRevisionFeedback = '''', spTerminalTTL = None\<rparr>"

definition create_run :: "cli_env \<Rightarrow> string \<Rightarrow> string \<Rightarrow> string \<Rightarrow> string \<Rightarrow> error option cop" where
  "create_run E request agent outputFmt ns =
     with_result (WrapError ''failed to create run'') (cliCreateRun E ns (create_spec request agent)) (\<lambda>run.
       if outputFmt = ''json'' \<or> outputFmt = ''yaml'' then MarshalOutput (marshal_run E outputFmt run)
       else do {
         say_line (''run/'' @ mName (rMeta run) @ '' created'');
         State_Monad.return None
       })"

definition create_command :: "cli_env \<Rightarrow> string option \<Rightarrow> string \<Rightarrow> string \<Rightarrow> string \<Rightarrow> error option cop" where
  "create_command E flag request agent outputFmt = Complete_namespace E flag (\<lambda>ns.
     case create_validate request outputFmt of Some e \<Rightarrow> State_Monad.return (Some e) | None \<Rightarrow> create_run E request agent outputFmt ns)"

end
