(* ===== verification/CliCleanup.thy ===== *)
theory CliCleanup
  imports CliView
begin

text \<open>
  Deleting finished runs in bulk (\<^verbatim>\<open>cli/run/cleanup.go\<close>): the filters by state and age, the table of what matches, the confirmation
  and the deletions, one after the other, with failures counted.
\<close>

record CleanupOptions =
  coAllNamespaces :: bool
  coStates :: string
  coOlderThan :: string
  coDryRun :: bool
  coYes :: bool
  coFlag :: "string option"

definition validTerminalStates :: "string list" where
  "validTerminalStates = [''completed'', ''failed'', ''denied'', ''escalated'', ''emergencystopped'']"

text \<open>The states of the filter, empty ones left out.\<close>

fun parse_states :: "string list \<Rightarrow> error + string list" where
  "parse_states [] = Inr []"
| "parse_states (raw # rest) =
    (let s = trim_space (go_lower raw) in
     if s = '''' then parse_states rest
     else if s \<notin> set validTerminalStates
     then Inl (NewError (''invalid state '' @ quote_name s @ '', must be one of: '' @ join_with '', '' validTerminalStates))
     else map_sum id (\<lambda>ss. s # ss) (parse_states rest))"

definition maxDurationDays :: int where
  "maxDurationDays = (2 ^ 63 - 1) div (24 * Hour)"

text \<open>The digits of a text that matches \<^verbatim>\<open>^(\d+)d$\<close>.\<close>

definition days_match :: "string \<Rightarrow> string option" where
  "days_match s = (if length s \<ge> 2 \<and> last s = CHR ''d'' \<and> list_all is_digit (butlast s) then Some (butlast s) else None)"

definition parseDuration :: "cli_env \<Rightarrow> string \<Rightarrow> error + Duration" where
  "parseDuration E s = (case days_match s of
      Some ds \<Rightarrow> (case atoi ds of
          None \<Rightarrow> Inl (NewError (''strconv.Atoi: parsing '' @ quote_name ds @ '': value out of range''))
        | Some days \<Rightarrow>
            if days > maxDurationDays then Inl (NewError (''value too large: max supported is '' @ decimal_int maxDurationDays @ ''d''))
            else Inr (int64 (int64 (days * 24) * Hour)))
    | None \<Rightarrow> ParseDuration E s)"

text \<open>\<open>Validate\<close>: the state filter and the age, if they are given.\<close>

definition cleanup_validate :: "cli_env \<Rightarrow> CleanupOptions \<Rightarrow> error + (string list option \<times> Duration option)" where
  "cleanup_validate E co =
    (case (if coStates co \<noteq> '''' then map_sum id Some (parse_states (split_comma (coStates co))) else Inr None) of
       Inl e \<Rightarrow> Inl e
     | Inr states \<Rightarrow>
         if coOlderThan co = '''' then Inr (states, None)
         else (case parseDuration E (coOlderThan co) of
             Inl e \<Rightarrow> Inl (WrapError (''invalid --older-than value '' @ quote_name (coOlderThan co)) e)
           | Inr dur \<Rightarrow> Inr (states, Some dur)))"

definition state_matches :: "string list option \<Rightarrow> AgenticRun \<Rightarrow> bool" where
  "state_matches states run \<longleftrightarrow>
    (let phase = DerivePhase (conditions run) in
     IsTerminalPhase phase \<and> (case states of None \<Rightarrow> True | Some ss \<Rightarrow> go_lower (phase_text phase) \<in> set ss))"

text \<open>The loop over the listed runs. With a filter by age the clock is read for every run that has an end.\<close>

fun match_runs :: "cli_env \<Rightarrow> string list option \<Rightarrow> Duration option \<Rightarrow> AgenticRun list \<Rightarrow> AgenticRun list cop" where
  "match_runs E states older [] = State_Monad.return []"
| "match_runs E states older (run # rest) =
    (if \<not> state_matches states run then match_runs E states older rest
     else (case older of
         None \<Rightarrow> do {
           ms \<leftarrow> match_runs E states older rest;
           State_Monad.return (run # ms)
         }
       | Some dur \<Rightarrow>
           (case suTerminalTime (rStatus run) of
              None \<Rightarrow> do {
                warn (''Warning: run/'' @ mName (rMeta run) @ '' has no terminalTime, skipping (--older-than requires terminalTime)'' @ newline);
                match_runs E states older rest
              }
            | Some t \<Rightarrow> do {
                t1 \<leftarrow> cliNow E;
                if t1 - t < dur then match_runs E states older rest
                else do {
                  ms \<leftarrow> match_runs E states older rest;
                  State_Monad.return (run # ms)
                }
              })))"

text \<open>The deletions; the count of those that failed.\<close>

fun delete_runs :: "cli_env \<Rightarrow> CleanupOptions \<Rightarrow> AgenticRun list \<Rightarrow> nat cop" where
  "delete_runs E co [] = State_Monad.return 0"
| "delete_runs E co (run # rest) = do {
     r \<leftarrow> cliDeleteRun E (run_key run);
     let place = (if coAllNamespaces co then '' -n '' @ mNamespace (rMeta run) else '''') in
     case Option.bind r IgnoreNotFound of
       Some e \<Rightarrow> do {
         warn (''Warning: failed to delete run/'' @ mName (rMeta run) @ place @ '': '' @ err_text e @ newline);
         n \<leftarrow> delete_runs E co rest;
         State_Monad.return (Suc n)
       }
     | None \<Rightarrow> do {
         say_line (''run/'' @ mName (rMeta run) @ '' deleted'' @ place);
         delete_runs E co rest
       }
   }"

definition delete_matched :: "cli_env \<Rightarrow> CleanupOptions \<Rightarrow> AgenticRun list \<Rightarrow> error option cop" where
  "delete_matched E co matched = do {
     failed \<leftarrow> delete_runs E co matched;
     say_line (''Deleted '' @ decimal (length matched - failed) @ '' run(s).'');
     State_Monad.return (if failed > 0
       then Some (NewError (''failed to delete '' @ decimal failed @ '' of '' @ decimal (length matched) @ '' run(s)'')) else None)
   }"

text \<open>The table that is shown, with the time since the end of each run.\<close>

fun cleanup_rows :: "cli_env \<Rightarrow> bool \<Rightarrow> AgenticRun list \<Rightarrow> string list list cop" where
  "cleanup_rows E allNamespaces [] = State_Monad.return []"
| "cleanup_rows E allNamespaces (p # rest) = do {
     terminalAge \<leftarrow> (case suTerminalTime (rStatus p) of None \<Rightarrow> State_Monad.return ''<none>'' | Some t \<Rightarrow> HumanDuration E t);
     rows \<leftarrow> cleanup_rows E allNamespaces rest;
     State_Monad.return (((if allNamespaces then [mNamespace (rMeta p)] else []) @
       [mName (rMeta p), ColoredPhase (DerivePhase (conditions p)), terminalAge]) # rows)
   }"

definition printRunsTable :: "cli_env \<Rightarrow> bool \<Rightarrow> AgenticRun list \<Rightarrow> unit cop" where
  "printRunsTable E allNamespaces items = do {
     rows \<leftarrow> cleanup_rows E allNamespaces items;
     PrintTable ((if allNamespaces then [''NAMESPACE''] else []) @ [''NAME'', ''PHASE'', ''TERMINAL-AGE'']) rows
   }"

definition cleanup_matched :: "cli_env \<Rightarrow> CleanupOptions \<Rightarrow> AgenticRun list \<Rightarrow> error option cop" where
  "cleanup_matched E co matched =
    (if coDryRun co then do {
       printRunsTable E (coAllNamespaces co) matched;
       say_line (newline @ decimal (length matched) @ '' run(s) would be deleted (dry-run).'');
       State_Monad.return None
     }
     else if coYes co then delete_matched E co matched
     else do {
       printRunsTable E (coAllNamespaces co) matched;
       say (newline @ ''This will permanently delete '' @ decimal (length matched) @ '' run(s) listed above. Continue? [y/N] '');
       with_result (WrapError ''failed to read input'') (cliReadLine E) (\<lambda>answer.
         if \<not> equal_fold (trim_space answer) ''y'' then do {
           say_line ''Aborted.'';
           State_Monad.return None
         } else delete_matched E co matched)
     })"

definition cleanup_run :: "cli_env \<Rightarrow> CleanupOptions \<Rightarrow> string list option \<Rightarrow> Duration option \<Rightarrow> string option \<Rightarrow> error option cop" where
  "cleanup_run E co states older ns = with_result (WrapError ''failed to list agentic runs'') (cliListRuns E ns) (\<lambda>items. do {
     matched \<leftarrow> match_runs E states older items;
     if length matched = 0 then do {
       say_line ''No matching terminal runs found.'';
       State_Monad.return None
     } else cleanup_matched E co (sort_by_age E matched)
   })"

definition cleanup_command :: "cli_env \<Rightarrow> CleanupOptions \<Rightarrow> error option cop" where
  "cleanup_command E co = Complete_namespaces E (coAllNamespaces co) (coFlag co) (\<lambda>ns.
     case cleanup_validate E co of
       Inl e \<Rightarrow> State_Monad.return (Some e)
     | Inr so \<Rightarrow> (case so of (states, older) \<Rightarrow> cleanup_run E co states older ns))"

end
