(* ===== verification/CliSystem.thy ===== *)
theory CliSystem
  imports CliOps
begin

text \<open>
  The commands on the system as a whole (\<^verbatim>\<open>cli/system\<close>): suspending it (\<^verbatim>\<open>suspend.go\<close>), resuming it (\<^verbatim>\<open>resume.go\<close>) and showing
  whether it is suspended and safe to resume (\<^verbatim>\<open>status.go\<close>). All of them work on the configuration object named \<^verbatim>\<open>cluster\<close>.
\<close>

definition configName :: string where
  "configName = ''cluster''"

text \<open>The configuration that is created for a suspension.\<close>

definition config_to_suspend :: AgenticOLSConfig where
  "config_to_suspend =
     \<lparr>olMeta = \<lparr>mName = configName, mNamespace = '''', mUID = '''', mResourceVersion = 0, mGeneration = 0, mCreationTimestamp = 0,
        mDeletionTimestamp = 0, mLabels = Map.empty, mAnnotations = Map.empty, mFinalizers = [], mOwnerReferences = []\<rparr>,
      olSuspended = True, olConditions = []\<rparr>"

definition not_installed :: error where
  "not_installed = NewError ''agentic system is not installed (AgenticOLSConfig CRD not found)''"

definition suspend_existing :: "cli_env \<Rightarrow> AgenticOLSConfig \<Rightarrow> error option cop" where
  "suspend_existing E cfg =
    (if olSuspended cfg then do {
       say_line ''Agentic system is already suspended.'';
       State_Monad.return None
     }
     else do {
       r \<leftarrow> cliPatchConfig E cfg True;
       case r of
         Some e \<Rightarrow> State_Monad.return (Some (WrapError ''failed to patch AgenticOLSConfig'' e))
       | None \<Rightarrow> do {
           say_line ''Agentic system suspended.'';
           State_Monad.return None
         }
     })"

text \<open>A missing configuration is created; if somebody else was faster, it is read again.\<close>

definition suspend_missing :: "cli_env \<Rightarrow> error option cop" where
  "suspend_missing E = do {
     c \<leftarrow> cliCreateConfig E config_to_suspend;
     case c of
       Some ce \<Rightarrow>
         if \<not> IsAlreadyExists ce then State_Monad.return (Some (WrapError ''failed to create AgenticOLSConfig'' ce))
         else with_result (WrapError ''failed to get AgenticOLSConfig after conflict'') (cliGetConfig E) (suspend_existing E)
     | None \<Rightarrow> do {
         say_line ''Agentic system suspended.'';
         State_Monad.return None
       }
   }"

definition suspend_config :: "cli_env \<Rightarrow> error option cop" where
  "suspend_config E = do {
     g \<leftarrow> cliGetConfig E;
     case g of
       Inl e \<Rightarrow>
         if IsNoMatchError E e then State_Monad.return (Some not_installed)
         else if IsNotFound e then suspend_missing E
         else State_Monad.return (Some (WrapError ''failed to get AgenticOLSConfig'' e))
     | Inr cfg \<Rightarrow> suspend_existing E cfg
   }"

definition suspend_run :: "cli_env \<Rightarrow> bool \<Rightarrow> error option cop" where
  "suspend_run E yes =
    (if yes then suspend_config E
     else do {
       say ''All agentic operations will be halted and in-flight runs will be terminated. Continue? [y/N] '';
       with_result (WrapError ''failed to read input'') (cliReadLine E) (\<lambda>answer.
         if \<not> equal_fold (trim_space answer) ''y'' then do {
           say_line ''Aborted.'';
           State_Monad.return None
         } else suspend_config E)
     })"

definition suspend_command :: "cli_env \<Rightarrow> bool \<Rightarrow> error option cop" where
  "suspend_command E yes = checked (NewClient E) (suspend_run E yes)"

definition resume_run :: "cli_env \<Rightarrow> error option cop" where
  "resume_run E = do {
     g \<leftarrow> cliGetConfig E;
     case g of
       Inl e \<Rightarrow>
         if IsNoMatchError E e then State_Monad.return (Some not_installed)
         else if IsNotFound e then do {
           say_line ''Agentic system is not suspended (no AgenticOLSConfig found).'';
           State_Monad.return None
         }
         else State_Monad.return (Some (WrapError ''failed to get AgenticOLSConfig'' e))
     | Inr cfg \<Rightarrow>
         if \<not> olSuspended cfg then do {
           say_line ''Agentic system is not suspended.'';
           State_Monad.return None
         }
         else do {
           r \<leftarrow> cliPatchConfig E cfg False;
           case r of
             Some e \<Rightarrow> State_Monad.return (Some (WrapError ''failed to patch AgenticOLSConfig'' e))
           | None \<Rightarrow> do {
               say_line ''Agentic system resumed.'';
               State_Monad.return None
             }
         }
   }"

definition resume_command :: "cli_env \<Rightarrow> error option cop" where
  "resume_command E = checked (NewClient E) (resume_run E)"

section \<open>Status\<close>

definition unconfirmed :: "string \<Rightarrow> string" where
  "unconfirmed why = ''Resumption safety: unconfirmed ('' @ why @ '')''"

definition formatResumeSafety :: "int \<Rightarrow> Condition option \<Rightarrow> Condition option \<Rightarrow> string" where
  "formatResumeSafety generation suspended safety = (case suspended of
      None \<Rightarrow> unconfirmed ''current Suspended condition is missing''
    | Some s \<Rightarrow>
        if cObservedGeneration s \<noteq> generation
        then unconfirmed (''Suspended observed generation '' @ decimal_int (cObservedGeneration s) @ ''; current generation '' @ decimal_int generation)
        else if cStatus s \<noteq> ConditionTrue then unconfirmed (''Suspended status is '' @ status_text (cStatus s))
        else if cReason s \<noteq> ''AdminActivated'' \<and> cReason s \<noteq> ''AdminActivatedWithErrors''
        then unconfirmed (''Suspended reason is '' @ cReason s)
        else (case safety of
            None \<Rightarrow> unconfirmed ''SafeToResume condition is missing''
          | Some c \<Rightarrow>
              if cObservedGeneration c \<noteq> generation
              then unconfirmed (''SafeToResume observed generation '' @ decimal_int (cObservedGeneration c) @ ''; current generation '' @ decimal_int generation)
              else if cStatus c = ConditionTrue then ''Resumption safety: confirmed''
              else if cReason c \<noteq> '''' \<and> cMessage c \<noteq> '''' then unconfirmed (cReason c @ '': '' @ cMessage c)
              else if cMessage c \<noteq> '''' then unconfirmed (cMessage c)
              else unconfirmed (status_text (cStatus c))))"

text \<open>
  The source converts to seconds, minutes and hours in floating point and cuts the result to an integer; up to the rounding of the last
  nanoseconds before a full unit of very long durations, that is the integer quotient.
\<close>

definition formatDuration :: "Duration \<Rightarrow> string" where
  "formatDuration d =
    (if d < Minute then decimal_int (d div Second) @ ''s''
     else if d < Hour then decimal_int (d div Minute) @ ''m''
     else if d < 24 * Hour then decimal_int (d div Hour) @ ''h''
     else decimal_int (d div (24 * Hour)) @ ''d'')"

definition formatConditionTimes :: "cli_env \<Rightarrow> Time \<Rightarrow> Time \<Rightarrow> string \<times> string" where
  "formatConditionTimes E lastTransition t1 =
    (if IsZero lastTransition then (''unknown'', ''unknown'')
     else (formatDuration (max 0 (t1 - lastTransition)), formatRFC3339 E lastTransition))"

definition suspended_text :: "Condition \<Rightarrow> string \<times> string \<Rightarrow> string" where
  "suspended_text c tt =
    (if cReason c = ''Stopping'' then ''Agentic System: SUSPENDED (stopping, '' @ cMessage c @ '')''
     else ''Agentic System: SUSPENDED ('' @ (if cReason c = ''AdminActivatedWithErrors'' then ''completed with errors, '' else '''') @
       ''since '' @ fst tt @ '' ago, '' @ snd tt @ '', '' @ cMessage c @ '')'')"

definition show_suspended :: "cli_env \<Rightarrow> AgenticOLSConfig \<Rightarrow> unit cop" where
  "show_suspended E cfg =
    (let suspendedCond = FindStatusCondition_of E (olConditions cfg) AgenticOLSConfigConditionSuspended;
         safetyCond = FindStatusCondition_of E (olConditions cfg) AgenticOLSConfigConditionSafeToResume in
     do {
       (case suspendedCond of
          Some c \<Rightarrow>
            if cStatus c = ConditionTrue \<and> cObservedGeneration c = mGeneration (olMeta cfg) then do {
              t1 \<leftarrow> cliNow E;
              say_line (suspended_text c (formatConditionTimes E (cLastTransitionTime c) t1))
            }
            else say_line ''Agentic System: SUSPENDED''
        | None \<Rightarrow> say_line ''Agentic System: SUSPENDED'');
       say_line (formatResumeSafety (mGeneration (olMeta cfg)) suspendedCond safetyCond)
     })"

definition show_active :: "cli_env \<Rightarrow> AgenticOLSConfig \<Rightarrow> unit cop" where
  "show_active E cfg = (case FindStatusCondition_of E (olConditions cfg) AgenticOLSConfigConditionSuspended of
      Some c \<Rightarrow>
        if cReason c = ''AdminDeactivated'' then do {
          t1 \<leftarrow> cliNow E;
          let tt = formatConditionTimes E (cLastTransitionTime c) t1 in
          say_line (''Agentic System: Active (resumed '' @ fst tt @ '' ago, '' @ snd tt @ '')'')
        }
        else say_line ''Agentic System: Active''
    | None \<Rightarrow> say_line ''Agentic System: Active'')"

definition status_run :: "cli_env \<Rightarrow> error option cop" where
  "status_run E = do {
     g \<leftarrow> cliGetConfig E;
     case g of
       Inl e \<Rightarrow>
         if IsNotFound e then do {
           say_line ''Agentic System: Active'';
           State_Monad.return None
         }
         else State_Monad.return (Some (if IsNoMatchError E e then not_installed else WrapError ''failed to get AgenticOLSConfig'' e))
     | Inr cfg \<Rightarrow> do {
         (if olSuspended cfg then show_suspended E cfg else show_active E cfg);
         State_Monad.return None
       }
   }"

definition status_command :: "cli_env \<Rightarrow> error option cop" where
  "status_command E = checked (NewClient E) (status_run E)"

end
