(* ===== verification/CliLogs.thy ===== *)
theory CliLogs
  imports CliOps
begin

text \<open>
  Reading the logs of a run (\<^verbatim>\<open>cli/run/logs.go\<close>): from the sandbox pod of a step, or from the records that the Collector has stored. Those
  come in pages; the client goes on from the last record it has seen as long as there are more. The loop has no limit of its own, so it takes
  a number of rounds; \<open>None\<close> is not having returned.
\<close>

record LogsOptions =
  lgName :: string
  lgStep :: string
  lgFollow :: bool
  lgStored :: bool
  lgAdminEndpoint :: string
  lgFlag :: "string option"

definition logs_validate :: "LogsOptions \<Rightarrow> error option" where
  "logs_validate lg =
    (if lgStep lg \<noteq> '''' \<and> \<not> IsValidStep (lgStep lg)
     then Some (NewError (''invalid step '' @ quote_name (lgStep lg) @ '', must be one of: '' @ join_with '', '' validSandboxSteps))
     else if lgStored lg \<and> lgFollow lg then Some (NewError ''--follow cannot be used with --stored'')
     else None)"

section \<open>Stored logs\<close>

definition storedPhase :: "string \<Rightarrow> string" where
  "storedPhase step = go_lower step"

definition storedLogsPhase :: "string \<Rightarrow> string" where
  "storedLogsPhase step = (if step = '''' then '''' else storedPhase (NormalizeStep step))"

text \<open>The pages, one after the other, each from the last identity seen. The records are collected first and printed in the end.\<close>

fun fetch_records :: "cli_env \<Rightarrow> log_source \<Rightarrow> string \<Rightarrow> string \<Rightarrow> nat \<Rightarrow> int \<Rightarrow> storedLogRecord list \<Rightarrow> (error + storedLogRecord list) option cop" where
  "fetch_records E src uid phase 0 after records = State_Monad.return None"
| "fetch_records E src uid phase (Suc n) after records = do {
     r \<leftarrow> cliFetchPage E src uid phase after;
     case r of
       Inl e \<Rightarrow> State_Monad.return (Some (Inl e))
     | Inr page \<Rightarrow>
         let records' = records @ lpRecords page in
         if \<not> lpHasMore page then State_Monad.return (Some (Inr records'))
         else if length (lpRecords page) = 0 \<or> lrID (last (lpRecords page)) \<le> after
         then State_Monad.return (Some (Inl (NewError ''Collector returned has_more=true without advancing the log cursor'')))
         else fetch_records E src uid phase n (lrID (last (lpRecords page))) records'
   }"

definition body_text :: "log_body \<Rightarrow> string" where
  "body_text b = (case b of JsonString s \<Rightarrow> s | JsonNull \<Rightarrow> '''' | OtherJson raw \<Rightarrow> raw)"

definition write_stored :: "cli_env \<Rightarrow> string \<Rightarrow> error option cop" where
  "write_stored E text = do {
     r \<leftarrow> cliWrite E text;
     State_Monad.return (map_option (WrapError ''write stored logs'') r)
   }"

definition phase_header :: "string \<Rightarrow> string" where
  "phase_header phase = ''===== '' @ phase @ '' ====='' @ newline @ newline"

definition record_line :: "storedLogRecord \<Rightarrow> string" where
  "record_line r = lrTimestamp r @ '': '' @ body_text (lrBody r) @ newline"

text \<open>The records, with a heading where the phase changes. A record without a phase belongs to the phase asked for.\<close>

fun write_records :: "cli_env \<Rightarrow> string \<Rightarrow> string \<Rightarrow> storedLogRecord list \<Rightarrow> error option cop" where
  "write_records E phase currentPhase [] = State_Monad.return None"
| "write_records E phase currentPhase (r # rest) =
    (let recordPhase = (if lrPhase r = '''' then phase else lrPhase r) in
     if recordPhase \<noteq> '''' \<and> recordPhase \<noteq> currentPhase then
       checked (if currentPhase \<noteq> '''' then write_stored E newline else State_Monad.return None)
         (checked (write_stored E (phase_header recordPhase))
           (checked (write_stored E (record_line r)) (write_records E phase recordPhase rest)))
     else checked (write_stored E (record_line r)) (write_records E phase currentPhase rest))"

definition stored_header :: "string \<Rightarrow> nat \<Rightarrow> string" where
  "stored_header uid n = ''agentic_run_id: '' @ uid @ newline @ ''records: '' @ decimal n @ newline @ ''has_more: false'' @ newline @ newline"

definition print_stored :: "cli_env \<Rightarrow> string \<Rightarrow> string \<Rightarrow> storedLogRecord list \<Rightarrow> error option cop" where
  "print_stored E uid phase records =
     checked (write_stored E (stored_header uid (length records)))
       (if phase \<noteq> '''' then checked (write_stored E (phase_header phase)) (write_records E phase phase records)
        else write_records E phase '''' records)"

definition fetchAllStoredLogs :: "cli_env \<Rightarrow> nat \<Rightarrow> log_source \<Rightarrow> string \<Rightarrow> string \<Rightarrow> error option option cop" where
  "fetchAllStoredLogs E fuel src uid phase = do {
     r \<leftarrow> fetch_records E src uid phase fuel 0 [];
     case r of
       None \<Rightarrow> State_Monad.return None
     | Some s \<Rightarrow> (case s of
           Inl e \<Rightarrow> State_Monad.return (Some (Some e))
         | Inr records \<Rightarrow> do {
             e \<leftarrow> print_stored E uid phase records;
             State_Monad.return (Some e)
           })
   }"

text \<open>An endpoint given by the user must be reached over TLS, unless it is on the same host. \<open>url.Parse\<close> gives scheme, host and host name.\<close>

definition validateAdminEndpoint :: "cli_env \<Rightarrow> string \<Rightarrow> error option" where
  "validateAdminEndpoint E rawEndpoint = (case url_parse E rawEndpoint of
      None \<Rightarrow> Some (NewError (''invalid Collector admin endpoint '' @ quote_name rawEndpoint))
    | Some (urlScheme, urlHost, urlHostname) \<Rightarrow>
        if urlHost = '''' then Some (NewError (''invalid Collector admin endpoint '' @ quote_name rawEndpoint))
        else if urlScheme = ''https'' then None
        else if urlScheme = ''http'' \<and> urlHostname \<in> set [''localhost'', ''127.0.0.1'', ''::1''] then None
        else Some (NewError (''Collector admin endpoint must use HTTPS (HTTP is allowed only for loopback endpoints): '' @ quote_name rawEndpoint)))"

definition fetchStoredLogs :: "cli_env \<Rightarrow> nat \<Rightarrow> string \<Rightarrow> string \<Rightarrow> string \<Rightarrow> error option option cop" where
  "fetchStoredLogs E fuel endpoint uid phase = (case validateAdminEndpoint E endpoint of
      Some e \<Rightarrow> State_Monad.return (Some (Some e))
    | None \<Rightarrow> fetchAllStoredLogs E fuel (AdminEndpoint endpoint) uid phase)"

section \<open>Pod logs\<close>

definition step_sandbox :: "AgenticRun \<Rightarrow> string \<Rightarrow> SandboxInfo option" where
  "step_sandbox p step =
    (let steps = suSteps (rStatus p) in
     if step = ''Analysis'' then Some (ssSandbox (stAnalysis steps))
     else if step = ''Execution'' then Some (ssSandbox (stExecution steps))
     else if step = ''Verification'' then Some (ssSandbox (stVerification steps))
     else None)"

text \<open>Without a step, the sandbox of the latest step that has one.\<close>

definition resolveSandbox :: "string \<Rightarrow> AgenticRun \<Rightarrow> SandboxInfo option" where
  "resolveSandbox step p = (case (if step \<noteq> '''' then step_sandbox p (NormalizeStep step) else None) of
      Some s \<Rightarrow> Some s
    | None \<Rightarrow>
        let steps = suSteps (rStatus p) in
        if sClaimName (ssSandbox (stVerification steps)) \<noteq> '''' then Some (ssSandbox (stVerification steps))
        else if sClaimName (ssSandbox (stExecution steps)) \<noteq> '''' then Some (ssSandbox (stExecution steps))
        else if sClaimName (ssSandbox (stAnalysis steps)) \<noteq> '''' then Some (ssSandbox (stAnalysis steps))
        else None)"

fun say_all :: "string list \<Rightarrow> unit cop" where
  "say_all [] = State_Monad.return ()"
| "say_all (l # ls) = do {
     say_line l;
     say_all ls
   }"

definition stream_pod_logs :: "cli_env \<Rightarrow> LogsOptions \<Rightarrow> string \<Rightarrow> AgenticRun \<Rightarrow> error option cop" where
  "stream_pod_logs E lg ns p =
    (let none = State_Monad.return (Some (NewError (''no sandbox found for run '' @ quote_name (lgName lg) @ '' (step: '' @ lgStep lg @ '')''))) in
     case resolveSandbox (lgStep lg) p of
       None \<Rightarrow> none
     | Some sandbox \<Rightarrow>
         if sClaimName sandbox = '''' then none
         else
           let podNamespace = (if sNamespace sandbox = '''' then ns else sNamespace sandbox) in
           with_result (WrapError (''failed to stream logs from pod '' @ podNamespace @ ''/'' @ sClaimName sandbox))
             (cliStreamLogs E \<lparr>kName = sClaimName sandbox, kNamespace = podNamespace\<rparr> (lgFollow lg)) (\<lambda>ls. do {
               say_all (fst ls);
               State_Monad.return (snd ls)
             }))"

definition logs_run :: "cli_env \<Rightarrow> nat \<Rightarrow> LogsOptions \<Rightarrow> string \<Rightarrow> error option option cop" where
  "logs_run E fuel lg ns = do {
     g \<leftarrow> cliGetRun E \<lparr>kName = lgName lg, kNamespace = ns\<rparr>;
     case g of
       Inl e \<Rightarrow> State_Monad.return (Some (Some (WrapError (''failed to get run '' @ quote_name (lgName lg)) e)))
     | Inr p \<Rightarrow>
         if lgStored lg then
           let phase = storedLogsPhase (lgStep lg) in
           if lgAdminEndpoint lg = '''' then fetchAllStoredLogs E fuel (ServiceProxy ns) (mUID (rMeta p)) phase
           else fetchStoredLogs E fuel (lgAdminEndpoint lg) (mUID (rMeta p)) phase
         else do {
           e \<leftarrow> stream_pod_logs E lg ns p;
           State_Monad.return (Some e)
         }
   }"

text \<open>\<open>Complete\<close> makes two clients from the same configuration.\<close>

definition logs_command :: "cli_env \<Rightarrow> nat \<Rightarrow> LogsOptions \<Rightarrow> error option option cop" where
  "logs_command E fuel lg = do {
     c \<leftarrow> NewClient E;
     case c of
       Some e \<Rightarrow> State_Monad.return (Some (Some e))
     | None \<Rightarrow> do {
         d \<leftarrow> cliNewForConfig E;
         case d of
           Some e \<Rightarrow> State_Monad.return (Some (Some (WrapError ''failed to create clientset'' e)))
         | None \<Rightarrow> do {
             n \<leftarrow> ResolveNamespace E (lgFlag lg);
             case n of
               Inl e \<Rightarrow> State_Monad.return (Some (Some e))
             | Inr ns \<Rightarrow> (case logs_validate lg of
                   Some e \<Rightarrow> State_Monad.return (Some (Some e))
                 | None \<Rightarrow> logs_run E fuel lg ns)
           }
       }
   }"

end
