(* ===== verification/CliSafety.thy ===== *)
theory CliSafety
  imports CliRun CliCleanup CliSystem CliLogs "HOL-Library.Sublist"
begin

text \<open>
  What the command line client promises: decisions on stages are only added, runs are deleted in bulk only when they are finished, match and
  the deletion is confirmed, a suspension is confirmed, resuming is called safe only when the operator says so of the current generation, and
  stored logs are complete.
\<close>

section \<open>Requests that change nothing\<close>

fun reading :: "cli_event \<Rightarrow> bool" where
  "reading (CliCreateRun ns spec r) = False"
| "reading (CliDeleteRun key r) = False"
| "reading (CliCreateApproval a r) = False"
| "reading (CliPatchApproval a es r) = False"
| "reading (CliCreateConfig c r) = False"
| "reading (CliPatchConfig c b r) = False"
| "reading _ = True"

lemma connecting_reading: "connecting e \<Longrightarrow> reading e"
  by (cases e) simp_all

lemmas emits_connect [emit] = emits_mono [OF emits_NewClient connecting_reading] emits_mono [OF emits_ResolveNamespace connecting_reading]

lemma emits_watch_loop [emit]: "emits reading (watch_loop E start lastPhase events)"
proof (induction events arbitrary: lastPhase)
  case (Cons e es)
  then show ?case by (auto intro!: emit simp: Let_def)
qed (simp add: emit)

lemma emits_doWatch [emit]: "emits reading (doWatch E ns name)"
  unfolding doWatch_def by (intro emit) simp_all

lemma emits_rows [emit]: "emits reading (cleanup_rows E allNs items)" "emits reading (list_rows E allNs items)"
  by (induction items) (auto intro!: emit)

lemma emits_printRunsTable [emit]: "emits reading (printRunsTable E allNs items)"
  unfolding printRunsTable_def by (intro emit) simp_all

lemma emits_match_runs [emit]: "emits reading (match_runs E states older items)"
  by (induction items) (auto intro!: emit)

lemma emits_say_stages [emit]: "emits reading (say_stages name stages)"
  by (induction stages) (auto intro!: emit)

section \<open>Decisions\<close>

text \<open>An approval as the server has it after the patch.\<close>

definition patched :: "AgenticRunApproval \<Rightarrow> ApprovalStage list \<Rightarrow> AgenticRunApproval" where
  "patched a es = a\<lparr>vStages := vStages a @ es\<rparr>"

text \<open>The server has shown the approval before.\<close>

definition approval_seen :: "cli_history \<Rightarrow> AgenticRunApproval \<Rightarrow> bool" where
  "approval_seen h a \<longleftrightarrow> (\<exists>key. CliGetApproval key (Inr a) \<in> set h) \<or> (\<exists>b. CliCreateApproval b (Inr a) \<in> set h)"

definition requested_stages :: "ApproveOptions \<Rightarrow> AgenticRunApproval \<Rightarrow> ApprovalStageType list \<Rightarrow> bool" where
  "requested_stages ao a ts \<longleftrightarrow> ts \<noteq> [] \<and> distinct ts \<and> list_all (\<lambda>t. \<not> has_stage a t) ts \<and>
     (axAll ao \<or> map KnownStage ts = [normalizeStageType (axStage ao)])"

definition approve_entry :: "ApproveOptions \<Rightarrow> ApprovalStageType \<Rightarrow> ApprovalStage" where
  "approve_entry ao t = NewApprovalStage t ApprovalDecisionUnset (axAgent ao) (if t = ApprovalStageExecution then Some (axOption ao) else None)"

lemma find_stage_None: "find_stage a (KnownStage t) = None \<longleftrightarrow> \<not> has_stage a t"
  by (auto simp: find_stage_def has_stage_def find_None_iff list_ex_iff)

lemma approve_entries_known:
  "map normalizeStageType names = map KnownStage ts \<Longrightarrow> approve_entries ao a names = Inr es \<Longrightarrow>
     es = map (approve_entry ao) ts \<and> list_all (\<lambda>t. \<not> has_stage a t) ts"
proof (induction names arbitrary: ts es)
  case (Cons n names)
  then obtain t ts' where ts: "ts = t # ts'" and n: "normalizeStageType n = KnownStage t"
      and names: "map normalizeStageType names = map KnownStage ts'"
    by (cases ts) auto
  from Cons.prems(2) n obtain es' where "approve_entries ao a names = Inr es'" and es: "es = approve_entry ao t # es'"
      and "find_stage a (KnownStage t) = None"
    by (cases "approve_entries ao a names") (auto simp: Let_def new_stage_def approve_entry_def split: option.splits if_splits)
  with Cons.IH [OF names] ts show ?case by (auto simp: find_stage_None)
qed simp

lemma approve_entries_types: "approve_entries ao a names = Inr es \<Longrightarrow> \<exists>ts. map normalizeStageType names = map KnownStage ts"
proof (induction names arbitrary: es)
  case (Cons n names)
  then obtain es' where es': "approve_entries ao a names = Inr es'"
    by (cases "approve_entries ao a names") (auto simp: Let_def split: option.splits sum.splits if_splits)
  from Cons.prems obtain t where "normalizeStageType n = KnownStage t"
    by (cases "normalizeStageType n") (auto simp: Let_def new_stage_def split: option.splits)
  moreover obtain ts where "map normalizeStageType names = map KnownStage ts"
    using Cons.IH [OF es'] by auto
  ultimately have "map normalizeStageType (n # names) = map KnownStage (t # ts)" by simp
  then show ?case by blast
qed simp

lemma distinct_map_filter: "distinct (map f xs) \<Longrightarrow> distinct (map f (filter p xs))"
  by (induction xs) auto

lemma distinct_pendingStages: "distinct (map normalizeStageType (pendingStages p a))"
proof -
  have "distinct (map (\<lambda>x. normalizeStageType (case x of (_, _, name) \<Rightarrow> name)) (stage_candidates p))"
    by (simp add: stage_candidates_def normalizeStageType_def to_lower_def)
  from distinct_map_filter [OF this] show ?thesis
    by (simp add: pendingStages_def comp_def)
qed

text \<open>What the approve command may do: nothing but creating an empty approval and adding undecided stages that were asked for.\<close>

fun approve_event :: "ApproveOptions \<Rightarrow> cli_history \<Rightarrow> cli_event \<Rightarrow> bool" where
  "approve_event ao h (CliPatchApproval a es r) \<longleftrightarrow>
     approval_seen h a \<and> 0 \<le> axOption ao \<and> (\<exists>ts. requested_stages ao a ts \<and> es = map (approve_entry ao) ts)"
| "approve_event ao h (CliCreateApproval a r) \<longleftrightarrow> vStages a = []"
| "approve_event ao h e \<longleftrightarrow> reading e"

lemma reading_approve: "reading e \<Longrightarrow> approve_event ao h e"
  by (cases e) simp_all

lemma approval_seen_get: "approval_seen (h @ [CliGetApproval key (Inr a)]) a"
  by (auto simp: approval_seen_def)

lemma wp_getOrCreateApproval:
  "(\<And>r es. (\<And>a. r = Some (Inr a) \<Longrightarrow> approval_seen (h @ es) a) \<Longrightarrow> Q r (h @ es)) \<Longrightarrow>
     wp (approve_event ao) (getOrCreateApproval E ao ns p n) Q h"
proof (induction n arbitrary: h)
  case 0
  from 0 [of None "[]"] show ?case by (auto intro!: wp)
next
  case (Suc n)
  have step: "wp (approve_event ao) (getOrCreateApproval E ao ns p n) Q ((h @ [x]) @ [y])" for x y
    by (rule Suc.IH) (use Suc.prems [of _ "x # y # _"] in auto)
  have Q1: "Q r (h @ [x])" if "\<And>a. r = Some (Inr a) \<Longrightarrow> approval_seen (h @ [x]) a" for r x
    using Suc.prems that by blast
  have Q2: "Q r ((h @ [x]) @ [y])" if "\<And>a. r = Some (Inr a) \<Longrightarrow> approval_seen ((h @ [x]) @ [y]) a" for r x y
    using Suc.prems [of r "[x, y]"] that by simp
  have created: "approve_event ao h' (CliCreateApproval (new_cli_approval ao ns p) r)" for h' r
    by (simp add: new_cli_approval_def)
  show ?case
    unfolding getOrCreateApproval.simps
    by (intro wp_bindI wp_cli_requests conjI wp_case_sum wp_ifI wp_returnI step Q2 Q1 created)
       (auto simp: approval_seen_def)
qed

lemma wp_approve_stages:
  assumes "approval_seen h a" and "0 \<le> axOption ao" and "stages \<noteq> []" and "distinct (map normalizeStageType stages)"
      and "axAll ao \<or> stages = [axStage ao]"
  shows "wp (approve_event ao) (approve_stages E ao ns a stages) (\<lambda>_ _. True) h"
proof (cases "approve_entries ao a stages")
  case (Inr es)
  then obtain ts where ts: "map normalizeStageType stages = map KnownStage ts"
    using approve_entries_types by blast
  with assms(4) have "distinct ts" by (simp add: distinct_map)
  with ts assms approve_entries_known [OF ts Inr] have "requested_stages ao a ts" and "es = map (approve_entry ao) ts"
    by (auto simp: requested_stages_def)
  with assms have ok: "approve_event ao h (CliPatchApproval a es r)" for r by auto
  have rest: "emits reading (do { say_stages (axName ao) stages; if axWait ao then doWatch E ns (axName ao) else State_Monad.return None })"
    by (intro emit)
  have rest_wp: "wp (approve_event ao) (do { say_stages (axName ao) stages; if axWait ao then doWatch E ns (axName ao) else State_Monad.return None })
      (\<lambda>_ _. True) h'" for h'
    by (rule emits_wp [OF rest]) (simp_all add: reading_approve)
  show ?thesis
    unfolding approve_stages_def Inr sum.case
    by (intro wp_bindI wp_cli_requests conjI ok wp_case_option wp_returnI TrueI rest_wp)
qed (auto intro!: wp simp: approve_stages_def)

lemma wp_approve_run:
  assumes "approve_validate ao = None"
  shows "wp (approve_event ao) (approve_run E fuel ao ns) (\<lambda>_ _. True) h"
proof -
  from assms have opt: "0 \<le> axOption ao" by (auto simp: approve_validate_def split: if_splits)
  have stages: "wp (approve_event ao) (case r of Inl e \<Rightarrow> State_Monad.return (Some (Some e)) | Inr a \<Rightarrow>
        let stages = (if axAll ao then pendingStages p a else [axStage ao]) in
        if axAll ao \<and> length stages = 0 then State_Monad.return (Some (Some (NewError ''no pending stages to approve'')))
        else do { e \<leftarrow> approve_stages E ao ns a stages; State_Monad.return (Some e) }) (\<lambda>_ _. True) h'"
    if "\<And>a. r = Inr a \<Longrightarrow> approval_seen h' a" for h' r p
    using that opt distinct_pendingStages
    by (auto intro!: wp wp_mono [OF wp_approve_stages] split: sum.split simp: Let_def)
  show ?thesis
    unfolding approve_run_def
    by (intro wp_bindI wp_cli_requests conjI wp_case_sum wp_getOrCreateApproval wp_case_option stages) (auto intro: wp)
qed

lemma wp_approve_command: "wp (approve_event ao) (approve_command E fuel ao) (\<lambda>_ _. True) h"
proof -
  have validated: "wp (approve_event ao) (case approve_validate ao of Some e \<Rightarrow> State_Monad.return (Some (Some e)) | None \<Rightarrow> approve_run E fuel ao ns)
    (\<lambda>_ _. True) h'" for ns h'
    by (auto split: option.split intro!: wp wp_approve_run)
  show ?thesis
    unfolding approve_command_def
    by (intro wp emits_wp [OF emits_connect(1)] emits_wp [OF emits_connect(2)] reading_approve validated)
       (auto intro!: wp emits_wp [OF emits_connect(2)] reading_approve validated split: option.split sum.split)
qed

text \<open>What the deny command may do: adding one denial of a stage that has no decision.\<close>

fun deny_event :: "string \<Rightarrow> cli_history \<Rightarrow> cli_event \<Rightarrow> bool" where
  "deny_event stage h (CliPatchApproval a es r) \<longleftrightarrow>
     approval_seen h a \<and> (\<exists>t. es = [NewApprovalStage t ApprovalDecisionDenied [] None] \<and> \<not> has_stage a t \<and>
       (stage = [] \<or> normalizeStageType stage = KnownStage t))"
| "deny_event stage h e \<longleftrightarrow> reading e"

lemma reading_deny: "reading e \<Longrightarrow> deny_event stage h e"
  by (cases e) simp_all

lemma wp_deny_stage:
  assumes "approval_seen h a" and "stage = [] \<or> stage = stageName"
  shows "wp (deny_event stage) (deny_stage E name a stageName) (\<lambda>_ _. True) h"
proof (cases "normalizeStageType stageName")
  case (KnownStage t)
  with assms have patch: "find_stage a (KnownStage t) = None \<Longrightarrow>
      deny_event stage h (CliPatchApproval a [NewApprovalStage t ApprovalDecisionDenied [] None] r)" for r
    by (auto simp: find_stage_None)
  show ?thesis
    unfolding deny_stage_def Let_def KnownStage new_stage_def stage_ref.case sum.case
    by (intro wp wp_cli_requests conjI patch) simp_all
next
  case (UnknownStage s)
  then show ?thesis
    by (auto intro!: wp simp: deny_stage_def new_stage_def)
qed

lemma wp_deny_command: "wp (deny_event stage) (deny_command E flag name stage) (\<lambda>_ _. True) h"
proof -
  have run: "wp (deny_event stage) (deny_run E name stage ns) (\<lambda>_ _. True) h'" for ns h'
    unfolding deny_run_def
    by (auto intro!: wp wp_deny_stage approval_seen_get simp: Let_def split: sum.split simp del: append_assoc)
  show ?thesis
    unfolding deny_command_def Complete_namespace_def
    by (intro wp_checked wp_with_result emits_wp [OF emits_connect(1)] reading_deny)
       (auto intro!: wp emits_wp [OF emits_connect(2)] reading_deny run split: option.split sum.split)
qed

text \<open>The decisions of the operator on an approval before and after the patch.\<close>

lemma NewApprovalStage_sel [simp]:
  "gType (NewApprovalStage t d agent opt) = t" "gDecision (NewApprovalStage t d agent opt) = d"
  by (cases t; simp add: NewApprovalStage_def)+

lemma isStageDenied_patched:
  "isStageDenied (Some (patched a es)) step \<longleftrightarrow>
     isStageDenied (Some a) step \<or> list_ex (\<lambda>s. stage_is s step \<and> gDecision s = ApprovalDecisionDenied) es"
  by (auto simp: isStageDenied_def patched_def)

lemma isStageApproved_patched:
  "isStageApproved (Some (patched a es)) policy step \<longleftrightarrow>
     isStageApproved (Some a) policy step \<or> list_ex (\<lambda>s. stage_is s step \<and> gDecision s \<noteq> ApprovalDecisionDenied) es"
  by (auto simp: isStageApproved_def patched_def)

text \<open>
  The effect of a patch: it appends to an approval the server has shown, at least one entry, for different stages that have no decision yet;
  for the operator just these stages become approved or denied, and nothing else changes.
\<close>

definition adds_decisions :: "cli_history \<Rightarrow> AgenticRunApproval \<Rightarrow> ApprovalStage list \<Rightarrow> bool \<Rightarrow> bool" where
  "adds_decisions h a es deny \<longleftrightarrow> approval_seen h a \<and> es \<noteq> [] \<and> distinct (map gType es) \<and> list_all (\<lambda>s. \<not> has_stage a (gType s)) es \<and>
     (\<forall>policy step. isStageApproved (Some (patched a es)) policy step \<longleftrightarrow>
        isStageApproved (Some a) policy step \<or> (\<not> deny \<and> list_ex (\<lambda>s. stage_is s step) es)) \<and>
     (\<forall>step. isStageDenied (Some (patched a es)) step \<longleftrightarrow> isStageDenied (Some a) step \<or> (deny \<and> list_ex (\<lambda>s. stage_is s step) es))"

fun approve_effect :: "ApproveOptions \<Rightarrow> cli_history \<Rightarrow> cli_event \<Rightarrow> bool" where
  "approve_effect ao h (CliPatchApproval a es r) \<longleftrightarrow>
     adds_decisions h a es False \<and> (axAll ao \<or> map (KnownStage \<circ> gType) es = [normalizeStageType (axStage ao)])"
| "approve_effect ao h (CliCreateApproval a r) \<longleftrightarrow> vStages a = []"
| "approve_effect ao h e \<longleftrightarrow> reading e"

fun deny_effect :: "string \<Rightarrow> cli_history \<Rightarrow> cli_event \<Rightarrow> bool" where
  "deny_effect stage h (CliPatchApproval a es r) \<longleftrightarrow>
     adds_decisions h a es True \<and> length es = 1 \<and> (stage = [] \<or> map (KnownStage \<circ> gType) es = [normalizeStageType stage])"
| "deny_effect stage h e \<longleftrightarrow> reading e"

lemma approve_event_effect: "approve_event ao h e \<Longrightarrow> approve_effect ao h e"
proof (cases e)
  case (CliPatchApproval a es r)
  moreover assume "approve_event ao h e"
  ultimately obtain ts where "approval_seen h a" and ts: "requested_stages ao a ts" and es: "es = map (approve_entry ao) ts"
    by auto
  moreover have "map gType es = ts" and "list_all (\<lambda>s. gDecision s = ApprovalDecisionUnset) es"
    by (simp_all add: es approve_entry_def list.pred_map comp_def list_all_iff)
  ultimately show ?thesis
    unfolding CliPatchApproval approve_effect.simps adds_decisions_def isStageApproved_patched isStageDenied_patched
    by (auto simp: requested_stages_def list_all_iff list_ex_iff approve_entry_def)
qed simp_all

lemma deny_event_effect: "deny_event stage h e \<Longrightarrow> deny_effect stage h e"
proof (cases e)
  case (CliPatchApproval a es r)
  moreover assume "deny_event stage h e"
  ultimately show ?thesis
    by (auto simp: adds_decisions_def isStageApproved_patched isStageDenied_patched)
qed simp_all

text \<open>
  C37: The approve and deny commands change nothing but approvals, and those only by creating an empty one and by appending entries to one that
  the server has shown, for different stages that have no decision in it: those asked for, unless all are approved or the next is denied.
  For the operator exactly these stages become approved, respectively denied; no earlier decision changes.
\<close>

theorem decisions_are_only_added:
  "good (approve_effect ao) h (new_events (approve_command E fuel ao) h) \<and>
   good (deny_effect stage) h (new_events (deny_command E flag name stage) h)"
  using wp_new_events [OF wp_approve_command] wp_new_events [OF wp_deny_command]
  by (blast intro: good_mono approve_event_effect deny_event_effect)

text \<open>Two attempts are enough for the approval, unless it disappears again between the failed creation and the next read.\<close>

theorem getOrCreateApproval_returns:
  assumes "\<And>h a e e'. IsAlreadyExists e \<Longrightarrow>
    cliGetApproval_ans E (h @ [CliCreateApproval a (Inl e)]) \<lparr>kName = axName ao, kNamespace = ns\<rparr> = Inl e' \<Longrightarrow> \<not> IsNotFound e'"
  shows "returned (getOrCreateApproval E ao ns p (Suc (Suc n))) h \<noteq> None"
proof -
  define key :: ObjectKey where "key = \<lparr>kName = axName ao, kNamespace = ns\<rparr>"
  define a where "a = new_cli_approval ao ns p"
  have again: "fst (run_state (getOrCreateApproval E ao ns p (Suc n)) (h' @ [CliCreateApproval a (Inl e)])) \<noteq> None" if "IsAlreadyExists e" for h' e
    using assms [OF that, of h' a]
    by (cases "cliGetApproval_ans E (h' @ [CliCreateApproval a (Inl e)]) key") (auto simp: cliGetApproval_def key_def)
  show ?thesis
    unfolding getOrCreateApproval.simps(2) [of E ao ns p "Suc n"] returned_def
    using again [of _ "h @ [CliGetApproval key _]"]
    by (auto simp: cliGetApproval_def cliCreateApproval_def a_def key_def simp del: getOrCreateApproval.simps split: sum.split)
qed

text \<open>Without a check of its flag, the deny command runs into the panic of \<open>NewApprovalStage\<close> on a stage it does not know.\<close>

theorem deny_panics_on_unknown_stage:
  assumes "normalizeStageType stageName = UnknownStage s"
  shows "returned (deny_stage E name a stageName) h = Some (Panic (''NewApprovalStage: unknown ApprovalStageType '' @ s))"
proof -
  have "find_stage a (UnknownStage s) = None" by (simp add: find_stage_def find_None_iff)
  with assms show ?thesis by (simp add: returned_def deny_stage_def new_stage_def)
qed

section \<open>Bulk deletion and suspension\<close>

definition answered_yes :: "cli_history \<Rightarrow> bool" where
  "answered_yes h \<longleftrightarrow> (\<exists>line. CliReadLine (Inr line) \<in> set h \<and> equal_fold (trim_space line) ''y'')"

text \<open>The end of the run was, at a time read, at least as long ago as the filter asks.\<close>

definition old_enough :: "cli_history \<Rightarrow> Duration option \<Rightarrow> AgenticRun \<Rightarrow> bool" where
  "old_enough h older p \<longleftrightarrow> (case older of
      None \<Rightarrow> True
    | Some dur \<Rightarrow> \<exists>t t1. suTerminalTime (rStatus p) = Some t \<and> CliNow t1 \<in> set h \<and> dur \<le> t1 - t)"

definition deletable :: "cli_env \<Rightarrow> CleanupOptions \<Rightarrow> cli_history \<Rightarrow> AgenticRun \<Rightarrow> bool" where
  "deletable E co h p \<longleftrightarrow>
     (\<exists>ns items states older. CliListRuns ns (Inr items) \<in> set h \<and> p \<in> set items \<and> (ns = None \<longleftrightarrow> coAllNamespaces co) \<and>
        cleanup_validate E co = Inr (states, older) \<and> isTerminal (DerivePhase (conditions p)) \<and>
        (case states of None \<Rightarrow> True | Some ss \<Rightarrow> go_lower (phase_text (DerivePhase (conditions p))) \<in> set ss) \<and> old_enough h older p)"

fun cleanup_event :: "cli_env \<Rightarrow> CleanupOptions \<Rightarrow> cli_history \<Rightarrow> cli_event \<Rightarrow> bool" where
  "cleanup_event E co h (CliDeleteRun key r) \<longleftrightarrow>
     \<not> coDryRun co \<and> (coYes co \<or> answered_yes h) \<and> (\<exists>p. key = run_key p \<and> deletable E co h p)"
| "cleanup_event E co h e \<longleftrightarrow> reading e"

lemma reading_cleanup: "reading e \<Longrightarrow> cleanup_event E co h e"
  by (cases e) simp_all

lemma old_enough_mono: "old_enough h older p \<Longrightarrow> old_enough (h @ es) older p"
  by (auto simp: old_enough_def split: option.splits)

lemma deletable_mono: "deletable E co h p \<Longrightarrow> deletable E co (h @ es) p"
  unfolding deletable_def by (fastforce intro: old_enough_mono)

lemma answered_yes_mono: "answered_yes h \<Longrightarrow> answered_yes (h @ es)"
  by (auto simp: answered_yes_def)

text \<open>The runs that the loop over the listing selects.\<close>

lemma wp_match_runs:
  "wp (cleanup_event E co) (match_runs E states older items)
     (\<lambda>ms h'. (\<exists>es. h' = h @ es) \<and> (\<forall>p \<in> set ms. p \<in> set items \<and> state_matches states p \<and> old_enough h' older p)) h"
proof (induction items arbitrary: h)
  case (Cons p items)
  have IH: "wp (cleanup_event E co) (match_runs E states older items)
     (\<lambda>ms h'. (\<exists>es. h' = h @ es) \<and> (\<forall>q \<in> set ms. q \<in> set (p # items) \<and> state_matches states q \<and> old_enough h' older q)) (h @ es)" for es
    using Cons.IH by (rule wp_mono) auto
  have with_p: "wp (cleanup_event E co) (do { ms \<leftarrow> match_runs E states older items; State_Monad.return (p # ms) })
     (\<lambda>ms h'. (\<exists>es. h' = h @ es) \<and> (\<forall>q \<in> set ms. q \<in> set (p # items) \<and> state_matches states q \<and> old_enough h' older q)) (h @ es)"
    if "state_matches states p" and "old_enough (h @ es) older p" for es
    using that old_enough_mono [OF that(2)]
    by (intro wp_bindI wp_mono [OF Cons.IH] wp_returnI) auto
  show ?case
  proof (cases "state_matches states p")
    case True
    have aged: "wp (cleanup_event E co) (if t1 - t < dur then match_runs E states older items
          else do { ms \<leftarrow> match_runs E states older items; State_Monad.return (p # ms) })
        (\<lambda>ms h'. (\<exists>es. h' = h @ es) \<and> (\<forall>q \<in> set ms. q \<in> set (p # items) \<and> state_matches states q \<and> old_enough h' older q)) (h @ [CliNow t1])"
      if "older = Some dur" and "suTerminalTime (rStatus p) = Some t" for dur t t1
      using that True by (intro wp_ifI IH with_p) (auto simp: old_enough_def)
    show ?thesis
    proof (cases older)
      case None
      with True with_p [of "[]"] show ?thesis by (simp add: old_enough_def)
    next
      case (Some dur)
      with True IH aged [OF Some] show ?thesis
        by (cases "suTerminalTime (rStatus p)") (auto intro!: wp_bindI wp_cli_requests simp: reading_cleanup)
    qed
  qed (use IH [of "[]"] in simp)
qed (auto intro!: wp)

text \<open>The deletions, of runs that may be deleted.\<close>

lemma wp_delete_runs:
  assumes "\<not> coDryRun co" and "coYes co \<or> answered_yes h" and "\<And>p. p \<in> set ms \<Longrightarrow> deletable E co h p"
  shows "wp (cleanup_event E co) (delete_runs E co ms) (\<lambda>_ _. True) h"
  using assms(2, 3)
proof (induction ms arbitrary: h)
  case (Cons p ms)
  have IH: "wp (cleanup_event E co) (delete_runs E co ms) (\<lambda>_ _. True) ((h @ [x]) @ [y])" for x y
    using Cons.prems by (intro Cons.IH) (auto intro: answered_yes_mono deletable_mono)
  have counted: "wp (cleanup_event E co) (delete_runs E co ms) (\<lambda>n. wp (cleanup_event E co) (State_Monad.return (Suc n)) (\<lambda>_ _. True)) ((h @ [x]) @ [y])" for x y
    by (rule wp_mono [OF IH]) (simp add: wp)
  from Cons.prems assms(1) have deletion: "cleanup_event E co h (CliDeleteRun (run_key p) r)" for r
    by auto
  show ?case
    unfolding delete_runs.simps
    by (intro wp_bindI wp_letI wp_cli_requests wp_say_line wp_case_option conjI deletion IH counted) simp_all
qed (auto intro!: wp)

lemma wp_delete_matched:
  assumes "\<not> coDryRun co" and "coYes co \<or> answered_yes h" and "\<And>p. p \<in> set ms \<Longrightarrow> deletable E co h p"
  shows "wp (cleanup_event E co) (delete_matched E co ms) (\<lambda>_ _. True) h"
  unfolding delete_matched_def
  by (intro wp_bindI wp_mono [OF wp_delete_runs [OF assms]]) (auto intro!: wp simp: reading_cleanup)

lemma wp_cleanup_matched:
  assumes "\<And>p. p \<in> set ms \<Longrightarrow> deletable E co h p"
  shows "wp (cleanup_event E co) (cleanup_matched E co ms) (\<lambda>_ _. True) h"
proof -
  have show_table: "wp (cleanup_event E co) (printRunsTable E allNs ms) (\<lambda>_ h'. \<exists>es. h' = h @ es) h" for allNs
    by (rule emits_wp [OF emits_printRunsTable]) (auto intro: reading_cleanup)
  have go: "wp (cleanup_event E co) (delete_matched E co ms) (\<lambda>_ _. True) (h @ es)" if "\<not> coDryRun co" and "coYes co \<or> answered_yes (h @ es)" for es
    using that assms by (intro wp_delete_matched deletable_mono) auto
  have confirmed: "wp (cleanup_event E co) (delete_matched E co ms) (\<lambda>_ _. True) (((h @ es) @ [x]) @ [CliReadLine r])"
    if "\<not> coDryRun co" and "r = Inr line" and "\<not> \<not> equal_fold (trim_space line) ''y''" for es x r line
    using that go [of "es @ [x, CliReadLine (Inr line)]"] by (auto simp: answered_yes_def)
  have asked: "wp (cleanup_event E co) (with_result w (cliReadLine E) (\<lambda>answer. if \<not> equal_fold (trim_space answer) ''y''
      then do { say_line ''Aborted.''; State_Monad.return None } else delete_matched E co ms)) (\<lambda>_ _. True) ((h @ es) @ [x])"
    if "\<not> coDryRun co" for es x w
    unfolding with_result_def
    by (intro wp_bindI wp_cli_requests wp_say_line wp_case_sum wp_ifI wp_returnI conjI TrueI confirmed that) simp_all
  have listed: "wp (cleanup_event E co) (printRunsTable E allNs ms) (\<lambda>_ h'. wp (cleanup_event E co) m (\<lambda>_ _. True) h') h"
    if "\<And>es. wp (cleanup_event E co) m (\<lambda>_ _. True) (h @ es)" for allNs m
    by (rule wp_mono [OF show_table]) (use that in auto)
  show ?thesis
    unfolding cleanup_matched_def
    by (intro wp_ifI wp_bindI listed wp_cli_requests wp_say_line conjI wp_returnI TrueI asked go [of "[]", simplified]) simp_all
qed

lemma wp_cleanup_run:
  assumes sort: "\<And>xs. set (sort_by_age E xs) = set xs" and valid: "cleanup_validate E co = Inr (states, older)"
      and ns: "ns = None \<longleftrightarrow> coAllNamespaces co"
  shows "wp (cleanup_event E co) (cleanup_run E co states older ns) (\<lambda>_ _. True) h"
proof -
  have chosen: "wp (cleanup_event E co) (if length ms = 0 then do { say_line ''No matching terminal runs found.''; State_Monad.return None }
      else cleanup_matched E co (sort_by_age E ms)) (\<lambda>_ _. True) h'"
    if "CliListRuns ns (Inr items) \<in> set h'"
      and "\<forall>p \<in> set ms. p \<in> set items \<and> state_matches states p \<and> old_enough h' older p" for items ms h'
  proof -
    from that valid ns sort have "deletable E co h' p" if "p \<in> set (sort_by_age E ms)" for p
      using that by (fastforce simp: deletable_def state_matches_def IsTerminalPhase_isTerminal Let_def)
    then show ?thesis by (intro wp_ifI wp_cleanup_matched wp_bindI wp_say_line conjI wp_returnI TrueI) simp_all
  qed
  have "wp (cleanup_event E co) (do { ms \<leftarrow> match_runs E states older items;
      if length ms = 0 then do { say_line ''No matching terminal runs found.''; State_Monad.return None }
      else cleanup_matched E co (sort_by_age E ms) }) (\<lambda>_ _. True) (h @ [CliListRuns ns (Inr items)])" for items
    by (intro wp_bindI wp_mono [OF wp_match_runs] chosen) auto
  then show ?thesis
    unfolding cleanup_run_def with_result_def
    by (intro wp_bindI [of _ "cliListRuns E ns"] wp_cli_requests) (auto intro: wp simp: reading_cleanup split: sum.split)
qed

lemma wp_cleanup_command:
  assumes sort: "\<And>xs. set (sort_by_age E xs) = set xs"
  shows "wp (cleanup_event E co) (cleanup_command E co) (\<lambda>_ _. True) h"
  unfolding cleanup_command_def Complete_namespaces_def
  by (intro wp_checked emits_wp [OF emits_connect(1)] reading_cleanup)
     (auto intro!: wp_ifI wp_with_result emits_wp [OF emits_connect(2)] reading_cleanup wp_returnI wp_cleanup_run sort split: option.split sum.split)

text \<open>What the suspend command may do: suspending a system that was read and is not suspended.\<close>

fun suspend_event :: "bool \<Rightarrow> cli_history \<Rightarrow> cli_event \<Rightarrow> bool" where
  "suspend_event yes h (CliCreateConfig c r) \<longleftrightarrow>
     (yes \<or> answered_yes h) \<and> olSuspended c \<and> (\<exists>e. CliGetConfig (Inl e) \<in> set h \<and> IsNotFound e)"
| "suspend_event yes h (CliPatchConfig c suspended r) \<longleftrightarrow>
     (yes \<or> answered_yes h) \<and> suspended \<and> \<not> olSuspended c \<and> CliGetConfig (Inr c) \<in> set h"
| "suspend_event yes h e \<longleftrightarrow> reading e"

lemma reading_suspend: "reading e \<Longrightarrow> suspend_event yes h e"
  by (cases e) simp_all

lemma wp_suspend_existing:
  "yes \<or> answered_yes h \<Longrightarrow> CliGetConfig (Inr c) \<in> set h \<Longrightarrow> wp (suspend_event yes) (suspend_existing E c) (\<lambda>_ _. True) h"
  unfolding suspend_existing_def by (intro wp) (auto intro!: wp)

lemma wp_suspend_missing:
  assumes "yes \<or> answered_yes h" and "CliGetConfig (Inl e) \<in> set h" and "IsNotFound e"
  shows "wp (suspend_event yes) (suspend_missing E) (\<lambda>_ _. True) h"
proof -
  from assms have made: "suspend_event yes h (CliCreateConfig config_to_suspend r)" for r
    by (auto simp: config_to_suspend_def)
  have again: "wp (suspend_event yes) (suspend_existing E c) (\<lambda>_ _. True) ((h @ [x]) @ [CliGetConfig (Inr c)])" for x c
    using assms(1) answered_yes_mono [of h "[x, CliGetConfig (Inr c)]"] by (intro wp_suspend_existing) auto
  have "wp (suspend_event yes) (with_result w (cliGetConfig E) (suspend_existing E)) (\<lambda>_ _. True) (h @ [x])" for w x
    using again by (auto intro!: wp simp del: append_assoc split: sum.split)
  then show ?thesis
    unfolding suspend_missing_def
    by (intro wp_bindI wp_cli_requests conjI made) (auto intro!: wp_ifI wp_bindI wp_say_line wp_returnI split: option.split)
qed

lemma wp_suspend_config:
  assumes "yes \<or> answered_yes h"
  shows "wp (suspend_event yes) (suspend_config E) (\<lambda>_ _. True) h"
proof -
  have yes: "yes \<or> answered_yes (h @ es)" for es
    using assms answered_yes_mono by blast
  show ?thesis
    unfolding suspend_config_def
    by (intro wp_bindI wp_cli_requests) (auto intro!: wp_ifI wp_returnI wp_suspend_existing wp_suspend_missing yes split: sum.split)
qed

lemma wp_suspend_command: "wp (suspend_event yes) (suspend_command E yes) (\<lambda>_ _. True) h"
proof -
  have "wp (suspend_event yes) (suspend_run E yes) (\<lambda>_ _. True) h'" for h'
    unfolding suspend_run_def
    by (intro wp_ifI wp_bindI wp_with_result wp_cli_requests conjI)
       (auto intro!: wp_ifI wp_bindI wp_say_line wp_returnI wp_suspend_config simp: answered_yes_def split: sum.split)
  then show ?thesis
    unfolding suspend_command_def
    by (intro wp_checked emits_wp [OF emits_connect(1)] reading_suspend) (auto split: option.split)
qed

text \<open>
  C38: The two commands with far-reaching effect ask first. Bulk clean-up changes nothing but deleting runs, never in a dry run, and only after
  the flag or a typed yes; every run it deletes was in the listing of the namespaces asked for, is in a terminal phase, in a state of the filter
  and at a time read by the client at least as old as asked for. Suspension changes nothing but the configuration, only after the flag or a typed yes, and only from
  missing or not suspended to suspended.
\<close>

theorem far_reaching_commands_ask:
  assumes "\<And>xs. set (sort_by_age E xs) = set xs"
  shows "good (cleanup_event E co) [] (new_events (cleanup_command E co) []) \<and>
    good (suspend_event yes) [] (new_events (suspend_command E yes) [])"
  using wp_new_events [OF wp_cleanup_command [OF assms]] wp_new_events [OF wp_suspend_command] by blast

text \<open>A client on a system with a completed and a running run, an approval and some stored logs.\<close>

definition example_meta :: "string \<Rightarrow> ObjectMeta" where
  "example_meta name = \<lparr>mName = name, mNamespace = ''apps'', mUID = ''u-'' @ name, mResourceVersion = 1, mGeneration = 1, mCreationTimestamp = 5,
     mDeletionTimestamp = 0, mLabels = Map.empty, mAnnotations = Map.empty, mFinalizers = [], mOwnerReferences = []\<rparr>"

definition no_step :: AnalysisStepStatus where
  "no_step = \<lparr>ssConditions = [], ssSandbox = no_sandbox, ssResults = []\<rparr>"

definition example_cond :: "string \<Rightarrow> ConditionStatus \<Rightarrow> Condition" where
  "example_cond t st = \<lparr>cType = t, cStatus = st, cReason = ''Complete'', cMessage = [], cObservedGeneration = 1, cLastTransitionTime = 10\<rparr>"

definition cli_run :: "string \<Rightarrow> Condition list \<Rightarrow> Time option \<Rightarrow> AgenticRun" where
  "cli_run name cs t = \<lparr>rMeta = example_meta name, rSpec = create_spec ''fix it'' ''default'',
     rStatus = \<lparr>suConditions = cs, suSteps = \<lparr>stAnalysis = no_step, stExecution = no_step, stVerification = no_step, stEscalation = no_step\<rparr>,
       suTokenUsage = \<lparr>tuInputTokens = None, tuOutputTokens = None\<rparr>, suTerminalTime = t, suDeleteAfter = None\<rparr>\<rparr>"

definition example_runs :: "AgenticRun list" where
  "example_runs = [cli_run ''old'' [example_cond AgenticRunConditionVerified ConditionTrue] (Some 20),
     cli_run ''busy'' [example_cond AgenticRunConditionAnalyzed ConditionUnknown] None]"

definition example_approval :: AgenticRunApproval where
  "example_approval = \<lparr>vMeta = example_meta ''old'', vApprover = \<lparr>aiUID = [], aiUsername = [], aiApprovedAt = []\<rparr>, vStages = []\<rparr>"

definition example_record :: "int \<Rightarrow> storedLogRecord" where
  "example_record i = \<lparr>lrID = i, lrPhase = ''analysis'', lrTimestamp = ''2026-01-01T00:00:00Z'', lrBody = JsonString ''text''\<rparr>"

text \<open>A log store with pages of two records.\<close>

definition example_page :: "int \<Rightarrow> storedLogPage" where
  "example_page after =
    (let left = filter (\<lambda>r. lrID r > after) (map example_record [3, 7, 8, 20, 21]) in
     \<lparr>lpRecords = take 2 left, lpHasMore = length left > 2\<rparr>)"

definition example_env :: cli_env where
  "example_env = \<lparr>
     cliRestConfig_ans = (\<lambda>h. None), cliNewForConfig_ans = (\<lambda>h. None), cliRawConfig_ans = (\<lambda>h. Inr \<lparr>rcCurrentContext = ''c'', rcContexts = Map.empty\<rparr>),
     cliGetRun_ans = (\<lambda>h key. Inr (hd example_runs)), cliListRuns_ans = (\<lambda>h ns. Inr example_runs), cliCreateRun_ans = (\<lambda>h ns spec. Inr (hd example_runs)),
     cliDeleteRun_ans = (\<lambda>h key. None), cliWatchRun_ans = (\<lambda>h key. Inr []), cliGetApproval_ans = (\<lambda>h key. Inr example_approval),
     cliCreateApproval_ans = (\<lambda>h a. Inr a), cliPatchApproval_ans = (\<lambda>h a es. None), cliGetConfig_ans = (\<lambda>h. Inr config_to_suspend),
     cliCreateConfig_ans = (\<lambda>h c. None), cliPatchConfig_ans = (\<lambda>h c b. None), cliReadLine_ans = (\<lambda>h. Inr ''y''), cliNow_ans = (\<lambda>h. 100),
     cliFetchPage_ans = (\<lambda>h src uid phase after. Inr (example_page after)), cliStreamLogs_ans = (\<lambda>h key follow. Inr ([], None)),
     cliWrite_ans = (\<lambda>h text. None), IsNoMatchError = (\<lambda>e. False), FindStatusCondition_of = get_condition,
     human_duration = (\<lambda>d. ''5s''), formatRFC3339 = (\<lambda>t. ''2026-01-01T00:00:00Z''), ParseDuration = (\<lambda>s. Inr 50), sort_by_age = id,
     marshal_runs = (\<lambda>f rs. Inr ''[]''), marshal_run = (\<lambda>f r. Inr ''{}''), url_parse = (\<lambda>s. None)\<rparr>"

definition example_cleanup :: CleanupOptions where
  "example_cleanup = \<lparr>coAllNamespaces = False, coStates = [], coOlderThan = ''50ns'', coDryRun = False, coYes = True, coFlag = Some ''apps''\<rparr>"

fun deleted_key :: "cli_event \<Rightarrow> ObjectKey list" where
  "deleted_key (CliDeleteRun key r) = [key]"
| "deleted_key _ = []"

lemma example_cleanup_deletes:
  "concat (map deleted_key (new_events (cleanup_command example_env example_cleanup) [])) = [\<lparr>kName = ''old'', kNamespace = ''apps''\<rparr>]"
  by code_simp

theorem far_reaching_commands_ask_witness:
  "good (cleanup_event example_env example_cleanup) [] (new_events (cleanup_command example_env example_cleanup) []) \<and>
   good (suspend_event False) [] (new_events (suspend_command example_env False) []) \<and>
   concat (map deleted_key (new_events (cleanup_command example_env example_cleanup) [])) = [\<lparr>kName = ''old'', kNamespace = ''apps''\<rparr>]"
proof -
  have "set (sort_by_age example_env xs) = set xs" for xs by (simp add: example_env_def)
  from far_reaching_commands_ask [OF this] example_cleanup_deletes show ?thesis by blast
qed

section \<open>Ages in days\<close>

lemma digits_value_snoc: "digits_value (ds @ [c]) = 10 * digits_value ds + (of_char c - 48)"
  by (simp add: digits_value_def)

lemma digits_value_nonneg: "list_all is_digit ds \<Longrightarrow> 0 \<le> digits_value ds"
proof (induction ds rule: rev_induct)
  case (snoc c ds)
  then have "48 \<le> (of_char c :: int)"
    by (simp add: is_digit_def) (metis of_nat_le_iff of_nat_numeral of_nat_of_char)
  with snoc show ?case by (simp add: digits_value_snoc)
qed (simp add: digits_value_def)

lemma atoi_digits:
  assumes "ds \<noteq> []" and "list_all is_digit ds"
  shows "atoi ds = (if digits_value ds < 2 ^ 63 then Some (digits_value ds) else None)"
proof -
  from assms obtain c cs where ds: "ds = c # cs" by (cases ds) auto
  with assms(2) have "c \<noteq> CHR ''-''" and "c \<noteq> CHR ''+''" by (auto simp: is_digit_def)
  with ds assms digits_value_nonneg [OF assms(2)] show ?thesis
    by (simp add: atoi_def)
qed

text \<open>
  C17: An age in days is accepted exactly if it fits into the 64-bit nanoseconds of a duration, and is then that number of days: the guard leaves
  no room for an overflow, which would make the filter match younger runs.
\<close>

theorem parseDuration_days:
  assumes "ds \<noteq> []" and "list_all is_digit ds"
  shows "if digits_value ds * (24 * Hour) < 2 ^ 63 then parseDuration E (ds @ ''d'') = Inr (digits_value ds * (24 * Hour))
    else \<exists>e. parseDuration E (ds @ ''d'') = Inl e"
proof -
  from assms have m: "days_match (ds @ ''d'') = Some ds"
    by (cases ds) (auto simp: days_match_def)
  from assms have pos: "0 \<le> digits_value ds" by (simp add: digits_value_nonneg)
  have H: "24 * Hour = 86400000000000" by (simp add: Hour_def Minute_def Second_def)
  have max: "maxDurationDays = 106751" by (simp add: maxDurationDays_def H)
  show ?thesis
  proof (cases "digits_value ds \<le> 106751")
    case True
    with pos have "int64 (int64 (digits_value ds * 24) * Hour) = digits_value ds * (24 * Hour)"
      by (simp add: int64_id Hour_def Minute_def Second_def)
    with True pos m show ?thesis
      by (simp add: parseDuration_def atoi_digits [OF assms] max H)
  next
    case False
    with m show ?thesis
      by (simp add: parseDuration_def atoi_digits [OF assms] max H)
  qed
qed

theorem parseDuration_days_witness:
  "parseDuration example_env ''7d'' = Inr (7 * (24 * Hour)) \<and> (\<exists>e. parseDuration example_env ''106752d'' = Inl e)"
  using parseDuration_days [of "''7''" example_env] parseDuration_days [of "''106752''" example_env]
  by (simp add: is_digit_def digits_value_def Hour_def Minute_def Second_def)

section \<open>Safety of resuming\<close>

definition resume_confirmed :: "int \<Rightarrow> Condition option \<Rightarrow> Condition option \<Rightarrow> bool" where
  "resume_confirmed generation suspended safety \<longleftrightarrow>
     (\<exists>s c. suspended = Some s \<and> cObservedGeneration s = generation \<and> cStatus s = ConditionTrue \<and>
        cReason s \<in> {''AdminActivated'', ''AdminActivatedWithErrors''} \<and>
        safety = Some c \<and> cObservedGeneration c = generation \<and> cStatus c = ConditionTrue)"

lemma unconfirmed_not: "unconfirmed w \<noteq> ''Resumption safety: confirmed''"
  by (simp add: unconfirmed_def)

lemma formatResumeSafety_iff: "formatResumeSafety generation s c = ''Resumption safety: confirmed'' \<longleftrightarrow> resume_confirmed generation s c"
  by (auto simp: formatResumeSafety_def resume_confirmed_def unconfirmed_not split: option.split)

text \<open>The status command changes nothing, and confirms the safety of resuming only for a configuration it has read.\<close>

fun status_event :: "cli_env \<Rightarrow> cli_history \<Rightarrow> cli_event \<Rightarrow> bool" where
  "status_event E h (CliOut text) \<longleftrightarrow> text \<noteq> ''Resumption safety: confirmed'' @ newline \<or>
     (\<exists>cfg. CliGetConfig (Inr cfg) \<in> set h \<and> olSuspended cfg \<and>
        resume_confirmed (mGeneration (olMeta cfg)) (FindStatusCondition_of E (olConditions cfg) AgenticOLSConfigConditionSuspended)
          (FindStatusCondition_of E (olConditions cfg) AgenticOLSConfigConditionSafeToResume))"
| "status_event E h e \<longleftrightarrow> reading e"

lemma wp_status_command: "wp (status_event E) (status_command E) (\<lambda>_ _. True) h"
proof -
  have connect: "connecting e \<Longrightarrow> status_event E h e" for h e by (cases e) simp_all
  have safety: "status_event E h (CliOut (formatResumeSafety (mGeneration (olMeta cfg))
      (FindStatusCondition_of E (olConditions cfg) AgenticOLSConfigConditionSuspended)
      (FindStatusCondition_of E (olConditions cfg) AgenticOLSConfigConditionSafeToResume) @ newline))"
    if "CliGetConfig (Inr cfg) \<in> set h" and "olSuspended cfg" for h cfg
    using that formatResumeSafety_iff by auto
  have other: "status_event E h (CliOut (''Agentic System: '' @ t))" for h t by simp
  have "wp (status_event E) (show_suspended E cfg) (\<lambda>x. wp (status_event E) (State_Monad.return None) (\<lambda>_ _. True)) (h @ [CliGetConfig (Inr cfg)])" if "olSuspended cfg" for h cfg
    unfolding show_suspended_def Let_def
    by (intro wp wp_cli_requests conjI safety) (auto simp: suspended_text_def that)
  moreover have "wp (status_event E) (show_active E cfg) (\<lambda>x. wp (status_event E) (State_Monad.return None) (\<lambda>_ _. True)) h" for h cfg
    unfolding show_active_def by (intro wp wp_cli_requests conjI) simp_all
  ultimately have "wp (status_event E) (status_run E) (\<lambda>_ _. True) h" for h
    unfolding status_run_def
    by (intro wp_bindI wp_cli_requests) (auto intro!: wp_ifI wp_bindI wp_say_line wp_returnI split: sum.split)
  then show ?thesis
    unfolding status_command_def
    by (intro wp_checked emits_wp [OF emits_NewClient] connect) (auto split: option.split)
qed

text \<open>
  The client calls resuming confirmed exactly if the condition of the suspension is true, finished and of the current generation and so is the
  condition of safety; the status command changes nothing and prints this only of a suspended configuration it has just read.
\<close>

theorem resume_confirmed_exactly:
  "(formatResumeSafety generation s c = ''Resumption safety: confirmed'' \<longleftrightarrow> resume_confirmed generation s c) \<and>
   good (status_event E) [] (new_events (status_command E) [])"
  using formatResumeSafety_iff wp_new_events [OF wp_status_command] by blast

section \<open>Stored logs\<close>

text \<open>
  What the client relies on of the Collector: its records of a run have positive, increasing identities, and a page has some of those after the
  cursor, from the first on, at least one if there is any left out, and says whether there are more.
\<close>

definition log_store :: "cli_env \<Rightarrow> log_source \<Rightarrow> string \<Rightarrow> string \<Rightarrow> storedLogRecord list \<Rightarrow> bool" where
  "log_store E src uid phase all \<longleftrightarrow> sorted_wrt (\<lambda>a b. lrID a < lrID b) all \<and> list_all (\<lambda>r. 0 < lrID r) all \<and>
     (\<forall>h after. \<exists>n. let left = filter (\<lambda>r. after < lrID r) all in
        cliFetchPage_ans E h src uid phase after = Inr \<lparr>lpRecords = take n left, lpHasMore = n < length left\<rparr> \<and> (n = 0 \<longrightarrow> left = []))"

lemma filter_after_last:
  assumes "sorted_wrt (\<lambda>a b. f a < (f b :: int)) xs" and "0 < n" and "n \<le> length xs"
  shows "filter (\<lambda>r. f (last (take n xs)) < f r) xs = drop n xs"
proof -
  from assms(2, 3) have last: "last (take n xs) = xs ! (n - 1)" by (subst last_conv_nth) auto
  have "\<not> f (xs ! (n - 1)) < f r" if "r \<in> set (take n xs)" for r
  proof -
    from that obtain i where i: "i < n" "i < length xs" "r = xs ! i" by (auto simp: in_set_conv_nth)
    then consider "i = n - 1" | "i < n - 1" and "n - 1 < length xs" using assms(2, 3) by linarith
    then show ?thesis using sorted_wrt_nth_less [OF assms(1), of i "n - 1"] i(3) by cases auto
  qed
  moreover have "f (xs ! (n - 1)) < f r" if r: "r \<in> set (drop n xs)" for r
  proof -
    from r obtain i where "i < length (drop n xs)" and "r = drop n xs ! i" unfolding in_set_conv_nth by blast
    with assms show ?thesis using sorted_wrt_nth_less [OF assms(1), of "n - 1" "n + i"] by simp
  qed
  ultimately have "filter (\<lambda>r. f (xs ! (n - 1)) < f r) (take n xs @ drop n xs) = drop n xs"
    unfolding filter_append by (simp add: filter_empty_conv filter_id_conv)
  then show ?thesis by (simp add: last)
qed

lemma filter_later: "after < (k :: int) \<Longrightarrow> filter (\<lambda>r. k < f r) xs = filter (\<lambda>r. k < f r) (filter (\<lambda>r. after < f r) xs)"
  by (induction xs) auto

lemma fetch_records_complete:
  assumes "log_store E src uid phase all" and "length (filter (\<lambda>r. after < lrID r) all) < fuel"
  shows "returned (fetch_records E src uid phase fuel after records) h = Some (Inr (records @ filter (\<lambda>r. after < lrID r) all))"
  using assms(2)
proof (induction fuel arbitrary: after records h)
  case (Suc fuel)
  define left where "left = filter (\<lambda>r. after < lrID r) all"
  from assms(1) obtain n where page: "cliFetchPage_ans E h src uid phase after = Inr \<lparr>lpRecords = take n left, lpHasMore = n < length left\<rparr>"
      and n: "n = 0 \<longrightarrow> left = []"
    by (auto simp: log_store_def left_def Let_def)
  have sorted: "sorted_wrt (\<lambda>a b. lrID a < lrID b) left"
    using assms(1) by (auto simp: log_store_def left_def sorted_wrt_filter)
  show ?case
  proof (cases "n < length left")
    case True
    with n have n0: "0 < n" by (cases n) auto
    with True have "take n left \<noteq> []" by auto
    from in_set_takeD [OF last_in_set [OF this]] have cursor: "after < lrID (last (take n left))" by (simp add: left_def)
    have rest: "filter (\<lambda>r. lrID (last (take n left)) < lrID r) all = drop n left"
    proof -
      have "filter (\<lambda>r. lrID (last (take n left)) < lrID r) all = filter (\<lambda>r. lrID (last (take n left)) < lrID r) left"
        using filter_later [OF cursor, of lrID all] by (simp only: left_def [symmetric])
      also have "\<dots> = drop n left" using sorted n0 True by (simp add: filter_after_last)
      finally show ?thesis .
    qed
    from Suc.prems have "length (filter (\<lambda>r. lrID (last (take n left)) < lrID r) all) < fuel"
      using n0 True unfolding rest by (simp add: left_def [symmetric])
    from Suc.IH [OF this] True n0 cursor page show ?thesis
      by (auto simp: returned_def rest left_def [symmetric] cliFetchPage_def Let_def)
  next
    case False
    with page show ?thesis
      by (simp add: returned_def left_def [symmetric] cliFetchPage_def Let_def)
  qed
qed simp

text \<open>Without any assumption on the Collector the loop ends: the cursor grows with every round and is a 64-bit integer.\<close>

theorem fetch_records_ends:
  assumes "\<And>h after page r. cliFetchPage_ans E h src uid phase after = Inr page \<Longrightarrow> r \<in> set (lpRecords page) \<Longrightarrow> lrID r < 2 ^ 63"
      and "2 ^ 63 - after < int fuel" and "0 < fuel"
  shows "returned (fetch_records E src uid phase fuel after records) h \<noteq> None"
  using assms(2, 3)
proof (induction fuel arbitrary: after records h)
  case (Suc fuel)
  show ?case
  proof (cases "cliFetchPage_ans E h src uid phase after")
    case (Inr page)
    have "returned (fetch_records E src uid phase fuel (lrID (last (lpRecords page))) rs) h' \<noteq> None"
      if "lpRecords page \<noteq> []" and "after < lrID (last (lpRecords page))" for rs h'
    proof (rule Suc.IH)
      from assms(1) [OF Inr last_in_set [OF that(1)]] that(2) Suc.prems(1)
      show "2 ^ 63 - lrID (last (lpRecords page)) < int fuel" and "0 < fuel" by auto
    qed
    with Inr show ?thesis by (auto simp: returned_def cliFetchPage_def Let_def)
  qed (simp add: returned_def cliFetchPage_def)
qed simp

fun written_text :: "cli_event \<Rightarrow> string list" where
  "written_text (CliWrite text r) = [text]"
| "written_text _ = []"

abbreviation written :: "cli_event list \<Rightarrow> string list" where
  "written es \<equiv> concat (map written_text es)"

lemma emits_fetch_records: "emits (\<lambda>e. written_text e = []) (fetch_records E src uid phase fuel after records)"
  by (induction fuel arbitrary: after records) (auto intro!: emit simp: Let_def)

lemma run_checked_write:
  assumes "\<And>h t. cliWrite_ans E h t = None"
  shows "run_state (checked (write_stored E t) k) h = run_state k (h @ [CliWrite t None])"
  by (simp add: checked_def write_stored_def cliWrite_def assms)

lemma run_checked_None: "run_state (checked (State_Monad.return None) k) h = run_state k h"
  by (simp add: checked_def)

lemma write_records_all:
  assumes "\<And>h t. cliWrite_ans E h t = None"
  shows "\<exists>es. run_state (write_records E phase cur rs) h = (None, h @ es) \<and> subseq (map record_line rs) (written es)"
proof (induction rs arbitrary: cur h)
  case (Cons r rs)
  have step: "\<exists>es. run_state (write_records E phase cur' rs) (h @ ws @ [CliWrite (record_line r) None]) = (None, h @ es) \<and>
      subseq (map record_line (r # rs)) (written es)" if "written ws = ts" for cur' ws ts
  proof -
    obtain es where "run_state (write_records E phase cur' rs) (h @ ws @ [CliWrite (record_line r) None]) =
        (None, (h @ ws @ [CliWrite (record_line r) None]) @ es)" and "subseq (map record_line rs) (written es)"
      using Cons.IH by blast
    then show ?thesis
      by (intro exI [of _ "ws @ [CliWrite (record_line r) None] @ es"]) (auto intro: list_emb_append2)
  qed
  from step [of "[]"] step [of "[_]"] step [of "[_, _]"] show ?case
    by (simp add: run_checked_write [OF assms] run_checked_None Let_def)
qed simp

lemma print_stored_all:
  assumes "\<And>h t. cliWrite_ans E h t = None"
  shows "\<exists>es ts. run_state (print_stored E uid phase rs) h = (None, h @ es) \<and> written es = stored_header uid (length rs) # ts \<and>
    subseq (map record_line rs) ts"
proof -
  have "\<exists>es ts. run_state (write_records E phase cur rs) (h @ CliWrite (stored_header uid (length rs)) None # ws) = (None, h @ es) \<and>
      written es = stored_header uid (length rs) # ts \<and> subseq (map record_line rs) ts" for cur ws
  proof -
    obtain es where "run_state (write_records E phase cur rs) (h @ CliWrite (stored_header uid (length rs)) None # ws) =
        (None, (h @ CliWrite (stored_header uid (length rs)) None # ws) @ es)" and "subseq (map record_line rs) (written es)"
      using write_records_all [OF assms] by blast
    then show ?thesis
      by (intro exI [of _ "CliWrite (stored_header uid (length rs)) None # ws @ es"]) (auto intro: list_emb_append2)
  qed
  from this [of phase "[CliWrite (phase_header phase) None]"] this [of "[]" "[]"] show ?thesis
    by (auto simp: print_stored_def run_checked_write [OF assms])
qed

text \<open>
  C39: Reading the stored logs of a run ends and misses nothing: if the Collector answers as its interface says and the terminal takes the
  output, then after at most one page per record the client succeeds, and it has written the number of all records and then the line of each of
  them, in their order.
\<close>

theorem stored_logs_complete:
  assumes "log_store E src uid phase all" and "length all < fuel" and "\<And>h t. cliWrite_ans E h t = None"
  shows "returned (fetchAllStoredLogs E fuel src uid phase) h = Some None \<and>
    (\<exists>ts. written (new_events (fetchAllStoredLogs E fuel src uid phase) h) = stored_header uid (length all) # ts \<and>
      subseq (map record_line all) ts)"
proof -
  have all: "filter (\<lambda>r. 0 < lrID r) all = all"
    using assms(1) by (simp add: log_store_def filter_id_conv list_all_iff)
  with fetch_records_complete [OF assms(1), of 0 fuel "[]" h] assms(2)
  have fetched: "fst (run_state (fetch_records E src uid phase fuel 0 []) h) = Some (Inr all)"
    by (simp add: returned_def)
  obtain fs where fs: "snd (run_state (fetch_records E src uid phase fuel 0 []) h) = h @ fs" and "written fs = []"
    using emits_fetch_records [of E src uid phase fuel 0 "[]"] by (auto simp: emits_iff list_all_iff)
  moreover obtain es ts where "run_state (print_stored E uid phase all) (h @ fs) = (None, (h @ fs) @ es)"
      and "written es = stored_header uid (length all) # ts" and "subseq (map record_line all) ts"
    using print_stored_all [OF assms(3)] by blast
  ultimately show ?thesis
    using fetched by (simp add: fetchAllStoredLogs_def returned_def new_events_def run_state_bind split_beta del: concat_eq_Nil_conv)
qed

lemma example_log_store: "log_store example_env src uid phase (map example_record [3, 7, 8, 20, 21])"
proof -
  have "\<exists>n. let left = filter (\<lambda>r. after < lrID r) (map example_record [3, 7, 8, 20, 21]) in
      cliFetchPage_ans example_env h src uid phase after = Inr \<lparr>lpRecords = take n left, lpHasMore = n < length left\<rparr> \<and> (n = 0 \<longrightarrow> left = [])" for h after
    by (intro exI [of _ 2]) (simp add: example_env_def example_page_def Let_def)
  then show ?thesis by (simp add: log_store_def example_record_def)
qed

theorem stored_logs_complete_witness:
  "returned (fetchAllStoredLogs example_env 6 (ServiceProxy ''apps'') ''u-old'' ''analysis'') [] = Some None \<and>
   (\<exists>ts. written (new_events (fetchAllStoredLogs example_env 6 (ServiceProxy ''apps'') ''u-old'' ''analysis'') []) = stored_header ''u-old'' 5 # ts \<and>
     subseq (map (record_line \<circ> example_record) [3, 7, 8, 20, 21]) ts)"
proof -
  have "cliWrite_ans example_env h t = None" for h t by (simp add: example_env_def)
  from stored_logs_complete [OF example_log_store _ this, of 6 "ServiceProxy ''apps''" "''u-old''" "''analysis''" "[]"]
  show ?thesis by (simp add: numeral_eq_Suc)
qed

section \<open>Watching\<close>

text \<open>The phases that the events up to the first error show, and what of a sequence is worth a line: changes, up to a terminal phase.\<close>

fun shown_phases :: "watch_event list \<Rightarrow> AgenticRunPhase list" where
  "shown_phases [] = []"
| "shown_phases (e # es) =
    (if weType e = WatchError then []
     else if weType e \<in> {WatchModified, WatchAdded} \<and> weObject e \<noteq> None
     then DerivePhase (extractConditions (the (weObject e))) # shown_phases es else shown_phases es)"

fun until_terminal :: "AgenticRunPhase list \<Rightarrow> AgenticRunPhase list" where
  "until_terminal [] = []"
| "until_terminal (p # ps) = (if IsTerminalPhase p then [p] else p # until_terminal ps)"

fun out_text :: "cli_event \<Rightarrow> string list" where
  "out_text (CliOut text) = [text]"
| "out_text _ = []"

definition phase_line :: "AgenticRunPhase \<Rightarrow> string \<Rightarrow> bool" where
  "phase_line p line \<longleftrightarrow> (\<exists>age. line = ColoredPhase p @ tab @ age @ newline)"

text \<open>The comparison with the last text shown, as the loop does it.\<close>

fun phase_changes :: "string \<Rightarrow> AgenticRunPhase list \<Rightarrow> AgenticRunPhase list" where
  "phase_changes prev [] = []"
| "phase_changes prev (p # ps) = (if phase_text p = prev then phase_changes prev ps else p # phase_changes (phase_text p) ps)"

lemma phase_changes_after: "q # phase_changes (phase_text q) ps = remdups_adj (q # ps)"
  by (induction ps arbitrary: q) (auto dest: phase_text_inject)

lemma phase_changes_start: "phase_changes [] ps = remdups_adj ps"
proof (cases ps)
  case (Cons p ps')
  have "phase_text p \<noteq> []" by (cases p) (simp_all add: phase_text_def)
  with Cons phase_changes_after [of p ps'] show ?thesis by simp
qed simp

lemma watch_loop_lines:
  "\<exists>es. snd (run_state (watch_loop E start lastPhase events) h) = h @ es \<and>
     list_all2 phase_line (until_terminal (phase_changes lastPhase (shown_phases events))) (concat (map out_text es))"
proof (induction events arbitrary: lastPhase h)
  case (Cons e events)
  consider "weType e = WatchError" | "shown_phases (e # events) = shown_phases events"
      and "watch_loop E start lastPhase (e # events) = watch_loop E start lastPhase events"
    | obj p where "weType e \<in> {WatchModified, WatchAdded}" and "weObject e = Some obj" and "p = DerivePhase (extractConditions obj)"
    by (cases "weType e"; cases "weObject e") auto
  then show ?case
  proof cases
    case (3 obj p)
    then have shown: "shown_phases (e # events) = p # shown_phases events" by auto
    show ?thesis
    proof (cases "phase_text p = lastPhase")
      case True
      with 3 shown Cons.IH [of lastPhase h] show ?thesis by auto
    next
      case False
      define line where "line = ColoredPhase p @ tab @ seconds_text (round_seconds (cliNow_ans E h - start)) @ newline"
      obtain es where "snd (run_state (watch_loop E start (phase_text p) events) (h @ [CliNow (cliNow_ans E h), CliOut line])) =
            (h @ [CliNow (cliNow_ans E h), CliOut line]) @ es"
          and "list_all2 phase_line (until_terminal (phase_changes (phase_text p) (shown_phases events))) (concat (map out_text es))"
        using Cons.IH by blast
      moreover have "phase_line p line" by (auto simp: phase_line_def line_def)
      moreover have "snd (run_state (watch_loop E start lastPhase (e # events)) h) =
          snd (run_state (if IsTerminalPhase p then State_Monad.return None else watch_loop E start (phase_text p) events)
            (h @ [CliNow (cliNow_ans E h), CliOut line]))"
        using 3 False by (auto simp: cliNow_def say_line_def say_def line_def Let_def)
      ultimately show ?thesis
        using False unfolding shown by (cases "IsTerminalPhase p") (auto simp del: watch_loop.simps)
    qed
  qed (use Cons.IH in auto)
qed simp

text \<open>
  Watching a run writes one line for every change of the phase that its events show, in order and starting with the first phase, up to and
  including the first terminal phase; nothing is written after that, nor after an error of the watch.
\<close>

theorem watch_shows_changes:
  "list_all2 phase_line (until_terminal (remdups_adj (shown_phases events)))
     (concat (map out_text (new_events (watch_loop E start [] events) h)))"
  using watch_loop_lines [of E start "[]" events h] by (auto simp: new_events_def phase_changes_start)

end
