(* ===== verification/Spec2Isabelle.thy ===== *)
theory Spec2Isabelle
  imports TimeoutHandler ActivationMachine PodSpecSafety AgentAdmission ReaderSafety SandboxSafety CliSafety
begin

text \<open>
  A verification of the agentic operator of OpenShift Lightspeed.

  \<^bold>\<open>The program.\<close> A user creates an \<open>AgenticRun\<close>: a request to analyse a problem of a cluster, to execute a
  remediation, to verify it, and to escalate when that fails. The run controller
  (\<^verbatim>\<open>controller/agenticrun\<close>) moves a run through these steps. Each step runs an agent in a sandbox pod with its own
  service account; execution needs the approval of a user (an \<open>AgenticRunApproval\<close>) or of the policy of the
  cluster. A pod reports through a result resource, and its pod events complete the step. The singleton
  \<open>AgenticOLSConfig\<close> can suspend the system; every run is then stopped: its stop is accepted on the run, its sandboxes and
  access are torn down, and the outcome is recorded.

  \<^bold>\<open>Operations and their environment.\<close> Nothing outside the repository is invented. The API server, the clock, the condition
  helpers of apimachinery, the sandbox lifecycle, the audit sink and the log store are the record \<open>kube\<close> and the other
  parameters of a \<open>Reconciler\<close>: functions of the history of all requests and answers so far. An operation of the operator is a
  value of the state monad over that history, so the statements below hold for every behaviour of the environment, including other
  clients that write between two requests. The predicate \<open>wp\<close> (theory \<open>Prelude\<close>) relates an operation to the
  events it may append and to its result; \<open>new_events\<close> and \<open>returned\<close> are what it appended and returned.
  What the operator relies on is stated in locales: \<open>status_conditions\<close> (\<open>KubeApi\<close>: the condition helpers), \<open>run_server\<close>
  (\<open>Server\<close>: reads, optimistic locks and resource versions), \<open>agent_caller\<close> (\<open>SandboxAgent\<close>: the agent
  interface) and \<open>reconciler\<close> (\<open>Handlers\<close>). They are interpreted on the reference helpers, on an executable
  reference server, and on the two agent callers of the source. The examples evaluate the operator against the reference server.

  \<^bold>\<open>Theories.\<close>
  \<^item> \<open>Prelude\<close>: the event calculus, Go strings, 64-bit integers.
  \<^item> \<open>ApiTypes\<close>: the custom resources of \<^verbatim>\<open>api/v1alpha1\<close> and \<open>DerivePhase\<close>, which computes the phase of a run from its conditions.
  \<^item> \<open>KubeApi\<close>: errors, requests and events.
  \<^item> \<open>RunState\<close>: the state predicates and guarded reads of \<^verbatim>\<open>helpers.go\<close>: accepted stops, terminal phases, due revisions,
    \<open>readRunnableRun\<close>, retries of transient errors.
  \<^item> \<open>Server\<close>: the contract of the API server and the reference server.
  \<^item> \<open>Results\<close>: the names, failure reasons and idempotent creation of result resources (\<^verbatim>\<open>results.go\<close>).
  \<^item> \<open>Approval\<close>: approvals, policies and the approver webhook (\<^verbatim>\<open>approval.go\<close>, \<^verbatim>\<open>webhooks.go\<close>).
  \<^item> \<open>Resolve\<close>: agents, providers and step budgets (\<^verbatim>\<open>resolve.go\<close>, \<^verbatim>\<open>limits.go\<close>).
  \<^item> \<open>Rbac\<close>: roles of the sandboxes and access to spoke clusters (\<^verbatim>\<open>rbac.go\<close>, \<^verbatim>\<open>spoke.go\<close>).
  \<^item> \<open>SandboxAgent\<close>: launching and releasing sandboxes (\<^verbatim>\<open>agent.go\<close>, \<^verbatim>\<open>sandbox_agent.go\<close>).
  \<^item> \<open>Handlers\<close>: the handlers of the steps, terminal records, log clean-up (\<^verbatim>\<open>handlers.go\<close>, \<^verbatim>\<open>helpers.go\<close>, \<^verbatim>\<open>reconciler.go\<close>).
  \<^item> \<open>Suspension\<close>: the emergency stop of a run (\<^verbatim>\<open>handlers.go\<close>).
  \<^item> \<open>PodHandler\<close>: pod events and the completion of steps (\<^verbatim>\<open>pod_handler.go\<close>).
  \<^item> \<open>RunReconciler\<close>: \<open>Reconcile\<close> (\<^verbatim>\<open>reconciler.go\<close>).
  \<^item> \<open>TimeoutHandler\<close>: the expiry sweep and the timeouts of sandboxes (\<^verbatim>\<open>timeout_handler.go\<close>).
  \<^item> \<open>CleanupPass\<close> and \<open>CleanupSafety\<close>: one pass of the emergency clean-up and its guarantees (\<^verbatim>\<open>suspension_cleanup.go\<close>).
  \<^item> \<open>Diagnostics\<close>: sorting and bounding of diagnostic texts, \<open>GlobalSuspension\<close> and \<open>GlobalSafety\<close>: the controller of the global suspension and
    its guarantees (\<^verbatim>\<open>controller/agenticolsconfig/reconciler.go\<close>).
  \<^item> \<open>ActivationMachine\<close>: the abstract state machine of a suspension and the refinement of the controller to it.
  \<^item> \<open>Configuration\<close>: the configuration ConfigMap, its cache and its watcher (\<^verbatim>\<open>pkg/configuration/config.go\<close>, \<^verbatim>\<open>pkg/configwatch\<close>).
  \<^item> \<open>JsonText\<close>: JSON texts as the standard library writes and scans them; \<open>PodSpecBuilder\<close> and \<open>PodSpecSafety\<close>: the specification of a
    sandbox pod and its guarantees (\<^verbatim>\<open>podspec_builder.go\<close>).
  \<^item> \<open>InputConfigMap\<close>: prompts, templates and the input of a step (\<^verbatim>\<open>input_configmap.go\<close>, \<^verbatim>\<open>helpers.go\<close>); \<open>AgentAdmission\<close>: the validating webhook
    for agents (\<^verbatim>\<open>webhooks.go\<close>) and what it means for the prompts.
  \<^item> \<open>SandboxOps\<close>: the requests of the sandbox manager; \<open>ReaderBindings\<close> and \<open>ReaderSafety\<close>: the reader access of a sandbox on hub and spoke
    (\<^verbatim>\<open>rbac.go\<close>); \<open>SandboxManager\<close> and \<open>SandboxSafety\<close>: creation and release of sandboxes and their guarantees (\<^verbatim>\<open>sandbox_manager.go\<close>, \<^verbatim>\<open>spoke.go\<close>).

  \<^item> \<open>CliOps\<close>: the surroundings and helpers of the command line client (\<^verbatim>\<open>cli/run/helpers.go\<close>); \<open>CliView\<close>: watching, listing and showing runs
    (\<^verbatim>\<open>watch.go\<close>, \<^verbatim>\<open>list.go\<close>, \<^verbatim>\<open>get.go\<close>); \<open>CliRun\<close>: creating, approving, denying and deleting (\<^verbatim>\<open>create.go\<close>, \<^verbatim>\<open>approve.go\<close>, \<^verbatim>\<open>deny.go\<close>,
    \<^verbatim>\<open>delete.go\<close>); \<open>CliCleanup\<close>: bulk deletion (\<^verbatim>\<open>cleanup.go\<close>); \<open>CliLogs\<close>: logs (\<^verbatim>\<open>logs.go\<close>); \<open>CliSystem\<close>: suspending, resuming and status
    (\<^verbatim>\<open>cli/system\<close>); \<open>CliSafety\<close>: what these commands promise.

  The clean-up pass and the controller of the suspension talk to the API server through their own, smaller set of requests and events (record
  \<open>suspension_api\<close>, datatype \<open>su_event\<close> of \<open>CleanupPass\<close>); the calculus is the same. The stop of a single run (theory \<open>Suspension\<close>) has the pass as
  a parameter. The sandbox manager creates more kinds of objects than the rest and has events of its own (\<open>sm_event\<close>), among which the common ones are
  embedded: \<open>lift_op\<close> runs an operation over \<open>kube\<close> on them. The agent caller (theory \<open>SandboxAgent\<close>) has the manager's \<open>Create\<close> and \<open>Release\<close> as
  parameters, which answer as the environment likes. The command line client runs in a process of its own, with the events \<open>cli_event\<close> of \<open>CliOps\<close>, which include
  what is read from and written to the terminal.

  \<^bold>\<open>What is shown.\<close> An agent is launched only in a system read as not suspended and, for every step but the analysis, when the approval and the policy
  that were read grant its stage; a suspended system launches nothing; terminal runs rest. A stop is accepted once, recorded as successful
  only after a confirmed clean-up and as failed only after its window, and every workflow write starts from a
  version of the run without an accepted stop, so that the optimistic lock keeps it from overwriting one. A clean-up pass deletes only what it has read under the
  label of the run, with its UID as precondition, changes nothing for a superseded activation, and reports success only after it has listed every kind of resource with nothing left; the
  controller of the suspension calls a system safe to resume only after such a pass and after every affected run was accounted for, and its
  writes refine a small state machine. Execution rights are exactly those of the approved option
  and are removed by the clean-up. Pod events and timeouts touch a run only right after reading it as runnable, and a verification ends as its result resource says. Step budgets and pod deadlines do not overflow; launches, retries and log clean-up are bounded; expired runs are
  swept exactly, and sandboxes within their limits are left alone. The sandbox manager creates a workload only directly after it has read the run as runnable,
  cleans up after a creation that failed before, releases pods along their owners, and gives a sandbox's account the roles of the shared one only. A pod it
  builds mounts what it has, references no secret beyond those it was given, and receives well-formed JSON. An agent that is admitted has prompts that parse when they are rendered, unless a
  prompt defines a template named \<open>custom\<close>, and the cached configuration is always usable. The command line client only adds decisions on stages that have none, deletes in bulk only finished runs and only after
  confirmation, and reads stored logs to their end.
  The theorems also record behaviour that differs from the documents of the repository: result names that collide, approvals shared by
  name, revisions lost at the completion of an analysis, late pod events, skills that hide one another, prompts that are admitted and do not parse, and a
  panic of the client.

  \<^bold>\<open>Bounds.\<close> Loops with a fixed number of attempts (conflict retries, transient retries, sandbox creation) are
  recursions on the attempts left, started with the constant of the source. The timer of \<open>TimeoutHandler\<close>, which runs until the process ends, takes the
  number of ticks as an argument. The wait for a terminating pod (\<open>SandboxManager\<close>) polls every two seconds until its limit and takes a number of polls, where \<open>None\<close> is
  not having returned: 62 are enough for the default limit of two minutes. Two loops of the client have no limit and take a number of rounds: creating the
  approval, for which two are enough unless the approval comes and goes in between, and reading stored logs, for which one more than there are records is enough. No other
  operation needs fuel.

  \<^bold>\<open>Not modelled.\<close> Log lines and their arguments, the wall-clock sleeps between retries, the mutex around \<open>completeStep\<close> (the model is
  sequential), the audit logger (\<^verbatim>\<open>audit.go\<close>: spans and log records), the telemetry provider (\<^verbatim>\<open>otel_provider.go\<close>: transports and exporters), the schema literals of
  \<^verbatim>\<open>schemas.go\<close>, the controllers' registration and process set-up, the registration of the client's commands and generated code: they are input and output around libraries, or data. The
  template engine, SHA-256, the kubeconfig reader and writer and the JSON form of whole custom resources are parameters, and so are, for the client, the
  alignment of tables, the transport to the Collector, the parsing of durations and URLs and the calendar.
\<close>

end
